(* ===== verification/Prelude.thy ===== *)
theory Prelude
  imports Main "HOL-Library.AList" "HOL-Library.Multiset" "HOL-Library.Word" "HOL-Library.Signed_Division"
begin

text \<open>
  What the component theories share.

  \<^item> Go errors (\<open>error\<close>) and their text, and the outcome of running a piece of Go code
    (\<open>outcome\<close>): it returns, it panics, it calls \<^verbatim>\<open>os.Exit\<close>, or the bound that the
    model gives to an unbounded loop is spent.
  \<^item> Effectful code as state passing (\<open>io\<close>) with the few combinators that the component
    theories are written in: \<open>seq\<close> for one statement after another, \<open>check\<close> for
    \<^verbatim>\<open>if err != nil { return ... }\<close>, \<open>deref\<close> for reading through a pointer,
    \<open>for_in\<close> for a range loop and \<open>loop\<close> for \<^verbatim>\<open>for { ... }\<close>.
  \<^item> The rules for "this code keeps that property of the state" (collection \<open>keeps\<close>).
  \<^item> Go maps as association lists with distinct keys, and the parts of the packages
    \<^verbatim>\<open>strings\<close>, \<^verbatim>\<open>strconv\<close> and \<^verbatim>\<open>fmt\<close> that the sources use.
\<close>

section \<open>Outcomes and errors\<close>

named_theorems io_simps \<open>unfolding of the statement combinators\<close>
named_theorems keeps \<open>code that keeps a property of the state\<close>
named_theorems posts \<open>what a result can be\<close>
named_theorems ends \<open>code that returns\<close>
named_theorems gomap \<open>association lists that stand for Go maps\<close>

datatype error = Error string | NotFound string | Conflict string | DeadlineExceeded string

primrec err_text :: "error \<Rightarrow> string" where
  "err_text (Error t) = t"
| "err_text (NotFound t) = t"
| "err_text (Conflict t) = t"
| "err_text (DeadlineExceeded t) = t"

text \<open>
  What the sources ask of an error: \<^verbatim>\<open>errors.IsNotFound\<close> and \<^verbatim>\<open>errors.IsConflict\<close> of the
  Kubernetes API machinery, and the code \<^verbatim>\<open>DeadlineExceeded\<close> of a gRPC status.
\<close>

definition IsNotFound :: "error \<Rightarrow> bool" where
  "IsNotFound err = (case err of NotFound _ \<Rightarrow> True | _ \<Rightarrow> False)"

definition IsConflict :: "error \<Rightarrow> bool" where
  "IsConflict err = (case err of Conflict _ \<Rightarrow> True | _ \<Rightarrow> False)"

lemma error_kinds [simp]:
  "IsNotFound (NotFound t)" "\<not> IsNotFound (Error t)" "\<not> IsNotFound (Conflict t)" "\<not> IsNotFound (DeadlineExceeded t)"
  "IsConflict (Conflict t)" "\<not> IsConflict (Error t)" "\<not> IsConflict (NotFound t)" "\<not> IsConflict (DeadlineExceeded t)"
  by (simp_all add: IsNotFound_def IsConflict_def)

text \<open>
  \<^verbatim>\<open>fmt.Errorf\<close> with a format whose pieces are already joined. \<open>err_v\<close> is what the
  verb \<^verbatim>\<open>%v\<close> prints for an \<^verbatim>\<open>error\<close> that may be nil.
\<close>

definition Errorf :: "string \<Rightarrow> error" where
  "Errorf t = Error t"

definition err_v :: "error option \<Rightarrow> string" where
  "err_v e = (case e of None \<Rightarrow> ''<nil>'' | Some x \<Rightarrow> err_text x)"

datatype 'a outcome =
    Done 'a
  | Panicked string
  | Exited int
  | Unfinished

type_synonym ('s, 'a) io = "'s \<Rightarrow> 'a outcome \<times> 's"

type_synonym 'a result = "error + 'a"

section \<open>Statements\<close>

definition ret :: "'a \<Rightarrow> ('s, 'a) io" where
  "ret x = (\<lambda>s. (Done x, s))"

definition panic :: "string \<Rightarrow> ('s, 'a) io" where
  "panic p = (\<lambda>s. (Panicked p, s))"

definition os_Exit :: "int \<Rightarrow> ('s, 'a) io" where
  "os_Exit n = (\<lambda>s. (Exited n, s))"

definition unfinished :: "('s, 'a) io" where
  "unfinished = (\<lambda>s. (Unfinished, s))"

definition seq :: "('s, 'a) io \<Rightarrow> ('a \<Rightarrow> ('s, 'b) io) \<Rightarrow> ('s, 'b) io" where
  "seq m f = (\<lambda>s. case m s of
      (Done x, s') \<Rightarrow> f x s'
    | (Panicked p, s') \<Rightarrow> (Panicked p, s')
    | (Exited n, s') \<Rightarrow> (Exited n, s')
    | (Unfinished, s') \<Rightarrow> (Unfinished, s'))"

text \<open>A call of code outside the model: a function of the world that always returns.\<close>

definition call :: "('s \<Rightarrow> 'a \<times> 's) \<Rightarrow> ('s, 'a) io" where
  "call f = (\<lambda>s. case f s of (x, s') \<Rightarrow> (Done x, s'))"

definition gets :: "('s \<Rightarrow> 'a) \<Rightarrow> ('s, 'a) io" where
  "gets f = (\<lambda>s. (Done (f s), s))"

definition modifies :: "('s \<Rightarrow> 's) \<Rightarrow> ('s, unit) io" where
  "modifies f = (\<lambda>s. (Done (), f s))"

text \<open>Reading through a pointer: a nil pointer panics.\<close>

definition deref :: "'a option \<Rightarrow> ('s, 'a) io" where
  "deref p = (case p of None \<Rightarrow> panic ''nil pointer dereference'' | Some x \<Rightarrow> ret x)"

text \<open>Indexing a slice: an index out of range panics.\<close>

definition index :: "'a list \<Rightarrow> int \<Rightarrow> ('s, 'a) io" where
  "index xs i = (if 0 \<le> i \<and> i < int (length xs) then ret (xs ! nat i)
                 else panic ''index out of range'')"

text \<open>
  \<^verbatim>\<open>x, err := m; if err != nil { return wrap(err) }\<close>, then the rest.
\<close>

definition check :: "('s, 'a result) io \<Rightarrow> (error \<Rightarrow> error) \<Rightarrow> ('a \<Rightarrow> ('s, 'b result) io)
    \<Rightarrow> ('s, 'b result) io" where
  "check m wrap f = seq m (\<lambda>r. case r of Inl e \<Rightarrow> ret (Inl (wrap e)) | Inr x \<Rightarrow> f x)"

lemma seq_ret [simp]: "seq (ret x) f = f x"
  by (simp add: seq_def ret_def)

lemma seq_panic [simp]: "seq (panic p) f = panic p"
  by (simp add: seq_def panic_def)

lemma seq_os_Exit [simp]: "seq (os_Exit n) f = os_Exit n"
  by (simp add: seq_def os_Exit_def)

lemma seq_Pair [simp]: "seq (Pair (Done x)) f = f x"
  by (simp add: seq_def)

lemma ret_apply [simp]: "ret x s = (Done x, s)"
  by (simp add: ret_def)

lemma panic_apply [simp]: "panic p s = (Panicked p, s)"
  by (simp add: panic_def)

lemma os_Exit_apply [simp]: "os_Exit n s = (Exited n, s)"
  by (simp add: os_Exit_def)

lemma unfinished_apply [simp]: "unfinished s = (Unfinished, s)"
  by (simp add: unfinished_def)

lemma gets_apply [simp]: "gets f s = (Done (f s), s)"
  by (simp add: gets_def)

lemma modifies_apply [simp]: "modifies f s = (Done (), f s)"
  by (simp add: modifies_def)

lemma call_apply: "call f s = (Done (fst (f s)), snd (f s))"
  by (simp add: call_def split_beta)

lemma deref_simps [simp]:
  "deref None = panic ''nil pointer dereference''"
  "deref (Some x) = ret x"
  by (simp_all add: deref_def)

lemma seq_apply:
  "seq m f s = (case m s of
      (Done x, s') \<Rightarrow> f x s'
    | (Panicked p, s') \<Rightarrow> (Panicked p, s')
    | (Exited n, s') \<Rightarrow> (Exited n, s')
    | (Unfinished, s') \<Rightarrow> (Unfinished, s'))"
  by (simp add: seq_def)

lemma seq_assoc: "seq (seq m f) g = seq m (\<lambda>x. seq (f x) g)"
  by (rule ext) (simp add: seq_def split: prod.splits outcome.splits)

lemma seq_Done: "m s = (Done x, s') \<Longrightarrow> seq m f s = f x s'"
  by (simp add: seq_def)

lemma seq_Panicked: "m s = (Panicked p, s') \<Longrightarrow> seq m f s = (Panicked p, s')"
  by (simp add: seq_def)

lemma seq_DoneE:
  assumes "seq m f s = (Done y, s'')"
  obtains x s' where "m s = (Done x, s')" and "f x s' = (Done y, s'')"
  using assms by (auto simp: seq_def split: prod.splits outcome.splits)

lemma check_simps [simp]:
  "check (ret (Inl e)) wrap f = ret (Inl (wrap e))"
  "check (ret (Inr x)) wrap f = f x"
  by (simp_all add: check_def ret_def seq_def)

lemma check_Inl: "m s = (Done (Inl e), s') \<Longrightarrow> check m wrap f s = (Done (Inl (wrap e)), s')"
  by (simp add: check_def seq_def)

lemma check_Inr: "m s = (Done (Inr x), s') \<Longrightarrow> check m wrap f s = f x s'"
  by (simp add: check_def seq_def)

lemma check_DoneE:
  assumes "check m wrap f s = (Done r, s'')"
  obtains (err) e where "m s = (Done (Inl e), s'')" and "r = Inl (wrap e)"
  | (ok) x s' where "m s = (Done (Inr x), s')" and "f x s' = (Done r, s'')"
  using assms by (auto simp: check_def seq_def split: prod.splits outcome.splits sum.splits)

lemmas [io_simps] = seq_apply call_apply check_def index_def

section \<open>Loops\<close>

text \<open>
  What a loop body does with the loop: go on to the next iteration with new values of
  the loop's variables, \<^verbatim>\<open>break\<close>, or \<^verbatim>\<open>return\<close> from the function.
\<close>

datatype ('v, 'r) ctl = Continue 'v | Break 'v | Return 'r

fun for_in :: "'a list \<Rightarrow> 'v \<Rightarrow> ('a \<Rightarrow> 'v \<Rightarrow> ('s, ('v, 'r) ctl) io) \<Rightarrow> ('s, 'r + 'v) io" where
  "for_in [] v body = ret (Inr v)"
| "for_in (x # xs) v body = seq (body x v) (\<lambda>c. case c of
      Continue v' \<Rightarrow> for_in xs v' body
    | Break v' \<Rightarrow> ret (Inr v')
    | Return r \<Rightarrow> ret (Inl r))"

text \<open>\<^verbatim>\<open>for i := i0; ; i++ { body }\<close> with at most \<open>fuel\<close> iterations.\<close>

fun loop :: "nat \<Rightarrow> nat \<Rightarrow> 'v \<Rightarrow> (nat \<Rightarrow> 'v \<Rightarrow> ('s, ('v, 'r) ctl) io) \<Rightarrow> ('s, 'r + 'v) io" where
  "loop 0 i v body = unfinished"
| "loop (Suc fuel) i v body = seq (body i v) (\<lambda>c. case c of
      Continue v' \<Rightarrow> loop fuel (Suc i) v' body
    | Break v' \<Rightarrow> ret (Inr v')
    | Return r \<Rightarrow> ret (Inl r))"

text \<open>After a loop: a \<^verbatim>\<open>return\<close> inside it ends the function, otherwise go on.\<close>

definition after :: "('s, 'r + 'v) io \<Rightarrow> ('v \<Rightarrow> ('s, 'r) io) \<Rightarrow> ('s, 'r) io" where
  "after m f = seq m (\<lambda>c. case c of Inl r \<Rightarrow> ret r | Inr v \<Rightarrow> f v)"

lemmas [io_simps] = after_def

text \<open>A loop that stops with some bound on its iterations stops in the same way with any larger one.\<close>

lemma loop_more_fuel:
  "loop fuel i v body s = r \<Longrightarrow> fst r \<noteq> Unfinished \<Longrightarrow> fuel \<le> fuel' \<Longrightarrow> loop fuel' i v body s = r"
proof (induction fuel arbitrary: i v s fuel')
  case 0
  then show ?case by auto
next
  case (Suc fuel)
  then obtain g where g: "fuel' = Suc g" "fuel \<le> g"
    by (cases fuel') auto
  show ?case
    using Suc.prems(1,2) Suc.IH [OF _ _ g(2)]
    by (auto simp: g(1) seq_def split: prod.splits outcome.splits ctl.splits)
qed

text \<open>How a loop came to its result: some iteration returned it, or broke out with it.\<close>

lemma loop_Return:
  "loop fuel i v body s = (Done (Inl r), s') \<Longrightarrow> \<exists>j v0 s0. body j v0 s0 = (Done (Return r), s')"
  by (induction fuel arbitrary: i v s)
     (auto simp: seq_def split: prod.splits outcome.splits ctl.splits)

lemma loop_Break:
  "loop fuel i v body s = (Done (Inr v'), s') \<Longrightarrow> \<exists>j v0 s0. body j v0 s0 = (Done (Break v'), s')"
  by (induction fuel arbitrary: i v s)
     (auto simp: seq_def split: prod.splits outcome.splits ctl.splits)

lemma for_in_Return:
  "for_in xs v body s = (Done (Inl r), s') \<Longrightarrow> \<exists>x\<in>set xs. \<exists>v0 s0. body x v0 s0 = (Done (Return r), s')"
  by (induction xs arbitrary: v s)
     (auto simp: seq_def split: prod.splits outcome.splits ctl.splits)

lemma for_in_last:
  "for_in xs v body s = (Done (Inr v'), s') \<Longrightarrow> xs \<noteq> [] \<Longrightarrow>
     \<exists>x v0 s0. body x v0 s0 = (Done (Continue v'), s') \<or> body x v0 s0 = (Done (Break v'), s')"
proof (induction xs arbitrary: v s)
  case (Cons x xs)
  from Cons.prems(1) obtain c s1 where b: "body x v s = (Done c, s1)"
    and c: "(case c of Continue v' \<Rightarrow> for_in xs v' body | Break v' \<Rightarrow> ret (Inr v') | Return r \<Rightarrow> ret (Inl r)) s1 = (Done (Inr v'), s')"
    unfolding for_in.simps by (rule seq_DoneE)
  show ?case
  proof (cases c)
    case (Continue u)
    with b c Cons.IH [of u s1] show ?thesis by (cases xs) auto
  next
    case (Break u)
    with b c show ?thesis by auto
  qed (use c in simp)
qed simp

text \<open>Code after a loop runs only when an iteration broke out of it.\<close>

lemma after_loopE:
  assumes "after (loop fuel i v body) f s = (Done r, s')"
  obtains (returned) j v0 s0 where "body j v0 s0 = (Done (Return r), s')"
  | (broke) j v0 s0 v1 s1 where "body j v0 s0 = (Done (Break v1), s1)" and "f v1 s1 = (Done r, s')"
proof -
  from assms obtain c s1 where c: "loop fuel i v body s = (Done c, s1)"
    and f: "(case c of Inl r \<Rightarrow> ret r | Inr v \<Rightarrow> f v) s1 = (Done r, s')"
    unfolding after_def by (rule seq_DoneE)
  show thesis
  proof (cases c)
    case (Inl r')
    with c f loop_Return [of fuel i v body s r' s1] show thesis by (auto intro: returned)
  next
    case (Inr v')
    with c loop_Break [of fuel i v body s v' s1] obtain j v0 s0 where "body j v0 s0 = (Done (Break v'), s1)" by blast
    with f Inr show thesis by (auto intro: broke)
  qed
qed

lemma after_for_inE:
  assumes "after (for_in xs v body) f s = (Done r, s')"
  obtains (returned) x v0 s0 where "x \<in> set xs" and "body x v0 s0 = (Done (Return r), s')"
  | (went_on) v1 s1 where "f v1 s1 = (Done r, s')"
  using assms
  by (auto simp: after_def elim!: seq_DoneE split: sum.splits dest!: for_in_Return)

lemma after_loop_unfinished:
  assumes "after (loop fuel i v body) (\<lambda>_. unfinished) s = (Done r, s')"
  obtains j v0 s0 where "body j v0 s0 = (Done (Return r), s')"
  using assms by (auto simp: after_def seq_def split: prod.splits outcome.splits sum.splits dest!: loop_Return)

section \<open>What a result can be\<close>

definition yields :: "('a \<Rightarrow> bool) \<Rightarrow> ('s, 'a) io \<Rightarrow> bool" where
  "yields Q m \<longleftrightarrow> (\<forall>s x s'. m s = (Done x, s') \<longrightarrow> Q x)"

lemma yieldsD: "yields Q m \<Longrightarrow> m s = (Done x, s') \<Longrightarrow> Q x"
  by (auto simp: yields_def)

lemma yields_ret [posts]: "Q x \<Longrightarrow> yields Q (ret x)"
  by (simp add: yields_def)

lemma yields_Pair [posts]: "Q x \<Longrightarrow> yields Q (Pair (Done x))"
  by (simp add: yields_def)

lemma yields_panic [posts]: "yields Q (panic p)"
  by (simp add: yields_def)

lemma yields_seq [posts]: "(\<And>x. yields Q (f x)) \<Longrightarrow> yields Q (seq m f)"
  by (auto simp: yields_def seq_def split: prod.splits outcome.splits)

lemma yields_seq_post: "yields P m \<Longrightarrow> (\<And>x. P x \<Longrightarrow> yields Q (f x)) \<Longrightarrow> yields Q (seq m f)"
  by (auto simp: yields_def seq_def split: prod.splits outcome.splits) blast

lemma yields_check [posts]:
  "(\<And>e. Q (Inl (wrap e))) \<Longrightarrow> (\<And>x. yields Q (f x)) \<Longrightarrow> yields Q (check m wrap f)"
  unfolding check_def by (auto intro!: yields_seq yields_ret split: sum.split)

lemma yields_if [posts]:
  "(b \<Longrightarrow> yields Q m) \<Longrightarrow> (\<not> b \<Longrightarrow> yields Q n) \<Longrightarrow> yields Q (if b then m else n)"
  by simp

lemma yields_sum_case [posts]:
  "(\<And>e. yields Q (f e)) \<Longrightarrow> (\<And>x. yields Q (g x)) \<Longrightarrow> yields Q (case r of Inl e \<Rightarrow> f e | Inr x \<Rightarrow> g x)"
  by (cases r) auto

lemma yields_option_case [posts]:
  "yields Q f \<Longrightarrow> (\<And>x. yields Q (g x)) \<Longrightarrow> yields Q (case r of None \<Rightarrow> f | Some x \<Rightarrow> g x)"
  by (cases r) auto

lemma yields_prod_case [posts]:
  "(\<And>x y. yields Q (f x y)) \<Longrightarrow> yields Q (case r of (x, y) \<Rightarrow> f x y)"
  by (cases r) auto

lemma yields_for_in:
  assumes "\<And>x v. P v \<Longrightarrow> yields (\<lambda>c. case c of Continue v' \<Rightarrow> P v' | Break v' \<Rightarrow> P v' | Return r \<Rightarrow> Q r) (body x v)" and "P v"
  shows "yields (\<lambda>c. case c of Inl r \<Rightarrow> Q r | Inr v' \<Rightarrow> P v') (for_in xs v body)"
  using assms(2)
proof (induction xs arbitrary: v)
  case Nil
  then show ?case by (simp add: yields_def)
next
  case (Cons x xs)
  show ?case
    unfolding yields_def
  proof (intro allI impI)
    fix s c s'
    assume "for_in (x # xs) v body s = (Done c, s')"
    then obtain b s1 where b: "body x v s = (Done b, s1)" and
      c: "(case b of Continue v' \<Rightarrow> for_in xs v' body | Break v' \<Rightarrow> ret (Inr v') | Return r \<Rightarrow> ret (Inl r)) s1 = (Done c, s')"
      unfolding for_in.simps by (rule seq_DoneE)
    from yieldsD [OF assms(1) [OF Cons.prems] b] c show "case c of Inl r \<Rightarrow> Q r | Inr v' \<Rightarrow> P v'"
      by (cases b) (auto dest: Cons.IH yieldsD)
  qed
qed

lemma yields_after:
  assumes "yields (\<lambda>c. case c of Inl r \<Rightarrow> Q r | Inr v \<Rightarrow> P v) m" and "\<And>v. P v \<Longrightarrow> yields Q (f v)"
  shows "yields Q (after m f)"
  using assms by (fastforce simp: yields_def after_def elim!: seq_DoneE split: sum.splits)

text \<open>The two things that the bounds of a counted wait rest on.\<close>

definition is_Break :: "('v, 'r) ctl \<Rightarrow> bool" where
  "is_Break c \<longleftrightarrow> (\<exists>v. c = Break v)"

definition is_Continue :: "('v, 'r) ctl \<Rightarrow> bool" where
  "is_Continue c \<longleftrightarrow> (\<exists>v. c = Continue v)"

lemma ctl_kinds [simp]:
  "is_Break (Break v)" "\<not> is_Break (Continue v)" "\<not> is_Break (Return r)"
  "is_Continue (Continue v)" "\<not> is_Continue (Break v)" "\<not> is_Continue (Return r)"
  by (auto simp: is_Break_def is_Continue_def)

lemma loop_no_Break:
  assumes "\<And>i v. yields (\<lambda>c. \<not> is_Break c) (body i v)"
  shows "loop fuel i v body s \<noteq> (Done (Inr v'), s')"
  using assms by (force dest!: loop_Break yieldsD)

section \<open>Keeping a property of the state\<close>

definition keeping :: "('s \<Rightarrow> bool) \<Rightarrow> ('s, 'a) io \<Rightarrow> bool" where
  "keeping P m \<longleftrightarrow> (\<forall>s. P s \<longrightarrow> P (snd (m s)))"

lemma keepingI: "(\<And>s. P s \<Longrightarrow> P (snd (m s))) \<Longrightarrow> keeping P m"
  by (simp add: keeping_def)

lemma keepingD: "keeping P m \<Longrightarrow> P s \<Longrightarrow> P (snd (m s))"
  by (simp add: keeping_def)

lemma keeping_outcome: "keeping P m \<Longrightarrow> P s \<Longrightarrow> m s = (x, s') \<Longrightarrow> P s'"
  by (auto simp: keeping_def)

lemma keeping_ret [keeps]: "keeping P (ret x)"
  by (simp add: keeping_def)

lemma keeping_Pair [keeps]: "keeping P (Pair x)"
  by (simp add: keeping_def)

lemma keeping_panic [keeps]: "keeping P (panic p)"
  by (simp add: keeping_def)

lemma keeping_os_Exit [keeps]: "keeping P (os_Exit n)"
  by (simp add: keeping_def)

lemma keeping_unfinished [keeps]: "keeping P unfinished"
  by (simp add: keeping_def)

lemma keeping_gets [keeps]: "keeping P (gets f)"
  by (simp add: keeping_def)

lemma keeping_deref [keeps]: "keeping P (deref p)"
  by (cases p) (simp_all add: keeping_def)

lemma keeping_index [keeps]: "keeping P (index xs i)"
  by (simp add: keeping_def index_def)

lemma keeping_modifies: "(\<And>s. P s \<Longrightarrow> P (f s)) \<Longrightarrow> keeping P (modifies f)"
  by (simp add: keeping_def)

lemma keeping_call: "(\<And>s. P s \<Longrightarrow> P (snd (f s))) \<Longrightarrow> keeping P (call f)"
  by (simp add: keeping_def call_apply)

lemma keeping_seq [keeps]: "keeping P m \<Longrightarrow> (\<And>x. keeping P (f x)) \<Longrightarrow> keeping P (seq m f)"
  by (auto simp: keeping_def seq_def split: prod.splits outcome.splits)

lemma keeping_sum_case [keeps]:
  "(\<And>e. keeping P (f e)) \<Longrightarrow> (\<And>x. keeping P (g x)) \<Longrightarrow> keeping P (case r of Inl e \<Rightarrow> f e | Inr x \<Rightarrow> g x)"
  by (cases r) auto

lemma keeping_option_case [keeps]:
  "keeping P f \<Longrightarrow> (\<And>x. keeping P (g x)) \<Longrightarrow> keeping P (case r of None \<Rightarrow> f | Some x \<Rightarrow> g x)"
  by (cases r) auto

lemma keeping_prod_case [keeps]:
  "(\<And>x y. keeping P (f x y)) \<Longrightarrow> keeping P (case r of (x, y) \<Rightarrow> f x y)"
  by (cases r) auto

lemma keeping_if [keeps]:
  "(b \<Longrightarrow> keeping P m) \<Longrightarrow> (\<not> b \<Longrightarrow> keeping P n) \<Longrightarrow> keeping P (if b then m else n)"
  by auto

lemma keeping_check [keeps]:
  "keeping P m \<Longrightarrow> (\<And>x. keeping P (f x)) \<Longrightarrow> keeping P (check m wrap f)"
  unfolding check_def by (intro keeps)

lemma keeping_for_in [keeps]:
  "(\<And>x v. keeping P (body x v)) \<Longrightarrow> keeping P (for_in xs v body)"
  by (induction xs arbitrary: v) (auto intro!: keeps split: ctl.split)

lemma keeping_loop [keeps]:
  "(\<And>i v. keeping P (body i v)) \<Longrightarrow> keeping P (loop fuel i v body)"
  by (induction fuel arbitrary: i v) (auto intro!: keeps split: ctl.split)

lemma keeping_after [keeps]:
  "keeping P m \<Longrightarrow> (\<And>v. keeping P (f v)) \<Longrightarrow> keeping P (after m f)"
  unfolding after_def by (intro keeps)

section \<open>Code that returns\<close>

text \<open>
  \<open>finishing\<close>: the code ends within the bounds that the model gives its loops.
  \<open>returning\<close>: it ends by returning, so it neither panics nor exits.
\<close>

definition finishing :: "('s, 'a) io \<Rightarrow> bool" where
  "finishing m \<longleftrightarrow> (\<forall>s. fst (m s) \<noteq> Unfinished)"

definition returning :: "('s, 'a) io \<Rightarrow> bool" where
  "returning m \<longleftrightarrow> (\<forall>s. \<exists>x. fst (m s) = Done x)"

lemma returningD: "returning m \<Longrightarrow> \<exists>x s'. m s = (Done x, s')"
  by (metis prod.collapse returning_def)

lemma returningE:
  assumes "returning m"
  obtains x s' where "m s = (Done x, s')"
  using returningD [OF assms] by blast

lemma returning_finishing: "returning m \<Longrightarrow> finishing m"
  unfolding returning_def finishing_def by (metis outcome.distinct(5))

lemma returning_ret [ends]: "returning (ret x)"
  by (simp add: returning_def)

lemma returning_Pair [ends]: "returning (Pair (Done x))"
  by (simp add: returning_def)

lemma returning_gets [ends]: "returning (gets f)"
  by (simp add: returning_def)

lemma returning_modifies [ends]: "returning (modifies f)"
  by (simp add: returning_def)

lemma returning_call [ends]: "returning (call f)"
  by (simp add: returning_def call_apply)

lemma returning_seq [ends]:
  assumes "returning m" and "\<And>x. returning (f x)"
  shows "returning (seq m f)"
  unfolding returning_def
proof
  fix s
  obtain x s' where "m s = (Done x, s')"
    using assms(1) by (rule returningE)
  with assms(2) show "\<exists>y. fst (seq m f s) = Done y"
    by (auto simp: seq_def returning_def)
qed

lemma returning_check [ends]: "returning m \<Longrightarrow> (\<And>x. returning (f x)) \<Longrightarrow> returning (check m wrap f)"
  unfolding check_def by (intro ends) (auto split: sum.split intro: ends)

lemma returning_if [ends]:
  "(b \<Longrightarrow> returning m) \<Longrightarrow> (\<not> b \<Longrightarrow> returning n) \<Longrightarrow> returning (if b then m else n)"
  by simp

lemma returning_sum_case [ends]:
  "(\<And>e. returning (f e)) \<Longrightarrow> (\<And>x. returning (g x)) \<Longrightarrow> returning (case r of Inl e \<Rightarrow> f e | Inr x \<Rightarrow> g x)"
  by (cases r) auto

lemma returning_option_case [ends]:
  "returning f \<Longrightarrow> (\<And>x. returning (g x)) \<Longrightarrow> returning (case r of None \<Rightarrow> f | Some x \<Rightarrow> g x)"
  by (cases r) auto

lemma returning_prod_case [ends]:
  "(\<And>x y. returning (f x y)) \<Longrightarrow> returning (case r of (x, y) \<Rightarrow> f x y)"
  by (cases r) auto

lemma returning_for_in [ends]:
  "(\<And>x v. returning (body x v)) \<Longrightarrow> returning (for_in xs v body)"
  by (induction xs arbitrary: v) (auto intro!: ends split: ctl.split)

lemma returning_after [ends]: "returning m \<Longrightarrow> (\<And>v. returning (f v)) \<Longrightarrow> returning (after m f)"
  unfolding after_def by (intro ends)

text \<open>
  A counted loop returns when its body does and does not go on at the last iteration:
  this is where the bound on the iterations is shown to be enough.
\<close>

lemma returning_loop:
  assumes "\<And>i v. returning (body i v)"
    and "\<And>i v. n \<le> i \<Longrightarrow> yields (\<lambda>c. \<not> is_Continue c) (body i v)"
  shows "i \<le> n \<Longrightarrow> n < i + fuel \<Longrightarrow> returning (loop fuel i v body)"
proof (induction fuel arbitrary: i v)
  case 0
  then show ?case by simp
next
  case (Suc fuel)
  show ?case
    unfolding returning_def
  proof
    fix s
    obtain c s' where b: "body i v s = (Done c, s')"
      using assms(1) by (rule returningE)
    show "\<exists>x. fst (loop (Suc fuel) i v body s) = Done x"
    proof (cases c)
      case (Continue v')
      have "\<not> n \<le> i"
        using yieldsD [OF assms(2) b] Continue by auto
      with Suc.prems have "returning (loop fuel (Suc i) v' body)"
        by (intro Suc.IH) auto
      with b Continue show ?thesis
        by (auto simp: seq_def returning_def)
    qed (use b in \<open>simp_all add: seq_def\<close>)
  qed
qed

lemma returning_wait:
  assumes "\<And>i v. returning (body i v)"
    and "\<And>i v. n \<le> i \<Longrightarrow> yields (\<lambda>c. \<not> is_Continue c) (body i v)"
    and "\<And>i v. yields (\<lambda>c. \<not> is_Break c) (body i v)"
    and "n < fuel"
  shows "returning (after (loop fuel 0 v body) (\<lambda>_. unfinished))"
  unfolding returning_def
proof
  fix s
  have "returning (loop fuel 0 v body)"
    using assms(1,2,4) by (intro returning_loop) auto
  then obtain c s' where c: "loop fuel 0 v body s = (Done c, s')"
    by (rule returningE)
  moreover obtain r where "c = Inl r"
  proof (cases c)
    case (Inr v')
    with c loop_no_Break [where body = body, OF assms(3)] have False by blast
    then show ?thesis ..
  qed
  ultimately show "\<exists>x. fst (after (loop fuel 0 v body) (\<lambda>_. unfinished) s) = Done x"
    by (auto simp: after_def seq_def)
qed

lemma returning_after_loop:
  assumes "\<And>i v. returning (body i v)"
    and "\<And>i v. n \<le> i \<Longrightarrow> yields (\<lambda>c. \<not> is_Continue c) (body i v)"
    and "n < fuel" and "\<And>v. returning (f v)"
  shows "returning (after (loop fuel 0 v body) f)"
  using assms by (intro returning_after returning_loop) auto

text \<open>The same for a statement whose results are known to have a property.\<close>

lemma returning_check_post:
  assumes "returning m" and "\<And>s x s'. m s = (Done (Inr x), s') \<Longrightarrow> returning (f x)"
  shows "returning (check m wrap f)"
  unfolding returning_def
proof
  fix s
  obtain r s' where m: "m s = (Done r, s')"
    using assms(1) by (rule returningE)
  show "\<exists>y. fst (check m wrap f s) = Done y"
  proof (cases r)
    case (Inl e)
    with m show ?thesis by (simp add: check_Inl)
  next
    case (Inr x)
    with m assms(2) have "returning (f x)" by blast
    with m Inr show ?thesis by (simp add: check_Inr returning_def)
  qed
qed

lemma returning_seq_post:
  assumes "returning m" and "\<And>s x s'. m s = (Done x, s') \<Longrightarrow> returning (f x)"
  shows "returning (seq m f)"
  unfolding returning_def
proof
  fix s
  obtain x s' where m: "m s = (Done x, s')"
    using assms(1) by (rule returningE)
  with assms(2) have "returning (f x)" by blast
  with m show "\<exists>y. fst (seq m f s) = Done y" by (simp add: seq_Done returning_def)
qed

section \<open>What code does from a given state\<close>

text \<open>
  \<open>wp m Q R s\<close>: started in \<open>s\<close>, the code either returns, with a value and a state that \<open>Q\<close>
  holds of, or ends in another way in a state that \<open>R\<close> holds of. The collection \<open>wps\<close>
  computes it for the statement combinators.
\<close>

lemma ex_true [simp]: "\<exists>b :: bool. b"
  by blast

definition wp :: "('s, 'a) io \<Rightarrow> ('a \<Rightarrow> 's \<Rightarrow> bool) \<Rightarrow> ('s \<Rightarrow> bool) \<Rightarrow> 's \<Rightarrow> bool" where
  "wp m Q R s = (case m s of (Done x, s') \<Rightarrow> Q x s' | (_, s') \<Rightarrow> R s')"

named_theorems wps \<open>weakest preconditions of the statement combinators\<close>

lemma wp_ret [wps]: "wp (ret x) Q R = Q x"
  by (rule ext) (simp add: wp_def)

lemma wp_Pair [wps]: "wp (Pair (Done x)) Q R = Q x"
  by (rule ext) (simp add: wp_def)

lemma wp_panic [wps]: "wp (panic p) Q R = R" "wp (Pair (Panicked p)) Q R = R"
  by (rule ext, simp add: wp_def)+

lemma wp_seq [wps]: "wp (seq m f) Q R = wp m (\<lambda>x. wp (f x) Q R) R"
  by (rule ext) (auto simp: wp_def seq_def split: prod.splits outcome.splits)

lemma wp_gets [wps]: "wp (gets f) Q R = (\<lambda>s. Q (f s) s)"
  by (rule ext) (simp add: wp_def)

lemma wp_modifies [wps]: "wp (modifies f) Q R = (\<lambda>s. Q () (f s))"
  by (rule ext) (simp add: wp_def)

lemma wp_call [wps]: "wp (call f) Q R = (\<lambda>s. Q (fst (f s)) (snd (f s)))"
  by (rule ext) (simp add: wp_def call_apply)

lemma wp_deref [wps]: "wp (deref p) Q R = (case p of None \<Rightarrow> R | Some x \<Rightarrow> Q x)"
  by (rule ext) (simp add: wp_def split: option.split)

lemma wp_check [wps]:
  "wp (check m wrap f) Q R = wp m (\<lambda>r. case r of Inl e \<Rightarrow> Q (Inl (wrap e)) | Inr x \<Rightarrow> wp (f x) Q R) R"
  by (rule ext) (auto simp: wp_def check_def seq_def split: prod.splits outcome.splits sum.splits)

lemma wp_if [wps]: "wp (if b then m else n) Q R = (if b then wp m Q R else wp n Q R)"
  by simp

lemma wp_option [wps]: "wp (case p of None \<Rightarrow> m | Some x \<Rightarrow> f x) Q R = (case p of None \<Rightarrow> wp m Q R | Some x \<Rightarrow> wp (f x) Q R)"
  by (cases p) simp_all

lemma wp_sum [wps]: "wp (case r of Inl e \<Rightarrow> f e | Inr x \<Rightarrow> g x) Q R = (case r of Inl e \<Rightarrow> wp (f e) Q R | Inr x \<Rightarrow> wp (g x) Q R)"
  by (cases r) simp_all

lemma wp_prod [wps]: "wp (case r of (x, y) \<Rightarrow> f x y) Q R = (case r of (x, y) \<Rightarrow> wp (f x y) Q R)"
  by (cases r) simp_all

lemma wp_mono: "wp m Q R s \<Longrightarrow> (\<And>x s'. Q x s' \<Longrightarrow> Q' x s') \<Longrightarrow> (\<And>s'. R s' \<Longrightarrow> R' s') \<Longrightarrow> wp m Q' R' s"
  by (auto simp: wp_def split: prod.splits outcome.splits)

lemma wp_Done: "wp m Q R s \<Longrightarrow> m s = (Done x, s') \<Longrightarrow> Q x s'"
  by (simp add: wp_def)

lemma wp_total: "wp m Q (\<lambda>_. False) s \<Longrightarrow> \<exists>x s'. m s = (Done x, s') \<and> Q x s'"
  by (auto simp: wp_def split: prod.splits outcome.splits)

lemma wp_snd: "wp m (\<lambda>_. P) P s \<Longrightarrow> P (snd (m s))"
  by (cases "m s") (auto simp: wp_def split: outcome.splits)

lemma wp_sndI: "wp m Q R s \<Longrightarrow> (\<And>x s'. Q x s' \<Longrightarrow> P s') \<Longrightarrow> (\<And>s'. R s' \<Longrightarrow> P s') \<Longrightarrow> P (snd (m s))"
  by (cases "m s") (auto simp: wp_def split: outcome.splits)

lemma wp_any: "(\<And>x s'. Q x s') \<Longrightarrow> (\<And>s'. R s') \<Longrightarrow> wp m Q R s"
  by (auto simp: wp_def split: prod.splits outcome.splits)

text \<open>A range loop, by an invariant of the elements that it has gone through.\<close>

lemma wp_for_in:
  assumes "\<And>ys x zs v s. xs = ys @ x # zs \<Longrightarrow> I ys v s \<Longrightarrow>
      wp (body x v) (\<lambda>c. case c of Continue v' \<Rightarrow> I (ys @ [x]) v' | Break v' \<Rightarrow> Q (Inr v') | Return r \<Rightarrow> Q (Inl r)) R s"
    and "\<And>v s. I xs v s \<Longrightarrow> Q (Inr v) s" and "I [] v s"
  shows "wp (for_in xs v body) Q R s"
proof -
  have "wp (for_in zs v body) Q R s" if "xs = ys @ zs" "I ys v s" for ys zs v s
    using that
  proof (induction zs arbitrary: ys v s)
    case Nil
    then show ?case using assms(2) by (simp add: wps)
  next
    case (Cons x zs)
    have "wp (body x v) (\<lambda>c. case c of Continue v' \<Rightarrow> I (ys @ [x]) v' | Break v' \<Rightarrow> Q (Inr v') | Return r \<Rightarrow> Q (Inl r)) R s"
      using Cons.prems by (rule assms(1))
    then have "wp (body x v) (\<lambda>c. wp (case c of Continue v' \<Rightarrow> for_in zs v' body
        | Break v' \<Rightarrow> ret (Inr v') | Return r \<Rightarrow> ret (Inl r)) Q R) R s"
    proof (rule wp_mono)
      fix c s'
      assume "(case c of Continue v' \<Rightarrow> I (ys @ [x]) v' | Break v' \<Rightarrow> Q (Inr v') | Return r \<Rightarrow> Q (Inl r)) s'"
      then show "wp (case c of Continue v' \<Rightarrow> for_in zs v' body | Break v' \<Rightarrow> ret (Inr v') | Return r \<Rightarrow> ret (Inl r)) Q R s'"
        using Cons.IH [of "ys @ [x]"] Cons.prems(1) by (cases c) (auto simp: wps)
    qed simp
    then show ?case by (simp add: wps)
  qed
  from this [of "[]" xs] assms(3) show ?thesis by simp
qed

lemma wp_after [wps]: "wp (after m f) Q R = wp m (\<lambda>c. case c of Inl r \<Rightarrow> Q r | Inr v \<Rightarrow> wp (f v) Q R) R"
  unfolding after_def wp_seq
  by (rule arg_cong [where f = "\<lambda>X. wp m X R"]) (auto simp: wps fun_eq_iff split: sum.split)

lemma wp_keeping: "keeping P m \<Longrightarrow> P s \<Longrightarrow> (\<And>x s'. P s' \<Longrightarrow> Q x s') \<Longrightarrow> wp m Q (\<lambda>_. True) s"
  by (auto simp: wp_def keeping_def split: prod.splits outcome.splits)

lemma wp_doneI: "(\<And>x s'. m s = (Done x, s') \<Longrightarrow> Q x s') \<Longrightarrow> wp m Q (\<lambda>_. True) s"
  by (auto simp: wp_def split: prod.splits outcome.splits)

text \<open>
  Code that keeps \<open>P\<close> up to its last statement, where \<open>Q\<close> follows: the rules of the collection
  \<open>leads\<close> go through the statements one by one.
\<close>

definition leading :: "('s \<Rightarrow> bool) \<Rightarrow> ('a \<Rightarrow> 's \<Rightarrow> bool) \<Rightarrow> ('s, 'a) io \<Rightarrow> bool" where
  "leading P Q m \<longleftrightarrow> (\<forall>s. P s \<longrightarrow> wp m Q (\<lambda>_. True) s)"

named_theorems leads \<open>a property kept up to the last statement\<close>

lemma leadingD: "leading P Q m \<Longrightarrow> P s \<Longrightarrow> m s = (Done x, s') \<Longrightarrow> Q x s'"
  by (auto simp: leading_def wp_def)

lemma leading_ret [leads]: "(\<And>s. P s \<Longrightarrow> Q x s) \<Longrightarrow> leading P Q (ret x)"
  by (simp add: leading_def wps)

lemma leading_panic [leads]: "leading P Q (panic p)"
  by (simp add: leading_def wps)

lemma leading_seq [leads]: "keeping P m \<Longrightarrow> (\<And>x. leading P Q (f x)) \<Longrightarrow> leading P Q (seq m f)"
  by (auto simp: leading_def wps intro: wp_keeping)

lemma leading_if [leads]:
  "(b \<Longrightarrow> leading P Q m) \<Longrightarrow> (\<not> b \<Longrightarrow> leading P Q n) \<Longrightarrow> leading P Q (if b then m else n)"
  by simp

lemma leading_sum [leads]:
  "(\<And>e. leading P Q (f e)) \<Longrightarrow> (\<And>x. leading P Q (g x)) \<Longrightarrow> leading P Q (case r of Inl e \<Rightarrow> f e | Inr x \<Rightarrow> g x)"
  by (cases r) auto

lemma leading_ctl [leads]:
  "(\<And>v. leading P Q (f v)) \<Longrightarrow> (\<And>v. leading P Q (g v)) \<Longrightarrow> (\<And>r. leading P Q (h r)) \<Longrightarrow>
     leading P Q (case c of Continue v \<Rightarrow> f v | Break v \<Rightarrow> g v | Return r \<Rightarrow> h r)"
  by (cases c) auto

text \<open>A loop whose rounds return comes to an end when every round that goes on lowers a measure.\<close>

lemma loop_terminates:
  assumes "\<And>i v. returning (body i v)"
    and "\<And>i v s v' s'. body i v s = (Done (Continue v'), s') \<Longrightarrow> m s' < m s"
  shows "m s < fuel \<Longrightarrow> \<exists>c s'. loop fuel i v body s = (Done c, s')"
proof (induction fuel arbitrary: i v s)
  case 0
  then show ?case by simp
next
  case (Suc fuel)
  obtain c s' where b: "body i v s = (Done c, s')"
    using assms(1) by (rule returningE)
  show ?case
  proof (cases c)
    case (Continue v')
    with b assms(2) Suc.prems have "m s' < fuel" by fastforce
    from Suc.IH [OF this] b Continue show ?thesis by (simp add: seq_def)
  qed (use b in \<open>simp_all add: seq_def\<close>)
qed

section \<open>Code on a part of the state\<close>

text \<open>Code that works on one part of a larger state: \<open>get\<close> reads the part, \<open>put\<close> writes it back.\<close>

definition zoom :: "('s \<Rightarrow> 'w) \<Rightarrow> ('w \<Rightarrow> 's \<Rightarrow> 's) \<Rightarrow> ('w, 'a) io \<Rightarrow> ('s, 'a) io" where
  "zoom get put m = (\<lambda>s. case m (get s) of (r, w) \<Rightarrow> (r, put w s))"

lemma zoom_apply: "zoom get put m s = (fst (m (get s)), put (snd (m (get s))) s)"
  by (simp add: zoom_def split_beta)

lemma zoom_Done: "m (get s) = (Done x, w) \<Longrightarrow> zoom get put m s = (Done x, put w s)"
  by (simp add: zoom_def)

lemma returning_zoom [ends]: "returning m \<Longrightarrow> returning (zoom get put m)"
  by (simp add: returning_def zoom_apply)

lemma wp_zoom: "wp (zoom get put m) Q R = (\<lambda>s. wp m (\<lambda>x w. Q x (put w s)) (\<lambda>w. R (put w s)) (get s))"
  by (rule ext) (auto simp: wp_def zoom_def split: prod.splits outcome.splits)

lemma keeping_zoom: "(\<And>w s. P s \<Longrightarrow> P (put w s)) \<Longrightarrow> keeping P (zoom get put m)"
  by (simp add: keeping_def zoom_apply)

section \<open>Go maps\<close>

text \<open>
  A Go map is an association list with distinct keys. Go does not say in which order a
  range loop visits a map: where the order can be seen in a result, the definition takes
  the enumeration as an argument (a permutation of the entries, \<open>enumerates\<close>).
\<close>

type_synonym ('k, 'v) gomap = "('k \<times> 'v) list"

definition wf_gomap :: "('k, 'v) gomap \<Rightarrow> bool" where
  "wf_gomap m \<longleftrightarrow> distinct (map fst m)"

definition enumerates :: "(('k, 'v) gomap \<Rightarrow> ('k \<times> 'v) list) \<Rightarrow> bool" where
  "enumerates ord \<longleftrightarrow> (\<forall>m. mset (ord m) = mset m)"

lemma enumerates_id [simp]: "enumerates (\<lambda>m. m)" and enumerates_rev [simp]: "enumerates rev"
  by (simp_all add: enumerates_def)

lemma set_enum: "enumerates ord \<Longrightarrow> set (ord m) = set m"
  by (metis enumerates_def set_mset_mset)

lemma mset_enum: "enumerates ord \<Longrightarrow> mset (ord m) = mset m"
  by (simp add: enumerates_def)

lemma distinct_enum: "enumerates ord \<Longrightarrow> wf_gomap m \<Longrightarrow> distinct (map fst (ord m))"
  using mset_eq_imp_distinct_iff [of "map fst (ord m)" "map fst m"]
  by (simp add: mset_enum wf_gomap_def)

lemma wf_gomap_Nil [simp, gomap]: "wf_gomap []"
  by (simp add: wf_gomap_def)

lemma wf_gomap_update [gomap]: "wf_gomap m \<Longrightarrow> wf_gomap (AList.update k v m)"
  by (simp add: wf_gomap_def distinct_update)

lemma wf_gomap_delete [gomap]: "wf_gomap m \<Longrightarrow> wf_gomap (AList.delete k m)"
  by (simp add: wf_gomap_def distinct_delete)

lemma map_of_update [gomap]: "map_of (AList.update k v m) k' = (if k' = k then Some v else map_of m k')"
  by (simp add: update_conv')

lemma map_of_delete [gomap]: "map_of (AList.delete k m) k' = (if k' = k then None else map_of m k')"
  by (simp add: delete_conv')

lemma map_of_wf: "wf_gomap m \<Longrightarrow> (k, v) \<in> set m \<longleftrightarrow> map_of m k = Some v"
  by (auto simp: wf_gomap_def)

lemma set_gomap_update: "set (AList.update k v m) \<subseteq> insert (k, v) (set m)"
  by (induction m) auto

lemma set_gomap_delete: "set (AList.delete k m) \<subseteq> set m"
  by (auto simp: AList.delete_eq)

lemma wf_gomap_filter [gomap]: "wf_gomap m \<Longrightarrow> wf_gomap (filter P m)"
  by (simp add: wf_gomap_def distinct_map_filter)

lemma map_of_filter:
  "wf_gomap m \<Longrightarrow> map_of (filter (\<lambda>(k, v). P v) m) k =
     (case map_of m k of None \<Rightarrow> None | Some v \<Rightarrow> if P v then Some v else None)"
proof (induction m)
  case Nil
  then show ?case by simp
next
  case (Cons e m)
  then show ?case
    by (cases e) (auto simp: wf_gomap_def split: option.split simp flip: map_of_eq_None_iff)
qed

lemma map_of_map_values:
  "map_of (map (\<lambda>(k, v). (k, f v)) m) k = map_option f (map_of m k)"
  by (induction m) auto

lemma distinct_concat_pairs:
  "distinct (map fst xs) \<Longrightarrow> (\<And>k ys. (k, ys) \<in> set xs \<Longrightarrow> distinct ys)
   \<Longrightarrow> distinct (concat (map (\<lambda>(k, ys). map (Pair k) ys) xs))"
proof (induction xs)
  case Nil
  then show ?case by simp
next
  case (Cons x xs)
  obtain k ys where x: "x = (k, ys)" by (cases x)
  have "distinct (map (Pair k) ys)"
    using Cons.prems(2) [of k ys] by (simp add: x distinct_map inj_on_def)
  moreover have "distinct (concat (map (\<lambda>(k, ys). map (Pair k) ys) xs))"
    using Cons by (auto simp: x)
  moreover have "set (map (Pair k) ys) \<inter> set (concat (map (\<lambda>(k, ys). map (Pair k) ys) xs)) = {}"
    using Cons.prems(1) by (auto simp: x) force
  ultimately show ?case by (simp add: x)
qed

section \<open>Strings and numbers\<close>

definition newline :: char where "newline = CHR 0x0A"

definition dquote :: char where "dquote = CHR 0x22"

definition squote :: char where "squote = CHR 0x27"

text \<open>\<^verbatim>\<open>strings.Join\<close>, and \<^verbatim>\<open>strings.ReplaceAll\<close> for a one-byte pattern.\<close>

fun Join :: "string list \<Rightarrow> string \<Rightarrow> string" where
  "Join [] sep = []"
| "Join [x] sep = x"
| "Join (x # xs) sep = x @ sep @ Join xs sep"

definition ReplaceAll :: "string \<Rightarrow> char \<Rightarrow> string \<Rightarrow> string" where
  "ReplaceAll t old new = concat (map (\<lambda>c. if c = old then new else [c]) t)"

lemma set_ReplaceAll: "c \<in> set (ReplaceAll t old new) \<Longrightarrow> c \<noteq> old \<and> c \<in> set t \<or> c \<in> set new"
  by (auto simp: ReplaceAll_def split: if_splits)

lemma ReplaceAll_none: "old \<notin> set t \<Longrightarrow> ReplaceAll t old new = t"
  by (induction t) (auto simp: ReplaceAll_def)

definition HasPrefix :: "string \<Rightarrow> string \<Rightarrow> bool" where
  "HasPrefix t p \<longleftrightarrow> take (length p) t = p"

lemma HasPrefix_append [simp]: "HasPrefix (p @ t) p"
  by (simp add: HasPrefix_def)

lemma HasPrefix_split: "HasPrefix t p \<Longrightarrow> t = p @ drop (length p) t"
  by (metis HasPrefix_def append_take_drop_id)

fun Contains :: "string \<Rightarrow> string \<Rightarrow> bool" where
  "Contains [] p = (p = [])"
| "Contains (c # t) p = (HasPrefix (c # t) p \<or> Contains t p)"

definition HasSuffix :: "string \<Rightarrow> string \<Rightarrow> bool" where
  "HasSuffix t p \<longleftrightarrow> HasPrefix (rev t) (rev p)"

text \<open>\<^verbatim>\<open>strings.TrimRight\<close> with a one-character cut set.\<close>

definition TrimRight :: "string \<Rightarrow> char \<Rightarrow> string" where
  "TrimRight t c = rev (dropWhile (\<lambda>x. x = c) (rev t))"

text \<open>The piece of a string before the first separator: \<^verbatim>\<open>strings.Split(t, sep)[0]\<close>.\<close>

definition first_field :: "string \<Rightarrow> char \<Rightarrow> string" where
  "first_field t sep = takeWhile (\<lambda>c. c \<noteq> sep) t"

text \<open>\<^verbatim>\<open>strings.ToLower\<close> on ASCII text.\<close>

definition lower_char :: "char \<Rightarrow> char" where
  "lower_char c = (let n = of_char c :: nat in if 65 \<le> n \<and> n \<le> 90 then char_of (n + 32) else c)"

definition ToLower :: "string \<Rightarrow> string" where
  "ToLower t = map lower_char t"

definition digit_char :: "nat \<Rightarrow> char" where
  "digit_char d = ''0123456789abcdef'' ! d"

fun nat_string :: "nat \<Rightarrow> nat \<Rightarrow> string" where
  "nat_string b n = (if n < b \<or> b < 2 then [digit_char n]
                     else nat_string b (n div b) @ [digit_char (n mod b)])"

declare nat_string.simps [simp del]

text \<open>\<^verbatim>\<open>strconv.Itoa\<close>, the verb \<^verbatim>\<open>%d\<close>, and the verb \<^verbatim>\<open>%x\<close> of a non-negative number.\<close>

definition Itoa :: "int \<Rightarrow> string" where
  "Itoa i = (if i < 0 then ''-'' @ nat_string 10 (nat (- i)) else nat_string 10 (nat i))"

definition hex_string :: "nat \<Rightarrow> string" where
  "hex_string n = nat_string 16 n"

definition is_digit :: "char \<Rightarrow> bool" where
  "is_digit c \<longleftrightarrow> (48::nat) \<le> of_char c \<and> of_char c \<le> (57::nat)"

definition digit_value :: "char \<Rightarrow> nat" where
  "digit_value c = of_char c - 48"

definition digits_value :: "string \<Rightarrow> nat" where
  "digits_value t = foldl (\<lambda>a c. 10 * a + digit_value c) 0 t"

text \<open>\<^verbatim>\<open>strconv.Atoi\<close> on unsigned decimal text that fits in an \<^verbatim>\<open>int\<close>.\<close>

definition Atoi :: "string \<Rightarrow> int result" where
  "Atoi t = (if t \<noteq> [] \<and> list_all is_digit t then Inr (int (digits_value t))
             else Inl (Errorf (''strconv.Atoi: parsing '' @ [dquote] @ t @ [dquote] @ '': invalid syntax'')))"

lemma digit_char_digit [simp]: "d < 10 \<Longrightarrow> is_digit (digit_char d) \<and> digit_value (digit_char d) = d"
proof -
  assume "d < 10"
  then have "d = 0 \<or> d = 1 \<or> d = 2 \<or> d = 3 \<or> d = 4 \<or> d = 5 \<or> d = 6 \<or> d = 7 \<or> d = 8 \<or> d = 9"
    by presburger
  then show ?thesis
    by (elim disjE) (simp_all add: digit_char_def is_digit_def digit_value_def)
qed

lemma digits_value_append: "digits_value (t @ [c]) = 10 * digits_value t + digit_value c"
  by (simp add: digits_value_def)

lemma nat_string_nonempty [simp]: "nat_string b n \<noteq> []"
  by (simp add: nat_string.simps [of b n])

lemma nat_string_digits: "list_all is_digit (nat_string 10 n)"
proof (induction n rule: less_induct)
  case (less n)
  show ?case
    using less.IH [of "n div 10"] by (simp add: nat_string.simps [of 10 n])
qed

lemma nat_string_value: "digits_value (nat_string 10 n) = n"
proof (induction n rule: less_induct)
  case (less n)
  show ?case
  proof (cases "n < 10")
    case True
    then show ?thesis by (simp add: nat_string.simps [of 10 n] digits_value_def)
  next
    case False
    with less.IH [of "n div 10"] show ?thesis
      by (simp add: nat_string.simps [of 10 n] digits_value_append)
  qed
qed

lemma nat_string_length: "n < 10 ^ k \<Longrightarrow> 0 < k \<Longrightarrow> length (nat_string 10 n) \<le> k"
proof (induction k arbitrary: n)
  case 0
  then show ?case by simp
next
  case (Suc k)
  show ?case
  proof (cases "n < 10")
    case True
    then show ?thesis by (simp add: nat_string.simps [of 10 n])
  next
    case False
    with Suc.prems have "n div 10 < 10 ^ k" and "0 < k"
      by (auto simp: less_mult_imp_div_less mult.commute intro: gr0I)
    with Suc.IH [of "n div 10"] False show ?thesis
      by (simp add: nat_string.simps [of 10 n])
  qed
qed

lemma Atoi_Itoa: "Atoi (Itoa (int n)) = Inr (int n)"
  by (simp add: Atoi_def Itoa_def nat_string_digits nat_string_value)

end
