(* ===== verification/Models.thy ===== *)
theory Models
  imports Prelude
begin

text \<open>
  The data of the two REST interfaces, from the Go types that their OpenAPI descriptions
  generate (\<^verbatim>\<open>test_director/models\<close>, \<^verbatim>\<open>workload_monitor/swagger/models\<close>; the copies
  under \<^verbatim>\<open>common/td/models\<close> and \<^verbatim>\<open>common/wm/models\<close> are the same types on the client
  side), and the fields of a Kubernetes pod that the sources read.

  A Go pointer field is an \<open>option\<close> (nil is \<open>None\<close>). A \<^verbatim>\<open>strfmt.DateTime\<close> is a number
  of milliseconds, the resolution of its JSON form, with \<open>None\<close> for the zero time. An enum
  whose field may be left out of a request has a constructor for the empty value.
\<close>

type_synonym uuid = string
type_synonym jira_key = string
type_synonym datetime = "int option"

section \<open>Test director\<close>

datatype test_run_status =
  TestRunStatusUnset | TestRunTODO | TestRunEXECUTING | TestRunPASSED | TestRunFAILED

fun test_run_status_text :: "test_run_status \<Rightarrow> string" where
  "test_run_status_text TestRunStatusUnset = ''''"
| "test_run_status_text TestRunTODO = ''TO DO''"
| "test_run_status_text TestRunEXECUTING = ''EXECUTING''"
| "test_run_status_text TestRunPASSED = ''PASSED''"
| "test_run_status_text TestRunFAILED = ''FAILED''"

datatype test_plan_status = PlanNOTSTARTED | PlanRUNNING | PlanCOMPLETEPASS | PlanCOMPLETEFAIL

datatype event_class = EventFAIL | EventINFO | EventWARN

fun event_class_text :: "event_class \<Rightarrow> string" where
  "event_class_text EventFAIL = ''FAIL''"
| "event_class_text EventINFO = ''INFO''"
| "event_class_text EventWARN = ''WARN''"

datatype event_source_class =
  SourceWorkloadMonitor | SourceLogMonitor | SourceResouceMonitor | SourceTestConductor

fun event_source_class_text :: "event_source_class \<Rightarrow> string" where
  "event_source_class_text SourceWorkloadMonitor = ''workload-monitor''"
| "event_source_class_text SourceLogMonitor = ''log-monitor''"
| "event_source_class_text SourceResouceMonitor = ''resouce-monitor''"
| "event_source_class_text SourceTestConductor = ''test-conductor''"

record test_run_spec =
  trs_Data :: string
  trs_Status :: test_run_status
  trs_TestExecIssueID :: string
  trs_TestID :: string
  trs_TestKey :: "jira_key option"

record test_run =
  tr_EndDateTime :: datetime
  tr_ID :: string
  tr_StartDateTime :: datetime
  tr_Spec :: test_run_spec

record test =
  test_IssueID :: "string option"

record test_plan_spec =
  tps_Assignee :: string
  tps_JiraID :: string
  tps_Name :: string
  tps_Status :: "test_plan_status option"
  tps_Tests :: "test list"

record test_plan =
  tp_Spec :: test_plan_spec
  tp_IsActive :: "bool option"
  tp_Key :: jira_key

record event_spec =
  es_Class :: "event_class option"
  es_Data :: "string list"
  es_Message :: "string option"
  es_Resource :: string
  es_SourceClass :: "event_source_class option"
  es_SourceInstance :: "string option"

record event =
  ev_ID :: uuid
  ev_LoggedDateTime :: datetime
  ev_Spec :: event_spec

record request_outcome =
  ro_Details :: string
  ro_ItemsAffected :: "int option"
  ro_Result :: string

text \<open>The fields that the promoted methods of an embedded struct update.\<close>

definition tr_Status :: "test_run \<Rightarrow> test_run_status" where
  "tr_Status tr = trs_Status (tr_Spec tr)"

definition tr_Data :: "test_run \<Rightarrow> string" where
  "tr_Data tr = trs_Data (tr_Spec tr)"

definition set_Status :: "test_run_status \<Rightarrow> test_run \<Rightarrow> test_run" where
  "set_Status st tr = tr\<lparr>tr_Spec := (tr_Spec tr)\<lparr>trs_Status := st\<rparr>\<rparr>"

definition set_Data :: "string \<Rightarrow> test_run \<Rightarrow> test_run" where
  "set_Data d tr = tr\<lparr>tr_Spec := (tr_Spec tr)\<lparr>trs_Data := d\<rparr>\<rparr>"

definition tp_Status :: "test_plan \<Rightarrow> test_plan_status option" where
  "tp_Status tp = tps_Status (tp_Spec tp)"

definition set_PlanStatus :: "test_plan_status option \<Rightarrow> test_plan \<Rightarrow> test_plan" where
  "set_PlanStatus st tp = tp\<lparr>tp_Spec := (tp_Spec tp)\<lparr>tps_Status := st\<rparr>\<rparr>"

definition set_IsActive :: "bool \<Rightarrow> test_plan \<Rightarrow> test_plan" where
  "set_IsActive b tp = tp\<lparr>tp_IsActive := Some b\<rparr>"

named_theorems model_fields \<open>field reads of updated records\<close>

lemma run_fields [simp, model_fields]:
  "tr_Status (set_Status st tr) = st" "tr_Data (set_Status st tr) = tr_Data tr"
  "tr_Status (set_Data d tr) = tr_Status tr" "tr_Data (set_Data d tr) = d"
  "tr_ID (set_Status st tr) = tr_ID tr" "tr_ID (set_Data d tr) = tr_ID tr"
  "trs_TestKey (tr_Spec (set_Status st tr)) = trs_TestKey (tr_Spec tr)"
  "trs_TestKey (tr_Spec (set_Data d tr)) = trs_TestKey (tr_Spec tr)"
  "trs_TestID (tr_Spec (set_Status st tr)) = trs_TestID (tr_Spec tr)"
  "trs_TestID (tr_Spec (set_Data d tr)) = trs_TestID (tr_Spec tr)"
  "trs_TestExecIssueID (tr_Spec (set_Status st tr)) = trs_TestExecIssueID (tr_Spec tr)"
  "trs_TestExecIssueID (tr_Spec (set_Data d tr)) = trs_TestExecIssueID (tr_Spec tr)"
  "tr_Status (tr\<lparr>tr_StartDateTime := t\<rparr>) = tr_Status tr" "tr_Data (tr\<lparr>tr_StartDateTime := t\<rparr>) = tr_Data tr"
  "tr_Status (tr\<lparr>tr_EndDateTime := t\<rparr>) = tr_Status tr" "tr_Data (tr\<lparr>tr_EndDateTime := t\<rparr>) = tr_Data tr"
  by (simp_all add: tr_Status_def tr_Data_def set_Status_def set_Data_def)

lemma plan_fields [simp, model_fields]:
  "tp_Status (set_PlanStatus st tp) = st" "tp_IsActive (set_PlanStatus st tp) = tp_IsActive tp"
  "tp_Key (set_PlanStatus st tp) = tp_Key tp" "tp_Status (set_IsActive b tp) = tp_Status tp"
  "tp_IsActive (set_IsActive b tp) = Some b" "tp_Key (set_IsActive b tp) = tp_Key tp"
  "tps_Tests (tp_Spec (set_PlanStatus st tp)) = tps_Tests (tp_Spec tp)"
  by (simp_all add: tp_Status_def set_PlanStatus_def set_IsActive_def)

section \<open>Responses\<close>

text \<open>The answer of a REST handler of either server; a refusal carries the same outcome in both.\<close>

datatype 'a response = RespOK 'a | BadRequest request_outcome | RespNotFound

definition refused :: "string \<Rightarrow> request_outcome" where
  "refused details = \<lparr>ro_Details = details, ro_ItemsAffected = Some 1, ro_Result = ''REFUSED''\<rparr>"

section \<open>Workload monitor\<close>

datatype violation = RESTARTED | TERMINATED | NOTPRESENT

record workload_spec =
  ws_Violations :: "violation list"

record workload =
  wl_ID :: uuid
  wl_Name :: string
  wl_Namespace :: string
  wl_Spec :: workload_spec

section \<open>Pods\<close>

datatype pod_phase = PodPending | PodRunning | PodSucceeded | PodFailed | PodUnknown

fun phase_text :: "pod_phase \<Rightarrow> string" where
  "phase_text PodPending = ''Pending''"
| "phase_text PodRunning = ''Running''"
| "phase_text PodSucceeded = ''Succeeded''"
| "phase_text PodFailed = ''Failed''"
| "phase_text PodUnknown = ''Unknown''"

text \<open>The restart count of a container is an \<^verbatim>\<open>int32\<close>.\<close>

record pod =
  pod_Name :: string
  pod_Namespace :: string
  pod_UID :: uuid
  pod_Labels :: "(string, string) gomap"
  pod_Phase :: pod_phase
  pod_RestartCounts :: "32 word list"
  pod_NodeName :: string
  pod_PodIP :: string
  pod_CreationTimestamp :: int

end
