(* ===== verification/Director_Caches.thy ===== *)
theory Director_Caches
  imports Models
begin

text \<open>
  The stores of the test director: \<^verbatim>\<open>test_runs_cache.go\<close>, \<^verbatim>\<open>test_plans_cache.go\<close> and the
  store of \<^verbatim>\<open>events_cache.go\<close>, each a \<^verbatim>\<open>go-cache\<close> of JSON text.

  Neither \<^verbatim>\<open>github.com/patrickmn/go-cache\<close> nor the generated JSON code (which rests on
  \<^verbatim>\<open>go-openapi/swag\<close>) is part of the sources: they are the parameters \<open>gocache\<close> and \<open>codec\<close>.
  What the director relies on is documented behaviour: a cache without expiry is a map
  (\<open>gocache_ok\<close>), and what is marshalled comes back when it is unmarshalled (\<open>codec_ok\<close>).
  \<open>CacheItems\<close> gives the items in the order in which Go happens to range over them.
\<close>

section \<open>The cache package and the JSON code\<close>

record ('c, 'b) gocache =
  CacheNew :: 'c
  CacheGet :: "string \<Rightarrow> 'c \<Rightarrow> 'b option"
  CacheSet :: "string \<Rightarrow> 'b \<Rightarrow> 'c \<Rightarrow> 'c"
  CacheDelete :: "string \<Rightarrow> 'c \<Rightarrow> 'c"
  CacheItems :: "'c \<Rightarrow> (string \<times> 'b) list"

record ('a, 'b) codec =
  Marshal :: "'a \<Rightarrow> 'b result"
  Unmarshal :: "'b \<Rightarrow> 'a result"

definition gocache_ok :: "('c, 'b) gocache \<Rightarrow> bool" where
  "gocache_ok g \<longleftrightarrow>
     (\<forall>k. CacheGet g k (CacheNew g) = None) \<and>
     (\<forall>k k' b c. CacheGet g k' (CacheSet g k b c) = (if k' = k then Some b else CacheGet g k' c)) \<and>
     (\<forall>k k' c. CacheGet g k' (CacheDelete g k c) = (if k' = k then None else CacheGet g k' c)) \<and>
     (\<forall>c. wf_gomap (CacheItems g c) \<and> (\<forall>k. map_of (CacheItems g c) k = CacheGet g k c))"

definition codec_ok :: "('a, 'b) codec \<Rightarrow> bool" where
  "codec_ok j \<longleftrightarrow> (\<forall>x. \<exists>b. Marshal j x = Inr b \<and> Unmarshal j b = Inr x)"

section \<open>The methods that the stores share\<close>

text \<open>
  The sources repeat the same four methods for every type of record; only the text of the
  not-found error differs. A nil slice and a nil pointer are \<open>None\<close>.
\<close>

definition cache_get :: "('c, 'b) gocache \<Rightarrow> ('a, 'b) codec \<Rightarrow> string \<Rightarrow> 'c \<Rightarrow> 'a option" where
  "cache_get g j key c = (case CacheGet g key c of
      None \<Rightarrow> None
    | Some tp \<Rightarrow> (case Unmarshal j tp of Inl err \<Rightarrow> None | Inr result \<Rightarrow> Some result))"

definition cache_set :: "('c, 'b) gocache \<Rightarrow> ('a, 'b) codec \<Rightarrow> string \<Rightarrow> 'a \<Rightarrow> 'c \<Rightarrow> unit result \<times> 'c" where
  "cache_set g j key data c = (case Marshal j data of
      Inl err \<Rightarrow> (Inl err, c)
    | Inr b \<Rightarrow> (Inr (), CacheSet g key b c))"

definition cache_delete ::
    "('c, 'b) gocache \<Rightarrow> ('a, 'b) codec \<Rightarrow> string \<Rightarrow> string \<Rightarrow> 'c \<Rightarrow> unit result \<times> 'c" where
  "cache_delete g j missing key c = (case cache_get g j key c of
      Some tp \<Rightarrow> (Inr (), CacheDelete g key c)
    | None \<Rightarrow> (Inl (NotFound missing), c))"

fun decode_all :: "('a, 'b) codec \<Rightarrow> (string \<times> 'b) list \<Rightarrow> 'a list option" where
  "decode_all j [] = Some []"
| "decode_all j ((_, b) # items) = (case Unmarshal j b of
      Inl err \<Rightarrow> None
    | Inr result \<Rightarrow> (case decode_all j items of None \<Rightarrow> None | Some m \<Rightarrow> Some (result # m)))"

definition cache_all :: "('c, 'b) gocache \<Rightarrow> ('a, 'b) codec \<Rightarrow> 'c \<Rightarrow> 'a list option" where
  "cache_all g j c = (let items = CacheItems g c in if items = [] then None else decode_all j items)"

section \<open>Test runs\<close>

definition TestRunCache_Get :: "('c, 'b) gocache \<Rightarrow> (test_run, 'b) codec \<Rightarrow> string \<Rightarrow> 'c \<Rightarrow> test_run option" where
  "TestRunCache_Get = cache_get"

definition TestRunCache_GetAll :: "('c, 'b) gocache \<Rightarrow> (test_run, 'b) codec \<Rightarrow> 'c \<Rightarrow> test_run list option" where
  "TestRunCache_GetAll = cache_all"

definition TestRunCache_Set ::
    "('c, 'b) gocache \<Rightarrow> (test_run, 'b) codec \<Rightarrow> string \<Rightarrow> test_run \<Rightarrow> 'c \<Rightarrow> unit result \<times> 'c" where
  "TestRunCache_Set = cache_set"

definition TestRunCache_Delete ::
    "('c, 'b) gocache \<Rightarrow> (test_run, 'b) codec \<Rightarrow> string \<Rightarrow> 'c \<Rightarrow> unit result \<times> 'c" where
  "TestRunCache_Delete g j key = cache_delete g j ''not found'' key"

section \<open>Test plans\<close>

definition TestPlanCache_Get :: "('c, 'b) gocache \<Rightarrow> (test_plan, 'b) codec \<Rightarrow> jira_key \<Rightarrow> 'c \<Rightarrow> test_plan option" where
  "TestPlanCache_Get = cache_get"

definition TestPlanCache_GetAll :: "('c, 'b) gocache \<Rightarrow> (test_plan, 'b) codec \<Rightarrow> 'c \<Rightarrow> test_plan list option" where
  "TestPlanCache_GetAll = cache_all"

definition TestPlanCache_Set ::
    "('c, 'b) gocache \<Rightarrow> (test_plan, 'b) codec \<Rightarrow> jira_key \<Rightarrow> test_plan \<Rightarrow> 'c \<Rightarrow> unit result \<times> 'c" where
  "TestPlanCache_Set = cache_set"

definition TestPlanCache_Delete ::
    "('c, 'b) gocache \<Rightarrow> (test_plan, 'b) codec \<Rightarrow> jira_key \<Rightarrow> 'c \<Rightarrow> unit result \<times> 'c" where
  "TestPlanCache_Delete g j key = cache_delete g j (''test palan key: '' @ key @ '' not found'') key"

text \<open>The two methods below read \<^verbatim>\<open>*item.IsActive\<close>, which panics when it is nil.\<close>

definition delete_inactive ::
    "('c, 'b) gocache \<Rightarrow> (test_plan, 'b) codec \<Rightarrow> test_plan \<Rightarrow> int \<Rightarrow> ('c, (int, request_outcome) ctl) io" where
  "delete_inactive g j item counter =
     seq (deref (tp_IsActive item)) (\<lambda>active.
       if \<not> active then
         seq (call (TestPlanCache_Delete g j (tp_Key item))) (\<lambda>_. ret (Continue (counter + 1)))
       else ret (Continue counter))"

definition TestPlanCache_DeleteAll ::
    "('c, 'b) gocache \<Rightarrow> (test_plan, 'b) codec \<Rightarrow> ('c, request_outcome) io" where
  "TestPlanCache_DeleteAll g j =
     seq (gets (TestPlanCache_GetAll g j)) (\<lambda>all.
     seq (for_in (case all of None \<Rightarrow> [] | Some m \<Rightarrow> m) 0 (delete_inactive g j))
     (\<lambda>r. case r of
        Inl ro \<Rightarrow> ret ro
      | Inr counter \<Rightarrow> ret \<lparr>ro_Details = ''Deleted all test plans instead of active one'',
           ro_ItemsAffected = Some counter, ro_Result = ''OK''\<rparr>))"

fun find_active :: "(test_plan, 'b) codec \<Rightarrow> (string \<times> 'b) list \<Rightarrow> ('c, test_plan option) io" where
  "find_active j [] = ret None"
| "find_active j ((_, b) # items) = (case Unmarshal j b of
      Inl err \<Rightarrow> ret None
    | Inr result \<Rightarrow> seq (deref (tp_IsActive result)) (\<lambda>active.
        if active then ret (Some result) else find_active j items))"

definition TestPlanCache_GetActive ::
    "('c, 'b) gocache \<Rightarrow> (test_plan, 'b) codec \<Rightarrow> ('c, test_plan option) io" where
  "TestPlanCache_GetActive g j =
     seq (gets (CacheItems g)) (\<lambda>items. if items = [] then ret None else find_active j items)"

section \<open>Events\<close>

definition EventCache_GetAll :: "('c, 'b) gocache \<Rightarrow> (event, 'b) codec \<Rightarrow> 'c \<Rightarrow> event list option" where
  "EventCache_GetAll = cache_all"

section \<open>Contract\<close>

text \<open>
  What the handlers expect of \<^verbatim>\<open>TestRunInterface\<close>, \<^verbatim>\<open>testPlanInterface\<close> and
  \<^verbatim>\<open>EventInterface\<close>: a store of records by key. \<open>sound\<close> says that everything in the store
  can be read back; every operation keeps it.
\<close>

locale record_store =
  fixes get :: "string \<Rightarrow> 'c \<Rightarrow> 'a option"
    and put :: "string \<Rightarrow> 'a \<Rightarrow> 'c \<Rightarrow> unit result \<times> 'c"
    and delete :: "string \<Rightarrow> string \<Rightarrow> 'c \<Rightarrow> unit result \<times> 'c"
    and all :: "'c \<Rightarrow> 'a list option"
    and new :: 'c
    and sound :: "'c \<Rightarrow> bool"
  assumes get_new: "get k new = None"
    and put_done: "fst (put k x c) = Inr ()"
    and get_put: "get k' (snd (put k x c)) = (if k' = k then Some x else get k' c)"
    and delete_result: "fst (delete msg k c) = (if get k c = None then Inl (NotFound msg) else Inr ())"
    and get_delete: "get k' (snd (delete msg k c)) = (if k' = k then None else get k' c)"
    and sound_new: "sound new"
    and sound_put: "sound c \<Longrightarrow> sound (snd (put k x c))"
    and sound_delete: "sound c \<Longrightarrow> sound (snd (delete msg k c))"
    and all_records: "sound c \<Longrightarrow> \<exists>ks. distinct ks \<and> set ks = {k. get k c \<noteq> None} \<and>
      all c = (if ks = [] then None else Some (map (\<lambda>k. the (get k c)) ks))"
begin

lemmas store_simps = get_new put_done get_put delete_result get_delete sound_put sound_delete sound_new

lemma all_SomeD: "sound c \<Longrightarrow> all c = Some xs \<Longrightarrow> set xs = {x. \<exists>k. get k c = Some x}"
proof -
  assume "sound c" and "all c = Some xs"
  with all_records obtain ks where "set ks = {k. get k c \<noteq> None}" "xs = map (\<lambda>k. the (get k c)) ks"
    by (metis option.distinct(1) option.inject)
  then show ?thesis by (auto simp: image_iff) (metis option.sel)
qed

lemma all_None_iff: "sound c \<Longrightarrow> all c = None \<longleftrightarrow> (\<forall>k. get k c = None)"
  using all_records [of c] by (auto split: if_splits)

text \<open>A record that was put is what is got until it is put again or deleted.\<close>

lemma put_delete_get: "get k (snd (delete msg k (snd (put k x c)))) = None"
  by (simp add: get_delete)

lemma put_put: "get k' (snd (put k y (snd (put k x c)))) = get k' (snd (put k y c))"
  by (simp add: get_put)

end

text \<open>A cache that is a map, holding JSON that can be read back, is such a store.\<close>

definition readable :: "('c, 'b) gocache \<Rightarrow> ('a, 'b) codec \<Rightarrow> 'c \<Rightarrow> bool" where
  "readable g j c \<longleftrightarrow> (\<forall>k b. CacheGet g k c = Some b \<longrightarrow> (\<exists>x. Unmarshal j b = Inr x))"

locale cache_backend =
  fixes g :: "('c, 'b) gocache" and j :: "('a, 'b) codec"
  assumes map_laws: "gocache_ok g" and json_laws: "codec_ok j"
begin

lemma cache_laws:
  "CacheGet g k (CacheNew g) = None"
  "CacheGet g k' (CacheSet g k b c) = (if k' = k then Some b else CacheGet g k' c)"
  "CacheGet g k' (CacheDelete g k c) = (if k' = k then None else CacheGet g k' c)"
  "wf_gomap (CacheItems g c)" "map_of (CacheItems g c) k = CacheGet g k c"
  using map_laws by (simp_all add: gocache_ok_def)

lemma marshalE:
  obtains b where "Marshal j x = Inr b" "Unmarshal j b = Inr x"
  using json_laws unfolding codec_ok_def by blast

lemma decode_all_readable:
  "(\<And>k b. (k, b) \<in> set items \<Longrightarrow> \<exists>x. Unmarshal j b = Inr x) \<Longrightarrow>
     decode_all j items = Some (map (\<lambda>(k, b). projr (Unmarshal j b)) items)"
proof (induction items)
  case (Cons e items)
  obtain k b where e: "e = (k, b)" by (cases e)
  with Cons.prems [of k b] obtain x where "Unmarshal j b = Inr x" by auto
  moreover have "decode_all j items = Some (map (\<lambda>(k, b). projr (Unmarshal j b)) items)"
    using Cons by auto
  ultimately show ?case by (simp add: e)
qed simp

lemma cache_all_records:
  assumes "readable g j c"
  shows "\<exists>ks. distinct ks \<and> set ks = {k. cache_get g j k c \<noteq> None} \<and>
     cache_all g j c = (if ks = [] then None else Some (map (\<lambda>k. the (cache_get g j k c)) ks))"
proof (intro exI conjI)
  let ?ks = "map fst (CacheItems g c)"
  have items: "CacheGet g k c = Some b \<and> (\<exists>x. Unmarshal j b = Inr x)" if "(k, b) \<in> set (CacheItems g c)" for k b
    using that assms cache_laws(4,5) by (metis map_of_wf readable_def)
  show "distinct ?ks" using cache_laws(4) by (simp add: wf_gomap_def)
  show "set ?ks = {k. cache_get g j k c \<noteq> None}"
  proof -
    have "k \<in> set ?ks \<longleftrightarrow> CacheGet g k c \<noteq> None" for k
      by (metis cache_laws(5) dom_map_of_conv_image_fst domIff list.set_map)
    moreover have "CacheGet g k c \<noteq> None \<longleftrightarrow> cache_get g j k c \<noteq> None" for k
      using assms by (fastforce simp: cache_get_def readable_def split: option.splits sum.splits)
    ultimately show ?thesis by blast
  qed
  show "cache_all g j c = (if ?ks = [] then None else Some (map (\<lambda>k. the (cache_get g j k c)) ?ks))"
    using decode_all_readable [of "CacheItems g c"] items
    by (fastforce simp: cache_all_def Let_def cache_get_def)
qed

end

sublocale cache_backend \<subseteq> store: record_store "cache_get g j" "cache_set g j" "cache_delete g j" "cache_all g j"
  "CacheNew g" "readable g j"
proof (unfold_locales, goal_cases)
  case (2 k x c)
  show ?case by (rule marshalE [of x]) (simp add: cache_set_def)
next
  case (3 k' k x c)
  show ?case by (rule marshalE [of x]) (simp add: cache_set_def cache_get_def cache_laws)
next
  case (7 c k x)
  then show ?case by (rule_tac marshalE [of x]) (auto simp: cache_set_def readable_def cache_laws)
next
  case (9 c)
  then show ?case by (rule cache_all_records)
qed (auto simp: cache_get_def cache_delete_def readable_def cache_laws split: option.splits sum.splits if_splits)

context cache_backend
begin

lemma is_store: "record_store (cache_get g j) (cache_set g j) (cache_delete g j) (cache_all g j) (CacheNew g) (readable g j)"
  by unfold_locales

lemmas backend_simps = store.store_simps

end

section \<open>The store of test plans\<close>

text \<open>
  \<open>plans_ok\<close>: every stored plan is filed under its own key, has a status and says whether it
  is active, and at most one plan is active.
\<close>

definition plan_ok :: "jira_key \<Rightarrow> test_plan \<Rightarrow> bool" where
  "plan_ok k p \<longleftrightarrow> tp_Key p = k \<and> tp_IsActive p \<noteq> None \<and> tp_Status p \<noteq> None"

definition active :: "test_plan \<Rightarrow> bool" where
  "active p \<longleftrightarrow> tp_IsActive p = Some True"

definition one_active :: "(jira_key \<Rightarrow> test_plan option) \<Rightarrow> bool" where
  "one_active plans \<longleftrightarrow> (\<forall>k k' p p'. plans k = Some p \<longrightarrow> plans k' = Some p' \<longrightarrow> active p \<longrightarrow> active p' \<longrightarrow> k = k')"

definition plans_ok :: "(jira_key \<Rightarrow> test_plan option) \<Rightarrow> bool" where
  "plans_ok plans \<longleftrightarrow> (\<forall>k p. plans k = Some p \<longrightarrow> plan_ok k p) \<and> one_active plans"

lemma plans_okD: "plans_ok plans \<Longrightarrow> plans k = Some p \<Longrightarrow> plan_ok k p"
  by (simp add: plans_ok_def)

lemma plans_ok_upd:
  assumes "plans_ok plans" and "plan_ok k p"
    and "active p \<Longrightarrow> \<forall>k' p'. plans k' = Some p' \<longrightarrow> active p' \<longrightarrow> k' = k"
  shows "plans_ok (plans(k \<mapsto> p))"
  unfolding plans_ok_def one_active_def
proof (intro conjI allI impI)
  fix k1 p1 assume "(plans(k \<mapsto> p)) k1 = Some p1"
  with assms(1,2) show "plan_ok k1 p1" by (auto simp: plans_ok_def split: if_splits)
next
  fix k1 k2 p1 p2
  assume "(plans(k \<mapsto> p)) k1 = Some p1" "(plans(k \<mapsto> p)) k2 = Some p2" "active p1" "active p2"
  then show "k1 = k2"
    using assms(1,3) by (auto simp: plans_ok_def one_active_def split: if_splits)
qed

lemma plans_ok_sub:
  "plans_ok plans \<Longrightarrow> (\<And>k p. plans' k = Some p \<Longrightarrow> plans k = Some p) \<Longrightarrow> plans_ok plans'"
  unfolding plans_ok_def one_active_def by blast

text \<open>What a store holds, as a map.\<close>

definition plan_map :: "('c, 'b) gocache \<Rightarrow> (test_plan, 'b) codec \<Rightarrow> 'c \<Rightarrow> jira_key \<Rightarrow> test_plan option" where
  "plan_map g j c k = TestPlanCache_Get g j k c"

definition run_map :: "('c, 'b) gocache \<Rightarrow> (test_run, 'b) codec \<Rightarrow> 'c \<Rightarrow> string \<Rightarrow> test_run option" where
  "run_map g j c k = TestRunCache_Get g j k c"

lemmas plan_map_defs = plan_map_def TestPlanCache_Get_def
lemmas run_map_defs = run_map_def TestRunCache_Get_def

locale plan_cache = cache_backend g j
  for g :: "('c, 'b) gocache" and j :: "(test_plan, 'b) codec"
begin

lemma plan_map_delete: "plan_map g j (snd (TestPlanCache_Delete g j k c)) = (plan_map g j c)(k := None)"
  by (rule ext) (simp add: plan_map_defs TestPlanCache_Delete_def store.store_simps)

lemma plan_map_set: "plan_map g j (snd (TestPlanCache_Set g j k p c)) = (plan_map g j c)(k \<mapsto> p)"
  by (rule ext) (simp add: plan_map_defs TestPlanCache_Set_def store.store_simps)

lemma readable_delete: "readable g j c \<Longrightarrow> readable g j (snd (TestPlanCache_Delete g j k c))"
  by (simp add: TestPlanCache_Delete_def store.store_simps)

lemma readable_set: "readable g j c \<Longrightarrow> readable g j (snd (TestPlanCache_Set g j k p c))"
  by (simp add: TestPlanCache_Set_def store.store_simps)

text \<open>\<^verbatim>\<open>GetActive\<close> returns an active plan if there is one, and changes nothing.\<close>

lemma find_active_run:
  assumes "\<And>k b. (k, b) \<in> set items \<Longrightarrow> \<exists>p. Unmarshal j b = Inr p \<and> tp_IsActive p \<noteq> None"
  shows "find_active j items s = (Done (find active (map (\<lambda>(k, b). projr (Unmarshal j b)) items)), s)"
  using assms
proof (induction items)
  case (Cons e items)
  obtain k b where e: "e = (k, b)" by (cases e)
  with Cons.prems [of k b] obtain p x where p: "Unmarshal j b = Inr p" "tp_IsActive p = Some x" by auto
  have "find_active j items s = (Done (find active (map (\<lambda>(k, b). projr (Unmarshal j b)) items)), s)"
    using Cons by auto
  moreover have "active p \<longleftrightarrow> x" using p by (simp add: active_def)
  ultimately show ?case using p by (simp add: e)
qed simp

lemma GetActive_run:
  assumes "readable g j c" and "plans_ok (plan_map g j c)"
  obtains r where "TestPlanCache_GetActive g j c = (Done r, c)"
    and "r = None \<Longrightarrow> \<forall>k p. plan_map g j c k = Some p \<longrightarrow> \<not> active p"
    and "\<And>p. r = Some p \<Longrightarrow> plan_map g j c (tp_Key p) = Some p \<and> active p"
proof -
  let ?r = "find active (map (\<lambda>(k, b). projr (Unmarshal j b)) (CacheItems g c))"
  have get: "plan_map g j c k = Some (projr (Unmarshal j b))" "Unmarshal j b = Inr (projr (Unmarshal j b))"
    if "(k, b) \<in> set (CacheItems g c)" for k b
  proof -
    have "CacheGet g k c = Some b"
      using that cache_laws(4,5) by (metis map_of_wf)
    moreover from this obtain x where "Unmarshal j b = Inr x"
      using assms(1) unfolding readable_def by blast
    ultimately show "plan_map g j c k = Some (projr (Unmarshal j b))" "Unmarshal j b = Inr (projr (Unmarshal j b))"
      by (simp_all add: plan_map_defs cache_get_def)
  qed
  have "\<exists>p. Unmarshal j b = Inr p \<and> tp_IsActive p \<noteq> None" if "(k, b) \<in> set (CacheItems g c)" for k b
    using get [OF that] plans_okD [OF assms(2)] by (metis plan_ok_def)
  then have "find_active j (CacheItems g c) c = (Done ?r, c)"
    by (rule find_active_run)
  then have run: "TestPlanCache_GetActive g j c = (Done ?r, c)"
    by (simp add: TestPlanCache_GetActive_def seq_apply)
  have none: "\<not> active p" if "?r = None" "plan_map g j c k = Some p" for k p
  proof -
    from that(2) obtain b where b: "CacheGet g k c = Some b" "Unmarshal j b = Inr p"
      by (auto simp: plan_map_defs cache_get_def split: option.splits sum.splits)
    then have "(k, b) \<in> set (CacheItems g c)"
      using cache_laws(4,5) by (metis map_of_wf)
    with that(1) b(2) show ?thesis by (force simp: find_None_iff)
  qed
  have some: "plan_map g j c (tp_Key p) = Some p \<and> active p" if "?r = Some p" for p
  proof -
    from that have "active p" "p \<in> (\<lambda>(k, b). projr (Unmarshal j b)) ` set (CacheItems g c)"
      by (auto simp: find_Some_iff)
    with get obtain k where "plan_map g j c k = Some p" by auto
    with plans_okD [OF assms(2) this] \<open>active p\<close> show ?thesis by (simp add: plan_ok_def)
  qed
  show thesis using that [OF run] none some by blast
qed

text \<open>\<^verbatim>\<open>DeleteAll\<close> removes exactly the plans that are not active, and counts them.\<close>

lemma delete_loop:
  assumes "\<And>p. p \<in> set ps \<Longrightarrow> tp_IsActive p \<noteq> None" and "readable g j c"
  shows "\<exists>c'. for_in ps n (delete_inactive g j) c = (Done (Inr (n + int (length (filter (\<lambda>p. \<not> active p) ps)))), c')
    \<and> readable g j c' \<and> (\<forall>k. plan_map g j c' k = (if \<exists>p\<in>set ps. \<not> active p \<and> tp_Key p = k then None else plan_map g j c k))"
  using assms
proof (induction ps arbitrary: n c)
  case (Cons p ps)
  obtain x where x: "tp_IsActive p = Some x" using Cons.prems(1) [of p] by auto
  show ?case
  proof (cases x)
    case True
    with x have "active p" by (simp add: active_def)
    with True x Cons.IH [of c n] Cons.prems show ?thesis by (simp add: delete_inactive_def)
  next
    case False
    let ?c = "snd (TestPlanCache_Delete g j (tp_Key p) c)"
    have r: "readable g j ?c" using Cons.prems(2) by (rule readable_delete)
    obtain c' where c': "for_in ps (n + 1) (delete_inactive g j) ?c = (Done (Inr (n + 1 + int (length (filter (\<lambda>p. \<not> active p) ps)))), c')"
      "readable g j c'"
      "\<forall>k. plan_map g j c' k = (if \<exists>p\<in>set ps. \<not> active p \<and> tp_Key p = k then None else plan_map g j ?c k)"
      using Cons.IH [OF _ r, of "n + 1"] Cons.prems(1) by (meson list.set_intros(2))
    from x False have "\<not> active p" by (simp add: active_def)
    moreover have "delete_inactive g j p n c = (Done (Continue (n + 1)), ?c)"
      using x False by (simp add: delete_inactive_def seq_apply call_apply)
    ultimately show ?thesis
      using c' by (auto simp: seq_apply plan_map_delete add.assoc)
  qed
qed simp

lemma DeleteAll_run:
  assumes "readable g j c" and "plans_ok (plan_map g j c)"
  obtains ro c' where "TestPlanCache_DeleteAll g j c = (Done ro, c')" and "readable g j c'"
    and "plan_map g j c' = (\<lambda>k. case plan_map g j c k of Some p \<Rightarrow> if active p then Some p else None | None \<Rightarrow> None)"
    and "ro_ItemsAffected ro = Some (int (card {k. \<exists>p. plan_map g j c k = Some p \<and> \<not> active p}))"
proof -
  obtain ks where ks: "distinct ks" "set ks = {k. plan_map g j c k \<noteq> None}"
    "TestPlanCache_GetAll g j c = (if ks = [] then None else Some (map (\<lambda>k. the (plan_map g j c k)) ks))"
    using store.all_records [OF assms(1)] unfolding plan_map_defs TestPlanCache_GetAll_def by blast
  let ?ps = "map (\<lambda>k. the (plan_map g j c k)) ks"
  have all: "(case TestPlanCache_GetAll g j c of None \<Rightarrow> [] | Some m \<Rightarrow> m) = ?ps"
    using ks(3) by simp
  have mem: "p \<in> set ?ps \<longleftrightarrow> (\<exists>k. plan_map g j c k = Some p)" for p
    using ks(2) by (auto simp: image_iff)
  then have key: "tp_IsActive p \<noteq> None \<and> plan_map g j c (tp_Key p) = Some p" if "p \<in> set ?ps" for p
    using that plans_okD [OF assms(2)] by (metis plan_ok_def)
  obtain c' where c': "for_in ?ps 0 (delete_inactive g j) c = (Done (Inr (0 + int (length (filter (\<lambda>p. \<not> active p) ?ps)))), c')"
    "readable g j c'"
    "\<forall>k. plan_map g j c' k = (if \<exists>p\<in>set ?ps. \<not> active p \<and> tp_Key p = k then None else plan_map g j c k)"
    using delete_loop [OF _ assms(1), of ?ps 0] key by blast
  have "plan_map g j c' = (\<lambda>k. case plan_map g j c k of Some p \<Rightarrow> if active p then Some p else None | None \<Rightarrow> None)"
  proof
    fix k
    have "(\<exists>p\<in>set ?ps. \<not> active p \<and> tp_Key p = k) \<longleftrightarrow> (\<exists>p. plan_map g j c k = Some p \<and> \<not> active p)"
      using mem key by (metis plan_ok_def plans_okD [OF assms(2)])
    with c'(3) show "plan_map g j c' k = (case plan_map g j c k of Some p \<Rightarrow> if active p then Some p else None | None \<Rightarrow> None)"
      by (auto split: option.split)
  qed
  moreover have "length (filter (\<lambda>p. \<not> active p) ?ps) = card {k. \<exists>p. plan_map g j c k = Some p \<and> \<not> active p}"
  proof -
    have "length (filter (\<lambda>p. \<not> active p) ?ps) = length (filter (\<lambda>k. \<not> active (the (plan_map g j c k))) ks)"
      by (simp add: filter_map comp_def)
    also have "\<dots> = card (set (filter (\<lambda>k. \<not> active (the (plan_map g j c k))) ks))"
      using ks(1) by (metis distinct_card distinct_filter)
    also have "set (filter (\<lambda>k. \<not> active (the (plan_map g j c k))) ks) = {k. \<exists>p. plan_map g j c k = Some p \<and> \<not> active p}"
      using ks(2) by auto
    finally show ?thesis .
  qed
  ultimately show thesis
    using that [of _ c'] c'(1,2) by (simp add: TestPlanCache_DeleteAll_def seq_apply all)
qed

end

section \<open>A cache in memory\<close>

text \<open>
  An association list with records kept as they are meets the laws, so the laws can hold.
  The concrete instances of the director's properties run on it.
\<close>

datatype stored = StoredRun test_run | StoredPlan test_plan | StoredEvent event

definition alist_cache :: "((string \<times> 'b) list, 'b) gocache" where
  "alist_cache = \<lparr>CacheNew = [], CacheGet = (\<lambda>k c. map_of (AList.clearjunk c) k), CacheSet = AList.update,
     CacheDelete = AList.delete, CacheItems = AList.clearjunk\<rparr>"

definition run_codec :: "(test_run, stored) codec" where
  "run_codec = \<lparr>Marshal = (\<lambda>x. Inr (StoredRun x)),
     Unmarshal = (\<lambda>b. case b of StoredRun x \<Rightarrow> Inr x | _ \<Rightarrow> Inl (Error ''not a test run''))\<rparr>"

definition plan_codec :: "(test_plan, stored) codec" where
  "plan_codec = \<lparr>Marshal = (\<lambda>x. Inr (StoredPlan x)),
     Unmarshal = (\<lambda>b. case b of StoredPlan x \<Rightarrow> Inr x | _ \<Rightarrow> Inl (Error ''not a test plan''))\<rparr>"

definition event_codec :: "(event, stored) codec" where
  "event_codec = \<lparr>Marshal = (\<lambda>x. Inr (StoredEvent x)),
     Unmarshal = (\<lambda>b. case b of StoredEvent x \<Rightarrow> Inr x | _ \<Rightarrow> Inl (Error ''not an event''))\<rparr>"

lemma alist_cache_ok: "gocache_ok alist_cache"
  by (simp add: gocache_ok_def alist_cache_def wf_gomap_def map_of_clearjunk map_of_update map_of_delete distinct_clearjunk)

lemma codecs_ok: "codec_ok run_codec" "codec_ok plan_codec" "codec_ok event_codec"
  by (simp_all add: codec_ok_def run_codec_def plan_codec_def event_codec_def)

interpretation memory_runs: cache_backend alist_cache run_codec
  by unfold_locales (simp_all add: alist_cache_ok codecs_ok)

interpretation memory_plans: plan_cache alist_cache plan_codec
  by unfold_locales (simp_all add: alist_cache_ok codecs_ok)

interpretation memory_events: cache_backend alist_cache event_codec
  by unfold_locales (simp_all add: alist_cache_ok codecs_ok)

end
