(* ===== verification/Director_Connectors.thy ===== *)
theory Director_Connectors
  imports Models
begin

text \<open>
  \<^verbatim>\<open>test_director/connectors\<close>: the clients of Jira, Slack and XRay.

  The network is the parameter \<open>http_api\<close>: \<open>NewRequest\<close> is \<^verbatim>\<open>http.NewRequest\<close> (it refuses
  some URLs), \<open>HttpDo\<close> is \<^verbatim>\<open>http.Client.Do\<close> with the time limit in seconds, and reading the
  body of a response can fail too. What is read out of a JSON answer comes from
  \<open>DecodeJira\<close> (the Jira issue) and from \<open>GjsonStr\<close> and \<open>GjsonArray\<close> (the third-party
  package \<^verbatim>\<open>gjson\<close>); \<open>RFC3339\<close> prints a time, given in milliseconds.
\<close>

record http_request =
  rq_Method :: string
  rq_URL :: string
  rq_Header :: "(string \<times> string) list"
  rq_Body :: string

record http_response =
  rs_StatusCode :: int
  rs_Body :: "string result"

section \<open>Jira issues\<close>

record jira_task =
  jt_Key :: string
  jt_Id :: "string option"
  jt_AssigneeName :: string
  jt_Name :: "string option"
  jt_IssueType :: "string option"

record 'w http_api =
  NewRequest :: "string \<Rightarrow> string \<Rightarrow> string \<Rightarrow> http_request result"
  HttpDo :: "nat \<Rightarrow> http_request \<Rightarrow> 'w \<Rightarrow> http_response result \<times> 'w"
  HttpSleep :: "nat \<Rightarrow> 'w \<Rightarrow> 'w"
  UnixNow :: "'w \<Rightarrow> int \<times> 'w"
  DecodeJira :: "string \<Rightarrow> jira_task result"
  GjsonStr :: "string \<Rightarrow> string \<Rightarrow> string"
  GjsonArray :: "string \<Rightarrow> string \<Rightarrow> string list"
  RFC3339 :: "int \<Rightarrow> string"
  ApiToken :: string
  ClientId :: string
  ClientSecret :: string

definition add_header :: "string \<Rightarrow> string \<Rightarrow> http_request \<Rightarrow> http_request" where
  "add_header k v rq = rq\<lparr>rq_Header := rq_Header rq @ [(k, v)]\<rparr>"

definition issueURL :: string where
  "issueURL = ''https://mayadata.atlassian.net/rest/api/3/issue/''"

definition GetJiraTaskDetails :: "'w http_api \<Rightarrow> string \<Rightarrow> ('w, jira_task result) io" where
  "GetJiraTaskDetails http key =
     (case NewRequest http ''GET'' (issueURL @ key) '''' of
        Inl err \<Rightarrow> ret (Inl err)
      | Inr req \<Rightarrow>
          let req' = add_header ''Authorization'' (''Basic '' @ ApiToken http)
                (add_header ''Content-Type'' ''application/json'' (add_header ''Accept'' ''application/json'' req))
          in check (call (HttpDo http 30 req')) (\<lambda>err. err) (\<lambda>resp.
             case rs_Body resp of
               Inl err \<Rightarrow> ret (Inl err)
             | Inr bodyBytes \<Rightarrow>
                 if rs_StatusCode resp \<noteq> 200 then ret (Inl (Error bodyBytes))
                 else ret (DecodeJira http bodyBytes)))"

section \<open>JSON text\<close>

text \<open>
  \<^verbatim>\<open>json.Marshal\<close> of a string, for ASCII text: quotes and backslashes are escaped, so are
  control characters and the three characters that matter in HTML.
\<close>

definition hex2 :: "nat \<Rightarrow> string" where
  "hex2 n = [digit_char (n div 16 mod 16), digit_char (n mod 16)]"

definition json_char :: "char \<Rightarrow> string" where
  "json_char c = (let n = of_char c :: nat in
     if c = dquote then [CHR 0x5C, dquote]
     else if n = 0x5C then [CHR 0x5C, CHR 0x5C]
     else if n = 0x0A then [CHR 0x5C, CHR ''n'']
     else if n = 0x0D then [CHR 0x5C, CHR ''r'']
     else if n = 0x09 then [CHR 0x5C, CHR ''t'']
     else if n < 0x20 \<or> n = 0x3C \<or> n = 0x3E \<or> n = 0x26 then CHR 0x5C # ''u00'' @ hex2 n
     else [c])"

definition json_string :: "string \<Rightarrow> string" where
  "json_string t = [dquote] @ concat (map json_char t) @ [dquote]"

text \<open>An object whose values are given as JSON text.\<close>

definition json_object :: "(string \<times> string) list \<Rightarrow> string" where
  "json_object fs = ''{'' @ Join (map (\<lambda>(k, v). json_string k @ '':'' @ v) fs) '','' @ ''}''"

text \<open>A field with \<^verbatim>\<open>omitempty\<close>.\<close>

definition omitempty :: "string \<Rightarrow> string \<Rightarrow> (string \<times> string) list" where
  "omitempty k v = (if v = [] then [] else [(k, json_string v)])"

section \<open>Slack\<close>

record slack_client =
  sc_WebHookUrl :: string
  sc_UserName :: string
  sc_Channel :: string
  sc_TimeOut :: nat

record simple_slack_request =
  sr_Text :: string
  sr_IconEmoji :: string

record slack_job_notification =
  sn_Color :: string
  sn_IconEmoji :: string
  sn_Details :: string
  sn_Text :: string

record attachment =
  at_Color :: string
  at_Text :: string
  at_Ts :: string

record slack_message =
  sm_Username :: string
  sm_IconEmoji :: string
  sm_Channel :: string
  sm_Text :: string
  sm_Attachments :: "attachment list"

definition json_attachment :: "attachment \<Rightarrow> string" where
  "json_attachment a = json_object (omitempty ''color'' (at_Color a) @ omitempty ''text'' (at_Text a)
     @ (if at_Ts a = [] then [] else [(''ts'', at_Ts a)]))"

definition json_slack_message :: "slack_message \<Rightarrow> string" where
  "json_slack_message m = json_object (omitempty ''username'' (sm_Username m) @ omitempty ''icon_emoji'' (sm_IconEmoji m)
     @ omitempty ''channel'' (sm_Channel m) @ omitempty ''text'' (sm_Text m)
     @ (if sm_Attachments m = [] then []
        else [(''attachments'', ''['' @ Join (map json_attachment (sm_Attachments m)) '','' @ '']'')]))"

definition sendHttpRequest :: "'w http_api \<Rightarrow> slack_client \<Rightarrow> slack_message \<Rightarrow> ('w, unit result) io" where
  "sendHttpRequest http sc slackRequest =
     (case NewRequest http ''POST'' (sc_WebHookUrl sc) (json_slack_message slackRequest) of
        Inl err \<Rightarrow> ret (Inl err)
      | Inr req \<Rightarrow>
          let req' = add_header ''Content-Type'' ''application/json'' req;
              timeout = (if sc_TimeOut sc = 0 then 15 else sc_TimeOut sc)
          in check (call (HttpDo http timeout req')) (\<lambda>err. err) (\<lambda>resp.
             case rs_Body resp of
               Inl err \<Rightarrow> ret (Inl err)
             | Inr buf \<Rightarrow> if buf \<noteq> ''ok'' then ret (Inl (Error ''Non-ok response returned from Slack''))
                          else ret (Inr ())))"

definition SendSlackNotification ::
    "'w http_api \<Rightarrow> slack_client \<Rightarrow> simple_slack_request \<Rightarrow> ('w, unit result) io" where
  "SendSlackNotification http sc sr = sendHttpRequest http sc
     \<lparr>sm_Username = sc_UserName sc, sm_IconEmoji = sr_IconEmoji sr, sm_Channel = sc_Channel sc,
      sm_Text = sr_Text sr, sm_Attachments = []\<rparr>"

definition SendJobNotification ::
    "'w http_api \<Rightarrow> slack_client \<Rightarrow> slack_job_notification \<Rightarrow> ('w, unit result) io" where
  "SendJobNotification http sc job =
     seq (call (UnixNow http)) (\<lambda>now.
     let attachment = \<lparr>at_Color = sn_Color job, at_Text = sn_Details job, at_Ts = Itoa now\<rparr>
     in sendHttpRequest http sc
     \<lparr>sm_Username = sc_UserName sc, sm_IconEmoji = sn_IconEmoji job, sm_Channel = sc_Channel sc,
      sm_Text = sn_Text job, sm_Attachments = [attachment]\<rparr>)"

definition funcName :: "'w http_api \<Rightarrow> slack_client \<Rightarrow> string \<Rightarrow> string \<Rightarrow> string list \<Rightarrow> ('w, unit result) io" where
  "funcName http sc color message options =
     (let emoji = (case options of [] \<Rightarrow> '':hammer_and_wrench'' | x # _ \<Rightarrow> x)
      in SendJobNotification http sc
        \<lparr>sn_Color = color, sn_IconEmoji = emoji, sn_Details = message, sn_Text = ''''\<rparr>)"

definition SendError :: "'w http_api \<Rightarrow> slack_client \<Rightarrow> string \<Rightarrow> string list \<Rightarrow> ('w, unit result) io" where
  "SendError http sc message options = funcName http sc ''danger'' message options"

definition SendInfo :: "'w http_api \<Rightarrow> slack_client \<Rightarrow> string \<Rightarrow> string list \<Rightarrow> ('w, unit result) io" where
  "SendInfo http sc message options = funcName http sc ''good'' message options"

definition SendWarning :: "'w http_api \<Rightarrow> slack_client \<Rightarrow> string \<Rightarrow> string list \<Rightarrow> ('w, unit result) io" where
  "SendWarning http sc message options = funcName http sc ''warning'' message options"

section \<open>XRay\<close>

definition authUrl :: string where
  "authUrl = ''https://xray.cloud.getxray.app/api/v2/authenticate''"

definition graphqlUrl :: string where
  "graphqlUrl = ''https://xray.cloud.getxray.app/api/v2/graphql''"

text \<open>
  The token is the answer without its first and last character; an answer of fewer than two
  characters makes the slice expression panic.
\<close>

definition authorize :: "'w http_api \<Rightarrow> ('w, string option) io" where
  "authorize http =
     (let b = json_object [(''client_id'', json_string (ClientId http)), (''client_secret'', json_string (ClientSecret http))]
      in case NewRequest http ''POST'' authUrl b of
        Inl err \<Rightarrow> ret None
      | Inr req \<Rightarrow>
          seq (call (HttpDo http 15 (add_header ''Content-Type'' ''application/json'' req))) (\<lambda>r. case r of
            Inl err \<Rightarrow> ret None
          | Inr resp \<Rightarrow> (case rs_Body resp of
                Inl err \<Rightarrow> ret None
              | Inr s \<Rightarrow>
                  if rs_StatusCode resp \<noteq> 200 then ret None
                  else if length s < 2 then panic ''slice bounds out of range''
                  else ret (Some (butlast (tl s))))))"

text \<open>
  \<^verbatim>\<open>sendRequest\<close> returns text and an error that may be nil. It calls \<open>authorize\<close> twice and
  checks only the first answer; \<^verbatim>\<open>defer response.Body.Close()\<close> comes before the error of
  \<^verbatim>\<open>client.Do\<close> is looked at, and a failed \<^verbatim>\<open>Do\<close> has no response.
\<close>

definition sendRequest :: "'w http_api \<Rightarrow> string \<Rightarrow> ('w, string \<times> error option) io" where
  "sendRequest http s =
     (case NewRequest http ''POST'' graphqlUrl (json_object [(''query'', json_string s)]) of
        Inl err \<Rightarrow> ret ('''', Some err)
      | Inr request \<Rightarrow>
          seq (authorize http) (\<lambda>auth_ptr. case auth_ptr of
            None \<Rightarrow> ret ('''', Some (Error ''authorization failed''))
          | Some _ \<Rightarrow>
              seq (authorize http) (\<lambda>token.
              seq (deref token) (\<lambda>t.
              let request' = add_header ''Content-Type'' ''application/json''
                    (add_header ''Authorization'' (''Bearer '' @ t) request)
              in seq (call (HttpDo http 10 request')) (\<lambda>r. case r of
                Inl err \<Rightarrow> panic ''nil pointer dereference''
              | Inr response \<Rightarrow> (case rs_Body response of
                    Inl err \<Rightarrow> ret ('''', Some err)
                  | Inr data \<Rightarrow> if 300 \<le> rs_StatusCode response then ret ('''', None)
                               else ret (data, None)))))))"

text \<open>\<^verbatim>\<open>for response == "" && r > 0\<close>: \<open>r\<close> is the number of attempts left.\<close>

fun xray_attempts :: "'w http_api \<Rightarrow> string \<Rightarrow> nat \<Rightarrow> string \<Rightarrow> error option \<Rightarrow> ('w, string \<times> error option) io" where
  "xray_attempts http query r response err =
     (if response = '''' \<and> 0 < r then
        seq (sendRequest http query) (\<lambda>(response', err').
        seq (modifies (HttpSleep http (5 div r))) (\<lambda>_.
        xray_attempts http query (r - 1) response' err'))
      else ret (response, err))"

declare xray_attempts.simps [simp del]

definition sendXrayQuery :: "'w http_api \<Rightarrow> string \<Rightarrow> ('w, string \<times> error option) io" where
  "sendXrayQuery http query = xray_attempts http query 5 '''' None"

text \<open>The queries: text with the arguments between double quotes, as they are.\<close>

definition quoted :: "string \<Rightarrow> string" where
  "quoted t = [dquote] @ t @ [dquote]"

definition addTestExecutionToTestPlan :: "'w http_api \<Rightarrow> string \<Rightarrow> string \<Rightarrow> ('w, error option) io" where
  "addTestExecutionToTestPlan http testPlanId testExecutionId =
     seq (sendXrayQuery http (''mutation{addTestExecutionsToTestPlan(issueId: '' @ quoted testPlanId
          @ '', testExecIssueIds: ['' @ quoted testExecutionId @ '']) {addedTestExecutions warning}}''))
     (\<lambda>(_, err). ret err)"

definition CreateTestExecution :: "'w http_api \<Rightarrow> string \<Rightarrow> string \<Rightarrow> string \<Rightarrow> ('w, string \<times> error option) io" where
  "CreateTestExecution http testPlanId testId testJiraKey =
     seq (sendXrayQuery http (''mutation{createTestExecution(testIssueIds:['' @ quoted testId
          @ ''] jira: {fields: {summary: '' @ quoted (''Test Execution for '' @ testJiraKey)
          @ '', project: {key: '' @ quoted (first_field testJiraKey CHR ''-'')
          @ ''}}}) {testExecution {issueId jira(fields: ['' @ quoted ''key''
          @ ''])} warnings createdTestEnvironments}}''))
     (\<lambda>(json, err). case err of
        Some e \<Rightarrow> ret ('''', Some e)
      | None \<Rightarrow>
          let testExecId = GjsonStr http json ''data.createTestExecution.testExecution.issueId''
          in seq (addTestExecutionToTestPlan http testPlanId testExecId) (\<lambda>err. ret (testExecId, err)))"

definition DeleteTestExecution :: "'w http_api \<Rightarrow> test_run \<Rightarrow> ('w, error option) io" where
  "DeleteTestExecution http run =
     seq (sendXrayQuery http (''mutation{deleteTestExecution(issueId: '' @ quoted (trs_TestExecIssueID (tr_Spec run)) @ '')}''))
     (\<lambda>(_, err). ret err)"

definition GetTestPlan :: "'w http_api \<Rightarrow> string \<Rightarrow> ('w, test list result) io" where
  "GetTestPlan http testPlanId =
     seq (sendXrayQuery http (''{getTestPlan(issueId: '' @ quoted testPlanId @ '') {tests(limit: 50) {results {issueId}}}}''))
     (\<lambda>(json, err). case err of
        Some e \<Rightarrow> ret (Inl e)
      | None \<Rightarrow>
          if json = '''' then ret (Inl (Error ''unable to fetch xray data''))
          else ret (Inr (map (\<lambda>i. \<lparr>test_IssueID = Some i\<rparr>) (GjsonArray http json ''data.getTestPlan.tests.results.#.issueId''))))"

definition getTestRun :: "'w http_api \<Rightarrow> string \<Rightarrow> string \<Rightarrow> ('w, string \<times> error option) io" where
  "getTestRun http testId testExecutionId =
     seq (sendXrayQuery http (''{getTestRun( testIssueId: '' @ quoted testId @ '', testExecIssueId: '' @ quoted testExecutionId
          @ '') {id status {name color description}}}''))
     (\<lambda>(json, err). case err of
        Some e \<Rightarrow> ret ('''', Some e)
      | None \<Rightarrow> ret (GjsonStr http json ''data.getTestRun.id'', None))"

definition getRFC3339Format :: "'w http_api \<Rightarrow> datetime \<Rightarrow> string" where
  "getRFC3339Format http t = (case t of None \<Rightarrow> '''' | Some ms \<Rightarrow> RFC3339 http ms)"

definition status_query :: "string \<Rightarrow> test_run \<Rightarrow> string" where
  "status_query testRunId testRun =
     ''mutation{updateTestRunStatus( id: '' @ quoted testRunId
       @ '', status: '' @ quoted (test_run_status_text (tr_Status testRun)) @ '')}''"

definition comment_query :: "'w http_api \<Rightarrow> string \<Rightarrow> test_run \<Rightarrow> string" where
  "comment_query http testRunId testRun =
     ''mutation{updateTestRun( id: '' @ quoted testRunId @ '', comment: '' @ quoted (tr_Data testRun)
       @ '', startedOn: '' @ quoted (getRFC3339Format http (tr_StartDateTime testRun))
       @ '', finishedOn: '' @ quoted (getRFC3339Format http (tr_EndDateTime testRun)) @ '') {warnings}}''"

definition xray_UpdateTestRun :: "'w http_api \<Rightarrow> test_run \<Rightarrow> ('w, error option) io" where
  "xray_UpdateTestRun http testRun =
     seq (getTestRun http (trs_TestID (tr_Spec testRun)) (trs_TestExecIssueID (tr_Spec testRun))) (\<lambda>(testRunId, err).
     case err of
       Some e \<Rightarrow> ret (Some e)
     | None \<Rightarrow>
         seq (sendXrayQuery http (status_query testRunId testRun)) (\<lambda>(_, err). case err of
           Some e \<Rightarrow> ret (Some e)
         | None \<Rightarrow> seq (sendXrayQuery http (comment_query http testRunId testRun)) (\<lambda>(_, err). ret err)))"

section \<open>How the queries end\<close>

lemma quotes_quoted: "dquote \<notin> set t \<Longrightarrow> count_list (quoted t) dquote = 2"
  by (simp add: quoted_def)

text \<open>A query is well delimited when the quotes around its four arguments are the only ones in it.\<close>

lemma comment_query_quotes:
  assumes "dquote \<notin> set i" and "dquote \<notin> set (tr_Data run)" and "\<And>t. dquote \<notin> set (RFC3339 http t)"
  shows "count_list (comment_query http i run) dquote = 8"
proof -
  have t: "dquote \<notin> set (getRFC3339Format http t)" for t
    using assms(3) by (simp add: getRFC3339Format_def split: option.split)
  show ?thesis
    unfolding comment_query_def count_list_append quotes_quoted [OF assms(1)] quotes_quoted [OF assms(2)]
      quotes_quoted [OF t]
    by (simp add: dquote_def)
qed

lemma yields_modifies [posts]: "Q () \<Longrightarrow> yields Q (modifies f)"
  by (simp add: yields_def)

text \<open>An attempt that brings text is the last one.\<close>

lemma xray_attempts_found: "t \<noteq> '''' \<Longrightarrow> xray_attempts http q r t e = ret (t, e)"
  by (simp add: xray_attempts.simps)

lemma xray_attempts_Suc:
  "xray_attempts http q (Suc r) '''' e = seq (sendRequest http q) (\<lambda>(t, e').
     seq (modifies (HttpSleep http (5 div Suc r))) (\<lambda>_. xray_attempts http q r t e'))"
  by (subst xray_attempts.simps) simp

lemma xray_attempts_0: "xray_attempts http q 0 t e = ret (t, e)"
  by (simp add: xray_attempts.simps)

lemma sendXrayQuery_found:
  assumes "sendRequest http q w = (Done (t, e), w')" and "t \<noteq> ''''"
  shows "sendXrayQuery http q w = (Done (t, e), HttpSleep http 1 w')"
proof -
  have "sendXrayQuery http q = xray_attempts http q (Suc 4) '''' None"
    by (simp add: sendXrayQuery_def)
  with assms show ?thesis
    by (simp only: xray_attempts_Suc) (simp add: seq_apply xray_attempts_found)
qed

text \<open>XRay that answers every query with the same error, or with no text.\<close>

definition xray_silent :: "'w http_api \<Rightarrow> error option \<Rightarrow> bool" where
  "xray_silent http e \<longleftrightarrow> (\<forall>q w. \<exists>w'. sendRequest http q w = (Done ('''', e), w'))"

lemma xray_attempts_silent:
  assumes "xray_silent http e"
  shows "\<exists>w'. xray_attempts http q r '''' (if r = 0 then e else e0) w = (Done ('''', e), w')"
proof (induction r arbitrary: e0 w)
  case 0
  then show ?case by (simp add: xray_attempts_0)
next
  case (Suc r)
  obtain w1 where "sendRequest http q w = (Done ('''', e), w1)"
    using assms unfolding xray_silent_def by blast
  moreover obtain w2 where "xray_attempts http q r '''' e (HttpSleep http (5 div Suc r) w1) = (Done ('''', e), w2)"
    using Suc.IH [of e] by auto
  ultimately show ?case by (simp add: xray_attempts_Suc seq_apply)
qed

lemma sendXrayQuery_silent:
  "xray_silent http e \<Longrightarrow> \<exists>w'. sendXrayQuery http q w = (Done ('''', e), w')"
  using xray_attempts_silent [of http e q 5 None w] by (simp add: sendXrayQuery_def)

lemma getTestRun_silent:
  assumes "xray_silent http e"
  shows "\<exists>i w'. getTestRun http a b w = (Done (i, e), w')"
proof -
  obtain w' where "sendXrayQuery http (''{getTestRun( testIssueId: '' @ quoted a @ '', testExecIssueId: '' @ quoted b
      @ '') {id status {name color description}}}'') w = (Done ('''', e), w')"
    using sendXrayQuery_silent [OF assms] by blast
  then show ?thesis by (simp add: getTestRun_def seq_apply split: option.split)
qed

lemma xray_UpdateTestRun_silent:
  assumes "xray_silent http e"
  shows "\<exists>w'. xray_UpdateTestRun http run w = (Done e, w')"
proof -
  note s = sendXrayQuery_silent [OF assms]
  obtain i w1 where 1: "getTestRun http (trs_TestID (tr_Spec run)) (trs_TestExecIssueID (tr_Spec run)) w = (Done (i, e), w1)"
    using getTestRun_silent [OF assms] by blast
  obtain w2 where 2: "sendXrayQuery http (status_query i run) w1 = (Done ('''', e), w2)"
    using s by blast
  obtain w3 where 3: "sendXrayQuery http (comment_query http i run) w2 = (Done ('''', e), w3)"
    using s by blast
  from 1 2 3 show ?thesis
    by (cases e) (simp_all add: xray_UpdateTestRun_def seq_apply)
qed

end
