(* ===== verification/Director_Handlers.thy ===== *)
theory Director_Handlers
  imports Director_Caches Director_Connectors
begin

text \<open>
  \<^verbatim>\<open>test_director/handlers\<close>: the REST handlers of the test director, and what they do to its
  stores. The state (\<open>director\<close>) has the three caches and the world outside; the parameter
  \<open>env\<close> bundles the cache package, the JSON code of the three types of record, the network,
  the clock, the source of random ids, and the server's configuration.

  Request bodies have been validated by the generated code before a handler runs; where a
  handler reads through a pointer all the same, so does the model.
\<close>

record ('c, 'w) director =
  planClient :: 'c
  runClient :: 'c
  eventClient :: 'c
  net :: 'w

record ('c, 'b, 'w) env =
  cache :: "('c, 'b) gocache"
  plan_json :: "(test_plan, 'b) codec"
  run_json :: "(test_run, 'b) codec"
  event_json :: "(event, 'b) codec"
  http :: "'w http_api"
  TimeNow :: "'w \<Rightarrow> int \<times> 'w"
  NewUUID :: "'w \<Rightarrow> uuid \<times> 'w"
  slackWebHook :: string
  cfg_SlackNotification :: bool
  cfg_DefaultTestPlan :: string

definition on_plans :: "('c, 'a) io \<Rightarrow> (('c, 'w) director, 'a) io" where
  "on_plans = zoom planClient (\<lambda>c. planClient_update (\<lambda>_. c))"

definition on_runs :: "('c, 'a) io \<Rightarrow> (('c, 'w) director, 'a) io" where
  "on_runs = zoom runClient (\<lambda>c. runClient_update (\<lambda>_. c))"

definition on_events :: "('c, 'a) io \<Rightarrow> (('c, 'w) director, 'a) io" where
  "on_events = zoom eventClient (\<lambda>c. eventClient_update (\<lambda>_. c))"

definition on_net :: "('w, 'a) io \<Rightarrow> (('c, 'w) director, 'a) io" where
  "on_net = zoom net (\<lambda>w. net_update (\<lambda>_. w))"

text \<open>The methods of \<^verbatim>\<open>planInterface\<close> and \<^verbatim>\<open>runInterface\<close>, on the director's state.\<close>

definition plan_Get :: "('c, 'b, 'w) env \<Rightarrow> jira_key \<Rightarrow> (('c, 'w) director, test_plan option) io" where
  "plan_Get E key = on_plans (gets (TestPlanCache_Get (cache E) (plan_json E) key))"

definition plan_GetAll :: "('c, 'b, 'w) env \<Rightarrow> (('c, 'w) director, test_plan list option) io" where
  "plan_GetAll E = on_plans (gets (TestPlanCache_GetAll (cache E) (plan_json E)))"

definition plan_GetActive :: "('c, 'b, 'w) env \<Rightarrow> (('c, 'w) director, test_plan option) io" where
  "plan_GetActive E = on_plans (TestPlanCache_GetActive (cache E) (plan_json E))"

definition plan_Set :: "('c, 'b, 'w) env \<Rightarrow> jira_key \<Rightarrow> test_plan \<Rightarrow> (('c, 'w) director, unit result) io" where
  "plan_Set E key plan = on_plans (call (TestPlanCache_Set (cache E) (plan_json E) key plan))"

definition run_Get :: "('c, 'b, 'w) env \<Rightarrow> string \<Rightarrow> (('c, 'w) director, test_run option) io" where
  "run_Get E key = on_runs (gets (TestRunCache_Get (cache E) (run_json E) key))"

definition run_Set :: "('c, 'b, 'w) env \<Rightarrow> string \<Rightarrow> test_run \<Rightarrow> (('c, 'w) director, unit result) io" where
  "run_Set E key data = on_runs (call (TestRunCache_Set (cache E) (run_json E) key data))"

section \<open>Test plans\<close>

definition GetTestPlans_Handle :: "('c, 'b, 'w) env \<Rightarrow> (('c, 'w) director, test_plan list response) io" where
  "GetTestPlans_Handle E = seq (plan_GetAll E) (\<lambda>plans. case plans of
     None \<Rightarrow> ret RespNotFound | Some ps \<Rightarrow> ret (RespOK ps))"

definition GetTestPlanByID_Handle :: "('c, 'b, 'w) env \<Rightarrow> string \<Rightarrow> (('c, 'w) director, test_plan response) io" where
  "GetTestPlanByID_Handle E ident = seq (plan_Get E ident) (\<lambda>plan. case plan of
     None \<Rightarrow> ret RespNotFound | Some p \<Rightarrow> ret (RespOK p))"

definition DeleteTestPlanByID_Handle :: "('c, 'b, 'w) env \<Rightarrow> string \<Rightarrow> (('c, 'w) director, unit response) io" where
  "DeleteTestPlanByID_Handle E ident =
     seq (on_plans (call (TestPlanCache_Delete (cache E) (plan_json E) ident))) (\<lambda>r. case r of
       Inl err \<Rightarrow> ret RespNotFound | Inr _ \<Rightarrow> ret (RespOK ()))"

definition DeleteTestPlans_Handle :: "('c, 'b, 'w) env \<Rightarrow> (('c, 'w) director, request_outcome response) io" where
  "DeleteTestPlans_Handle E =
     seq (on_plans (TestPlanCache_DeleteAll (cache E) (plan_json E))) (\<lambda>ro. ret (RespOK ro))"

text \<open>\<^verbatim>\<open>testPlanBadRequest\<close> calls \<^verbatim>\<open>err.Error()\<close>: it panics when the error is nil.\<close>

definition testPlanBadRequest :: "error option \<Rightarrow> ('s, 'a response) io" where
  "testPlanBadRequest err = seq (deref err) (\<lambda>e. ret (BadRequest (refused (err_text e))))"

text \<open>The status that a known plan moves to.\<close>

definition plan_transition :: "test_plan_spec \<Rightarrow> test_plan \<Rightarrow> ('s, test_plan) io" where
  "plan_transition tps plan =
     seq (deref (tp_Status plan)) (\<lambda>st.
     if st = PlanNOTSTARTED then
       seq (deref (tps_Status tps)) (\<lambda>new.
       if new = PlanRUNNING then ret (set_IsActive True (set_PlanStatus (tps_Status tps) plan))
       else ret plan)
     else if st = PlanRUNNING then
       seq (deref (tps_Status tps)) (\<lambda>new.
       if new = PlanCOMPLETEFAIL \<or> new = PlanCOMPLETEPASS
       then ret (set_IsActive True (set_PlanStatus (tps_Status tps) plan))
       else ret plan)
     else ret plan)"

text \<open>A plan that is not known yet is looked up in Jira.\<close>

definition new_plan :: "('c, 'b, 'w) env \<Rightarrow> string \<Rightarrow> test_plan_spec \<Rightarrow> (('c, 'w) director, error option + test_plan) io" where
  "new_plan E ident tps =
     seq (on_net (GetJiraTaskDetails (http E) ident)) (\<lambda>r. case r of
       Inl err \<Rightarrow> ret (Inl (Some err))
     | Inr jt \<Rightarrow>
         seq (deref (jt_IssueType jt)) (\<lambda>issue_type.
         if issue_type \<noteq> ''Test Plan'' then ret (Inl None)
         else
           seq (deref (jt_Id jt)) (\<lambda>jira_id.
           seq (deref (jt_Name jt)) (\<lambda>name.
           ret (Inr \<lparr>tp_Spec = \<lparr>tps_Assignee = jt_AssigneeName jt, tps_JiraID = jira_id, tps_Name = name,
                                tps_Status = tps_Status tps, tps_Tests = []\<rparr>,
                     tp_IsActive = Some True, tp_Key = ident\<rparr>)))))"

definition deactivate :: "('c, 'b, 'w) env \<Rightarrow> test_plan \<Rightarrow> unit \<Rightarrow> (('c, 'w) director, (unit, unit) ctl) io" where
  "deactivate E item u =
     seq (plan_Set E (tp_Key item) (set_IsActive False item)) (\<lambda>_. ret (Continue ()))"

definition deactivate_all :: "('c, 'b, 'w) env \<Rightarrow> (('c, 'w) director, unit) io" where
  "deactivate_all E =
     seq (plan_GetAll E) (\<lambda>items.
     seq (for_in (case items of None \<Rightarrow> [] | Some ps \<Rightarrow> ps) () (deactivate E))
     (\<lambda>c. case c of Inl u \<Rightarrow> ret u | Inr u \<Rightarrow> ret u))"

definition store_plan :: "('c, 'b, 'w) env \<Rightarrow> string \<Rightarrow> test_plan \<Rightarrow> (('c, 'w) director, test_plan response) io" where
  "store_plan E ident plan =
     seq (deref (tp_IsActive plan)) (\<lambda>active.
     seq (if active then deactivate_all E else ret ()) (\<lambda>_.
     seq (plan_Set E ident plan) (\<lambda>r. case r of
       Inl err \<Rightarrow> testPlanBadRequest (Some err)
     | Inr _ \<Rightarrow> ret (RespOK plan))))"

definition PutTestPlan_Handle ::
    "('c, 'b, 'w) env \<Rightarrow> string \<Rightarrow> test_plan_spec \<Rightarrow> (('c, 'w) director, test_plan response) io" where
  "PutTestPlan_Handle E ident tps =
     seq (plan_Get E ident) (\<lambda>plan. case plan of
       Some p \<Rightarrow> seq (plan_transition tps p) (store_plan E ident)
     | None \<Rightarrow> seq (new_plan E ident tps) (\<lambda>r. case r of
           Inl err \<Rightarrow> testPlanBadRequest err
         | Inr p \<Rightarrow> store_plan E ident p))"

definition InitTestPlanCache :: "('c, 'b, 'w) env \<Rightarrow> (('c, 'w) director, unit) io" where
  "InitTestPlanCache E =
     seq (modifies (planClient_update (\<lambda>_. CacheNew (cache E)))) (\<lambda>_.
     seq (on_net (GetJiraTaskDetails (http E) (cfg_DefaultTestPlan E))) (\<lambda>r. case r of
       Inl err \<Rightarrow> ret ()
     | Inr jt \<Rightarrow>
         seq (deref (jt_Id jt)) (\<lambda>jira_id.
         seq (on_net (GetTestPlan (http E) jira_id)) (\<lambda>t. case t of
           Inl err \<Rightarrow> ret ()
         | Inr tests \<Rightarrow>
             seq (deref (jt_Name jt)) (\<lambda>name.
             seq (plan_Set E (cfg_DefaultTestPlan E)
               \<lparr>tp_Spec = \<lparr>tps_Assignee = jt_AssigneeName jt, tps_JiraID = jira_id, tps_Name = name,
                          tps_Status = Some PlanNOTSTARTED, tps_Tests = tests\<rparr>,
                tp_IsActive = Some True, tp_Key = cfg_DefaultTestPlan E\<rparr>) (\<lambda>_. ret ()))))))"

section \<open>Test runs\<close>

definition InitTestRunCache :: "('c, 'b, 'w) env \<Rightarrow> (('c, 'w) director, unit) io" where
  "InitTestRunCache E = modifies (runClient_update (\<lambda>_. CacheNew (cache E)))"

definition GetTestRuns_Handle :: "('c, 'b, 'w) env \<Rightarrow> (('c, 'w) director, test_run list response) io" where
  "GetTestRuns_Handle E = seq (on_runs (gets (TestRunCache_GetAll (cache E) (run_json E)))) (\<lambda>runs. case runs of
     None \<Rightarrow> ret RespNotFound | Some rs \<Rightarrow> ret (RespOK rs))"

definition GetTestRunByID_Handle :: "('c, 'b, 'w) env \<Rightarrow> string \<Rightarrow> (('c, 'w) director, test_run response) io" where
  "GetTestRunByID_Handle E ident = seq (run_Get E ident) (\<lambda>run. case run of
     None \<Rightarrow> ret RespNotFound | Some r \<Rightarrow> ret (RespOK r))"

definition DeleteTestRunByID_Handle :: "('c, 'b, 'w) env \<Rightarrow> string \<Rightarrow> (('c, 'w) director, unit response) io" where
  "DeleteTestRunByID_Handle E ident =
     seq (on_runs (call (TestRunCache_Delete (cache E) (run_json E) ident))) (\<lambda>r. case r of
       Inl err \<Rightarrow> ret RespNotFound | Inr _ \<Rightarrow> ret (RespOK ()))"

definition badRequestResponse :: "error \<Rightarrow> ('s, 'a response) io" where
  "badRequestResponse err = ret (BadRequest (refused (err_text err)))"

fun contains :: "test list \<Rightarrow> string option \<Rightarrow> ('s, bool) io" where
  "contains [] testId = ret False"
| "contains (t # tests) testId =
     seq (deref (test_IssueID t)) (\<lambda>i.
     seq (deref testId) (\<lambda>k.
     if i = k then ret True else contains tests testId))"

text \<open>
  The plan that \<^verbatim>\<open>UpdateTestRun\<close> completes is the one stored under the key of the test. The
  result is an error that may be nil.
\<close>

definition UpdateTestRun :: "('c, 'b, 'w) env \<Rightarrow> test_run \<Rightarrow> (('c, 'w) director, error option) io" where
  "UpdateTestRun E testRun =
     seq (on_net (xray_UpdateTestRun (http E) testRun)) (\<lambda>err. case err of
       Some e \<Rightarrow> ret (Some e)
     | None \<Rightarrow>
         seq (deref (trs_TestKey (tr_Spec testRun))) (\<lambda>key.
         seq (plan_Get E key) (\<lambda>tp. case tp of
           None \<Rightarrow> ret None
         | Some p \<Rightarrow>
             seq (if tr_Status testRun = TestRunPASSED
                  then seq (deref (tp_Status p)) (\<lambda>st. ret (st \<noteq> PlanCOMPLETEFAIL))
                  else ret False) (\<lambda>pass.
             seq (deref (tp_Status p)) (\<lambda>_.
             let p' = set_PlanStatus (Some (if pass then PlanCOMPLETEPASS else PlanCOMPLETEFAIL)) p
             in seq (plan_Set E (tp_Key p') p') (\<lambda>_. ret None))))))"

definition append_data :: "string \<Rightarrow> test_run \<Rightarrow> test_run" where
  "append_data d testRun = set_Data ((if tr_Data testRun \<noteq> '''' then tr_Data testRun @ '': '' else tr_Data testRun) @ d) testRun"

text \<open>The active plan, if it has the test, becomes a running plan.\<close>

definition mark_plan_running :: "('c, 'b, 'w) env \<Rightarrow> string \<Rightarrow> (('c, 'w) director, error option) io" where
  "mark_plan_running E test_id =
     seq (plan_GetActive E) (\<lambda>tp. case tp of
       None \<Rightarrow> ret (Some (Error ''there is no active test plan belongs to test run''))
     | Some p \<Rightarrow>
         seq (contains (tps_Tests (tp_Spec p)) (Some test_id)) (\<lambda>found.
         if \<not> found then ret (Some (Error ''there is no active test plan belongs to test run''))
         else
           seq (deref (tp_Status p)) (\<lambda>_.
           seq (plan_Set E (tp_Key p) (set_PlanStatus (Some PlanRUNNING) p)) (\<lambda>_. ret None))))"

text \<open>The update of a known run: the run to store, or the error to answer with.\<close>

definition start_run :: "('c, 'b, 'w) env \<Rightarrow> test_run \<Rightarrow> (('c, 'w) director, test_run result) io" where
  "start_run E run' =
     seq (on_net (xray_UpdateTestRun (http E) run')) (\<lambda>err. case err of
       Some e \<Rightarrow> ret (Inl e)
     | None \<Rightarrow>
         seq (mark_plan_running E (trs_TestID (tr_Spec run'))) (\<lambda>err. case err of
           Some e \<Rightarrow> ret (Inl e)
         | None \<Rightarrow> ret (Inr run')))"

definition end_run :: "('c, 'b, 'w) env \<Rightarrow> test_run \<Rightarrow> (('c, 'w) director, test_run result) io" where
  "end_run E run' =
     seq (UpdateTestRun E run') (\<lambda>err. case err of Some e \<Rightarrow> ret (Inl e) | None \<Rightarrow> ret (Inr run'))"

definition run_transition ::
    "('c, 'b, 'w) env \<Rightarrow> test_run_spec \<Rightarrow> test_run \<Rightarrow> (('c, 'w) director, test_run result) io" where
  "run_transition E spec run =
     (if tr_Status run = TestRunTODO \<and> trs_Status spec = TestRunEXECUTING then
        seq (on_net (call (TimeNow E))) (\<lambda>now.
        start_run E (set_Status (trs_Status spec) (set_Data (trs_Data spec) (run\<lparr>tr_StartDateTime := Some now\<rparr>))))
      else if tr_Status run \<noteq> TestRunTODO \<and> trs_Status spec = TestRunFAILED then
        seq (on_net (call (TimeNow E))) (\<lambda>now.
        end_run E (set_Status (trs_Status spec) (append_data (trs_Data spec) (run\<lparr>tr_EndDateTime := Some now\<rparr>))))
      else if tr_Status run \<noteq> TestRunTODO \<and> trs_Status spec = TestRunPASSED then
        seq (on_net (call (TimeNow E))) (\<lambda>now.
        end_run E (set_Status (trs_Status spec) (set_Data (trs_Data spec) (run\<lparr>tr_EndDateTime := Some now\<rparr>))))
      else ret (Inr run))"

text \<open>A run that is not known yet: a test execution is created in XRay for a test of the active plan.\<close>

definition new_run :: "('c, 'b, 'w) env \<Rightarrow> test_run_spec \<Rightarrow> (('c, 'w) director, test_run result) io" where
  "new_run E spec =
     seq (deref (trs_TestKey spec)) (\<lambda>key.
     seq (on_net (GetJiraTaskDetails (http E) key)) (\<lambda>r. case r of
       Inl err \<Rightarrow> ret (Inl err)
     | Inr jt \<Rightarrow>
         seq (deref (jt_IssueType jt)) (\<lambda>issue_type.
         if issue_type \<noteq> ''Test'' then ret (Inl (Error (''test doesn'' @ [squote] @ ''t have issueType '' @ [squote] @ ''Test'' @ [squote])))
         else
           seq (plan_GetActive E) (\<lambda>tp. case tp of
             None \<Rightarrow> ret (Inl (Error ''there is no active test plan''))
           | Some p \<Rightarrow>
               seq (contains (tps_Tests (tp_Spec p)) (jt_Id jt)) (\<lambda>found.
               if \<not> found then ret (Inl (Error (''test doesn'' @ [squote] @ ''t belong to active test plan'')))
               else
                 seq (deref (jt_Id jt)) (\<lambda>test_id.
                 seq (on_net (CreateTestExecution (http E) (tps_JiraID (tp_Spec p)) test_id (jt_Key jt))) (\<lambda>(exec_id, err).
                 case err of
                   Some e \<Rightarrow> ret (Inl e)
                 | None \<Rightarrow> ret (Inr \<lparr>tr_EndDateTime = None, tr_ID = exec_id, tr_StartDateTime = None,
                      tr_Spec = \<lparr>trs_Data = trs_Data spec, trs_Status = TestRunTODO, trs_TestExecIssueID = exec_id,
                                 trs_TestID = test_id, trs_TestKey = trs_TestKey spec\<rparr>\<rparr>))))))))"

definition PutTestRun_Handle ::
    "('c, 'b, 'w) env \<Rightarrow> string \<Rightarrow> test_run_spec \<Rightarrow> (('c, 'w) director, test_run response) io" where
  "PutTestRun_Handle E ident spec =
     seq (run_Get E ident) (\<lambda>testRun.
     seq (case testRun of Some run \<Rightarrow> run_transition E spec run | None \<Rightarrow> new_run E spec) (\<lambda>r. case r of
       Inl err \<Rightarrow> badRequestResponse err
     | Inr run' \<Rightarrow>
         seq (run_Set E ident run') (\<lambda>s. case s of
           Inl err \<Rightarrow> badRequestResponse err
         | Inr _ \<Rightarrow> ret (RespOK run'))))"

section \<open>Events\<close>

definition InitEventCache :: "('c, 'b, 'w) env \<Rightarrow> (('c, 'w) director, unit) io" where
  "InitEventCache E = modifies (eventClient_update (\<lambda>_. CacheNew (cache E)))"

definition GetEvents_Handle :: "('c, 'b, 'w) env \<Rightarrow> (('c, 'w) director, event list response) io" where
  "GetEvents_Handle E = seq (on_events (gets (EventCache_GetAll (cache E) (event_json E)))) (\<lambda>events. case events of
     None \<Rightarrow> ret RespNotFound | Some es \<Rightarrow> ret (RespOK es))"

definition event_text :: "string \<Rightarrow> string list \<Rightarrow> string" where
  "event_text message data = message @ '' '' @ Join data '', ''"

definition sendSlackNotification :: "('c, 'b, 'w) env \<Rightarrow> event_spec \<Rightarrow> (('c, 'w) director, unit) io" where
  "sendSlackNotification E data =
     seq (deref (es_SourceClass data)) (\<lambda>source_class.
     let sc = \<lparr>sc_WebHookUrl = slackWebHook E, sc_UserName = event_source_class_text source_class,
               sc_Channel = ''#test_director'', sc_TimeOut = 10\<rparr> in
     seq (deref (es_Message data)) (\<lambda>message.
     seq (deref (es_Class data)) (\<lambda>cls.
     seq (deref (es_SourceInstance data)) (\<lambda>inst.
     let sn = \<lparr>sn_Color = (case cls of EventFAIL \<Rightarrow> ''danger'' | EventWARN \<Rightarrow> ''warning'' | EventINFO \<Rightarrow> ''good''),
               sn_IconEmoji = '':ghost:'', sn_Details = event_text message (es_Data data),
               sn_Text = event_class_text cls @ '' - TestRun ID: '' @ inst\<rparr> in
     seq (on_net (SendJobNotification (http E) sc sn)) (\<lambda>_. ret ())))))"

text \<open>
  \<^verbatim>\<open>EventCache.Set\<close>. The text of an event that is not just information is added to the data of
  the run it is about, and the run is stored; then a failure (unless the log monitor found
  it) sets the status of the run at hand and passes that run to \<open>UpdateTestRun\<close>.
\<close>

definition add_to_run :: "('c, 'b, 'w) env \<Rightarrow> event_spec \<Rightarrow> (('c, 'w) director, test_run result) io" where
  "add_to_run E spec =
     seq (deref (es_SourceInstance spec)) (\<lambda>inst.
     seq (run_Get E inst) (\<lambda>tr.
     seq (deref tr) (\<lambda>run.
     seq (deref (es_Message spec)) (\<lambda>message.
     let run' = append_data (event_text message (es_Data spec)) run in
     seq (run_Set E inst run') (\<lambda>r. case r of Inl err \<Rightarrow> ret (Inl err) | Inr _ \<Rightarrow> ret (Inr run'))))))"

definition fails_run :: "event_class \<Rightarrow> event_spec \<Rightarrow> ('s, bool) io" where
  "fails_run cls spec =
     (if cls = EventFAIL then seq (deref (es_SourceClass spec)) (\<lambda>src. ret (src \<noteq> SourceLogMonitor)) else ret False)"

definition fail_run :: "('c, 'b, 'w) env \<Rightarrow> test_run option \<Rightarrow> (('c, 'w) director, error option) io" where
  "fail_run E tr = seq (deref tr) (\<lambda>run. UpdateTestRun E (set_Status TestRunFAILED run))"

definition store_event :: "('c, 'b, 'w) env \<Rightarrow> string \<Rightarrow> 'b \<Rightarrow> event_spec \<Rightarrow> (('c, 'w) director, unit result) io" where
  "store_event E key b spec =
     seq (on_events (modifies (CacheSet (cache E) key b))) (\<lambda>_.
     seq (if cfg_SlackNotification E then sendSlackNotification E spec else ret ()) (\<lambda>_. ret (Inr ())))"

definition EventCache_Set :: "('c, 'b, 'w) env \<Rightarrow> string \<Rightarrow> event \<Rightarrow> (('c, 'w) director, unit result) io" where
  "EventCache_Set E key data =
     (case Marshal (event_json E) data of
        Inl err \<Rightarrow> ret (Inl err)
      | Inr b \<Rightarrow>
          seq (deref (es_Class (ev_Spec data))) (\<lambda>cls.
          check (if cls \<noteq> EventINFO
                 then check (add_to_run E (ev_Spec data)) (\<lambda>err. err) (\<lambda>run. ret (Inr (Some run)))
                 else ret (Inr None)) (\<lambda>err. err) (\<lambda>tr.
          seq (fails_run cls (ev_Spec data)) (\<lambda>fails.
          seq (if fails then fail_run E tr else ret None) (\<lambda>err. case err of
            Some e \<Rightarrow> ret (Inl e)
          | None \<Rightarrow> store_event E key b (ev_Spec data))))))"

definition AddEvent_Handle :: "('c, 'b, 'w) env \<Rightarrow> event_spec \<Rightarrow> (('c, 'w) director, event response) io" where
  "AddEvent_Handle E eventSpec =
     seq (on_net (call (NewUUID E))) (\<lambda>uid.
     seq (on_net (call (TimeNow E))) (\<lambda>now.
     let event = \<lparr>ev_ID = uid, ev_LoggedDateTime = Some now, ev_Spec = eventSpec\<rparr> in
     seq (EventCache_Set E (ev_ID event) event) (\<lambda>r. case r of
       Inl err \<Rightarrow> ret (BadRequest (refused (err_text err)))
     | Inr _ \<Rightarrow> ret (RespOK event))))"

text \<open>What the server does before it serves.\<close>

definition init_director :: "('c, 'b, 'w) env \<Rightarrow> (('c, 'w) director, unit) io" where
  "init_director E =
     seq (InitEventCache E) (\<lambda>_.
     seq (InitTestPlanCache E) (\<lambda>_.
     InitTestRunCache E))"

section \<open>What the stores hold\<close>

definition plans_of :: "('c, 'b, 'w) env \<Rightarrow> ('c, 'w) director \<Rightarrow> jira_key \<Rightarrow> test_plan option" where
  "plans_of E s = plan_map (cache E) (plan_json E) (planClient s)"

definition runs_of :: "('c, 'b, 'w) env \<Rightarrow> ('c, 'w) director \<Rightarrow> string \<Rightarrow> test_run option" where
  "runs_of E s = run_map (cache E) (run_json E) (runClient s)"

definition events_of :: "('c, 'b, 'w) env \<Rightarrow> ('c, 'w) director \<Rightarrow> string \<Rightarrow> event option" where
  "events_of E s k = cache_get (cache E) (event_json E) k (eventClient s)"

definition env_ok :: "('c, 'b, 'w) env \<Rightarrow> bool" where
  "env_ok E \<longleftrightarrow> gocache_ok (cache E) \<and> codec_ok (plan_json E) \<and> codec_ok (run_json E) \<and> codec_ok (event_json E)"

definition stores_readable :: "('c, 'b, 'w) env \<Rightarrow> ('c, 'w) director \<Rightarrow> bool" where
  "stores_readable E s \<longleftrightarrow> readable (cache E) (plan_json E) (planClient s) \<and>
     readable (cache E) (run_json E) (runClient s) \<and> readable (cache E) (event_json E) (eventClient s)"

definition director_ok :: "('c, 'b, 'w) env \<Rightarrow> ('c, 'w) director \<Rightarrow> bool" where
  "director_ok E s \<longleftrightarrow> stores_readable E s \<and> plans_ok (plans_of E s)"

lemma env_backends:
  assumes "env_ok E"
  shows "plan_cache (cache E) (plan_json E)" "cache_backend (cache E) (run_json E)" "cache_backend (cache E) (event_json E)"
  using assms by (simp_all add: env_ok_def plan_cache_def cache_backend_def)

text \<open>The state after a record was stored.\<close>

definition plan_put :: "('c, 'b, 'w) env \<Rightarrow> jira_key \<Rightarrow> test_plan \<Rightarrow> ('c, 'w) director \<Rightarrow> ('c, 'w) director" where
  "plan_put E k p s = s\<lparr>planClient := snd (TestPlanCache_Set (cache E) (plan_json E) k p (planClient s))\<rparr>"

definition run_put :: "('c, 'b, 'w) env \<Rightarrow> string \<Rightarrow> test_run \<Rightarrow> ('c, 'w) director \<Rightarrow> ('c, 'w) director" where
  "run_put E k r s = s\<lparr>runClient := snd (TestRunCache_Set (cache E) (run_json E) k r (runClient s))\<rparr>"

lemma plan_put_views:
  assumes "env_ok E"
  shows "plans_of E (plan_put E k p s) = (plans_of E s)(k \<mapsto> p)" "runs_of E (plan_put E k p s) = runs_of E s"
    "events_of E (plan_put E k p s) = events_of E s" "stores_readable E s \<Longrightarrow> stores_readable E (plan_put E k p s)"
    "net (plan_put E k p s) = net s"
proof -
  note pc = env_backends(1) [OF assms]
  show "plans_of E (plan_put E k p s) = (plans_of E s)(k \<mapsto> p)"
    by (simp add: plans_of_def plan_put_def plan_cache.plan_map_set [OF pc])
  show "stores_readable E s \<Longrightarrow> stores_readable E (plan_put E k p s)"
    by (simp add: stores_readable_def plan_put_def plan_cache.readable_set [OF pc])
qed (simp_all add: runs_of_def events_of_def [abs_def] plan_put_def)

lemma run_put_views:
  assumes "env_ok E"
  shows "runs_of E (run_put E k r s) = (runs_of E s)(k \<mapsto> r)" "plans_of E (run_put E k r s) = plans_of E s"
    "events_of E (run_put E k r s) = events_of E s" "stores_readable E s \<Longrightarrow> stores_readable E (run_put E k r s)"
    "net (run_put E k r s) = net s"
proof -
  note rs = cache_backend.backend_simps [OF env_backends(2) [OF assms]]
  show "runs_of E (run_put E k r s) = (runs_of E s)(k \<mapsto> r)"
    by (rule ext) (simp add: runs_of_def run_put_def run_map_defs TestRunCache_Set_def rs)
  show "stores_readable E s \<Longrightarrow> stores_readable E (run_put E k r s)"
    by (simp add: stores_readable_def run_put_def TestRunCache_Set_def rs)
qed (simp_all add: plans_of_def events_of_def [abs_def] run_put_def)

lemma net_views [simp]:
  "plans_of E (s\<lparr>net := w\<rparr>) = plans_of E s" "runs_of E (s\<lparr>net := w\<rparr>) = runs_of E s"
  "events_of E (s\<lparr>net := w\<rparr>) = events_of E s" "stores_readable E (s\<lparr>net := w\<rparr>) = stores_readable E s"
  by (simp_all add: plans_of_def runs_of_def events_of_def [abs_def] stores_readable_def)

section \<open>The primitives\<close>

lemma wp_plan_Get [wps]: "wp (plan_Get E k) Q R = (\<lambda>s. Q (plans_of E s k) s)"
  by (simp add: plan_Get_def on_plans_def wp_zoom wps plans_of_def plan_map_def)

lemma wp_run_Get [wps]: "wp (run_Get E k) Q R = (\<lambda>s. Q (runs_of E s k) s)"
  by (simp add: run_Get_def on_runs_def wp_zoom wps runs_of_def run_map_def)

lemma wp_plan_Set: "env_ok E \<Longrightarrow> wp (plan_Set E k p) Q R = (\<lambda>s. Q (Inr ()) (plan_put E k p s))"
  by (simp add: plan_Set_def on_plans_def wp_zoom wps TestPlanCache_Set_def plan_put_def env_ok_def
      cache_backend.backend_simps cache_backend_def)

lemma wp_run_Set: "env_ok E \<Longrightarrow> wp (run_Set E k r) Q R = (\<lambda>s. Q (Inr ()) (run_put E k r s))"
  by (simp add: run_Set_def on_runs_def wp_zoom wps TestRunCache_Set_def run_put_def env_ok_def
      cache_backend.backend_simps cache_backend_def)

text \<open>The network can do anything to the world, and nothing to the stores.\<close>

lemma wp_on_net:
  "(\<And>x w. Q x (s\<lparr>net := w\<rparr>)) \<Longrightarrow> (\<And>w. R (s\<lparr>net := w\<rparr>)) \<Longrightarrow> wp (on_net m) Q R s"
  unfolding on_net_def wp_zoom by (rule wp_any)

lemma seq_on_net: "seq (on_net (call g)) f s = f (fst (g (net s))) (s\<lparr>net := snd (g (net s))\<rparr>)"
  by (simp add: seq_apply on_net_def zoom_apply call_apply)

lemma wp_plan_GetActive:
  assumes "env_ok E" and "director_ok E s"
    and "\<And>r. (r = None \<Longrightarrow> \<forall>k p. plans_of E s k = Some p \<longrightarrow> \<not> active p) \<Longrightarrow>
      (\<And>p. r = Some p \<Longrightarrow> plans_of E s (tp_Key p) = Some p \<and> active p) \<Longrightarrow> Q r s"
  shows "wp (plan_GetActive E) Q R s"
proof -
  have "readable (cache E) (plan_json E) (planClient s)" "plans_ok (plan_map (cache E) (plan_json E) (planClient s))"
    using assms(2) by (simp_all add: director_ok_def stores_readable_def plans_of_def)
  then obtain r where r: "TestPlanCache_GetActive (cache E) (plan_json E) (planClient s) = (Done r, planClient s)"
    "r = None \<Longrightarrow> \<forall>k p. plans_of E s k = Some p \<longrightarrow> \<not> active p"
    "\<And>p. r = Some p \<Longrightarrow> plans_of E s (tp_Key p) = Some p \<and> active p"
    unfolding plans_of_def by (rule plan_cache.GetActive_run [OF env_backends(1) [OF assms(1)]]) blast
  have "Q r s" by (rule assms(3)) (use r(2,3) in auto)
  with r(1) show ?thesis
    by (simp add: plan_GetActive_def on_plans_def wp_def zoom_def)
qed

lemma wp_contains:
  assumes "\<And>k. i = Some k \<Longrightarrow> \<exists>t\<in>set tests. test_IssueID t = Some k \<Longrightarrow> Q True s"
    and "(\<And>k. i = Some k \<Longrightarrow> \<forall>t\<in>set tests. test_IssueID t \<noteq> Some k) \<Longrightarrow> Q False s" and "R s"
  shows "wp (contains tests i) Q R s"
  using assms(1,2)
proof (induction tests)
  case Nil
  then show ?case by (simp add: wps)
next
  case (Cons t tests)
  show ?case
  proof (cases "test_IssueID t")
    case None
    then show ?thesis using assms(3) by (simp add: wps)
  next
    case (Some a)
    show ?thesis
    proof (cases i)
      case None
      then show ?thesis using Some assms(3) by (simp add: wps)
    next
      fix k assume k: "i = Some k"
      have "wp (contains tests i) Q R s" if "a \<noteq> k"
        using that Some k Cons.prems by (intro Cons.IH) auto
      with Some k Cons.prems(1) [of k] show ?thesis by (auto simp: wps)
    qed
  qed
qed

text \<open>Making every plan inactive, one after another.\<close>

lemma wp_deactivate_loop:
  assumes "env_ok E" and "stores_readable E s" and "distinct (map tp_Key ps)"
    and "\<And>p. p \<in> set ps \<Longrightarrow> plans_of E s (tp_Key p) = Some p"
    and "\<And>s'. stores_readable E s' \<Longrightarrow> runs_of E s' = runs_of E s \<Longrightarrow> events_of E s' = events_of E s \<Longrightarrow>
      plans_of E s' = (\<lambda>k. if k \<in> tp_Key ` set ps then map_option (set_IsActive False) (plans_of E s k)
        else plans_of E s k) \<Longrightarrow> Q (Inr ()) s'"
  shows "wp (for_in ps () (deactivate E)) Q R s"
  using assms(2-5)
proof (induction ps arbitrary: s)
  case Nil
  then show ?case by (simp add: wps)
next
  case (Cons p ps)
  let ?s = "plan_put E (tp_Key p) (set_IsActive False p) s"
  note put = plan_put_views [OF assms(1), where k = "tp_Key p" and p = "set_IsActive False p" and s = s]
  have "wp (for_in ps () (deactivate E)) Q R ?s"
  proof (rule Cons.IH)
    show "stores_readable E ?s" using Cons.prems(1) by (rule put(4))
    show "distinct (map tp_Key ps)" using Cons.prems(2) by simp
    show "plans_of E ?s (tp_Key q) = Some q" if "q \<in> set ps" for q
    proof -
      have "tp_Key q \<noteq> tp_Key p" using Cons.prems(2) imageI [OF that, of tp_Key] by auto
      with that Cons.prems(3) [of q] show ?thesis by (simp add: put)
    qed
    fix s'
    assume s': "stores_readable E s'" "runs_of E s' = runs_of E ?s" "events_of E s' = events_of E ?s"
      "plans_of E s' = (\<lambda>k. if k \<in> tp_Key ` set ps then map_option (set_IsActive False) (plans_of E ?s k)
        else plans_of E ?s k)"
    show "Q (Inr ()) s'"
    proof (rule Cons.prems(4) [OF s'(1)])
      show "plans_of E s' = (\<lambda>k. if k \<in> tp_Key ` set (p # ps)
        then map_option (set_IsActive False) (plans_of E s k) else plans_of E s k)"
        unfolding s'(4) using Cons.prems(2) Cons.prems(3) [of p] by (intro ext) (auto simp: put)
    qed (use s'(2,3) put in simp_all)
  qed
  then show ?case by (simp add: wps deactivate_def [of E p] wp_plan_Set [OF assms(1)])
qed

lemma wp_deactivate_all:
  assumes "env_ok E" and "director_ok E s"
    and "\<And>s'. stores_readable E s' \<Longrightarrow> runs_of E s' = runs_of E s \<Longrightarrow> events_of E s' = events_of E s \<Longrightarrow>
      plans_of E s' = (\<lambda>k. map_option (set_IsActive False) (plans_of E s k)) \<Longrightarrow> Q () s'"
  shows "wp (deactivate_all E) Q R s"
proof -
  have sound: "readable (cache E) (plan_json E) (planClient s)" and ok: "plans_ok (plans_of E s)"
    using assms(2) by (simp_all add: director_ok_def stores_readable_def)
  have "\<exists>ks. distinct ks \<and> set ks = {k. plans_of E s k \<noteq> None} \<and>
      cache_all (cache E) (plan_json E) (planClient s) = (if ks = [] then None else Some (map (\<lambda>k. the (plans_of E s k)) ks))"
    unfolding plans_of_def plan_map_defs
    using assms(1) by (intro record_store.all_records [OF cache_backend.is_store] sound)
      (simp add: env_ok_def cache_backend_def)
  then obtain ks where ks: "distinct ks" "set ks = {k. plans_of E s k \<noteq> None}"
    "TestPlanCache_GetAll (cache E) (plan_json E) (planClient s) = (if ks = [] then None else Some (map (\<lambda>k. the (plans_of E s k)) ks))"
    unfolding TestPlanCache_GetAll_def by blast
  let ?ps = "map (\<lambda>k. the (plans_of E s k)) ks"
  have key: "tp_Key (the (plans_of E s k)) = k" if "k \<in> set ks" for k
    using that ks(2) plans_okD [OF ok] by (auto simp: plan_ok_def)
  then have keys: "map tp_Key ?ps = ks" by (simp add: map_idI)
  have "wp (for_in ?ps () (deactivate E))
      (\<lambda>c. Q ()) R s"
  proof (rule wp_deactivate_loop [OF assms(1)])
    show "stores_readable E s" using assms(2) by (simp add: director_ok_def)
    show "distinct (map tp_Key ?ps)" using keys ks(1) by simp
    show "plans_of E s (tp_Key p) = Some p" if "p \<in> set ?ps" for p
    proof -
      from that obtain k where "k \<in> set ks" "p = the (plans_of E s k)" by auto
      with key [of k] ks(2) show ?thesis by auto
    qed
    have img: "tp_Key ` set ?ps = {k. plans_of E s k \<noteq> None}"
      using keys ks(2) by (metis list.set_map)
    fix s'
    assume "stores_readable E s'" "runs_of E s' = runs_of E s" "events_of E s' = events_of E s"
      "plans_of E s' = (\<lambda>k. if k \<in> tp_Key ` set ?ps then map_option (set_IsActive False) (plans_of E s k) else plans_of E s k)"
    then show "Q () s'" unfolding img by (intro assms(3)) (auto intro!: ext)
  qed
  moreover have "(\<lambda>c. wp (case c of Inl u \<Rightarrow> ret u | Inr u \<Rightarrow> ret u) Q R) = (\<lambda>c :: unit + unit. Q ())"
    by (rule ext, rule ext) (auto simp: wps split: sum.split)
  ultimately show ?thesis
    by (cases "ks = []") (simp_all add: deactivate_all_def plan_GetAll_def on_plans_def wp_zoom wps ks(3))
qed

end
