(* ===== verification/Director_Invariant.thy ===== *)
theory Director_Invariant
  imports Director_Handlers
begin

text \<open>
  What the handlers of the test director do to the plans, runs and events in its stores, and
  the director as a sequence of requests. Requests are taken one at a time: the handlers
  hold no lock, so requests that the server happens to run at the same moment are outside
  these theorems.
\<close>

section \<open>Plans\<close>

lemma director_okD: "director_ok E s \<Longrightarrow> plans_of E s k = Some p \<Longrightarrow> plan_ok k p"
  by (auto simp: director_ok_def dest: plans_okD)

lemma director_ok_net [simp]: "director_ok E (s\<lparr>net := w\<rparr>) = director_ok E s"
  by (simp add: director_ok_def)

lemma plans_ok_inactive: "plans_ok plans \<Longrightarrow> plans_ok (\<lambda>k. map_option (set_IsActive False) (plans k))"
  by (auto simp: plans_ok_def one_active_def plan_ok_def active_def)

text \<open>Storing a plan that makes it the active one, or that was not active before.\<close>

lemma director_ok_put:
  assumes "env_ok E" and "director_ok E s" and "plan_ok k p"
    and "active p \<Longrightarrow> \<forall>k' p'. plans_of E s k' = Some p' \<longrightarrow> active p' \<longrightarrow> k' = k"
  shows "director_ok E (plan_put E k p s)"
  using assms by (simp add: director_ok_def plan_put_views plans_ok_upd)

lemma director_ok_restatus:
  assumes "env_ok E" and "director_ok E s" and "plans_of E s (tp_Key p) = Some p"
  shows "director_ok E (plan_put E (tp_Key p) (set_PlanStatus (Some st) p) s)"
proof (rule director_ok_put [OF assms(1,2)])
  show "plan_ok (tp_Key p) (set_PlanStatus (Some st) p)"
    using director_okD [OF assms(2,3)] by (simp add: plan_ok_def)
  assume "active (set_PlanStatus (Some st) p)"
  then have "active p" by (simp add: active_def)
  with assms(2,3) show "\<forall>k' p'. plans_of E s k' = Some p' \<longrightarrow> active p' \<longrightarrow> k' = tp_Key p"
    unfolding director_ok_def plans_ok_def one_active_def by blast
qed

definition plans_stored :: "string \<Rightarrow> test_plan \<Rightarrow> (jira_key \<Rightarrow> test_plan option) \<Rightarrow> (jira_key \<Rightarrow> test_plan option)" where
  "plans_stored ident p plans =
     (if active p then \<lambda>k. map_option (set_IsActive False) (plans k) else plans)(ident \<mapsto> p)"

lemma wp_store_plan:
  assumes "env_ok E" and "director_ok E s" and "plan_ok ident p"
    and "\<And>s'. director_ok E s' \<Longrightarrow> runs_of E s' = runs_of E s \<Longrightarrow> events_of E s' = events_of E s \<Longrightarrow>
      plans_of E s' = plans_stored ident p (plans_of E s) \<Longrightarrow> Q (RespOK p) s'"
  shows "wp (store_plan E ident p) Q R s"
proof (cases "active p")
  case True
  have "wp (deactivate_all E) (\<lambda>_ s'. Q (RespOK p) (plan_put E ident p s')) R s"
  proof (rule wp_deactivate_all [OF assms(1,2)])
    fix s'
    assume s': "stores_readable E s'" "runs_of E s' = runs_of E s" "events_of E s' = events_of E s"
      "plans_of E s' = (\<lambda>k. map_option (set_IsActive False) (plans_of E s k))"
    have "director_ok E s'"
      using assms(2) s'(1,4) plans_ok_inactive by (simp add: director_ok_def)
    then have "director_ok E (plan_put E ident p s')"
      using assms(3) by (intro director_ok_put [OF assms(1)]) (auto simp: s'(4) active_def)
    with s' True show "Q (RespOK p) (plan_put E ident p s')"
      by (intro assms(4)) (simp_all add: plan_put_views [OF assms(1)] plans_stored_def)
  qed
  with True show ?thesis by (simp add: store_plan_def wps active_def wp_plan_Set [OF assms(1)])
next
  case False
  with assms(3) have f: "tp_IsActive p = Some False" by (auto simp: plan_ok_def active_def)
  have "director_ok E (plan_put E ident p s)"
    using assms(3) False by (intro director_ok_put [OF assms(1,2)]) auto
  with False have "Q (RespOK p) (plan_put E ident p s)"
    by (intro assms(4)) (simp_all add: plan_put_views [OF assms(1)] plans_stored_def)
  with f show ?thesis by (simp add: store_plan_def wps wp_plan_Set [OF assms(1)])
qed

text \<open>The statuses of a known plan: what a request makes of it.\<close>

definition plan_next :: "test_plan_status \<Rightarrow> test_plan \<Rightarrow> test_plan" where
  "plan_next new p =
     (if tp_Status p = Some PlanNOTSTARTED \<and> new = PlanRUNNING \<or>
         tp_Status p = Some PlanRUNNING \<and> (new = PlanCOMPLETEFAIL \<or> new = PlanCOMPLETEPASS)
      then set_IsActive True (set_PlanStatus (Some new) p) else p)"

lemma plan_transition_next:
  "tp_Status p \<noteq> None \<Longrightarrow> tps_Status tps = Some new \<Longrightarrow> plan_transition tps p = ret (plan_next new p)"
  by (auto simp: plan_transition_def plan_next_def)

lemma plan_next_ok: "plan_ok k p \<Longrightarrow> plan_ok k (plan_next new p)"
  by (simp add: plan_next_def plan_ok_def)

lemma wp_new_plan:
  assumes "tps_Status tps \<noteq> None"
    and "\<And>e w. Q (Inl e) (s\<lparr>net := w\<rparr>)"
    and "\<And>p w. plan_ok ident p \<Longrightarrow> active p \<Longrightarrow> tp_Status p = tps_Status tps \<Longrightarrow> Q (Inr p) (s\<lparr>net := w\<rparr>)"
    and "\<And>w. R (s\<lparr>net := w\<rparr>)"
  shows "wp (new_plan E ident tps) Q R s"
  unfolding new_plan_def wps
  by (rule wp_on_net)
     (use assms in \<open>auto simp: plan_ok_def active_def tp_Status_def split: sum.split option.split\<close>)

lemma wp_PutTestPlan:
  assumes "env_ok E" and "director_ok E s" and "tps_Status tps = Some new"
  shows "wp (PutTestPlan_Handle E ident tps)
    (\<lambda>resp s'. director_ok E s' \<and> runs_of E s' = runs_of E s \<and> events_of E s' = events_of E s \<and>
      (case resp of
         RespOK p \<Rightarrow> plans_of E s' = plans_stored ident p (plans_of E s) \<and> tp_Key p = ident \<and>
           (case plans_of E s ident of Some old \<Rightarrow> p = plan_next new old | None \<Rightarrow> active p \<and> tp_Status p = Some new)
       | _ \<Rightarrow> plans_of E s' = plans_of E s))
    (\<lambda>s'. plans_of E s ident = None \<and> director_ok E s' \<and> plans_of E s' = plans_of E s \<and>
      runs_of E s' = runs_of E s \<and> events_of E s' = events_of E s) s"
proof (cases "plans_of E s ident")
  case (Some old)
  then have ok: "plan_ok ident old" using assms(2) by (simp add: director_okD)
  then have "tp_Status old \<noteq> None" by (simp add: plan_ok_def)
  then show ?thesis
    using plan_next_ok [OF ok, of new]
    unfolding PutTestPlan_Handle_def wps Some option.case plan_transition_next [OF \<open>tp_Status old \<noteq> None\<close> assms(3)]
    by (intro wp_store_plan [OF assms(1,2)]) (auto simp: plan_ok_def)
next
  case None
  show ?thesis
    unfolding PutTestPlan_Handle_def wps None option.case
  proof (rule wp_new_plan, goal_cases)
    case (3 p w)
    show ?case
      unfolding sum.case
      by (rule wp_store_plan [OF assms(1) _ 3(1)]) (use 3 assms(2,3) in \<open>auto simp: plan_ok_def\<close>)
  qed (use assms(2,3) in \<open>auto simp: testPlanBadRequest_def wps split: option.split\<close>)
qed

section \<open>Runs\<close>

text \<open>The same plans, runs and events, in a state that is still consistent.\<close>

definition unchanged :: "('c, 'b, 'w) env \<Rightarrow> ('c, 'w) director \<Rightarrow> ('c, 'w) director \<Rightarrow> bool" where
  "unchanged E s s' \<longleftrightarrow> director_ok E s' \<and> plans_of E s' = plans_of E s \<and> runs_of E s' = runs_of E s \<and>
     events_of E s' = events_of E s"

lemma unchanged_net [simp]: "unchanged E s (t\<lparr>net := w\<rparr>) = unchanged E s t"
  by (simp add: unchanged_def)

lemma unchanged_refl: "director_ok E s \<Longrightarrow> unchanged E s s"
  by (simp add: unchanged_def)

lemma unchanged_trans: "unchanged E s t \<Longrightarrow> unchanged E t u \<Longrightarrow> unchanged E s u"
  by (simp add: unchanged_def)

text \<open>What a finished run makes of the plans: the plan stored under the key of the test is completed.\<close>

definition plans_finished :: "test_run \<Rightarrow> (jira_key \<Rightarrow> test_plan option) \<Rightarrow> (jira_key \<Rightarrow> test_plan option)" where
  "plans_finished run plans = (case trs_TestKey (tr_Spec run) of
      None \<Rightarrow> plans
    | Some key \<Rightarrow> (case plans key of
          None \<Rightarrow> plans
        | Some p \<Rightarrow> plans(key \<mapsto> set_PlanStatus (Some
            (if tr_Status run = TestRunPASSED \<and> tp_Status p \<noteq> Some PlanCOMPLETEFAIL
             then PlanCOMPLETEPASS else PlanCOMPLETEFAIL)) p)))"

lemma wp_UpdateTestRun:
  assumes "env_ok E" and "director_ok E s"
    and "\<And>e s'. unchanged E s s' \<Longrightarrow> Q (Some e) s'"
    and "\<And>s'. director_ok E s' \<Longrightarrow> runs_of E s' = runs_of E s \<Longrightarrow> events_of E s' = events_of E s \<Longrightarrow>
      plans_of E s' = plans_finished run (plans_of E s) \<Longrightarrow> Q None s'"
    and "\<And>s'. unchanged E s s' \<Longrightarrow> R s'"
  shows "wp (UpdateTestRun E run) Q R s"
proof -
  have net: "unchanged E s (s\<lparr>net := w\<rparr>)" for w
    using assms(2) by (simp add: unchanged_refl)
  have store: "Q None (plan_put E (tp_Key p) (set_PlanStatus (Some st) p) (s\<lparr>net := w\<rparr>))"
    if p: "plans_of E s key = Some p" "trs_TestKey (tr_Spec run) = Some key"
      "st = (if tr_Status run = TestRunPASSED \<and> tp_Status p \<noteq> Some PlanCOMPLETEFAIL then PlanCOMPLETEPASS else PlanCOMPLETEFAIL)"
    for p key st w
  proof -
    have key: "tp_Key p = key" using director_okD [OF assms(2) p(1)] by (simp add: plan_ok_def)
    with p have "director_ok E (plan_put E (tp_Key p) (set_PlanStatus (Some st) p) (s\<lparr>net := w\<rparr>))"
      by (intro director_ok_restatus [OF assms(1)]) (simp_all add: assms(2))
    with p key show ?thesis
      by (intro assms(4)) (simp_all add: plan_put_views [OF assms(1)] plans_finished_def)
  qed
  have status: "\<exists>st. tp_Status p = Some st" if "plans_of E s key = Some p" for key p
    using director_okD [OF assms(2) that] by (auto simp: plan_ok_def)
  have none: "Q None (s\<lparr>net := w\<rparr>)"
    if "trs_TestKey (tr_Spec run) = Some key" "plans_of E s key = None" for key w
    using that assms(2) by (intro assms(4)) (simp_all add: plans_finished_def)
  show ?thesis
    unfolding UpdateTestRun_def wps
  proof (rule wp_on_net, goal_cases)
    case (1 err w)
    show ?case
    proof (cases err)
      case (Some e)
      with assms(3) net show ?thesis by (simp add: wps)
    next
      case ok: None
      show ?thesis
      proof (cases "trs_TestKey (tr_Spec run)")
        case None
        with ok assms(5) net show ?thesis by (simp add: wps)
      next
        case key: (Some key)
        show ?thesis
        proof (cases "plans_of E s key")
          case None
          with ok key none show ?thesis by (simp add: wps)
        next
          case (Some p)
          with ok key status [OF Some] store [OF Some key] show ?thesis
            by (auto simp: wps wp_plan_Set [OF assms(1)] Let_def)
        qed
      qed
    qed
  qed (use assms(5) net in simp)
qed

text \<open>The statuses of a run: what a request makes of them.\<close>

definition run_status_next :: "test_run_status \<Rightarrow> test_run_status \<Rightarrow> test_run_status" where
  "run_status_next st new =
     (if st = TestRunTODO \<and> new = TestRunEXECUTING then TestRunEXECUTING
      else if st \<noteq> TestRunTODO \<and> (new = TestRunFAILED \<or> new = TestRunPASSED) then new
      else st)"

lemma status_append_data [simp]: "tr_Status (append_data d r) = tr_Status r"
  by (simp add: append_data_def)

text \<open>
  A run that starts makes the active plan a running one; a run that ends completes the plan
  stored under the key of its test.
\<close>

definition plans_after_run ::
    "test_run \<Rightarrow> test_run \<Rightarrow> (jira_key \<Rightarrow> test_plan option) \<Rightarrow> (jira_key \<Rightarrow> test_plan option) \<Rightarrow> bool" where
  "plans_after_run old run plans plans' \<longleftrightarrow>
     (if tr_Status old = TestRunTODO \<and> tr_Status run = TestRunEXECUTING then
        \<exists>p. plans (tp_Key p) = Some p \<and> active p \<and>
          (\<exists>t\<in>set (tps_Tests (tp_Spec p)). test_IssueID t = Some (trs_TestID (tr_Spec run))) \<and>
          plans' = plans(tp_Key p \<mapsto> set_PlanStatus (Some PlanRUNNING) p)
      else plans' = plans \<or> plans' = plans_finished run plans)"

lemma wp_end_run:
  assumes "env_ok E" and "director_ok E s"
    and "\<And>e s'. unchanged E s s' \<Longrightarrow> Q (Inl e) s'" and "\<And>s'. unchanged E s s' \<Longrightarrow> R s'"
    and "\<And>s'. director_ok E s' \<Longrightarrow> runs_of E s' = runs_of E s \<Longrightarrow> events_of E s' = events_of E s \<Longrightarrow>
      plans_of E s' = plans_finished run (plans_of E s) \<Longrightarrow> Q (Inr run) s'"
  shows "wp (end_run E run) Q R s"
  unfolding end_run_def wps by (rule wp_UpdateTestRun [OF assms(1,2)]) (use assms(3-) in simp_all)

lemma wp_mark_plan_running:
  assumes "env_ok E" and "director_ok E s"
    and "\<And>e. Q (Some e) s" and "R s"
    and "\<And>p s'. director_ok E s' \<Longrightarrow> runs_of E s' = runs_of E s \<Longrightarrow> events_of E s' = events_of E s \<Longrightarrow>
      plans_of E s (tp_Key p) = Some p \<Longrightarrow> active p \<Longrightarrow>
      \<exists>t\<in>set (tps_Tests (tp_Spec p)). test_IssueID t = Some test_id \<Longrightarrow>
      plans_of E s' = (plans_of E s)(tp_Key p \<mapsto> set_PlanStatus (Some PlanRUNNING) p) \<Longrightarrow> Q None s'"
  shows "wp (mark_plan_running E test_id) Q R s"
  unfolding mark_plan_running_def wps wp_plan_Set [OF assms(1)]
proof (rule wp_plan_GetActive [OF assms(1,2)], goal_cases)
  case (1 r)
  show ?case
  proof (cases r)
    case None
    with assms(3) show ?thesis by simp
  next
    case (Some p)
    have p: "plans_of E s (tp_Key p) = Some p" "active p" using 1(2) [OF Some] by simp_all
    obtain st where st: "tp_Status p = Some st"
      using director_okD [OF assms(2) p(1)] by (auto simp: plan_ok_def)
    show ?thesis
      unfolding Some option.case
      by (rule wp_contains)
         (use assms(3,4) assms(5) [OF director_ok_restatus [OF assms(1,2) p(1)] _ _ p]
           in \<open>auto simp: st plan_put_views [OF assms(1)]\<close>)
  qed
qed

lemma wp_start_run:
  assumes "env_ok E" and "director_ok E s"
    and "\<And>e s'. unchanged E s s' \<Longrightarrow> Q (Inl e) s'" and "\<And>s'. unchanged E s s' \<Longrightarrow> R s'"
    and "\<And>p s'. director_ok E s' \<Longrightarrow> runs_of E s' = runs_of E s \<Longrightarrow> events_of E s' = events_of E s \<Longrightarrow>
      plans_of E s (tp_Key p) = Some p \<Longrightarrow> active p \<Longrightarrow>
      \<exists>t\<in>set (tps_Tests (tp_Spec p)). test_IssueID t = Some (trs_TestID (tr_Spec run)) \<Longrightarrow>
      plans_of E s' = (plans_of E s)(tp_Key p \<mapsto> set_PlanStatus (Some PlanRUNNING) p) \<Longrightarrow> Q (Inr run) s'"
  shows "wp (start_run E run) Q R s"
  unfolding start_run_def wps
proof (rule wp_on_net, goal_cases)
  case (1 err w)
  have ok: "director_ok E (s\<lparr>net := w\<rparr>)" using assms(2) by simp
  show ?case
  proof (cases err)
    case None
    show ?thesis
      unfolding None option.case
      by (rule wp_mark_plan_running [OF assms(1) ok])
         (use assms(2-4) assms(5) in \<open>auto simp: unchanged_refl\<close>)
  qed (use assms(2,3) in \<open>simp add: unchanged_refl\<close>)
qed (use assms(2,4) in \<open>simp add: unchanged_refl\<close>)

lemma wp_run_transition:
  assumes "env_ok E" and "director_ok E s"
    and "\<And>e s'. unchanged E s s' \<Longrightarrow> Q (Inl e) s'" and "\<And>s'. unchanged E s s' \<Longrightarrow> R s'"
    and "\<And>run' s'. director_ok E s' \<Longrightarrow> runs_of E s' = runs_of E s \<Longrightarrow> events_of E s' = events_of E s \<Longrightarrow>
      tr_Status run' = run_status_next (tr_Status run) (trs_Status spec) \<Longrightarrow>
      plans_after_run run run' (plans_of E s) (plans_of E s') \<Longrightarrow> Q (Inr run') s'"
  shows "wp (run_transition E spec run) Q R s"
proof -
  have net: "wp (seq (on_net (call (TimeNow E))) f) Q R s"
    if "\<And>now w. wp (f now) Q R (s\<lparr>net := w\<rparr>)" for f :: "int \<Rightarrow> (('a, 'c) director, test_run result) io"
    unfolding wps by (rule wp_on_net) (use that assms(2,4) in \<open>simp_all add: unchanged_refl\<close>)
  have ok: "director_ok E (s\<lparr>net := w\<rparr>)" for w using assms(2) by simp
  have unch: "unchanged E (s\<lparr>net := w\<rparr>) s' \<Longrightarrow> unchanged E s s'" for w s'
    by (simp add: unchanged_def)
  consider (start) "tr_Status run = TestRunTODO" "trs_Status spec = TestRunEXECUTING"
    | (fail) "tr_Status run \<noteq> TestRunTODO" "trs_Status spec = TestRunFAILED"
    | (pass) "tr_Status run \<noteq> TestRunTODO" "trs_Status spec = TestRunPASSED"
    | (same) "run_transition E spec run = ret (Inr run)" "tr_Status run = run_status_next (tr_Status run) (trs_Status spec)"
    by (fastforce simp: run_transition_def run_status_next_def)
  then show ?thesis
  proof cases
    case start
    show ?thesis
      unfolding run_transition_def if_P [OF conjI [OF start]]
    proof (rule net, rule wp_start_run [OF assms(1) ok], goal_cases)
      case (3 now w p s')
      then show ?case
        by (intro assms(5)) (use start in \<open>auto simp: run_status_next_def plans_after_run_def intro!: exI [of _ p]\<close>)
    qed (use assms(3,4) unch in blast)+
  next
    case fail
    then have "run_transition E spec run = seq (on_net (call (TimeNow E))) (\<lambda>now.
        end_run E (set_Status (trs_Status spec) (append_data (trs_Data spec) (run\<lparr>tr_EndDateTime := Some now\<rparr>))))"
      by (simp add: run_transition_def)
    then show ?thesis
      by (simp only:) (rule net, rule wp_end_run [OF assms(1) ok];
          use fail assms(3-5) unch in \<open>auto simp: run_status_next_def plans_after_run_def\<close>)
  next
    case pass
    then have "run_transition E spec run = seq (on_net (call (TimeNow E))) (\<lambda>now.
        end_run E (set_Status (trs_Status spec) (set_Data (trs_Data spec) (run\<lparr>tr_EndDateTime := Some now\<rparr>))))"
      by (simp add: run_transition_def)
    then show ?thesis
      by (simp only:) (rule net, rule wp_end_run [OF assms(1) ok];
          use pass assms(3-5) unch in \<open>auto simp: run_status_next_def plans_after_run_def\<close>)
  next
    case same
    have "Q (Inr run) s"
      by (rule assms(5)) (use assms(2) same(2) in \<open>auto simp: plans_after_run_def\<close>)
    with same(1) show ?thesis by (simp add: wps)
  qed
qed

lemma wp_new_run:
  assumes "env_ok E" and "director_ok E s"
    and "\<And>e s'. unchanged E s s' \<Longrightarrow> Q (Inl e) s'" and "\<And>s'. unchanged E s s' \<Longrightarrow> R s'"
    and "\<And>run' s'. unchanged E s s' \<Longrightarrow> tr_Status run' = TestRunTODO \<Longrightarrow> trs_TestKey (tr_Spec run') = trs_TestKey spec \<Longrightarrow>
      tr_Data run' = trs_Data spec \<Longrightarrow> Q (Inr run') s'"
  shows "wp (new_run E spec) Q R s"
proof (cases "trs_TestKey spec")
  case None
  then show ?thesis using assms(2,4) by (simp add: new_run_def wps unchanged_refl)
next
  case (Some key)
  have net: "unchanged E s (s\<lparr>net := w\<rparr>)" for w using assms(2) by (simp add: unchanged_refl)
  show ?thesis
    unfolding new_run_def wps Some option.case
  proof (rule wp_on_net, goal_cases)
    case (1 r w)
    have ok: "director_ok E (s\<lparr>net := w\<rparr>)" using assms(2) by simp
    have exec: "wp (on_net m) (\<lambda>x. case x of (exec_id, err) \<Rightarrow> (case err of
          None \<Rightarrow> Q (Inr \<lparr>tr_EndDateTime = None, tr_ID = exec_id, tr_StartDateTime = None,
            tr_Spec = \<lparr>trs_Data = trs_Data spec, trs_Status = TestRunTODO, trs_TestExecIssueID = exec_id,
              trs_TestID = i, trs_TestKey = Some key\<rparr>\<rparr>) | Some e \<Rightarrow> Q (Inl e))) R (s\<lparr>net := w\<rparr>)" for m i
      by (rule wp_on_net)
         (use assms(3-5) net Some in \<open>auto simp: tr_Status_def tr_Data_def split: option.split\<close>)
    show ?case
    proof (cases r)
      case (Inl e)
      with assms(3) net show ?thesis by simp
    next
      case (Inr jt)
      show ?thesis
      proof (cases "jt_IssueType jt")
        case None
        with Inr assms(4) net show ?thesis by simp
      next
        case ty: (Some ty)
        show ?thesis
        proof (cases "ty = ''Test''")
          case False
          with Inr ty assms(3) net show ?thesis by simp
        next
          case True
          have "\<not> ty \<noteq> ''Test''" using True by simp
          show ?thesis
            unfolding Inr sum.case ty option.case if_not_P [OF \<open>\<not> ty \<noteq> ''Test''\<close>]
          proof (rule wp_plan_GetActive [OF assms(1) ok], goal_cases)
            case (1 p)
            show ?case
            proof (cases p)
              case None
              with assms(3) net show ?thesis by simp
            next
              case (Some q)
              show ?thesis
                unfolding Some option.case
                by (rule wp_contains)
                   (use assms(3,4) net exec in \<open>auto split: option.split\<close>)
            qed
          qed
        qed
      qed
    qed
  qed (use assms(4) net in simp)
qed

definition run_stored ::
    "('c, 'b, 'w) env \<Rightarrow> string \<Rightarrow> test_run_spec \<Rightarrow> ('c, 'w) director \<Rightarrow> test_run \<Rightarrow> ('c, 'w) director \<Rightarrow> bool" where
  "run_stored E ident spec s run s' \<longleftrightarrow> director_ok E s' \<and> events_of E s' = events_of E s \<and>
     runs_of E s' = (runs_of E s)(ident \<mapsto> run) \<and>
     (case runs_of E s ident of
        None \<Rightarrow> tr_Status run = TestRunTODO \<and> plans_of E s' = plans_of E s
      | Some old \<Rightarrow> tr_Status run = run_status_next (tr_Status old) (trs_Status spec) \<and>
          plans_after_run old run (plans_of E s) (plans_of E s'))"

lemma director_ok_run_put: "env_ok E \<Longrightarrow> director_ok E s \<Longrightarrow> director_ok E (run_put E k r s)"
  by (simp add: director_ok_def run_put_views)

lemma wp_PutTestRun:
  assumes "env_ok E" and "director_ok E s"
  shows "wp (PutTestRun_Handle E ident spec)
    (\<lambda>resp s'. case resp of RespOK run \<Rightarrow> run_stored E ident spec s run s' | _ \<Rightarrow> unchanged E s s')
    (unchanged E s) s"
proof (cases "runs_of E s ident")
  case None
  show ?thesis
    unfolding PutTestRun_Handle_def wps None option.case badRequestResponse_def wp_run_Set [OF assms(1)]
    by (rule wp_new_run [OF assms])
       (auto simp: run_stored_def None run_put_views [OF assms(1)] director_ok_run_put [OF assms(1)] unchanged_def)
next
  case (Some old)
  show ?thesis
    unfolding PutTestRun_Handle_def wps Some option.case badRequestResponse_def wp_run_Set [OF assms(1)]
    by (rule wp_run_transition [OF assms])
       (auto simp: run_stored_def Some run_put_views [OF assms(1)] director_ok_run_put [OF assms(1)])
qed

section \<open>Events\<close>

definition event_put :: "('c, 'b, 'w) env \<Rightarrow> string \<Rightarrow> 'b \<Rightarrow> ('c, 'w) director \<Rightarrow> ('c, 'w) director" where
  "event_put E k b s = s\<lparr>eventClient := CacheSet (cache E) k b (eventClient s)\<rparr>"

lemma event_put_views:
  assumes "env_ok E" and "Unmarshal (event_json E) b = Inr ev"
  shows "events_of E (event_put E k b s) = (events_of E s)(k \<mapsto> ev)" "runs_of E (event_put E k b s) = runs_of E s"
    "plans_of E (event_put E k b s) = plans_of E s" "director_ok E s \<Longrightarrow> director_ok E (event_put E k b s)"
proof -
  note laws = cache_backend.cache_laws [OF env_backends(3) [OF assms(1)]]
  show "events_of E (event_put E k b s) = (events_of E s)(k \<mapsto> ev)"
    by (rule ext) (simp add: events_of_def event_put_def cache_get_def laws assms(2))
  show "runs_of E (event_put E k b s) = runs_of E s" "plans_of E (event_put E k b s) = plans_of E s"
    by (simp_all add: runs_of_def plans_of_def event_put_def)
  then show "director_ok E s \<Longrightarrow> director_ok E (event_put E k b s)"
    using assms(2) by (auto simp: director_ok_def stores_readable_def event_put_def readable_def laws)
qed

text \<open>
  What the stores hold after an event: the text of the event is in the data of the run it is
  about unless it is just information, and the plans may have been completed by a failure.
\<close>

definition runs_noted :: "event_spec \<Rightarrow> (string \<Rightarrow> test_run option) \<Rightarrow> (string \<Rightarrow> test_run option)" where
  "runs_noted spec runs = (case (es_Class spec, es_SourceInstance spec, es_Message spec) of
      (Some cls, Some inst, Some message) \<Rightarrow>
        if cls = EventINFO then runs
        else runs(inst := map_option (append_data (event_text message (es_Data spec))) (runs inst))
    | _ \<Rightarrow> runs)"

definition event_fails :: "event_spec \<Rightarrow> bool" where
  "event_fails spec \<longleftrightarrow> es_Class spec = Some EventFAIL \<and> es_SourceClass spec \<noteq> Some SourceLogMonitor"

text \<open>The state between the steps of handling an event: the run noted or not yet, the plans completed or not yet.\<close>

definition event_mid :: "('c, 'b, 'w) env \<Rightarrow> event_spec \<Rightarrow> ('c, 'w) director \<Rightarrow> ('c, 'w) director \<Rightarrow> bool" where
  "event_mid E spec s s' \<longleftrightarrow> director_ok E s' \<and>
     (runs_of E s' = runs_of E s \<or> runs_of E s' = runs_noted spec (runs_of E s)) \<and>
     (plans_of E s' = plans_of E s \<or> (\<exists>run. event_fails spec \<and> tr_Status run = TestRunFAILED \<and> plans_of E s' = plans_finished run (plans_of E s)))"

lemma event_mid_net [simp]: "event_mid E spec s (t\<lparr>net := w\<rparr>) = event_mid E spec s t"
  by (simp add: event_mid_def)

lemma wp_add_to_run:
  assumes "env_ok E" and "director_ok E s" and "es_Class spec = Some cls" and "cls \<noteq> EventINFO"
    and "R s"
    and "\<And>run s'. director_ok E s' \<Longrightarrow> plans_of E s' = plans_of E s \<Longrightarrow> events_of E s' = events_of E s \<Longrightarrow>
      runs_of E s' = runs_noted spec (runs_of E s) \<Longrightarrow> Q (Inr run) s'"
  shows "wp (add_to_run E spec) Q R s"
proof -
  have store: "Q (Inr (append_data (event_text m (es_Data spec)) run))
      (run_put E inst (append_data (event_text m (es_Data spec)) run) s)"
    if "es_SourceInstance spec = Some inst" "es_Message spec = Some m" "runs_of E s inst = Some run" for inst m run
    using that assms(2-4)
    by (intro assms(6)) (simp_all add: director_ok_run_put [OF assms(1)] run_put_views [OF assms(1)] runs_noted_def)
  show ?thesis
    unfolding add_to_run_def wps Let_def wp_run_Set [OF assms(1)]
    using assms(5) store by (simp split: option.split)
qed

lemma wp_slack:
  "(\<And>w. Q () (s\<lparr>net := w\<rparr>)) \<Longrightarrow> (\<And>w. R (s\<lparr>net := w\<rparr>)) \<Longrightarrow> R s \<Longrightarrow> wp (sendSlackNotification E spec) Q R s"
  unfolding sendSlackNotification_def wps Let_def
  by (auto split: option.split intro!: wp_on_net)

definition event_done ::
    "('c, 'b, 'w) env \<Rightarrow> string \<Rightarrow> event \<Rightarrow> ('c, 'w) director \<Rightarrow> ('c, 'w) director \<Rightarrow> bool" where
  "event_done E key ev s s' \<longleftrightarrow> event_mid E (ev_Spec ev) s s' \<and> events_of E s' = (events_of E s)(key \<mapsto> ev) \<and>
     runs_of E s' = runs_noted (ev_Spec ev) (runs_of E s)"

lemma wp_event_tail:
  assumes "env_ok E" and "Unmarshal (event_json E) b = Inr ev"
    and "event_mid E (ev_Spec ev) s t" and "runs_of E t = runs_noted (ev_Spec ev) (runs_of E s)"
    and "events_of E t = events_of E s"
  shows "wp (store_event E key b (ev_Spec ev))
    (\<lambda>r s'. case r of Inl e \<Rightarrow> event_mid E (ev_Spec ev) s s' | Inr _ \<Rightarrow> event_done E key ev s s')
    (event_mid E (ev_Spec ev) s) t"
proof -
  have "event_done E key ev s (event_put E key b t)"
    using assms(3-5) by (simp add: event_done_def event_mid_def event_put_views [OF assms(1,2)])
  moreover have "event_done E key ev s (u\<lparr>net := w\<rparr>) = event_done E key ev s u" for u w
    by (simp add: event_done_def)
  ultimately show ?thesis
    unfolding store_event_def wps on_events_def wp_zoom
    by (auto simp: event_put_def event_done_def wps intro!: wp_slack)
qed

text \<open>After the run was noted: a failure is passed on, then the event is stored.\<close>

lemma wp_event_rest:
  assumes "env_ok E" and "Unmarshal (event_json E) b = Inr ev" and "es_Class (ev_Spec ev) = Some cls"
    and "director_ok E t" and "plans_of E t = plans_of E s" and "events_of E t = events_of E s"
    and "runs_of E t = runs_noted (ev_Spec ev) (runs_of E s)"
  shows "wp (seq (fails_run cls (ev_Spec ev)) (\<lambda>fails. seq (if fails then fail_run E tr else ret None) (\<lambda>err. case err of
      Some e \<Rightarrow> ret (Inl e) | None \<Rightarrow> store_event E key b (ev_Spec ev))))
    (\<lambda>r s'. case r of Inl e \<Rightarrow> event_mid E (ev_Spec ev) s s' | Inr _ \<Rightarrow> event_done E key ev s s')
    (event_mid E (ev_Spec ev) s) t"
proof -
  have mid: "event_mid E (ev_Spec ev) s t" using assms(4-7) by (simp add: event_mid_def)
  let ?Q = "\<lambda>r s'. case r of Inl e \<Rightarrow> event_mid E (ev_Spec ev) s s' | Inr _ \<Rightarrow> event_done E key ev s s'"
  have tail: "wp (store_event E key b (ev_Spec ev)) ?Q (event_mid E (ev_Spec ev) s) u"
    if "event_mid E (ev_Spec ev) s u" "runs_of E u = runs_of E t" "events_of E u = events_of E t" for u
    using that assms(6,7) by (intro wp_event_tail [OF assms(1,2)]) simp_all
  have unch: "event_mid E (ev_Spec ev) s u" if "unchanged E t u" for u
    using that mid by (simp add: event_mid_def unchanged_def)
  have fail: "wp (fail_run E tr) (\<lambda>err. case err of Some e \<Rightarrow> ?Q (Inl e)
        | None \<Rightarrow> wp (store_event E key b (ev_Spec ev)) ?Q (event_mid E (ev_Spec ev) s)) (event_mid E (ev_Spec ev) s) t"
    if "event_fails (ev_Spec ev)"
  proof (cases tr)
    case None
    then show ?thesis using mid by (simp add: fail_run_def wps)
  next
    case (Some run)
    show ?thesis
      unfolding fail_run_def Some wps option.case
    proof (rule wp_UpdateTestRun [OF assms(1,4)], goal_cases)
      case (2 u)
      then have "event_mid E (ev_Spec ev) s u"
        using that assms(5,7) unfolding event_mid_def by (metis run_fields(1))
      with 2 show ?case by (simp add: tail)
    qed (simp_all add: unch)
  qed
  show ?thesis
    using mid fail tail [OF mid] assms(3)
    by (auto simp: fails_run_def wps event_fails_def split: option.split)
qed

lemma wp_EventCache_Set:
  assumes "env_ok E" and "director_ok E s"
  shows "wp (EventCache_Set E key ev)
    (\<lambda>r s'. case r of Inl e \<Rightarrow> event_mid E (ev_Spec ev) s s' | Inr _ \<Rightarrow> event_done E key ev s s')
    (event_mid E (ev_Spec ev) s) s"
proof -
  obtain b where b: "Marshal (event_json E) ev = Inr b" "Unmarshal (event_json E) b = Inr ev"
    using assms(1) unfolding env_ok_def codec_ok_def by blast
  have mid: "event_mid E (ev_Spec ev) s s" using assms(2) by (simp add: event_mid_def)
  show ?thesis
  proof (cases "es_Class (ev_Spec ev)")
    case None
    then show ?thesis using mid by (simp add: EventCache_Set_def b(1) wps)
  next
    case (Some cls)
    note rest = wp_event_rest [OF assms(1) b(2) Some]
    show ?thesis
    proof (cases "cls = EventINFO")
      case True
      have "runs_of E s = runs_noted (ev_Spec ev) (runs_of E s)"
        using Some True by (simp add: runs_noted_def split: option.split)
      from rest [OF assms(2) refl refl this, of None key]
      show ?thesis unfolding EventCache_Set_def b(1) sum.case Some deref_simps seq_ret using True by simp
    next
      case False
      show ?thesis
        unfolding EventCache_Set_def b(1) sum.case Some deref_simps seq_ret if_P [OF False] wp_check
        by (rule wp_add_to_run [OF assms Some False], rule mid) (simp only: sum.case wp_ret, rule rest)
    qed
  qed
qed

lemma wp_AddEvent:
  assumes "env_ok E" and "director_ok E s"
  shows "wp (AddEvent_Handle E spec)
    (\<lambda>resp s'. case resp of RespOK ev \<Rightarrow> ev_Spec ev = spec \<and> event_done E (ev_ID ev) ev s s' | _ \<Rightarrow> event_mid E spec s s')
    (event_mid E spec s) s"
proof -
  have mid: "event_mid E spec s s" using assms(2) by (simp add: event_mid_def)
  have set: "wp (EventCache_Set E uid \<lparr>ev_ID = uid, ev_LoggedDateTime = now, ev_Spec = spec\<rparr>)
      (\<lambda>r. case r of Inl e \<Rightarrow> event_mid E spec s
        | Inr _ \<Rightarrow> event_done E uid \<lparr>ev_ID = uid, ev_LoggedDateTime = now, ev_Spec = spec\<rparr> s)
      (event_mid E spec s) (s\<lparr>net := w\<rparr>)" for uid now w
  proof -
    have "director_ok E (s\<lparr>net := w\<rparr>)" using assms(2) by simp
    from wp_EventCache_Set [OF assms(1) this, of uid "\<lparr>ev_ID = uid, ev_LoggedDateTime = now, ev_Spec = spec\<rparr>"]
    show ?thesis
      by (rule wp_mono) (auto simp: event_mid_def event_done_def split: sum.splits)
  qed
  show ?thesis
    unfolding AddEvent_Handle_def wps Let_def event.simps
  proof (rule wp_on_net, goal_cases)
    case (1 uid w)
    show ?case
    proof (rule wp_on_net, goal_cases)
      case (1 now w')
      from set [of uid "Some now" w'] show ?case
        by (simp, rule_tac wp_mono) (auto split: sum.splits)
    qed (use mid in simp)
  qed (use mid in simp)
qed

section \<open>The director as a sequence of requests\<close>

inductive director_step :: "('c, 'b, 'w) env \<Rightarrow> ('c, 'w) director \<Rightarrow> ('c, 'w) director \<Rightarrow> bool"
  for E :: "('c, 'b, 'w) env" where
  put_plan: "tps_Status tps \<noteq> None \<Longrightarrow> director_step E s (snd (PutTestPlan_Handle E ident tps s))"
| delete_plan: "director_step E s (snd (DeleteTestPlanByID_Handle E ident s))"
| delete_plans: "director_step E s (snd (DeleteTestPlans_Handle E s))"
| put_run: "director_step E s (snd (PutTestRun_Handle E ident spec s))"
| delete_run: "director_step E s (snd (DeleteTestRunByID_Handle E ident s))"
| add_event: "director_step E s (snd (AddEvent_Handle E es s))"
| outside: "director_step E s (s\<lparr>net := w\<rparr>)"

inductive director_reachable :: "('c, 'b, 'w) env \<Rightarrow> ('c, 'w) director \<Rightarrow> bool"
  for E :: "('c, 'b, 'w) env" where
  init: "init_director E s0 = (Done (), s) \<Longrightarrow> director_reachable E s"
| step: "director_reachable E s \<Longrightarrow> director_step E s t \<Longrightarrow> director_reachable E t"

inductive_cases director_stepE: "director_step E s t"

lemma DeletePlan_step:
  assumes "env_ok E" and "director_ok E s"
  shows "director_ok E (snd (DeleteTestPlanByID_Handle E ident s)) \<and>
    runs_of E (snd (DeleteTestPlanByID_Handle E ident s)) = runs_of E s \<and>
    plans_of E (snd (DeleteTestPlanByID_Handle E ident s)) = (plans_of E s)(ident := None)"
proof -
  note pc = env_backends(1) [OF assms(1)]
  let ?s = "s\<lparr>planClient := snd (TestPlanCache_Delete (cache E) (plan_json E) ident (planClient s))\<rparr>"
  have s: "snd (DeleteTestPlanByID_Handle E ident s) = ?s"
    by (simp add: DeleteTestPlanByID_Handle_def on_plans_def seq_apply zoom_apply call_apply split: sum.split)
  have p: "plans_of E ?s = (plans_of E s)(ident := None)"
    by (simp add: plans_of_def plan_cache.plan_map_delete [OF pc])
  have "stores_readable E ?s"
    using assms(2) by (simp add: director_ok_def stores_readable_def plan_cache.readable_delete [OF pc])
  moreover have "plans_ok ((plans_of E s)(ident := None))"
    using assms(2) by (auto simp: director_ok_def elim!: plans_ok_sub split: if_splits)
  ultimately show ?thesis by (simp add: s p director_ok_def) (simp add: runs_of_def)
qed

lemma DeletePlans_step:
  assumes "env_ok E" and "director_ok E s"
  obtains ro s' where "DeleteTestPlans_Handle E s = (Done (RespOK ro), s')" and "director_ok E s'"
    and "runs_of E s' = runs_of E s" and "events_of E s' = events_of E s"
    and "plans_of E s' = (\<lambda>k. case plans_of E s k of Some p \<Rightarrow> if active p then Some p else None | None \<Rightarrow> None)"
    and "ro_ItemsAffected ro = Some (int (card {k. \<exists>p. plans_of E s k = Some p \<and> \<not> active p}))"
proof -
  have "readable (cache E) (plan_json E) (planClient s)" "plans_ok (plan_map (cache E) (plan_json E) (planClient s))"
    using assms(2) by (simp_all add: director_ok_def stores_readable_def plans_of_def)
  then obtain ro c' where c': "TestPlanCache_DeleteAll (cache E) (plan_json E) (planClient s) = (Done ro, c')"
    "readable (cache E) (plan_json E) c'"
    "plan_map (cache E) (plan_json E) c' = (\<lambda>k. case plans_of E s k of Some p \<Rightarrow> if active p then Some p else None | None \<Rightarrow> None)"
    "ro_ItemsAffected ro = Some (int (card {k. \<exists>p. plans_of E s k = Some p \<and> \<not> active p}))"
    unfolding plans_of_def by (rule plan_cache.DeleteAll_run [OF env_backends(1) [OF assms(1)]]) blast
  let ?s = "s\<lparr>planClient := c'\<rparr>"
  have p: "plans_of E ?s = (\<lambda>k. case plans_of E s k of Some p \<Rightarrow> if active p then Some p else None | None \<Rightarrow> None)"
    using c'(3) by (simp add: plans_of_def)
  have "plans_ok (plans_of E ?s)"
    using assms(2) unfolding p by (auto simp: director_ok_def elim!: plans_ok_sub split: option.splits if_splits)
  then have "director_ok E ?s"
    using assms(2) c'(2) by (simp add: director_ok_def stores_readable_def)
  moreover have "DeleteTestPlans_Handle E s = (Done (RespOK ro), ?s)"
    using c'(1) by (simp add: DeleteTestPlans_Handle_def on_plans_def seq_apply zoom_apply)
  ultimately show thesis
    using that p c'(4) by (simp add: runs_of_def events_of_def [abs_def])
qed

lemma DeleteRun_step:
  assumes "env_ok E" and "director_ok E s"
  shows "director_ok E (snd (DeleteTestRunByID_Handle E ident s)) \<and>
    runs_of E (snd (DeleteTestRunByID_Handle E ident s)) = (runs_of E s)(ident := None) \<and>
    plans_of E (snd (DeleteTestRunByID_Handle E ident s)) = plans_of E s"
proof -
  note rs = cache_backend.backend_simps [OF env_backends(2) [OF assms(1)]]
  let ?s = "s\<lparr>runClient := snd (TestRunCache_Delete (cache E) (run_json E) ident (runClient s))\<rparr>"
  have s: "snd (DeleteTestRunByID_Handle E ident s) = ?s"
    by (simp add: DeleteTestRunByID_Handle_def on_runs_def seq_apply zoom_apply call_apply split: sum.split)
  have "runs_of E ?s = (runs_of E s)(ident := None)"
    by (rule ext) (simp add: runs_of_def run_map_defs TestRunCache_Delete_def rs)
  moreover have "plans_of E ?s = plans_of E s" by (simp add: plans_of_def)
  moreover have "stores_readable E ?s"
    using assms(2) by (simp add: director_ok_def stores_readable_def TestRunCache_Delete_def rs)
  ultimately show ?thesis using assms(2) by (simp add: s director_ok_def)
qed

lemma director_step_ok:
  assumes "env_ok E" and "director_step E s t" and "director_ok E s"
  shows "director_ok E t"
  using assms(2)
proof cases
  case (put_plan tps ident)
  then obtain new where "tps_Status tps = Some new" by auto
  from wp_PutTestPlan [OF assms(1,3) this, of ident] show ?thesis
    unfolding put_plan by (rule wp_sndI) (simp_all)
next
  case (delete_plan ident)
  then show ?thesis using DeletePlan_step [OF assms(1,3)] by simp
next
  case delete_plans
  then show ?thesis using DeletePlans_step [OF assms(1,3)] by (metis snd_conv)
next
  case (put_run ident spec)
  from wp_PutTestRun [OF assms(1,3), of ident spec] show ?thesis
    unfolding put_run by (rule wp_sndI) (auto simp: run_stored_def unchanged_def split: response.splits)
next
  case (delete_run ident)
  then show ?thesis using DeleteRun_step [OF assms(1,3)] by simp
next
  case (add_event es)
  from wp_AddEvent [OF assms(1,3), of es] show ?thesis
    unfolding add_event by (rule wp_sndI) (auto simp: event_mid_def event_done_def split: response.splits)
next
  case (outside w)
  then show ?thesis using assms(3) by simp
qed

text \<open>The server starts with empty stores and at most the default plan.\<close>

definition fresh_plans :: "('c, 'b, 'w) env \<Rightarrow> ('c, 'w) director \<Rightarrow> ('c, 'w) director \<Rightarrow> bool" where
  "fresh_plans E s t \<longleftrightarrow> readable (cache E) (plan_json E) (planClient t) \<and> plans_ok (plans_of E t) \<and>
     eventClient t = eventClient s"

lemma fresh_plans_new:
  assumes "env_ok E"
  shows "fresh_plans E s (s\<lparr>planClient := CacheNew (cache E), net := w\<rparr>)"
    and "plan_ok k p \<Longrightarrow> fresh_plans E s (plan_put E k p (s\<lparr>planClient := CacheNew (cache E), net := w\<rparr>))"
proof -
  note pl = cache_backend.backend_simps [OF plan_cache.axioms [OF env_backends(1) [OF assms]]]
  have none: "plans_of E (s\<lparr>planClient := CacheNew (cache E), net := w\<rparr>) = (\<lambda>_. None)"
    by (rule ext) (simp add: plans_of_def plan_map_defs pl)
  then show "fresh_plans E s (s\<lparr>planClient := CacheNew (cache E), net := w\<rparr>)"
    by (simp add: fresh_plans_def pl plans_ok_def one_active_def)
  assume "plan_ok k p"
  then have "plans_ok [k \<mapsto> p]" by (auto simp: plans_ok_def one_active_def split: if_splits)
  with none show "fresh_plans E s (plan_put E k p (s\<lparr>planClient := CacheNew (cache E), net := w\<rparr>))"
    by (simp add: fresh_plans_def plan_put_views [OF assms]) (simp add: plan_put_def TestPlanCache_Set_def pl)
qed

lemma wp_InitTestPlanCache:
  assumes "env_ok E"
  shows "wp (InitTestPlanCache E) (\<lambda>_. fresh_plans E s) (\<lambda>_. True) s"
  unfolding InitTestPlanCache_def wps wp_plan_Set [OF assms]
proof (rule wp_on_net, goal_cases)
  case (1 r w)
  show ?case
  proof (cases r)
    case (Inr jt)
    show ?thesis
    proof (cases "jt_Id jt")
      case (Some i)
      show ?thesis
        unfolding Inr sum.case Some option.case
        by (rule wp_on_net)
           (auto simp: fresh_plans_new [OF assms] plan_ok_def tp_Status_def split: sum.split option.split)
    qed (simp add: Inr)
  qed (simp add: fresh_plans_new [OF assms])
qed simp

lemma init_ok:
  assumes "env_ok E" and "init_director E s0 = (Done (), s)"
  shows "director_ok E s"
proof -
  note rn = cache_backend.backend_simps [OF env_backends(2) [OF assms(1)]]
    and ev = cache_backend.backend_simps [OF env_backends(3) [OF assms(1)]]
  have "director_ok E (t\<lparr>runClient := CacheNew (cache E)\<rparr>)"
    if "fresh_plans E (s0\<lparr>eventClient := CacheNew (cache E)\<rparr>) t" for t
    using that by (simp add: director_ok_def stores_readable_def fresh_plans_def plans_of_def rn ev)
  then have "wp (init_director E) (\<lambda>_. director_ok E) (\<lambda>_. True) s0"
    unfolding init_director_def InitEventCache_def InitTestRunCache_def wps
    by (intro wp_mono [OF wp_InitTestPlanCache [OF assms(1)]]) simp_all
  then show ?thesis using assms(2) by (rule wp_Done)
qed

lemma director_reachable_ok: "env_ok E \<Longrightarrow> director_reachable E s \<Longrightarrow> director_ok E s"
  by (rotate_tac, induction rule: director_reachable.induct) (auto intro: init_ok director_step_ok)

end
