(* ===== verification/Director_Client.thy ===== *)
theory Director_Client
  imports Models
begin

text \<open>
  \<^verbatim>\<open>common/test_director_lib.go\<close>: how the test conductor and the workload monitor report
  to the test director. The generated REST client is the parameter \<open>td_api\<close>; the field
  \<open>TimeText\<close> is \<^verbatim>\<open>time.Now().Format(...)\<close>. A call that fails has no payload (nil).
\<close>

record 'w td_api =
  PutTestRunByID :: "string \<Rightarrow> test_run_spec \<Rightarrow> 'w \<Rightarrow> test_run result \<times> 'w"
  GetTestRunByID :: "string \<Rightarrow> 'w \<Rightarrow> test_run result \<times> 'w"
  AddEvent :: "event_spec \<Rightarrow> 'w \<Rightarrow> event result \<times> 'w"
  GetTestPlans :: "'w \<Rightarrow> test_plan list result \<times> 'w"
  TimeText :: "'w \<Rightarrow> string \<times> 'w"
  TdSleep :: "nat \<Rightarrow> 'w \<Rightarrow> 'w"

definition getTime :: "'w td_api \<Rightarrow> ('w, string) io" where
  "getTime td = call (TimeText td)"

definition removespecial :: "string \<Rightarrow> string" where
  "removespecial input = (let tmp = ReplaceAll input newline '': '' in ReplaceAll tmp dquote '' '')"

definition sendTestRunStatus ::
    "'w td_api \<Rightarrow> uuid \<Rightarrow> string \<Rightarrow> string \<Rightarrow> test_run_status \<Rightarrow> ('w, unit result) io" where
  "sendTestRunStatus td uid message jira_key status =
     seq (getTime td) (\<lambda>t.
     let spec = \<lparr>trs_Data = t @ '': '' @ removespecial message, trs_Status = status,
                 trs_TestExecIssueID = '''', trs_TestID = '''', trs_TestKey = Some jira_key\<rparr>
     in check (call (PutTestRunByID td uid spec))
          (\<lambda>err. Errorf (''failed to put event, error: '' @ err_text err @ '' <nil>''))
          (\<lambda>_. ret (Inr ())))"

text \<open>The status comes back with the error: \<^verbatim>\<open>FAILED\<close> when the run cannot be read.\<close>

definition GetTestRunStatus ::
    "'w td_api \<Rightarrow> uuid \<Rightarrow> ('w, test_run_status \<times> error option) io" where
  "GetTestRunStatus td uid =
     seq (call (GetTestRunByID td uid)) (\<lambda>r. case r of
       Inl err \<Rightarrow> ret (TestRunFAILED, Some (Errorf (''failed to get test run, error: '' @ err_text err @ '' <nil>'')))
     | Inr run \<Rightarrow> ret (tr_Status run, None))"

definition SendTestRunCompletedOk :: "'w td_api \<Rightarrow> uuid \<Rightarrow> string \<Rightarrow> string \<Rightarrow> ('w, unit result) io" where
  "SendTestRunCompletedOk td uid message jira_key = sendTestRunStatus td uid message jira_key TestRunPASSED"

definition SendTestRunCompletedFail :: "'w td_api \<Rightarrow> uuid \<Rightarrow> string \<Rightarrow> string \<Rightarrow> ('w, unit result) io" where
  "SendTestRunCompletedFail td uid message jira_key = sendTestRunStatus td uid message jira_key TestRunFAILED"

definition SendTestRunStarted :: "'w td_api \<Rightarrow> uuid \<Rightarrow> string \<Rightarrow> string \<Rightarrow> ('w, unit result) io" where
  "SendTestRunStarted td uid message jira_key = sendTestRunStatus td uid message jira_key TestRunEXECUTING"

definition SendTestRunToDo :: "'w td_api \<Rightarrow> uuid \<Rightarrow> string \<Rightarrow> string \<Rightarrow> ('w, unit result) io" where
  "SendTestRunToDo td uid message jira_key = sendTestRunStatus td uid message jira_key TestRunTODO"

text \<open>The log line after a successful call reads \<^verbatim>\<open>Data[0]\<close> and \<^verbatim>\<open>*Message\<close> of the answer.\<close>

definition SendEvent ::
    "'w td_api \<Rightarrow> uuid \<Rightarrow> string \<Rightarrow> event_class \<Rightarrow> event_source_class \<Rightarrow> ('w, unit result) io" where
  "SendEvent td sourceInstance message eventClass sourceClass =
     seq (getTime td) (\<lambda>t.
     let message' = removespecial (t @ '': '' @ message);
         spec = \<lparr>es_Class = Some eventClass, es_Data = [''''], es_Message = Some message', es_Resource = '''',
                 es_SourceClass = Some sourceClass, es_SourceInstance = Some sourceInstance\<rparr>
     in check (call (AddEvent td spec))
          (\<lambda>err. Errorf (''failed to put event, error: '' @ err_text err @ '' <nil>''))
          (\<lambda>e. seq (index (es_Data (ev_Spec e)) 0) (\<lambda>_.
               seq (deref (es_Message (ev_Spec e))) (\<lambda>_. ret (Inr ())))))"

definition SendEventFail :: "'w td_api \<Rightarrow> uuid \<Rightarrow> string \<Rightarrow> event_source_class \<Rightarrow> ('w, unit result) io" where
  "SendEventFail td source message sourceClass = SendEvent td source message EventFAIL sourceClass"

definition SendEventInfo :: "'w td_api \<Rightarrow> uuid \<Rightarrow> string \<Rightarrow> event_source_class \<Rightarrow> ('w, unit result) io" where
  "SendEventInfo td source message sourceClass = SendEvent td source message EventINFO sourceClass"

definition SendEventWarn :: "'w td_api \<Rightarrow> uuid \<Rightarrow> string \<Rightarrow> event_source_class \<Rightarrow> ('w, unit result) io" where
  "SendEventWarn td source message sourceClass = SendEvent td source message EventWARN sourceClass"

text \<open>An unbounded wait: \<open>fuel\<close> bounds the number of attempts that the model follows.\<close>

definition WaitTestDirector :: "nat \<Rightarrow> 'w td_api \<Rightarrow> ('w, unit) io" where
  "WaitTestDirector fuel td =
     seq (loop fuel 0 () (\<lambda>_ _.
       seq (call (GetTestPlans td)) (\<lambda>r.
       let found = (case r of Inl err \<Rightarrow> False | Inr plans \<Rightarrow> 0 < length plans) in
       if found then ret (Break ())
       else seq (modifies (TdSleep td 5)) (\<lambda>_. ret (Continue ())))))
     (\<lambda>c. case c of Inl u \<Rightarrow> ret u | Inr u \<Rightarrow> ret u)"

section \<open>What is sent\<close>

lemma removespecial_clean: "newline \<notin> set (removespecial t) \<and> dquote \<notin> set (removespecial t)"
proof -
  have chars: "c \<in> set (removespecial t) \<Longrightarrow> c \<noteq> dquote \<and> (c \<noteq> newline \<and> c \<in> set t \<or> c = CHR '':'') \<or> c = CHR '' ''" for c
    by (auto simp: removespecial_def Let_def dest!: set_ReplaceAll)
  then show ?thesis
    by (auto simp: newline_def dquote_def dest!: chars)
qed

lemma removespecial_idem: "removespecial (removespecial t) = removespecial t"
proof -
  have "ReplaceAll (removespecial t) newline '': '' = removespecial t"
    by (rule ReplaceAll_none) (simp add: removespecial_clean)
  then show ?thesis
    using removespecial_clean [of t] by (simp add: removespecial_def [of "removespecial t"] ReplaceAll_none)
qed

end
