(* ===== verification/Director_Properties.thy ===== *)
theory Director_Properties
  imports Director_Invariant Director_Client
begin

text \<open>
  The properties of the test director, over the lemmas of \<open>Director_Invariant\<close>, each with a
  concrete instance on the cache in memory and a small Jira and XRay (\<open>demo_http\<close>).
\<close>

section \<open>A small Jira and XRay\<close>

text \<open>Keys that begin with P are test plans, the others tests; XRay gives every execution the id X1.\<close>

definition demo_http :: "http_request list http_api" where
  "demo_http = \<lparr>NewRequest = (\<lambda>m u b. Inr \<lparr>rq_Method = m, rq_URL = u, rq_Header = [], rq_Body = b\<rparr>),
     HttpDo = (\<lambda>t rq w. (Inr \<lparr>rs_StatusCode = 200, rs_Body = Inr (if rq_URL rq = authUrl then ''*tok*'' else rq_URL rq)\<rparr>, w @ [rq])),
     HttpSleep = (\<lambda>n w. w), UnixNow = (\<lambda>w. (0, w)),
     DecodeJira = (\<lambda>b. let key = drop (length issueURL) b in Inr \<lparr>jt_Key = key, jt_Id = Some key, jt_AssigneeName = ''me'',
        jt_Name = Some key, jt_IssueType = Some (if HasPrefix key ''P'' then ''Test Plan'' else ''Test'')\<rparr>),
     GjsonStr = (\<lambda>j p. ''X1''), GjsonArray = (\<lambda>j p. [''T-1'']), RFC3339 = (\<lambda>t. ''t''),
     ApiToken = ''a'', ClientId = ''b'', ClientSecret = ''c''\<rparr>"

definition demo_env :: "((string \<times> stored) list, stored, http_request list) env" where
  "demo_env = \<lparr>cache = alist_cache, plan_json = plan_codec, run_json = run_codec, event_json = event_codec,
     http = demo_http, TimeNow = (\<lambda>w. (7, w)), NewUUID = (\<lambda>w. (''e1'', w)), slackWebHook = '''',
     cfg_SlackNotification = False, cfg_DefaultTestPlan = ''P-1''\<rparr>"

definition demo_start :: "((string \<times> stored) list, http_request list) director" where
  "demo_start = snd (init_director demo_env \<lparr>planClient = [], runClient = [], eventClient = [], net = []\<rparr>)"

definition demo_spec :: "test_run_status \<Rightarrow> test_run_spec" where
  "demo_spec st = \<lparr>trs_Data = ''d'', trs_Status = st, trs_TestExecIssueID = '''', trs_TestID = '''', trs_TestKey = Some ''T-1''\<rparr>"

definition demo_event :: "event_class \<Rightarrow> string \<Rightarrow> event_spec" where
  "demo_event cls inst = \<lparr>es_Class = Some cls, es_Data = [''x''], es_Message = Some ''m'', es_Resource = '''',
     es_SourceClass = Some SourceWorkloadMonitor, es_SourceInstance = Some inst\<rparr>"

text \<open>After a run was created and started.\<close>

definition demo_running :: "((string \<times> stored) list, http_request list) director" where
  "demo_running = snd (PutTestRun_Handle demo_env ''r1'' (demo_spec TestRunEXECUTING)
     (snd (PutTestRun_Handle demo_env ''r1'' (demo_spec TestRunTODO) demo_start)))"

lemma demo_env_ok: "env_ok demo_env"
  by (simp add: env_ok_def demo_env_def alist_cache_ok codecs_ok)

lemma demo_start_reachable: "director_reachable demo_env demo_start"
proof (rule director_reachable.init)
  show "init_director demo_env \<lparr>planClient = [], runClient = [], eventClient = [], net = []\<rparr> = (Done (), demo_start)"
    unfolding demo_start_def by code_simp
qed

lemma demo_running_reachable: "director_reachable demo_env demo_running"
  unfolding demo_running_def
  by (rule director_reachable.step [OF director_reachable.step [OF demo_start_reachable director_step.put_run] director_step.put_run])

lemma demo_ok: "director_ok demo_env demo_start" "director_ok demo_env demo_running"
  using director_reachable_ok [OF demo_env_ok] demo_start_reachable demo_running_reachable by auto

lemma demo_running_run:
  "map_option tr_Status (runs_of demo_env demo_running ''r1'') = Some TestRunEXECUTING"
  by code_simp

section \<open>Plans\<close>

text \<open>
  Property C1. At any time after start-up, whatever requests have been made, every stored
  plan is filed under its own key and has a status, and at most one plan is active.
\<close>

theorem director_one_active_plan:
  assumes "env_ok E" and "director_reachable E s"
  shows "(\<forall>k p. plans_of E s k = Some p \<longrightarrow> tp_Key p = k \<and> tp_Status p \<noteq> None \<and> tp_IsActive p \<noteq> None) \<and>
    (\<forall>k k' p p'. plans_of E s k = Some p \<longrightarrow> plans_of E s k' = Some p' \<longrightarrow> active p \<longrightarrow> active p' \<longrightarrow> k = k')"
  using director_reachable_ok [OF assms]
  unfolding director_ok_def plans_ok_def one_active_def plan_ok_def by blast

theorem director_one_active_plan_witness:
  "\<exists>k0. {k. \<exists>p. plans_of demo_env demo_running k = Some p \<and> active p} \<subseteq> {k0}"
  using director_one_active_plan [OF demo_env_ok demo_running_reachable] by blast



text \<open>
  Deleting the plans removes exactly those that are not active, returns their
  number, and leaves the runs and the events alone.
\<close>

theorem delete_plans_keeps_active:
  assumes "env_ok E" and "director_ok E s"
  shows "\<exists>ro s'. DeleteTestPlans_Handle E s = (Done (RespOK ro), s')
    \<and> (\<forall>k p. plans_of E s' k = Some p \<longleftrightarrow> plans_of E s k = Some p \<and> active p)
    \<and> ro_ItemsAffected ro = Some (int (card {k. \<exists>p. plans_of E s k = Some p \<and> \<not> active p}))
    \<and> runs_of E s' = runs_of E s \<and> events_of E s' = events_of E s"
  by (rule DeletePlans_step [OF assms]) (auto split: option.splits if_splits)

theorem delete_plans_keeps_active_witness:
  "\<exists>ro s'. DeleteTestPlans_Handle demo_env demo_running = (Done (RespOK ro), s')
    \<and> (\<forall>k p. plans_of demo_env s' k = Some p \<longleftrightarrow> plans_of demo_env demo_running k = Some p \<and> active p)"
  using delete_plans_keeps_active [OF demo_env_ok demo_ok(2)] by blast

text \<open>
  A \<^verbatim>\<open>PUT\<close> of an unknown plan whose Jira issue is not a test plan is meant to be
  refused; instead the handler panics, because the error that it reports is nil.
\<close>

theorem put_plan_wrong_type_panics:
  assumes "plans_of E s ident = None" and "GetJiraTaskDetails (http E) ident (net s) = (Done (Inr jt), w)"
    and "jt_IssueType jt = Some ty" and "ty \<noteq> ''Test Plan''"
  shows "fst (PutTestPlan_Handle E ident tps s) = Panicked ''nil pointer dereference''"
proof -
  have get: "plan_Get E ident s = (Done None, s)"
    using assms(1) by (simp add: plan_Get_def on_plans_def zoom_apply plans_of_def plan_map_def)
  have "new_plan E ident tps s = (Done (Inl None), s\<lparr>net := w\<rparr>)"
    using assms(2-4) by (simp add: new_plan_def seq_apply on_net_def zoom_apply)
  with get show ?thesis by (simp add: PutTestPlan_Handle_def seq_apply testPlanBadRequest_def)
qed

theorem put_plan_wrong_type_panics_witness:
  "fst (PutTestPlan_Handle demo_env ''T-1'' \<lparr>tps_Assignee = '''', tps_JiraID = '''', tps_Name = '''',
      tps_Status = Some PlanRUNNING, tps_Tests = []\<rparr> demo_start) = Panicked ''nil pointer dereference''"
proof (rule put_plan_wrong_type_panics)
  show "plans_of demo_env demo_start ''T-1'' = None" by code_simp
  show "GetJiraTaskDetails (http demo_env) ''T-1'' (net demo_start) =
      (Done (Inr \<lparr>jt_Key = ''T-1'', jt_Id = Some ''T-1'', jt_AssigneeName = ''me'', jt_Name = Some ''T-1'', jt_IssueType = Some ''Test''\<rparr>),
       snd (GetJiraTaskDetails (http demo_env) ''T-1'' (net demo_start)))"
    by code_simp
qed (simp, code_simp)

section \<open>Runs\<close>

text \<open>
  Property C7. A \<^verbatim>\<open>PUT\<close> of a run that succeeds stores the run it returns under the id of the
  request and leaves the other runs alone: an unknown run comes out to do, whatever status
  was asked for; a known run moves from to do to executing and from there to failed or
  passed, and keeps its status otherwise.
\<close>

theorem put_run_stored:
  assumes "env_ok E" and "director_ok E s" and "PutTestRun_Handle E ident spec s = (Done (RespOK run), s')"
  shows "runs_of E s' = (runs_of E s)(ident \<mapsto> run) \<and>
    tr_Status run = (case runs_of E s ident of
        None \<Rightarrow> TestRunTODO | Some old \<Rightarrow> run_status_next (tr_Status old) (trs_Status spec))"
  using wp_Done [OF wp_PutTestRun [OF assms(1,2)] assms(3)] by (auto simp: run_stored_def split: option.splits)

theorem put_run_stored_witness:
  "\<exists>run s'. PutTestRun_Handle demo_env ''r1'' (demo_spec TestRunPASSED) demo_running = (Done (RespOK run), s') \<and>
     runs_of demo_env s' ''r1'' = Some run \<and> tr_Status run = TestRunPASSED"
proof -
  obtain old where old: "runs_of demo_env demo_running ''r1'' = Some old" "tr_Status old = TestRunEXECUTING"
    using demo_running_run by auto
  have "case PutTestRun_Handle demo_env ''r1'' (demo_spec TestRunPASSED) demo_running of (Done (RespOK run), s') \<Rightarrow> True | _ \<Rightarrow> False"
    by code_simp
  then obtain run s' where run: "PutTestRun_Handle demo_env ''r1'' (demo_spec TestRunPASSED) demo_running = (Done (RespOK run), s')"
    by (auto split: prod.splits outcome.splits response.splits)
  from put_run_stored [OF demo_env_ok demo_ok(2) run] old run show ?thesis
    by (simp add: run_status_next_def demo_spec_def)
qed

text \<open>
  Property C11. A \<^verbatim>\<open>PUT\<close> of a run that is refused, or that panics, leaves every plan, run and
  event in the stores as it was.
\<close>

theorem put_run_refused_unchanged:
  assumes "env_ok E" and "director_ok E s" and "PutTestRun_Handle E ident spec s = (res, s')"
    and "\<forall>run. res \<noteq> Done (RespOK run)"
  shows "plans_of E s' = plans_of E s \<and> runs_of E s' = runs_of E s \<and> events_of E s' = events_of E s"
  using wp_PutTestRun [OF assms(1,2), of ident spec] assms(3,4)
  by (cases res) (auto simp: wp_def unchanged_def split: response.splits)

theorem put_run_refused_unchanged_witness:
  "runs_of demo_env (snd (PutTestRun_Handle demo_env ''r9'' ((demo_spec TestRunTODO)\<lparr>trs_TestKey := Some ''T-9''\<rparr>) demo_running))
     = runs_of demo_env demo_running"
proof -
  let ?r = "PutTestRun_Handle demo_env ''r9'' ((demo_spec TestRunTODO)\<lparr>trs_TestKey := Some ''T-9''\<rparr>) demo_running"
  have "case fst ?r of Done (RespOK run) \<Rightarrow> False | _ \<Rightarrow> True" by code_simp
  then have "\<forall>run. fst ?r \<noteq> Done (RespOK run)" by auto
  from put_run_refused_unchanged [OF demo_env_ok demo_ok(2) _ this] show ?thesis
    by (metis prod.collapse)
qed

definition run_rank :: "test_run_status \<Rightarrow> nat" where
  "run_rank st = (case st of TestRunEXECUTING \<Rightarrow> 1 | TestRunPASSED \<Rightarrow> 2 | TestRunFAILED \<Rightarrow> 2 | _ \<Rightarrow> 0)"

lemma run_rank_next: "run_rank st \<le> run_rank (run_status_next st new)"
  by (cases st; cases new) (simp_all add: run_rank_def run_status_next_def)

lemma noted_status:
  "runs_noted es runs k = Some r' \<Longrightarrow> runs k = Some r \<Longrightarrow> tr_Status r' = tr_Status r"
  by (auto simp: runs_noted_def split: option.splits if_splits)

text \<open>
  Property C2. A run never goes back: as long as it is not deleted, no request takes an
  executing run back to to do, or a finished one back to executing.
\<close>

theorem runs_never_go_back:
  assumes "env_ok E" and "director_reachable E s" and "director_step E s t"
    and "runs_of E s k = Some r" and "runs_of E t k = Some r'"
  shows "run_rank (tr_Status r) \<le> run_rank (tr_Status r')"
  using assms(3)
proof cases
  case (put_plan tps ident)
  then obtain new where "tps_Status tps = Some new" by auto
  from wp_PutTestPlan [OF assms(1) director_reachable_ok [OF assms(1,2)] this, of ident]
  have "runs_of E t = runs_of E s" unfolding put_plan by (rule wp_sndI) simp_all
  with assms(4,5) show ?thesis by simp
next
  case (put_run ident spec)
  from wp_PutTestRun [OF assms(1) director_reachable_ok [OF assms(1,2)], of ident spec]
  have "runs_of E t = runs_of E s \<or> (\<exists>run. runs_of E t = (runs_of E s)(ident \<mapsto> run) \<and>
      (\<forall>old. runs_of E s ident = Some old \<longrightarrow> tr_Status run = run_status_next (tr_Status old) (trs_Status spec)))"
    unfolding put_run
    by (rule wp_sndI) (auto simp: run_stored_def unchanged_def split: response.splits option.splits)
  with assms(4,5) show ?thesis by (auto simp: run_rank_next split: if_splits)
next
  case (add_event es)
  from wp_AddEvent [OF assms(1) director_reachable_ok [OF assms(1,2)], of es]
  have "runs_of E t = runs_of E s \<or> runs_of E t = runs_noted es (runs_of E s)"
    unfolding add_event by (rule wp_sndI) (auto simp: event_mid_def event_done_def split: response.splits)
  with assms(4,5) noted_status [of es "runs_of E s" k r' r] show ?thesis by auto
next
  case (delete_plan ident)
  with DeletePlan_step [OF assms(1) director_reachable_ok [OF assms(1,2)], of ident] assms(4,5) show ?thesis by simp
next
  case delete_plans
  moreover obtain ro s' where "DeleteTestPlans_Handle E s = (Done (RespOK ro), s')" "runs_of E s' = runs_of E s"
    by (rule DeletePlans_step [OF assms(1) director_reachable_ok [OF assms(1,2)]])
  ultimately show ?thesis using assms(4,5) by simp
next
  case (delete_run ident)
  with DeleteRun_step [OF assms(1) director_reachable_ok [OF assms(1,2)], of ident] assms(4,5) show ?thesis
    by (auto split: if_splits)
next
  case (outside w)
  with assms(4,5) show ?thesis by simp
qed

theorem runs_never_go_back_witness:
  "\<exists>r r'. runs_of demo_env demo_running ''r1'' = Some r \<and>
     runs_of demo_env (snd (PutTestRun_Handle demo_env ''r1'' (demo_spec TestRunTODO) demo_running)) ''r1'' = Some r' \<and>
     run_rank (tr_Status r) \<le> run_rank (tr_Status r')"
proof -
  have "runs_of demo_env demo_running ''r1'' \<noteq> None"
    "runs_of demo_env (snd (PutTestRun_Handle demo_env ''r1'' (demo_spec TestRunTODO) demo_running)) ''r1'' \<noteq> None"
    by code_simp+
  with runs_never_go_back [OF demo_env_ok demo_running_reachable director_step.put_run] show ?thesis by fastforce
qed

text \<open>
  When a run ends, the director looks for the plan to complete under the key of
  the test, not for the active plan: as long as no plan is stored under the key of a test,
  no run that ends changes any plan.
\<close>

theorem finished_run_leaves_plans:
  assumes "env_ok E" and "director_ok E s" and "runs_of E s ident = Some old"
    and "trs_Status spec = TestRunPASSED \<or> trs_Status spec = TestRunFAILED" and "tr_Status old \<noteq> TestRunTODO"
    and "PutTestRun_Handle E ident spec s = (Done (RespOK run), s')"
    and "trs_TestKey (tr_Spec run) = Some key" and "plans_of E s key = None"
  shows "tr_Status run = trs_Status spec \<and> plans_of E s' = plans_of E s"
  using wp_Done [OF wp_PutTestRun [OF assms(1,2)] assms(6)] assms(3-5,7,8)
  by (auto simp: run_stored_def run_status_next_def plans_after_run_def plans_finished_def)

theorem finished_run_leaves_plans_witness:
  "\<exists>run s'. PutTestRun_Handle demo_env ''r1'' (demo_spec TestRunPASSED) demo_running = (Done (RespOK run), s') \<and>
     map_option tp_Status (plans_of demo_env s' ''P-1'') = Some (Some PlanRUNNING)"
proof -
  obtain old where old: "runs_of demo_env demo_running ''r1'' = Some old" "tr_Status old = TestRunEXECUTING"
    using demo_running_run by auto
  have "case PutTestRun_Handle demo_env ''r1'' (demo_spec TestRunPASSED) demo_running of
      (Done (RespOK run), s') \<Rightarrow> trs_TestKey (tr_Spec run) = Some ''T-1'' | _ \<Rightarrow> False"
    by code_simp
  then obtain run s' where run: "PutTestRun_Handle demo_env ''r1'' (demo_spec TestRunPASSED) demo_running = (Done (RespOK run), s')"
    "trs_TestKey (tr_Spec run) = Some ''T-1''"
    by (auto split: prod.splits outcome.splits response.splits)
  have "plans_of demo_env demo_running ''T-1'' = None"
    "map_option tp_Status (plans_of demo_env demo_running ''P-1'') = Some (Some PlanRUNNING)"
    by code_simp+
  with finished_run_leaves_plans [OF demo_env_ok demo_ok(2) old(1) _ _ run(1,2)] old(2) run(1) show ?thesis
    by (simp add: demo_spec_def)
qed

section \<open>Events\<close>

text \<open>
  An event that only informs changes no run and no plan, and when it is
  answered with the event, the event is stored under its id.
\<close>

theorem info_event_harmless:
  assumes "env_ok E" and "director_ok E s" and "es_Class es = Some EventINFO"
    and "AddEvent_Handle E es s = (res, s')"
  shows "runs_of E s' = runs_of E s \<and> plans_of E s' = plans_of E s \<and>
    (\<forall>ev. res = Done (RespOK ev) \<longrightarrow> ev_Spec ev = es \<and> events_of E s' (ev_ID ev) = Some ev)"
  using wp_AddEvent [OF assms(1,2), of es] assms(3,4)
  by (cases res)
     (auto simp: wp_def event_mid_def event_done_def event_fails_def runs_noted_def split: response.splits option.splits)

theorem info_event_harmless_witness:
  "runs_of demo_env (snd (AddEvent_Handle demo_env (demo_event EventINFO ''r1'') demo_running)) = runs_of demo_env demo_running"
proof -
  have "es_Class (demo_event EventINFO ''r1'') = Some EventINFO" by (simp add: demo_event_def)
  from info_event_harmless [OF demo_env_ok demo_ok(2) this surjective_pairing] show ?thesis by blast
qed

text \<open>
  Property C12. A failure reported as an event does not fail the run: when the event has been
  accepted, the stored run has the text of the event in its data and still the status that
  it had. The status set to failed is that of a copy, which reaches XRay but not the store.
\<close>

theorem fail_event_keeps_status:
  assumes "env_ok E" and "director_ok E s" and "es_Class es = Some EventFAIL" and "es_SourceInstance es = Some inst"
    and "es_Message es = Some message"
    and "runs_of E s inst = Some run" and "AddEvent_Handle E es s = (Done (RespOK ev), s')"
  shows "runs_of E s' inst = Some (append_data (event_text message (es_Data es)) run) \<and>
    tr_Status (append_data (event_text message (es_Data es)) run) = tr_Status run"
  using wp_Done [OF wp_AddEvent [OF assms(1,2)] assms(7)] assms(3-6)
  by (auto simp: event_done_def runs_noted_def)

theorem fail_event_keeps_status_witness:
  "\<exists>run. runs_of demo_env (snd (AddEvent_Handle demo_env (demo_event EventFAIL ''r1'') demo_running)) ''r1'' = Some run \<and>
     tr_Status run = TestRunEXECUTING"
proof -
  obtain run where run: "runs_of demo_env demo_running ''r1'' = Some run" "tr_Status run = TestRunEXECUTING"
    using demo_running_run by auto
  have "case AddEvent_Handle demo_env (demo_event EventFAIL ''r1'') demo_running of (Done (RespOK ev), s') \<Rightarrow> True | _ \<Rightarrow> False"
    by code_simp
  then obtain ev s' where ev: "AddEvent_Handle demo_env (demo_event EventFAIL ''r1'') demo_running = (Done (RespOK ev), s')"
    by (auto split: prod.splits outcome.splits response.splits)
  from fail_event_keeps_status [OF demo_env_ok demo_ok(2) _ _ _ run(1) ev, of "''m''"] run(2) ev show ?thesis
    by (simp add: demo_event_def)
qed

text \<open>
  An event that is not just information and whose source instance is not the id
  of a stored run makes the handler panic.
\<close>

theorem event_for_unknown_run_panics:
  assumes "env_ok E" and "es_Class es = Some cls" and "cls \<noteq> EventINFO"
    and "es_SourceInstance es = Some inst" and "runs_of E s inst = None"
  shows "fst (AddEvent_Handle E es s) = Panicked ''nil pointer dereference''"
proof -
  have get: "run_Get E inst t = (Done (runs_of E t inst), t)" for t
    by (simp add: run_Get_def on_runs_def zoom_apply runs_of_def run_map_def)
  have add: "add_to_run E es t = (Panicked ''nil pointer dereference'', t)" if "runs_of E t inst = None" for t
    using that assms(4) by (simp add: add_to_run_def seq_apply get)
  have set: "seq (EventCache_Set E key ev) f t = (Panicked ''nil pointer dereference'', t)"
    if "ev_Spec ev = es" "runs_of E t inst = None" for key ev t and f :: "unit result \<Rightarrow> (('a, 'c) director, event response) io"
  proof -
    obtain b where "Marshal (event_json E) ev = Inr b"
      using assms(1) unfolding env_ok_def codec_ok_def by blast
    with that assms(2,3) add show ?thesis by (simp add: EventCache_Set_def check_def seq_apply)
  qed
  show ?thesis
    using assms(5)
    by (simp add: AddEvent_Handle_def seq_on_net Let_def set)
qed

theorem event_for_unknown_run_panics_witness:
  "fst (AddEvent_Handle demo_env (demo_event EventWARN ''r9'') demo_running) = Panicked ''nil pointer dereference''"
proof (rule event_for_unknown_run_panics [OF demo_env_ok, where cls = EventWARN])
  show "runs_of demo_env demo_running ''r9'' = None" by code_simp
qed (simp_all add: demo_event_def)

section \<open>XRay\<close>

text \<open>
  XRay that lets the director in and then refuses every query.
\<close>

definition xray_refuses :: "'w http_api \<Rightarrow> bool" where
  "xray_refuses h \<longleftrightarrow>
     (\<forall>m u b. \<exists>rq. NewRequest h m u b = Inr rq \<and> rq_URL rq = u) \<and>
     (\<forall>t rq w. \<exists>resp w' b. HttpDo h t rq w = (Inr resp, w') \<and> rs_Body resp = Inr b \<and>
        (if rq_URL rq = authUrl then rs_StatusCode resp = 200 \<and> 2 \<le> length b else 300 \<le> rs_StatusCode resp))"

lemma add_header_URL [simp]: "rq_URL (add_header k v rq) = rq_URL rq"
  by (simp add: add_header_def)

lemma authorize_let_in:
  assumes "xray_refuses h"
  obtains tok w' where "authorize h w = (Done (Some tok), w')"
proof -
  obtain rq where rq: "NewRequest h ''POST'' authUrl (json_object [(''client_id'', json_string (ClientId h)),
      (''client_secret'', json_string (ClientSecret h))]) = Inr rq" "rq_URL rq = authUrl"
    using assms unfolding xray_refuses_def by blast
  then have "rq_URL (add_header ''Content-Type'' ''application/json'' rq) = authUrl" by simp
  then obtain resp w' b where "HttpDo h 15 (add_header ''Content-Type'' ''application/json'' rq) w = (Inr resp, w')"
    "rs_Body resp = Inr b" "rs_StatusCode resp = 200" "2 \<le> length b"
    using assms unfolding xray_refuses_def by metis
  with rq show thesis by (intro that [of "butlast (tl b)" w']) (simp add: authorize_def seq_apply call_apply)
qed

lemma refuses_silent: "xray_refuses h \<Longrightarrow> xray_silent h None"
  unfolding xray_silent_def
proof (intro allI)
  fix q w
  assume h: "xray_refuses h"
  obtain rq where rq: "NewRequest h ''POST'' graphqlUrl (json_object [(''query'', json_string q)]) = Inr rq" "rq_URL rq = graphqlUrl"
    using h unfolding xray_refuses_def by blast
  obtain tok w1 where 1: "authorize h w = (Done (Some tok), w1)" using h by (rule authorize_let_in)
  obtain tok2 w2 where 2: "authorize h w1 = (Done (Some tok2), w2)" using h by (rule authorize_let_in)
  let ?rq = "add_header ''Content-Type'' ''application/json'' (add_header ''Authorization'' (''Bearer '' @ tok2) rq)"
  have "rq_URL ?rq \<noteq> authUrl" unfolding add_header_URL rq(2) by (simp add: graphqlUrl_def authUrl_def)
  then obtain resp w3 b where 3: "HttpDo h 10 ?rq w2 = (Inr resp, w3)" "rs_Body resp = Inr b" "300 \<le> rs_StatusCode resp"
    using h unfolding xray_refuses_def by metis
  from rq 1 2 3 show "\<exists>w'. sendRequest h q w = (Done ([], None), w')"
    by (simp add: sendRequest_def seq_apply call_apply Let_def)
qed

text \<open>
  When XRay refuses every query, updating a run in XRay is reported as a
  success: after five attempts the text is empty and the error nil, and only the error is
  looked at.
\<close>

theorem xray_refusals_look_like_success:
  assumes "xray_refuses h"
  shows "(\<exists>w'. sendXrayQuery h q w = (Done ('''', None), w')) \<and> (\<exists>w'. xray_UpdateTestRun h run w = (Done None, w'))"
  using sendXrayQuery_silent [OF refuses_silent [OF assms]] xray_UpdateTestRun_silent [OF refuses_silent [OF assms]]
  by (intro conjI)

theorem xray_refusals_look_like_success_witness:
  "\<exists>w'. xray_UpdateTestRun (demo_http\<lparr>HttpDo := (\<lambda>t rq w. (Inr \<lparr>rs_StatusCode = (if rq_URL rq = authUrl then 200 else 503),
     rs_Body = Inr ''*tok*''\<rparr>, w @ [rq]))\<rparr>) \<lparr>tr_EndDateTime = None, tr_ID = ''X1'', tr_StartDateTime = None,
     tr_Spec = demo_spec TestRunPASSED\<rparr> [] = (Done None, w')"
  by (rule xray_refusals_look_like_success [THEN conjunct2]) (simp add: xray_refuses_def demo_http_def)

text \<open>
  When the director is let in and the query itself then fails on the network,
  \<^verbatim>\<open>sendRequest\<close> panics instead of returning the error, so nothing is retried.
\<close>

theorem xray_network_failure_panics:
  assumes "NewRequest h ''POST'' graphqlUrl (json_object [(''query'', json_string q)]) = Inr rq"
    and "authorize h w = (Done (Some t1), w1)" and "authorize h w1 = (Done (Some t2), w2)"
    and "\<forall>t rq'. rq_URL rq' = rq_URL rq \<longrightarrow> fst (HttpDo h t rq' w2) = Inl e"
  shows "fst (sendXrayQuery h q w) = Panicked ''nil pointer dereference''"
proof -
  have "\<exists>w3. sendRequest h q w = (Panicked ''nil pointer dereference'', w3)"
    using assms by (simp add: sendRequest_def seq_apply call_apply Let_def)
  moreover have "sendXrayQuery h q = xray_attempts h q (Suc 4) '''' None" by (simp add: sendXrayQuery_def)
  ultimately show ?thesis by (auto simp only: xray_attempts_Suc seq_apply) simp
qed

theorem xray_network_failure_panics_witness:
  "fst (sendXrayQuery (demo_http\<lparr>HttpDo := (\<lambda>t rq w. (if rq_URL rq = authUrl then Inr \<lparr>rs_StatusCode = 200, rs_Body = Inr ''*t*''\<rparr>
     else Inl (Error ''timeout''), w))\<rparr>) ''q'' []) = Panicked ''nil pointer dereference''"
  (is "fst (sendXrayQuery ?h ''q'' []) = _")
proof -
  have a: "authorize ?h [] = (Done (Some ''t''), [])" by code_simp
  have "NewRequest ?h ''POST'' graphqlUrl (json_object [(''query'', json_string ''q'')]) =
      Inr \<lparr>rq_Method = ''POST'', rq_URL = graphqlUrl, rq_Header = [], rq_Body = json_object [(''query'', json_string ''q'')]\<rparr>"
    by (simp add: demo_http_def)
  then show ?thesis
    by (rule xray_network_failure_panics [OF _ a a, where e = "Error ''timeout''"])
       (simp add: graphqlUrl_def authUrl_def)
qed



end
