(* ===== verification/Pod_Client.thy ===== *)
theory Pod_Client
  imports Models
begin

text \<open>
  \<^verbatim>\<open>common/k8sclient/lib_pod.go\<close>, the part that talks to the cluster: finding pods by name
  and by uid, waiting for them, deleting and restarting them. (The pod builder of the same
  file is in \<open>Builders\<close>.)

  The Kubernetes client library is not part of the sources. The calls that the code makes
  are the fields of \<open>pod_api\<close>, a parameter of every definition: functions of a world
  \<open>'w\<close> that the model knows nothing about. \<^verbatim>\<open>time.Sleep\<close> and \<^verbatim>\<open>time.Now\<close> are calls of
  the same kind.
\<close>

record 'w pod_api =
  PodsGet :: "string \<Rightarrow> string \<Rightarrow> 'w \<Rightarrow> pod result \<times> 'w"
  PodsList :: "string \<Rightarrow> 'w \<Rightarrow> pod list result \<times> 'w"
  PodsDelete :: "string \<Rightarrow> string \<Rightarrow> 'w \<Rightarrow> unit result \<times> 'w"
  Sleep :: "nat \<Rightarrow> 'w \<Rightarrow> 'w"
  Now :: "'w \<Rightarrow> int \<times> 'w"

definition NSMayastor :: string where
  "NSMayastor = ''mayastor''"

definition EtfwNamespace :: string where
  "EtfwNamespace = ''mayastor-e2e''"

definition sleep_secs :: "'w pod_api \<Rightarrow> nat \<Rightarrow> ('w, unit) io" where
  "sleep_secs api n = modifies (Sleep api n)"

definition IsPodRunning :: "'w pod_api \<Rightarrow> string \<Rightarrow> string \<Rightarrow> ('w, bool) io" where
  "IsPodRunning api podName nameSpace =
     seq (call (PodsGet api nameSpace podName)) (\<lambda>r. case r of
        Inl err \<Rightarrow> ret False
      | Inr pod \<Rightarrow> ret (pod_Phase pod = PodRunning))"

definition IsPodFailed :: "'w pod_api \<Rightarrow> string \<Rightarrow> string \<Rightarrow> ('w, bool) io" where
  "IsPodFailed api podName nameSpace =
     seq (call (PodsGet api nameSpace podName)) (\<lambda>r. case r of
        Inl err \<Rightarrow> ret False
      | Inr pod \<Rightarrow> ret (pod_Phase pod = PodFailed))"

definition ListPod :: "'w pod_api \<Rightarrow> string \<Rightarrow> ('w, pod list result) io" where
  "ListPod api ns =
     check (call (PodsList api ns)) (\<lambda>_. Error ''failed to list pods'') (\<lambda>pods. ret (Inr pods))"

definition list_failed :: "error \<Rightarrow> error" where
  "list_failed err = Errorf (''pod list failed, error: '' @ err_text err)"

definition GetPod :: "'w pod_api \<Rightarrow> string \<Rightarrow> string \<Rightarrow> ('w, pod result) io" where
  "GetPod api podName namespace =
     check (call (PodsList api namespace)) list_failed (\<lambda>pods.
       case find (\<lambda>pod. pod_Name pod = podName) pods of
         Some pod \<Rightarrow> ret (Inr pod)
       | None \<Rightarrow> ret (Inl (Errorf (''pod '' @ podName @ '' not found''))))"

text \<open>
  The functions below return several values: a pod that may be nil, whether it was found,
  and an error that may be nil.
\<close>

definition GetPodIfPresent ::
    "'w pod_api \<Rightarrow> string \<Rightarrow> string \<Rightarrow> ('w, pod option \<times> bool \<times> error option) io" where
  "GetPodIfPresent api podName namespace =
     seq (call (PodsList api namespace)) (\<lambda>r. case r of
        Inl err \<Rightarrow> ret (None, False, Some (list_failed err))
      | Inr pods \<Rightarrow> (case find (\<lambda>pod. pod_Name pod = podName) pods of
            Some pod \<Rightarrow> ret (Some pod, True, None)
          | None \<Rightarrow> ret (None, False, None)))"

definition GetPodByUuid :: "'w pod_api \<Rightarrow> uuid \<Rightarrow> ('w, pod option \<times> bool \<times> error option) io" where
  "GetPodByUuid api uid =
     seq (call (PodsList api '''')) (\<lambda>r. case r of
        Inl err \<Rightarrow> ret (None, False, Some (Errorf (''list failed, error: '' @ err_text err)))
      | Inr pods \<Rightarrow> (case find (\<lambda>pod. uid = pod_UID pod) pods of
            Some pod \<Rightarrow> ret (Some pod, True, None)
          | None \<Rightarrow> ret (None, False, None)))"

definition get_failed :: "error \<Rightarrow> error" where
  "get_failed err = Errorf (''get pod failed, error: '' @ err_text err)"

definition GetPodStatus :: "'w pod_api \<Rightarrow> uuid \<Rightarrow> ('w, pod_phase \<times> bool \<times> error option) io" where
  "GetPodStatus api uid =
     seq (GetPodByUuid api uid) (\<lambda>(pod, present, err). case err of
        Some e \<Rightarrow> ret (PodUnknown, present, Some (get_failed e))
      | None \<Rightarrow> (case pod of
            Some p \<Rightarrow> if present then ret (pod_Phase p, present, None) else ret (PodUnknown, False, None)
          | None \<Rightarrow> ret (PodUnknown, False, None)))"

definition GetPodExistsByUuid :: "'w pod_api \<Rightarrow> uuid \<Rightarrow> ('w, bool \<times> error option) io" where
  "GetPodExistsByUuid api uid =
     seq (GetPodByUuid api uid) (\<lambda>(_, present, err). ret (present, map_option get_failed err))"

definition GetPodExistsByName :: "'w pod_api \<Rightarrow> string \<Rightarrow> string \<Rightarrow> ('w, bool \<times> error option) io" where
  "GetPodExistsByName api name namespace =
     seq (GetPodIfPresent api name namespace) (\<lambda>(_, present, err). ret (present, map_option get_failed err))"

definition GetPodNameAndNamespaceFromUuid :: "'w pod_api \<Rightarrow> uuid \<Rightarrow> ('w, (string \<times> string) result) io" where
  "GetPodNameAndNamespaceFromUuid api uid =
     seq (GetPodByUuid api uid) (\<lambda>(pod, present, err). case err of
        Some e \<Rightarrow> ret (Inl (Errorf (''failed to get pod name from uuid, error: '' @ err_text e)))
      | None \<Rightarrow> (case (present, pod) of
            (True, Some p) \<Rightarrow> ret (Inr (pod_Name p, pod_Namespace p))
          | _ \<Rightarrow> ret (Inl (Errorf (''failed to find pod with uuid '' @ uid)))))"

definition GetPodsInNamespace :: "'w pod_api \<Rightarrow> string \<Rightarrow> ('w, pod list result) io" where
  "GetPodsInNamespace api namespace =
     check (call (PodsList api namespace)) list_failed (\<lambda>pods. ret (Inr pods))"

section \<open>Waiting for pods\<close>

text \<open>
  \<^verbatim>\<open>for ix := 0; ; ix++ { if ix >= 120/10 return timeout; ... }\<close>: at most thirteen
  iterations, the last of which only reports the timeout.
\<close>

definition WaitForPodReady :: "'w pod_api \<Rightarrow> string \<Rightarrow> string \<Rightarrow> ('w, pod result) io" where
  "WaitForPodReady api podName namespace =
     after (loop 13 0 () (\<lambda>ix _.
       if 12 \<le> ix then ret (Return (Inl (Errorf (''timed out waiting for pod '' @ podName @ '' to be running''))))
       else seq (sleep_secs api 10) (\<lambda>_.
         seq (call (PodsList api namespace)) (\<lambda>r. case r of
           Inl err \<Rightarrow> ret (Return (Inl (Errorf (''list failed, error: '' @ err_text err))))
         | Inr pods \<Rightarrow> (case find (\<lambda>pod. podName = pod_Name pod \<and> pod_Phase pod = PodRunning) pods of
               Some pod \<Rightarrow> ret (Return (Inr pod))
             | None \<Rightarrow> ret (Continue ()))))))
     (\<lambda>_. unfinished)"

text \<open>
  \<^verbatim>\<open>for i := 0; ; i += 10\<close>: the counter is ten times the iteration number, so the loop
  ends at the latest when ten times the iteration number reaches the timeout.
\<close>

definition DeletePod :: "'w pod_api \<Rightarrow> string \<Rightarrow> string \<Rightarrow> int \<Rightarrow> ('w, unit result) io" where
  "DeletePod api name nameSpace timeoutSecs =
     check (call (PodsDelete api nameSpace name)) (\<lambda>err. Errorf (''Failed to delete pod, error: '' @ err_text err)) (\<lambda>_.
     after (loop (Suc (nat timeoutSecs)) 0 () (\<lambda>k _.
       seq (GetPodExistsByName api name nameSpace) (\<lambda>(exists, err). case err of
         Some e \<Rightarrow> ret (Return (Inl (Errorf (''Error determining if pod '' @ name @ '' exists, error: '' @ err_text e))))
       | None \<Rightarrow>
           if \<not> exists then ret (Return (Inr ()))
           else if timeoutSecs \<le> 10 * int k
             then ret (Return (Inl (Errorf (''Timed out waiting for pod '' @ name @ '' to be deleted''))))
           else seq (sleep_secs api 10) (\<lambda>_. ret (Continue ())))))
     (\<lambda>_. unfinished))"

definition CheckPodAndDelete :: "'w pod_api \<Rightarrow> string \<Rightarrow> string \<Rightarrow> int \<Rightarrow> ('w, unit result) io" where
  "CheckPodAndDelete api podName nameSpace timeoutSecs =
     check (call (PodsGet api nameSpace podName)) (\<lambda>err. err) (\<lambda>pod.
       if pod_Phase pod \<noteq> PodSucceeded
       then ret (Inl (Errorf (''Pod failed, status '' @ phase_text (pod_Phase pod))))
       else DeletePod api podName nameSpace timeoutSecs)"

section \<open>Restarting the mayastor pods\<close>

definition listMayastorPods :: "'w pod_api \<Rightarrow> int option \<Rightarrow> ('w, string list result) io" where
  "listMayastorPods api timestamp =
     check (call (PodsList api NSMayastor)) (\<lambda>err. err) (\<lambda>pods.
       ret (Inr (map pod_Name (filter (\<lambda>pod.
          \<not> HasPrefix (pod_Name pod) ''mayastor-etcd'' \<and>
          (case timestamp of None \<Rightarrow> True
           | Some t \<Rightarrow> pod_Phase pod = PodRunning \<and> t < pod_CreationTimestamp pod)) pods))))"

definition delete_pods :: "'w pod_api \<Rightarrow> string list \<Rightarrow> ('w, error option) io" where
  "delete_pods api podNames =
     seq (for_in podNames None (\<lambda>podName err.
       seq (call (PodsDelete api NSMayastor podName)) (\<lambda>r. case r of
         Inl delErr \<Rightarrow> ret (Continue (Some delErr))
       | Inr _ \<Rightarrow> ret (Continue err))))
     (\<lambda>c. case c of Inl e \<Rightarrow> ret e | Inr err \<Rightarrow> ret err)"

definition RestartMayastorPods :: "'w pod_api \<Rightarrow> int \<Rightarrow> ('w, unit result) io" where
  "RestartMayastorPods api timeoutSecs =
     check (listMayastorPods api None) (\<lambda>err. err) (\<lambda>podNames.
     seq (call (Now api)) (\<lambda>now.
     seq (sleep_secs api 1) (\<lambda>_.
     seq (delete_pods api podNames) (\<lambda>err. case err of
       Some e \<Rightarrow> ret (Inl e)
     | None \<Rightarrow>
       after (for_in [1 ..< nat ((timeoutSecs + 10 - 1) div 10)] None (\<lambda>ix err.
         seq (sleep_secs api 10) (\<lambda>_.
         seq (listMayastorPods api (Some now)) (\<lambda>r. case r of
           Inl e \<Rightarrow> ret (Continue (Some e))
         | Inr newPodNames \<Rightarrow>
             if length podNames \<le> length newPodNames then ret (Return (Inr ()))
             else ret (Continue None)))))
       (\<lambda>err. ret (Inl (Errorf (''restart failed incomplete error='' @ err_v err))))))))"

section \<open>What the lookups return\<close>

lemma find_SomeD: "find P xs = Some x \<Longrightarrow> P x \<and> x \<in> set xs"
  by (induction xs) (auto split: if_splits)

lemma GetPodByUuid_run:
  "GetPodByUuid api uid w = (case PodsList api '''' w of
      (Inl err, w') \<Rightarrow> (Done (None, False, Some (Errorf (''list failed, error: '' @ err_text err))), w')
    | (Inr pods, w') \<Rightarrow> (Done (find (\<lambda>pod. uid = pod_UID pod) pods,
         find (\<lambda>pod. uid = pod_UID pod) pods \<noteq> None, None), w'))"
  by (simp add: GetPodByUuid_def io_simps split: prod.splits sum.splits option.splits)

lemma returning_pods [ends]:
  "returning (GetPodByUuid api uid)" "returning (GetPodIfPresent api n ns)" "returning (GetPod api n ns)"
  "returning (GetPodStatus api uid)" "returning (GetPodExistsByUuid api uid)"
  "returning (GetPodExistsByName api n ns)" "returning (GetPodNameAndNamespaceFromUuid api uid)"
  "returning (GetPodsInNamespace api ns)" "returning (ListPod api ns)"
  "returning (IsPodRunning api n ns)" "returning (IsPodFailed api n ns)" "returning (sleep_secs api t)"
  by (auto simp: GetPodByUuid_def GetPodIfPresent_def GetPod_def GetPodStatus_def GetPodExistsByUuid_def
      GetPodExistsByName_def GetPodNameAndNamespaceFromUuid_def GetPodsInNamespace_def ListPod_def
      IsPodRunning_def IsPodFailed_def sleep_secs_def intro!: ends split: bool.split)

text \<open>The fixed bounds of the waiting loops are enough: the waits always come to an end.\<close>

lemma returning_WaitForPodReady [ends]: "returning (WaitForPodReady api n ns)"
  unfolding WaitForPodReady_def
  by (rule returning_wait [where n = 12]; (intro ends posts)?; simp)

lemma returning_DeletePod [ends]: "returning (DeletePod api n ns t)"
  unfolding DeletePod_def
  by (rule returning_check, rule returning_call, rule returning_wait [where n = "nat t"];
      (intro ends posts)?; simp)

lemma returning_CheckPodAndDelete [ends]: "returning (CheckPodAndDelete api n ns t)"
  unfolding CheckPodAndDelete_def by (intro ends)

lemma returning_RestartMayastorPods [ends]: "returning (RestartMayastorPods api t)"
  unfolding RestartMayastorPods_def listMayastorPods_def delete_pods_def by (intro ends)

text \<open>A lookup by uid fails, finds nothing, or finds a pod.\<close>

lemma GetPodByUuid_cases:
  obtains (failed) e w' where "GetPodByUuid api uid w = (Done (None, False, Some e), w')"
  | (absent) w' where "GetPodByUuid api uid w = (Done (None, False, None), w')"
  | (found) p w' where "GetPodByUuid api uid w = (Done (Some p, True, None), w')"
proof (cases "PodsList api '''' w")
  case (Pair r w')
  show thesis
  proof (cases r)
    case (Inl e)
    with Pair show thesis by (intro failed) (simp add: GetPodByUuid_run)
  next
    case (Inr pods)
    with Pair show thesis
      by (cases "find (\<lambda>pod. uid = pod_UID pod) pods") (auto simp: GetPodByUuid_run intro: absent found)
  qed
qed

end
