(* ===== verification/Builders.thy ===== *)
theory Builders
  imports Models
begin

text \<open>
  The builders of \<^verbatim>\<open>common/k8sclient\<close>: the pod builder of \<^verbatim>\<open>lib_pod.go\<close>, the storage class
  builder of \<^verbatim>\<open>lib_storage_class.go\<close>, the containers and the command line of fio of
  \<^verbatim>\<open>lib_app.go\<close>. A builder collects errors beside the object it builds; \<^verbatim>\<open>Build\<close> gives the
  object only if there were none. The objects have the fields that the sources set.
\<close>

section \<open>Pods\<close>

datatype restart_policy = RestartPolicyUnset | RestartPolicyAlways | RestartPolicyOnFailure | RestartPolicyNever

datatype toleration_operator = TolerationOpUnset | TolerationOpExists | TolerationOpEqual

datatype volume_type = VolFileSystem | VolRawBlock | VolTypeNone

definition volume_type_String :: "volume_type \<Rightarrow> string" where
  "volume_type_String t = (case t of VolFileSystem \<Rightarrow> ''FileSystem'' | VolRawBlock \<Rightarrow> ''RawBlock'' | _ \<Rightarrow> ''Unknown'')"

record taint =
  ta_Key :: string
  ta_Value :: string
  ta_Effect :: string

record toleration =
  to_Key :: string
  to_Operator :: toleration_operator
  to_Value :: string
  to_Effect :: string

record volume_mount =
  vm_Name :: string
  vm_MountPath :: string

record volume_device =
  vd_Name :: string
  vd_DevicePath :: string

record pod_volume =
  pv_Name :: string
  pv_ClaimName :: string

record container =
  co_Name :: string
  co_Image :: string
  co_ImagePullPolicy :: string
  co_Args :: "string list"
  co_Privileged :: "bool option"
  co_RunAsUser :: "int option"
  co_AllowPrivilegeEscalation :: "bool option"
  co_VolumeMounts :: "volume_mount list"
  co_VolumeDevices :: "volume_device list"

record pod_object =
  po_Name :: string
  po_Namespace :: string
  po_Labels :: "(string, string) gomap"
  po_RestartPolicy :: restart_policy
  po_NodeName :: string
  po_NodeSelector :: "(string, string) gomap"
  po_Containers :: "container list"
  po_Volumes :: "pod_volume list"
  po_ServiceAccountName :: string
  po_Tolerations :: "toleration list"

record pod_builder =
  pb_pod :: pod_object
  pb_errs :: "error list"

definition NewPodBuilder :: pod_builder where
  "NewPodBuilder = \<lparr>pb_pod = \<lparr>po_Name = '''', po_Namespace = '''', po_Labels = [], po_RestartPolicy = RestartPolicyUnset,
     po_NodeName = '''', po_NodeSelector = [], po_Containers = [], po_Volumes = [], po_ServiceAccountName = '''',
     po_Tolerations = []\<rparr>, pb_errs = []\<rparr>"

definition pb_error :: "string \<Rightarrow> pod_builder \<Rightarrow> pod_builder" where
  "pb_error what b = b\<lparr>pb_errs := pb_errs b @ [Error (''failed to build Pod object: missing '' @ what)]\<rparr>"

definition pb_set :: "(pod_object \<Rightarrow> pod_object) \<Rightarrow> pod_builder \<Rightarrow> pod_builder" where
  "pb_set f b = b\<lparr>pb_pod := f (pb_pod b)\<rparr>"

definition toleration_for :: "taint \<Rightarrow> toleration" where
  "toleration_for t =
     (if ta_Value t = [] then \<lparr>to_Key = ta_Key t, to_Operator = TolerationOpExists, to_Value = '''', to_Effect = ta_Effect t\<rparr>
      else \<lparr>to_Key = ta_Key t, to_Operator = TolerationOpEqual, to_Value = ta_Value t, to_Effect = ta_Effect t\<rparr>)"

definition WithTolerationsForTaints :: "taint list \<Rightarrow> pod_builder \<Rightarrow> pod_builder" where
  "WithTolerationsForTaints taints =
     pb_set (\<lambda>p. p\<lparr>po_Tolerations := po_Tolerations p @ map toleration_for taints\<rparr>)"

definition WithName :: "string \<Rightarrow> pod_builder \<Rightarrow> pod_builder" where
  "WithName name b = (if name = [] then pb_error ''Pod name'' b else pb_set (po_Name_update (\<lambda>_. name)) b)"

definition WithNamespace :: "string \<Rightarrow> pod_builder \<Rightarrow> pod_builder" where
  "WithNamespace namespace b =
     (if namespace = [] then pb_error ''namespace'' b else pb_set (po_Namespace_update (\<lambda>_. namespace)) b)"

definition WithLabels :: "(string, string) gomap \<Rightarrow> pod_builder \<Rightarrow> pod_builder" where
  "WithLabels labels b = (if labels = [] then pb_error ''labels'' b else pb_set (po_Labels_update (\<lambda>_. labels)) b)"

definition WithAppLabel :: "string \<Rightarrow> pod_builder \<Rightarrow> pod_builder" where
  "WithAppLabel applabel = pb_set (po_Labels_update (\<lambda>_. [(''app'', applabel)]))"

definition WithRestartPolicy :: "restart_policy \<Rightarrow> pod_builder \<Rightarrow> pod_builder" where
  "WithRestartPolicy policy = pb_set (po_RestartPolicy_update (\<lambda>_. policy))"

definition WithNodeName :: "string \<Rightarrow> pod_builder \<Rightarrow> pod_builder" where
  "WithNodeName nodeName b =
     (if nodeName = [] then pb_error ''Pod node name'' b else pb_set (po_NodeName_update (\<lambda>_. nodeName)) b)"

definition WithNodeSelectorHostnameNew :: "string \<Rightarrow> pod_builder \<Rightarrow> pod_builder" where
  "WithNodeSelectorHostnameNew hostname b =
     (if hostname = [] then pb_error ''Pod hostname'' b
      else pb_set (po_NodeSelector_update (\<lambda>_. [(''kubernetes.io/hostname'', hostname)])) b)"

definition WithContainers :: "container list \<Rightarrow> pod_builder \<Rightarrow> pod_builder" where
  "WithContainers containers b =
     (if containers = [] then pb_error ''containers'' b else pb_set (po_Containers_update (\<lambda>_. containers)) b)"

definition WithContainer :: "container \<Rightarrow> pod_builder \<Rightarrow> pod_builder" where
  "WithContainer container = WithContainers [container]"

definition WithVolumes :: "pod_volume list \<Rightarrow> pod_builder \<Rightarrow> pod_builder" where
  "WithVolumes volumes b =
     (if volumes = [] then pb_error ''volumes'' b else pb_set (po_Volumes_update (\<lambda>_. volumes)) b)"

definition WithVolume :: "pod_volume \<Rightarrow> pod_builder \<Rightarrow> pod_builder" where
  "WithVolume volume = WithVolumes [volume]"

definition WithServiceAccountName :: "string \<Rightarrow> pod_builder \<Rightarrow> pod_builder" where
  "WithServiceAccountName serviceAccountName b =
     (if serviceAccountName = [] then pb_error ''Pod service account name'' b
      else pb_set (po_ServiceAccountName_update (\<lambda>_. serviceAccountName)) b)"

text \<open>The mounts and devices are those of the first container; with no container the index panics.\<close>

definition set_first_container :: "(container \<Rightarrow> container) \<Rightarrow> pod_builder \<Rightarrow> ('s, pod_builder) io" where
  "set_first_container f b =
     seq (index (po_Containers (pb_pod b)) 0) (\<lambda>c.
     ret (pb_set (\<lambda>p. p\<lparr>po_Containers := (po_Containers p)[0 := f c]\<rparr>) b))"

definition WithVolumeMounts :: "volume_mount list \<Rightarrow> pod_builder \<Rightarrow> ('s, pod_builder) io" where
  "WithVolumeMounts volMounts b =
     (if volMounts = [] then ret (pb_error ''VolumeMount'' b)
      else set_first_container (co_VolumeMounts_update (\<lambda>_. volMounts)) b)"

definition WithVolumeMount :: "volume_mount \<Rightarrow> pod_builder \<Rightarrow> ('s, pod_builder) io" where
  "WithVolumeMount volMount = WithVolumeMounts [volMount]"

definition WithVolumeDevices :: "volume_device list \<Rightarrow> pod_builder \<Rightarrow> ('s, pod_builder) io" where
  "WithVolumeDevices volDevices b =
     (if volDevices = [] then ret (pb_error ''VolumeDevices'' b)
      else set_first_container (co_VolumeDevices_update (\<lambda>_. volDevices)) b)"

definition WithVolumeDevice :: "volume_device \<Rightarrow> pod_builder \<Rightarrow> ('s, pod_builder) io" where
  "WithVolumeDevice volDevice = WithVolumeDevices [volDevice]"

definition FioFsMountPoint :: string where "FioFsMountPoint = ''/volume''"

definition FioBlockFilename :: string where "FioBlockFilename = ''/dev/sdm''"

definition WithVolumeDeviceOrMount :: "volume_type \<Rightarrow> pod_builder \<Rightarrow> ('s, pod_builder) io" where
  "WithVolumeDeviceOrMount volType b =
     (if volType = VolRawBlock then WithVolumeDevice \<lparr>vd_Name = ''ms-volume'', vd_DevicePath = FioBlockFilename\<rparr> b
      else WithVolumeMount \<lparr>vm_Name = ''ms-volume'', vm_MountPath = FioFsMountPoint\<rparr> b)"

text \<open>\<^verbatim>\<open>errors.Errorf("%+v", b.errs)\<close>, without the stack traces.\<close>

definition errs_error :: "error list \<Rightarrow> error" where
  "errs_error errs = Error (''['' @ Join (map err_text errs) '' '' @ '']'')"

definition Build :: "pod_builder \<Rightarrow> pod_object result" where
  "Build b = (if pb_errs b \<noteq> [] then Inl (errs_error (pb_errs b)) else Inr (pb_pod b))"

section \<open>Storage classes\<close>

datatype binding_mode = VolumeBindingImmediate | VolumeBindingWaitForFirstConsumer

record storage_class =
  sc_Name :: string
  sc_Namespace :: string
  sc_GenerateName :: string
  sc_Annotations :: "(string, string) gomap"
  sc_Parameters :: "(string, string) gomap"
  sc_Provisioner :: string
  sc_VolumeBindingMode :: "binding_mode option"

record sc_builder =
  sb_sc :: storage_class
  sb_errs :: "error list"

definition sb_error :: "string \<Rightarrow> sc_builder \<Rightarrow> sc_builder" where
  "sb_error what b = b\<lparr>sb_errs := sb_errs b @ [Error (''failed to build storageclass: missing '' @ what)]\<rparr>"

definition sb_set :: "(storage_class \<Rightarrow> storage_class) \<Rightarrow> sc_builder \<Rightarrow> sc_builder" where
  "sb_set f b = b\<lparr>sb_sc := f (sb_sc b)\<rparr>"

text \<open>Every parameter is set in the same way, on a map that is created when it is nil.\<close>

definition sb_param :: "string \<Rightarrow> string \<Rightarrow> sc_builder \<Rightarrow> sc_builder" where
  "sb_param k v = sb_set (\<lambda>sc. sc\<lparr>sc_Parameters := AList.update k v (sc_Parameters sc)\<rparr>)"

definition Sc_WithProvisioner :: "string \<Rightarrow> sc_builder \<Rightarrow> sc_builder" where
  "Sc_WithProvisioner provisioner b =
     (if provisioner = [] then sb_error ''provisioner name'' b else sb_set (sc_Provisioner_update (\<lambda>_. provisioner)) b)"

definition Sc_WithReplicas :: "int \<Rightarrow> sc_builder \<Rightarrow> sc_builder" where
  "Sc_WithReplicas v b =
     (if v = 0 then sb_error ''storageclass replicas'' b else sb_param ''repl'' (Itoa v) b)"

definition NewScBuilder :: sc_builder where
  "NewScBuilder = Sc_WithReplicas 2 (Sc_WithProvisioner ''io.openebs.csi-mayastor''
     \<lparr>sb_sc = \<lparr>sc_Name = '''', sc_Namespace = '''', sc_GenerateName = '''', sc_Annotations = [], sc_Parameters = [],
       sc_Provisioner = '''', sc_VolumeBindingMode = None\<rparr>, sb_errs = []\<rparr>)"

definition Sc_WithName :: "string \<Rightarrow> sc_builder \<Rightarrow> sc_builder" where
  "Sc_WithName name b =
     (if name = [] then sb_error ''storageclass name'' b else sb_set (sc_Name_update (\<lambda>_. name)) b)"

definition Sc_WithNamespace :: "string \<Rightarrow> sc_builder \<Rightarrow> sc_builder" where
  "Sc_WithNamespace ns b =
     (if ns = [] then sb_error ''storageclass namespace'' b else sb_set (sc_Namespace_update (\<lambda>_. ns)) b)"

definition Sc_WithGenerateName :: "string \<Rightarrow> sc_builder \<Rightarrow> sc_builder" where
  "Sc_WithGenerateName name = sb_set (sc_GenerateName_update (\<lambda>_. name @ ''-''))"

definition Sc_WithAnnotations :: "(string, string) gomap \<Rightarrow> sc_builder \<Rightarrow> sc_builder" where
  "Sc_WithAnnotations annotations b =
     sb_set (sc_Annotations_update (\<lambda>_. annotations)) (if annotations = [] then sb_error ''annotations'' b else b)"

definition Sc_WithFileSystemType :: "string \<Rightarrow> sc_builder \<Rightarrow> sc_builder" where
  "Sc_WithFileSystemType fs b = (if fs \<noteq> '''' then sb_param ''fsType'' fs b else b)"

definition Sc_WithProtocol :: "string \<Rightarrow> sc_builder \<Rightarrow> sc_builder" where
  "Sc_WithProtocol p = sb_param ''protocol'' p"

definition Sc_WithLocal :: "bool \<Rightarrow> sc_builder \<Rightarrow> sc_builder" where
  "Sc_WithLocal v = sb_param ''local'' (if v then ''true'' else ''false'')"

definition Sc_WithIOTimeout :: "int \<Rightarrow> sc_builder \<Rightarrow> sc_builder" where
  "Sc_WithIOTimeout v = sb_param ''ioTimeout'' (Itoa v)"

definition Sc_WithVolumeBindingMode :: "binding_mode option \<Rightarrow> sc_builder \<Rightarrow> sc_builder" where
  "Sc_WithVolumeBindingMode m b =
     (if m \<noteq> None then sb_set (sc_VolumeBindingMode_update (\<lambda>_. m)) b else b)"

text \<open>Reading a key that a Go map does not have gives the zero value.\<close>

definition go_lookup :: "(string, string) gomap \<Rightarrow> string \<Rightarrow> string" where
  "go_lookup m k = (case map_of m k of None \<Rightarrow> '''' | Some v \<Rightarrow> v)"

definition Sc_Build :: "sc_builder \<Rightarrow> storage_class result" where
  "Sc_Build b =
     (if sb_errs b \<noteq> [] then Inl (errs_error (sb_errs b))
      else
        let sc = sb_sc b in
        Inr (if go_lookup (sc_Parameters sc) ''protocol'' = ''nvmf'' \<and> go_lookup (sc_Parameters sc) ''ioTimeout'' = ''''
             then sc\<lparr>sc_Parameters := AList.update ''ioTimeout'' ''30'' (sc_Parameters sc)\<rparr>
             else sc))"

section \<open>Applications\<close>

definition fioParams :: "string list" where
  "fioParams = [''--direct=1'', ''--rw=randrw'', ''--ioengine=libaio'', ''--bs=4k'', ''--iodepth=16'', ''--verify=crc32'',
     ''--verify_fatal=1'', ''--verify_async=2'']"

definition GetFioArgs :: "string list" where
  "GetFioArgs = [''--name=benchtest'', ''--numjobs=1''] @ fioParams"

definition privileged_container :: "string \<Rightarrow> string \<Rightarrow> string \<Rightarrow> string list \<Rightarrow> container" where
  "privileged_container img pull name args =
     \<lparr>co_Name = name, co_Image = img, co_ImagePullPolicy = pull,
      co_Args = (if args = [] then [''sleep'', ''1000000''] else args), co_Privileged = Some True, co_RunAsUser = Some 0,
      co_AllowPrivilegeEscalation = Some True, co_VolumeMounts = [], co_VolumeDevices = []\<rparr>"

definition MakeFioContainer :: "string \<Rightarrow> string \<Rightarrow> string list \<Rightarrow> container" where
  "MakeFioContainer fioImage name args = privileged_container fioImage ''IfNotPresent'' name args"

definition MakePriviligedContainer :: "string \<Rightarrow> string \<Rightarrow> string list \<Rightarrow> container" where
  "MakePriviligedContainer img name args = privileged_container img ''Always'' name args"

text \<open>The command line that \<^verbatim>\<open>DeployFio\<close> puts together.\<close>

definition fio_args :: "volume_type \<Rightarrow> int \<Rightarrow> int \<Rightarrow> int \<Rightarrow> int \<Rightarrow> string list" where
  "fio_args volumeType volSize fioLoops thinkTime thinkTimeBlocks =
     (let vname = ''ms-volume'';
          volFioArgs =
            (if 0 < thinkTime then [[''--thinktime='' @ Itoa thinkTime]] else []) @
            (if 0 < thinkTimeBlocks then [[''--thinktime_blocks='' @ Itoa thinkTimeBlocks]] else []) @
            (if volumeType = VolFileSystem
             then [[''--name='' @ vname, ''--filename=/volume-'' @ vname @ ''.test'']]
             else [[''--name='' @ vname, ''--filename=/dev/sdm'']])
      in [''---'', ''fio''] @ fioParams
         @ (if volumeType = VolFileSystem then [''--size='' @ Itoa (volSize * 75 sdiv 100) @ ''m''] else [])
         @ (if fioLoops \<noteq> 0 then [''--loops='' @ Itoa fioLoops] else [])
         @ concat volFioArgs @ [''&''])"

text \<open>The pods of \<^verbatim>\<open>DeployFio\<close> and \<^verbatim>\<open>DeployStorageTester\<close> differ in their container and their label.\<close>

definition app_pod :: "string \<Rightarrow> container \<Rightarrow> string \<Rightarrow> volume_type \<Rightarrow> string \<Rightarrow> ('s, pod_object result) io" where
  "app_pod podName container pvcName volumeType label =
     (let b = WithAppLabel label (WithVolumes [\<lparr>pv_Name = ''ms-volume'', pv_ClaimName = pvcName\<rparr>]
            (WithContainer container (WithRestartPolicy RestartPolicyNever
            (WithNamespace ''default'' (WithName podName NewPodBuilder)))))
      in seq (if volumeType = VolFileSystem
              then WithVolumeMounts [\<lparr>vm_Name = ''ms-volume'', vm_MountPath = ''/volume''\<rparr>] b
              else WithVolumeDevices [\<lparr>vd_Name = ''ms-volume'', vd_DevicePath = ''/dev/sdm''\<rparr>] b)
         (\<lambda>b'. ret (Build b')))"

section \<open>What is built\<close>

text \<open>
  A builder that has collected an error stays that way: no later call makes \<^verbatim>\<open>Build\<close> succeed.
\<close>

lemma pod_errors_stay:
  assumes "pb_errs b \<noteq> []"
  shows "pb_errs (WithName n b) \<noteq> []" "pb_errs (WithNamespace n b) \<noteq> []" "pb_errs (WithLabels l b) \<noteq> []"
    "pb_errs (WithAppLabel a b) \<noteq> []" "pb_errs (WithRestartPolicy p b) \<noteq> []" "pb_errs (WithNodeName n b) \<noteq> []"
    "pb_errs (WithNodeSelectorHostnameNew n b) \<noteq> []" "pb_errs (WithContainers cs b) \<noteq> []"
    "pb_errs (WithVolumes vs b) \<noteq> []" "pb_errs (WithServiceAccountName n b) \<noteq> []"
    "pb_errs (WithTolerationsForTaints ts b) \<noteq> []"
  using assms
  by (simp_all add: WithName_def WithNamespace_def WithLabels_def WithAppLabel_def WithRestartPolicy_def WithNodeName_def
      WithNodeSelectorHostnameNew_def WithContainers_def WithVolumes_def WithServiceAccountName_def
      WithTolerationsForTaints_def pb_error_def pb_set_def)

lemma sc_errors_stay:
  assumes "sb_errs b \<noteq> []"
  shows "sb_errs (Sc_WithName n b) \<noteq> []" "sb_errs (Sc_WithReplicas v b) \<noteq> []" "sb_errs (Sc_WithProtocol p b) \<noteq> []"
    "sb_errs (Sc_WithFileSystemType f b) \<noteq> []" "sb_errs (Sc_WithLocal l b) \<noteq> []" "sb_errs (Sc_WithIOTimeout t b) \<noteq> []"
    "sb_errs (Sc_WithVolumeBindingMode m b) \<noteq> []" "sb_errs (Sc_WithNamespace n b) \<noteq> []" "sb_errs (Sc_WithAnnotations a b) \<noteq> []"
  using assms
  by (simp_all add: Sc_WithName_def Sc_WithReplicas_def Sc_WithProtocol_def Sc_WithFileSystemType_def Sc_WithLocal_def
      Sc_WithIOTimeout_def Sc_WithVolumeBindingMode_def Sc_WithNamespace_def Sc_WithAnnotations_def
      sb_error_def sb_set_def sb_param_def)

text \<open>The application pods, in full.\<close>

lemma app_pod_run:
  assumes "podName \<noteq> ''''"
  shows "app_pod podName c pvcName volumeType label s = (Done (Inr \<lparr>po_Name = podName, po_Namespace = ''default'',
    po_Labels = [(''app'', label)], po_RestartPolicy = RestartPolicyNever, po_NodeName = '''', po_NodeSelector = [],
    po_Containers = [if volumeType = VolFileSystem
       then c\<lparr>co_VolumeMounts := [\<lparr>vm_Name = ''ms-volume'', vm_MountPath = ''/volume''\<rparr>]\<rparr>
       else c\<lparr>co_VolumeDevices := [\<lparr>vd_Name = ''ms-volume'', vd_DevicePath = ''/dev/sdm''\<rparr>]\<rparr>],
    po_Volumes = [\<lparr>pv_Name = ''ms-volume'', pv_ClaimName = pvcName\<rparr>], po_ServiceAccountName = '''', po_Tolerations = []\<rparr>), s)"
  using assms
  by (simp add: app_pod_def NewPodBuilder_def WithName_def WithNamespace_def WithAppLabel_def WithRestartPolicy_def
      WithContainer_def WithContainers_def WithVolumes_def WithVolumeMounts_def WithVolumeDevices_def
      set_first_container_def index_def pb_set_def Build_def)

section \<open>Properties\<close>

text \<open>
  The storage class that the builder gives for a name, a protocol, a binding mode
  and a replica count has the mayastor provisioner and exactly the parameters asked for; over
  nvmf, and only there, a missing I/O timeout is set to thirty seconds.
\<close>

theorem built_storage_class:
  assumes "name \<noteq> ''''" and "replicas \<noteq> 0"
  shows "\<exists>sc. Sc_Build (Sc_WithVolumeBindingMode (Some m) (Sc_WithProtocol proto (Sc_WithReplicas replicas
      (Sc_WithName name NewScBuilder)))) = Inr sc \<and> sc_Name sc = name \<and> sc_Provisioner sc = ''io.openebs.csi-mayastor'' \<and>
    sc_VolumeBindingMode sc = Some m \<and>
    (\<forall>k. map_of (sc_Parameters sc) k =
       (if k = ''repl'' then Some (Itoa replicas) else if k = ''protocol'' then Some proto
        else if k = ''ioTimeout'' \<and> proto = ''nvmf'' then Some ''30'' else None))"
  using assms
  by (auto simp: Sc_Build_def Sc_WithVolumeBindingMode_def Sc_WithProtocol_def Sc_WithReplicas_def Sc_WithName_def
      NewScBuilder_def Sc_WithProvisioner_def sb_set_def sb_param_def go_lookup_def gomap Let_def)

theorem built_storage_class_witness:
  "\<exists>sc. Sc_Build (Sc_WithVolumeBindingMode (Some VolumeBindingImmediate) (Sc_WithProtocol ''nvmf'' (Sc_WithReplicas 3
     (Sc_WithName ''sc'' NewScBuilder)))) = Inr sc \<and> map_of (sc_Parameters sc) ''ioTimeout'' = Some ''30''"
  using built_storage_class [of "''sc''" 3 VolumeBindingImmediate "''nvmf''"] by auto

text \<open>
  For a file system volume the pod mounts the volume at \<^verbatim>\<open>/volume\<close>, but the file
  that fio is given is not below the mount point: no argument is a file name that begins with
  \<^verbatim>\<open>/volume/\<close>, so fio does not exercise the volume. For a raw block volume the file is the
  device of the volume.
\<close>

definition fio_files :: "string list \<Rightarrow> string list" where
  "fio_files args = map (drop (length ''--filename='')) (filter (\<lambda>a. HasPrefix a ''--filename='') args)"

lemma Itoa_args:
  "\<not> HasPrefix (''--thinktime='' @ t) ''--filename=''" "\<not> HasPrefix (''--thinktime_blocks='' @ t) ''--filename=''"
  "\<not> HasPrefix (''--size='' @ t) ''--filename=''" "\<not> HasPrefix (''--loops='' @ t) ''--filename=''"
  by (simp_all add: HasPrefix_def)

theorem fio_file_outside_mount:
  "fio_files (fio_args volumeType volSize loops thinkTime thinkTimeBlocks) =
     (if volumeType = VolFileSystem then [''/volume-ms-volume.test''] else [''/dev/sdm'']) \<and>
   \<not> HasPrefix ''/volume-ms-volume.test'' (''/volume'' @ ''/'')"
proof -
  have params: "fio_files fioParams = []" by code_simp
  have app: "fio_files (xs @ ys) = fio_files xs @ fio_files ys" for xs ys by (simp add: fio_files_def)
  show ?thesis
    by (simp add: fio_args_def Let_def app params) (simp add: fio_files_def Itoa_args HasPrefix_def fioParams_def)
qed

end
