(* ===== verification/Cluster_Client.thy ===== *)
theory Cluster_Client
  imports Pod_Client Builders
begin

text \<open>
  The clients of the cluster that the test conductor uses: \<^verbatim>\<open>common/mini_mcp_client\<close> (the REST
  interface of the control plane), \<^verbatim>\<open>common/custom_resources/util.go\<close> (mayastor pools, nodes
  and volumes), and the rest of \<^verbatim>\<open>common/k8sclient\<close>: nodes, pools, replicas, volumes, storage
  classes, applications.

  The Kubernetes client library, the network, the gRPC client of mayastor and the client of
  the test agent are the fields of the parameter \<open>cluster\<close>. What the sources get out of JSON
  comes from \<open>DecodeVolumes\<close> and \<open>DecodeVolume\<close>; \<open>ParseDuration\<close> is the one of the package
  \<^verbatim>\<open>time\<close>, in nanoseconds, and \<open>StatusText\<close> the text that \<^verbatim>\<open>%v\<close> gives for the status of a
  volume. An answer of the control plane is its status code, its text under \<^verbatim>\<open>%v\<close>, and what
  reading its body gives. A \<^verbatim>\<open>Get\<close> of the Kubernetes client that fails still returns an
  object, with all its fields zero.
\<close>

section \<open>What the clients see\<close>

record k8s_node =
  kn_Labels :: "(string, string) gomap"
  kn_Addresses :: "(string \<times> string) list"

record sparse_volume =
  sv_Num_replicas :: int
  sv_Children :: "string list"
  sv_TargetUuid :: string
  sv_Uuid :: string
  sv_Status :: string

record msp =
  msp_Name :: string
  msp_Finalizers :: "string list option"
  msp_Node :: string
  msp_Disks :: "string list"
  msp_State :: string
  msp_Capacity :: int
  msp_Used :: int

record msn =
  msn_Name :: string
  msn_Status :: string

record msv =
  msv_Name :: string
  msv_ReplicaCount :: int
  msv_State :: string
  msv_NexusState :: string
  msv_NexusChildren :: "(string \<times> string) list"
  msv_Replicas :: "string list"
  msv_TargetNodes :: "string list"

record nexus =
  nx_Uuid :: string
  nx_State :: string

record grpc_pool =
  gp_Name :: string
  gp_Used :: "64 word"

datatype pvc_phase = ClaimUnset | ClaimPending | ClaimBound | ClaimLost

datatype pv_phase = VolumeUnset | VolumePending | VolumeAvailable | VolumeBound | VolumeReleased | VolumeFailed

record pvc =
  pvc_UID :: string
  pvc_VolumeName :: string
  pvc_Phase :: pvc_phase

record pvc_spec =
  ps_Name :: string
  ps_Namespace :: string
  ps_StorageClassName :: string
  ps_Size :: string
  ps_VolumeMode :: "string option"

record 'w cluster =
  pods :: "'w pod_api"
  PodsCreate :: "string \<Rightarrow> pod_object \<Rightarrow> 'w \<Rightarrow> bool result \<times> 'w"
  NodesList :: "'w \<Rightarrow> k8s_node list result \<times> 'w"
  PvcCreate :: "string \<Rightarrow> pvc_spec \<Rightarrow> 'w \<Rightarrow> unit result \<times> 'w"
  PvcGet :: "string \<Rightarrow> string \<Rightarrow> 'w \<Rightarrow> pvc result \<times> 'w"
  PvcDelete :: "string \<Rightarrow> string \<Rightarrow> 'w \<Rightarrow> unit result \<times> 'w"
  PvcList :: "string \<Rightarrow> 'w \<Rightarrow> pvc list result \<times> 'w"
  PvGet :: "string \<Rightarrow> 'w \<Rightarrow> pv_phase result \<times> 'w"
  ScGet :: "string \<Rightarrow> 'w \<Rightarrow> storage_class result \<times> 'w"
  ScCreate :: "storage_class \<Rightarrow> 'w \<Rightarrow> unit result \<times> 'w"
  ScDelete :: "string \<Rightarrow> 'w \<Rightarrow> unit result \<times> 'w"
  NamespaceCreate :: "string \<Rightarrow> 'w \<Rightarrow> unit result \<times> 'w"
  MspCreate :: "msp \<Rightarrow> 'w \<Rightarrow> msp result \<times> 'w"
  MspGet :: "string \<Rightarrow> 'w \<Rightarrow> msp result \<times> 'w"
  MspUpdate :: "msp \<Rightarrow> 'w \<Rightarrow> msp result \<times> 'w"
  MspDelete :: "string \<Rightarrow> 'w \<Rightarrow> unit result \<times> 'w"
  MspList :: "'w \<Rightarrow> msp list result \<times> 'w"
  MsnGet :: "string \<Rightarrow> 'w \<Rightarrow> msn result \<times> 'w"
  MsnList :: "'w \<Rightarrow> msn list result \<times> 'w"
  MsnDelete :: "string \<Rightarrow> 'w \<Rightarrow> unit result \<times> 'w"
  MsvGet :: "string \<Rightarrow> 'w \<Rightarrow> msv result \<times> 'w"
  MsvUpdate :: "msv \<Rightarrow> 'w \<Rightarrow> msv result \<times> 'w"
  MsvDelete :: "string \<Rightarrow> 'w \<Rightarrow> unit result \<times> 'w"
  MsvList :: "'w \<Rightarrow> msv list result \<times> 'w"
  McpNewRequest :: "string \<Rightarrow> string \<Rightarrow> error option"
  McpDo :: "string \<Rightarrow> string \<Rightarrow> 'w \<Rightarrow> (int \<times> string \<times> string result) result \<times> 'w"
  DecodeVolumes :: "string \<Rightarrow> sparse_volume list result"
  DecodeVolume :: "string \<Rightarrow> sparse_volume result"
  ListNexuses :: "string list \<Rightarrow> 'w \<Rightarrow> nexus list result \<times> 'w"
  ListReplicas :: "string list \<Rightarrow> 'w \<Rightarrow> string list result \<times> 'w"
  RmNodeReplicas :: "string list \<Rightarrow> 'w \<Rightarrow> unit result \<times> 'w"
  ListPools :: "string list \<Rightarrow> 'w \<Rightarrow> grpc_pool list result \<times> 'w"
  CreateReplica :: "string \<Rightarrow> string \<Rightarrow> 64 word \<Rightarrow> string \<Rightarrow> 'w \<Rightarrow> unit result \<times> 'w"
  NewUUID :: "'w \<Rightarrow> string \<times> 'w"
  AgentKillMayastor :: "string \<Rightarrow> 'w \<Rightarrow> string result \<times> 'w"
  AgentControlDevice :: "string \<Rightarrow> string \<Rightarrow> string \<Rightarrow> 'w \<Rightarrow> string result \<times> 'w"
  AgentExec :: "string \<Rightarrow> string \<Rightarrow> 'w \<Rightarrow> (string \<times> error option) \<times> 'w"
  StatusText :: "msv \<Rightarrow> string"
  ParseDuration :: "string \<Rightarrow> int result"
  NowNano :: "'w \<Rightarrow> int \<times> 'w"

definition sleeps :: "'w cluster \<Rightarrow> nat \<Rightarrow> ('w, unit) io" where
  "sleeps cl n = sleep_secs (pods cl) n"

text \<open>\<^verbatim>\<open>x, err := m; if err != nil { return fmt.Errorf("text: %v", err) }\<close>\<close>

definition wrapped :: "string \<Rightarrow> error \<Rightarrow> error" where
  "wrapped text err = Errorf (text @ err_text err)"

section \<open>The control plane\<close>

definition mcp_sendRequest :: "'w cluster \<Rightarrow> string \<Rightarrow> string \<Rightarrow> ('w, string result) io" where
  "mcp_sendRequest cl reqType url =
     (case McpNewRequest cl reqType url of
        Some err \<Rightarrow> ret (Inl err)
      | None \<Rightarrow> check (call (McpDo cl reqType url)) (\<lambda>err. err) (\<lambda>(status, resp, body).
          if status \<noteq> 200 then ret (Inl (Errorf (''error code '' @ Itoa status @ '', resp '' @ resp)))
          else ret body))"

definition mcp_url :: "string \<Rightarrow> string \<Rightarrow> string" where
  "mcp_url serverAddr path = ''http://'' @ serverAddr @ '':'' @ ''30011'' @ path"

definition GetOnlyVolume :: "'w cluster \<Rightarrow> string \<Rightarrow> ('w, (string \<times> string) result) io" where
  "GetOnlyVolume cl serverAddr =
     check (mcp_sendRequest cl ''GET'' (mcp_url serverAddr ''/v0/volumes'')) (\<lambda>err. err) (\<lambda>resp.
       case DecodeVolumes cl resp of
         Inl err \<Rightarrow> ret (Inl err)
       | Inr [v] \<Rightarrow> ret (Inr (sv_Uuid v, sv_Status v))
       | Inr vollist \<Rightarrow> ret (Inl (Errorf (''invalid number of volumes '' @ Itoa (int (length vollist))))))"

definition GetVolumes :: "'w cluster \<Rightarrow> string \<Rightarrow> ('w, sparse_volume list result) io" where
  "GetVolumes cl serverAddr =
     check (mcp_sendRequest cl ''GET'' (mcp_url serverAddr ''/v0/volumes'')) (\<lambda>err. err) (\<lambda>resp.
       ret (DecodeVolumes cl resp))"

definition GetVolume :: "'w cluster \<Rightarrow> string \<Rightarrow> string \<Rightarrow> ('w, sparse_volume result) io" where
  "GetVolume cl serverAddr uid =
     check (mcp_sendRequest cl ''GET'' (mcp_url serverAddr (''/v0/volumes/'' @ uid))) (\<lambda>err. err) (\<lambda>resp.
       ret (DecodeVolume cl resp))"

definition GetVolumeStatus :: "'w cluster \<Rightarrow> string \<Rightarrow> string \<Rightarrow> ('w, string result) io" where
  "GetVolumeStatus cl serverAddr uid =
     check (GetVolume cl serverAddr uid) (\<lambda>err. err) (\<lambda>vol. ret (Inr (sv_Status vol)))"

definition SetVolumeReplicas :: "'w cluster \<Rightarrow> string \<Rightarrow> string \<Rightarrow> int \<Rightarrow> ('w, string result) io" where
  "SetVolumeReplicas cl serverAddr volumeid replicas =
     mcp_sendRequest cl ''PUT'' (mcp_url serverAddr (''/v0/volumes/'' @ volumeid @ ''/replica_count/'' @ Itoa replicas))"

definition GetVolumeReplicaCount :: "'w cluster \<Rightarrow> string \<Rightarrow> string \<Rightarrow> ('w, int result) io" where
  "GetVolumeReplicaCount cl serverAddr uid =
     check (mcp_sendRequest cl ''GET'' (mcp_url serverAddr (''/v0/volumes/'' @ uid))) (\<lambda>err. err) (\<lambda>resp.
       case DecodeVolume cl resp of
         Inl err \<Rightarrow> ret (Inl err)
       | Inr vol \<Rightarrow> ret (Inr (int (length (sv_Children vol)))))"

section \<open>Custom resources\<close>

definition CreateMsPool :: "'w cluster \<Rightarrow> string \<Rightarrow> string \<Rightarrow> string list \<Rightarrow> ('w, msp result) io" where
  "CreateMsPool cl poolName node disks = call (MspCreate cl
     \<lparr>msp_Name = poolName, msp_Finalizers = None, msp_Node = node, msp_Disks = disks, msp_State = '''', msp_Capacity = 0,
      msp_Used = 0\<rparr>)"

definition GetMsPool :: "'w cluster \<Rightarrow> string \<Rightarrow> ('w, msp result) io" where
  "GetMsPool cl poolName = call (MspGet cl poolName)"

definition UpdateMsPool :: "'w cluster \<Rightarrow> msp \<Rightarrow> ('w, msp result) io" where
  "UpdateMsPool cl mspIn = call (MspUpdate cl mspIn)"

definition DeleteMsPool :: "'w cluster \<Rightarrow> string \<Rightarrow> ('w, unit result) io" where
  "DeleteMsPool cl poolName = call (MspDelete cl poolName)"

definition ListMsPools :: "'w cluster \<Rightarrow> ('w, msp list result) io" where
  "ListMsPools cl = call (MspList cl)"

definition CheckAllMsPoolsAreOnline :: "'w cluster \<Rightarrow> ('w, unit result) io" where
  "CheckAllMsPoolsAreOnline cl =
     seq (ListMsPools cl) (\<lambda>r. case r of
       Inl err \<Rightarrow> ret (Inl err)
     | Inr ps \<Rightarrow> if \<exists>p \<in> set ps. ToLower (msp_State p) \<noteq> ''online''
                  then ret (Inl (Errorf ''all pools were not healthy'')) else ret (Inr ()))"

definition MakeAccumulatedError :: "error option \<Rightarrow> error option \<Rightarrow> error option" where
  "MakeAccumulatedError accErr err = (case accErr of
      None \<Rightarrow> err
    | Some a \<Rightarrow> Some (Errorf (err_text a @ ''; '' @ err_v err)))"

definition CheckAllMsPoolFinalizers :: "'w cluster \<Rightarrow> ('w, unit result) io" where
  "CheckAllMsPoolFinalizers cl =
     check (ListMsPools cl) (\<lambda>err. err) (\<lambda>ps.
       case fold (\<lambda>p accErr. if msp_Finalizers p \<noteq> None
              then MakeAccumulatedError accErr (Some (Errorf (''finalizer set on pool: '' @ msp_Name p)))
              else accErr) ps None of
         None \<Rightarrow> ret (Inr ())
       | Some e \<Rightarrow> ret (Inl e))"

definition GetMsNode :: "'w cluster \<Rightarrow> string \<Rightarrow> ('w, msn result) io" where
  "GetMsNode cl nodeName = call (MsnGet cl nodeName)"

definition ListMsNodes :: "'w cluster \<Rightarrow> ('w, msn list result) io" where
  "ListMsNodes cl = call (MsnList cl)"

definition DeleteMsNode :: "'w cluster \<Rightarrow> string \<Rightarrow> ('w, unit result) io" where
  "DeleteMsNode cl nodeName = call (MsnDelete cl nodeName)"

definition CheckMsNodesAreOnline :: "'w cluster \<Rightarrow> ('w, unit result) io" where
  "CheckMsNodesAreOnline cl =
     check (ListMsNodes cl) (\<lambda>err. err) (\<lambda>msns.
       if \<exists>n \<in> set msns. msn_Status n \<noteq> ''online'' then ret (Inl (Errorf ''mayastornodes were not online''))
       else ret (Inr ()))"

text \<open>\<^verbatim>\<open>GetMsVol\<close> returns an empty volume with the error.\<close>

definition no_msv :: msv where
  "no_msv = \<lparr>msv_Name = '''', msv_ReplicaCount = 0, msv_State = '''', msv_NexusState = '''', msv_NexusChildren = [],
     msv_Replicas = [], msv_TargetNodes = []\<rparr>"

definition GetMsVol :: "'w cluster \<Rightarrow> string \<Rightarrow> ('w, msv \<times> error option) io" where
  "GetMsVol cl volName = seq (call (MsvGet cl volName)) (\<lambda>r. case r of
     Inl err \<Rightarrow> ret (no_msv, Some err) | Inr v \<Rightarrow> ret (v, None))"

definition CRD_DeleteMsVol :: "'w cluster \<Rightarrow> string \<Rightarrow> ('w, unit result) io" where
  "CRD_DeleteMsVol cl volName = call (MsvDelete cl volName)"

definition CRD_ListMsVols :: "'w cluster \<Rightarrow> ('w, msv list result) io" where
  "CRD_ListMsVols cl = call (MsvList cl)"

definition msv_read :: "'w cluster \<Rightarrow> (msv \<Rightarrow> 'a) \<Rightarrow> string \<Rightarrow> ('w, 'a result) io" where
  "msv_read cl f volName = seq (GetMsVol cl volName) (\<lambda>(v, err). case err of
     Some e \<Rightarrow> ret (Inl e) | None \<Rightarrow> ret (Inr (f v)))"

definition CRD_GetMsVolState :: "'w cluster \<Rightarrow> string \<Rightarrow> ('w, string result) io" where
  "CRD_GetMsVolState cl volName = msv_read cl msv_State volName"

definition CRD_GetMsVolReplicas :: "'w cluster \<Rightarrow> string \<Rightarrow> ('w, string list result) io" where
  "CRD_GetMsVolReplicas cl volName = msv_read cl msv_Replicas volName"

definition CRD_UpdateMsVolReplicaCount :: "'w cluster \<Rightarrow> string \<Rightarrow> int \<Rightarrow> ('w, unit result) io" where
  "CRD_UpdateMsVolReplicaCount cl volName replicaCount =
     check (msv_read cl (\<lambda>v. v) volName) (\<lambda>err. err) (\<lambda>v.
     check (call (MsvUpdate cl (v\<lparr>msv_ReplicaCount := replicaCount\<rparr>))) (\<lambda>err. err) (\<lambda>_. ret (Inr ())))"

definition CRD_GetMsVolNexusChildren :: "'w cluster \<Rightarrow> string \<Rightarrow> ('w, (string \<times> string) list result) io" where
  "CRD_GetMsVolNexusChildren cl volName = msv_read cl msv_NexusChildren volName"

definition CRD_GetMsVolNexusState :: "'w cluster \<Rightarrow> string \<Rightarrow> ('w, string result) io" where
  "CRD_GetMsVolNexusState cl uid = msv_read cl msv_NexusState uid"

definition CRD_IsMsVolPublished :: "'w cluster \<Rightarrow> string \<Rightarrow> ('w, bool) io" where
  "CRD_IsMsVolPublished cl uid = seq (GetMsVol cl uid) (\<lambda>(v, err).
     ret (err = None \<and> length (msv_TargetNodes v) = 1))"

definition CRD_IsMsVolDeleted :: "'w cluster \<Rightarrow> string \<Rightarrow> ('w, bool) io" where
  "CRD_IsMsVolDeleted cl uid = seq (GetMsVol cl uid) (\<lambda>(v, err).
     if msv_State v = ''destroyed'' then ret False
     else case err of Some e \<Rightarrow> ret (IsNotFound e) | None \<Rightarrow> ret False)"

definition CRD_CheckForMsVols :: "'w cluster \<Rightarrow> ('w, bool \<times> error option) io" where
  "CRD_CheckForMsVols cl = seq (CRD_ListMsVols cl) (\<lambda>r. case r of
     Inl err \<Rightarrow> ret (False, Some err) | Inr msvs \<Rightarrow> ret (msvs \<noteq> [], None))"

definition CRD_CheckAllMsVolsAreHealthy :: "'w cluster \<Rightarrow> ('w, unit result) io" where
  "CRD_CheckAllMsVolsAreHealthy cl =
     check (CRD_ListMsVols cl) (\<lambda>err. err) (\<lambda>msvs.
       if \<exists>v \<in> set msvs. msv_State v \<noteq> ''healthy'' then ret (Inl (Errorf ''all MSVs were not healthy''))
       else ret (Inr ()))"

section \<open>Nodes, replicas and pools\<close>

record node_location =
  NodeName :: string
  IPAddress :: string
  MayastorNode :: bool
  MasterNode :: bool

definition last_address :: "string \<Rightarrow> k8s_node \<Rightarrow> string" where
  "last_address typ node = fold (\<lambda>(t, a) acc. if t = typ then a else acc) (kn_Addresses node) ''''"

definition node_loc :: "k8s_node \<Rightarrow> node_location" where
  "node_loc node =
     \<lparr>NodeName = last_address ''Hostname'' node, IPAddress = last_address ''InternalIP'' node,
      MayastorNode = ((''openebs.io/engine'', ''mayastor'') \<in> set (kn_Labels node)),
      MasterNode = (''node-role.kubernetes.io/master'' \<in> fst ` set (kn_Labels node))\<rparr>"

definition GetNodeLocs :: "'w cluster \<Rightarrow> ('w, node_location list result) io" where
  "GetNodeLocs cl =
     check (call (NodesList cl)) (wrapped ''failed to list nodes, error: '') (\<lambda>nodes.
       let locs = map node_loc nodes in
       if \<exists>l \<in> set locs. NodeName l = '''' \<or> IPAddress l = '''' then ret (Inl (Errorf ''node lacks expected fields''))
       else ret (Inr locs))"

definition mayastor_nodes :: "'w cluster \<Rightarrow> (node_location \<Rightarrow> string) \<Rightarrow> ('w, string list result) io" where
  "mayastor_nodes cl f =
     check (GetNodeLocs cl) (wrapped ''failed to get node locations, error: '') (\<lambda>locs.
       ret (Inr (map f (filter MayastorNode locs))))"

definition GetMayastorNodeNames :: "'w cluster \<Rightarrow> ('w, string list result) io" where
  "GetMayastorNodeNames cl = mayastor_nodes cl NodeName"

definition GetMayastorNodeIPs :: "'w cluster \<Rightarrow> ('w, string list result) io" where
  "GetMayastorNodeIPs cl = mayastor_nodes cl IPAddress"

definition ListReplicasInCluster :: "'w cluster \<Rightarrow> ('w, string list result) io" where
  "ListReplicasInCluster cl = check (GetMayastorNodeIPs cl) (\<lambda>err. err) (\<lambda>addrs. call (ListReplicas cl addrs))"

definition RmReplicasInCluster :: "'w cluster \<Rightarrow> ('w, unit result) io" where
  "RmReplicasInCluster cl = check (GetMayastorNodeIPs cl) (\<lambda>err. err) (\<lambda>addrs. call (RmNodeReplicas cl addrs))"

text \<open>
  \<^verbatim>\<open>ix < int(timeoutSec.Seconds())/10\<close>: the number of rounds that a timeout allows. The
  seconds are truncated, so a timeout of less than ten seconds allows none.
\<close>

definition wait_rounds :: "int \<Rightarrow> nat" where
  "wait_rounds nanos = nat (nanos div 1000000000 div 10)"

text \<open>\<^verbatim>\<open>%s\<close> on a slice of strings.\<close>

definition slice_text :: "string list \<Rightarrow> string" where
  "slice_text xs = ''['' @ Join xs '' '' @ '']''"

definition WaitForMayastorSockets :: "'w cluster \<Rightarrow> string list \<Rightarrow> string \<Rightarrow> ('w, unit result) io" where
  "WaitForMayastorSockets cl addrs timeout =
     (case ParseDuration cl timeout of
        Inl err \<Rightarrow> ret (Inl (wrapped (''failed to parse timeout '' @ timeout @ '' string , error: '') err))
      | Inr timeoutSec \<Rightarrow>
          after (for_in [0 ..< wait_rounds timeoutSec] None (\<lambda>ix err.
            seq (call (ListReplicas cl addrs)) (\<lambda>r. case r of
              Inl e \<Rightarrow> seq (sleeps cl 10) (\<lambda>_. ret (Continue (Some e)))
            | Inr _ \<Rightarrow> ret (Break None))))
          (\<lambda>err. case err of
              Some e \<Rightarrow> ret (Inl (wrapped (''failed to start listener at the pod, address: '' @ slice_text addrs @ '', error: '') e))
            | None \<Rightarrow> ret (Inr ())))"

definition WaitForPoolCrd :: "'w cluster \<Rightarrow> ('w, bool) io" where
  "WaitForPoolCrd cl =
     after (for_in [0 ..< 12] () (\<lambda>ix _.
       seq (ListMsPools cl) (\<lambda>r. case r of
         Inl err \<Rightarrow> seq (sleeps cl 5) (\<lambda>_. ret (Continue ()))
       | Inr _ \<Rightarrow> ret (Return True))))
     (\<lambda>_. ret False)"

text \<open>
  The \<^verbatim>\<open>err\<close> that \<^verbatim>\<open>CreatePools\<close> tests after its loop is not the one that the loop assigns: the
  loop declares its own. So the outer one is still nil there.
\<close>

definition wait_pools_online :: "'w cluster \<Rightarrow> nat \<Rightarrow> ('w, unit result) io" where
  "wait_pools_online cl numMayastorInstances =
     after (for_in [0 ..< 12] () (\<lambda>ix _.
       seq (sleeps cl 10) (\<lambda>_.
       seq (ListMsPools cl) (\<lambda>r. case r of
         Inl err \<Rightarrow> ret (Return (Inl (wrapped ''failed to list pools, err: '' err)))
       | Inr ps \<Rightarrow>
           if length ps < numMayastorInstances then ret (Continue ())
           else seq (CheckAllMsPoolsAreOnline cl) (\<lambda>r'. case r' of
             Inl err \<Rightarrow> ret (Continue ())
           | Inr _ \<Rightarrow> ret (Break ()))))))
     (\<lambda>_. ret (Inr ()))"

definition CreatePools :: "'w cluster \<Rightarrow> string \<Rightarrow> ('w, unit result) io" where
  "CreatePools cl poolDevice =
     check (GetMayastorNodeNames cl) (wrapped ''failed to get nodes, err: '') (\<lambda>mayastorNodes.
     seq (WaitForPoolCrd cl) (\<lambda>found.
     if \<not> found then ret (Inl (Errorf ''timed out waiting for pool CRD''))
     else
       after (for_in mayastorNodes () (\<lambda>node _.
         seq (CreateMsPool cl (node @ ''-pool'') node [poolDevice]) (\<lambda>r. case r of
           Inl err \<Rightarrow> ret (Return (Inl (wrapped ''failed to create pool, err: '' err)))
         | Inr _ \<Rightarrow> ret (Continue ()))))
       (\<lambda>_. wait_pools_online cl (length mayastorNodes))))"

definition ListPoolsInCluster :: "'w cluster \<Rightarrow> ('w, grpc_pool list result) io" where
  "ListPoolsInCluster cl = check (GetMayastorNodeIPs cl) (\<lambda>err. err) (\<lambda>addrs. call (ListPools cl addrs))"

text \<open>The sum of the usage of all pools, in unsigned 64 bit arithmetic.\<close>

definition GetPoolUsageInCluster :: "'w cluster \<Rightarrow> ('w, 64 word result) io" where
  "GetPoolUsageInCluster cl = check (ListPoolsInCluster cl) (\<lambda>err. err) (\<lambda>ps. ret (Inr (sum_list (map gp_Used ps))))"

section \<open>Volumes\<close>

text \<open>\<^verbatim>\<open>GetMSV\<close> returns a nil volume without an error while the volume is pending.\<close>

definition GetMSV :: "'w cluster \<Rightarrow> string \<Rightarrow> ('w, msv option result) io" where
  "GetMSV cl uid = seq (GetMsVol cl uid) (\<lambda>(v, err). case err of
     Some e \<Rightarrow> ret (Inl (wrapped ''GetMSV: '' e))
   | None \<Rightarrow>
       if msv_State v = ''pending'' then ret (Inr None)
       else if msv_State v = ''''
         then ret (Inl (Errorf (''GetMSV: state not defined, got msv.Status='' @ [dquote] @ StatusText cl v @ [dquote])))
       else if length (msv_Replicas v) < 1
         then ret (Inl (Errorf (''GetMSV: msv.Status.Replicas='' @ [dquote] @ ''[]'' @ [dquote])))
       else ret (Inr (Some v)))"

definition GetPvcStatusPhase :: "'w cluster \<Rightarrow> string \<Rightarrow> string \<Rightarrow> ('w, pvc_phase \<times> error option) io" where
  "GetPvcStatusPhase cl volname nameSpace = seq (call (PvcGet cl nameSpace volname)) (\<lambda>r. case r of
     Inl err \<Rightarrow> ret (ClaimUnset, Some err) | Inr p \<Rightarrow> ret (pvc_Phase p, None))"

definition GetPvStatusPhase :: "'w cluster \<Rightarrow> string \<Rightarrow> ('w, pv_phase \<times> error option) io" where
  "GetPvStatusPhase cl volname = seq (call (PvGet cl volname)) (\<lambda>r. case r of
     Inl err \<Rightarrow> ret (VolumeUnset, Some err) | Inr p \<Rightarrow> ret (p, None))"

text \<open>
  The claim that \<^verbatim>\<open>MkPVC\<close> creates, then its four waits, each of at most 181 rounds. The
  third kind of volume leaves the mode unset.
\<close>

definition pvc_create_opts :: "int \<Rightarrow> string \<Rightarrow> string \<Rightarrow> volume_type \<Rightarrow> string \<Rightarrow> pvc_spec" where
  "pvc_create_opts volSizeMb volName scName volType nameSpace =
     \<lparr>ps_Name = volName, ps_Namespace = nameSpace, ps_StorageClassName = scName, ps_Size = Itoa volSizeMb @ ''Mi'',
      ps_VolumeMode = (case volType of VolFileSystem \<Rightarrow> Some ''Filesystem'' | VolRawBlock \<Rightarrow> Some ''Block'' | VolTypeNone \<Rightarrow> None)\<rparr>"

definition pvc_bound_round :: "'w cluster \<Rightarrow> string \<Rightarrow> string \<Rightarrow> nat \<Rightarrow> unit \<Rightarrow> ('w, (unit, 'a result) ctl) io" where
  "pvc_bound_round cl volName nameSpace i u =
     (if 180 \<le> i then ret (Return (Inl (Errorf ''timed out waiting for PVC to be bound'')))
      else seq (GetPvcStatusPhase cl volName nameSpace) (\<lambda>(phase, err). case err of
        Some e \<Rightarrow> ret (Return (Inl e))
      | None \<Rightarrow> if phase = ClaimBound then ret (Break ()) else seq (sleeps cl 1) (\<lambda>_. ret (Continue ()))))"

definition pv_round :: "'w cluster \<Rightarrow> string \<Rightarrow> nat \<Rightarrow> unit \<Rightarrow> ('w, (unit, 'a result) ctl) io" where
  "pv_round cl pvName i u =
     seq (call (PvGet cl pvName)) (\<lambda>r. case r of
       Inr _ \<Rightarrow> ret (Break ())
     | Inl _ \<Rightarrow> if 180 \<le> i then ret (Return (Inl (Errorf ''timed out waiting for PV'')))
               else seq (sleeps cl 1) (\<lambda>_. ret (Continue ())))"

definition pv_bound_round :: "'w cluster \<Rightarrow> string \<Rightarrow> nat \<Rightarrow> unit \<Rightarrow> ('w, (unit, 'a result) ctl) io" where
  "pv_bound_round cl pvName i u =
     (if 180 \<le> i then ret (Return (Inl (Errorf ''timed out waiting for PV to be bound'')))
      else seq (GetPvStatusPhase cl pvName) (\<lambda>(phase, err). case err of
        Some e \<Rightarrow> ret (Return (Inl e))
      | None \<Rightarrow> if phase = VolumeBound then ret (Break ()) else seq (sleeps cl 1) (\<lambda>_. ret (Continue ()))))"

definition msv_round :: "'w cluster \<Rightarrow> string \<Rightarrow> nat \<Rightarrow> unit \<Rightarrow> ('w, (unit, 'a result) ctl) io" where
  "msv_round cl uid i u =
     (if 180 \<le> i then ret (Return (Inl (Errorf ''timed out waiting for PVC to be bound'')))
      else seq (GetMSV cl uid) (\<lambda>r. case r of
        Inr (Some v) \<Rightarrow> ret (Break ())
      | _ \<Rightarrow> seq (sleeps cl 1) (\<lambda>_. ret (Continue ()))))"

definition MkPVC :: "'w cluster \<Rightarrow> int \<Rightarrow> string \<Rightarrow> string \<Rightarrow> volume_type \<Rightarrow> string \<Rightarrow> bool \<Rightarrow> ('w, string result) io" where
  "MkPVC cl volSizeMb volName scName volType nameSpace moac =
     check (call (PvcCreate cl nameSpace (pvc_create_opts volSizeMb volName scName volType nameSpace))) (\<lambda>err. err) (\<lambda>_.
     check (call (PvcGet cl nameSpace volName)) (\<lambda>err. err) (\<lambda>pvc.
     check (call (ScGet cl scName)) (\<lambda>err. err) (\<lambda>sc.
     seq (deref (sc_VolumeBindingMode sc)) (\<lambda>mode.
     if mode = VolumeBindingWaitForFirstConsumer then ret (Inr (pvc_UID pvc))
     else
       after (loop 181 0 () (pvc_bound_round cl volName nameSpace)) (\<lambda>_.
       check (call (PvcGet cl nameSpace volName)) (\<lambda>err. err) (\<lambda>pvc.
       after (loop 181 0 () (pv_round cl (pvc_VolumeName pvc))) (\<lambda>_.
       after (loop 181 0 () (pv_bound_round cl (pvc_VolumeName pvc))) (\<lambda>_.
       if moac
       then after (loop 181 0 () (msv_round cl (pvc_UID pvc))) (\<lambda>_. ret (Inr (pvc_UID pvc)))
       else ret (Inr (pvc_UID pvc))))))))))"

definition pvc_gone_round :: "'w cluster \<Rightarrow> string \<Rightarrow> string \<Rightarrow> nat \<Rightarrow> unit \<Rightarrow> ('w, (unit, unit result) ctl) io" where
  "pvc_gone_round cl volName nameSpace i u =
     seq (call (PvcGet cl nameSpace volName)) (\<lambda>r.
       if (case r of Inl err \<Rightarrow> IsNotFound err | Inr _ \<Rightarrow> False) then ret (Break ())
       else if 180 \<le> i then ret (Return (Inl (Errorf (''timed out waiting for PVC '' @ volName @ '' to be deleted''))))
       else seq (sleeps cl 1) (\<lambda>_. ret (Continue ())))"

definition DeletePVC :: "'w cluster \<Rightarrow> string \<Rightarrow> string \<Rightarrow> ('w, unit result) io" where
  "DeletePVC cl volName nameSpace =
     check (call (PvcDelete cl nameSpace volName)) (\<lambda>err. Errorf (''failed to delete PVC '' @ volName)) (\<lambda>_.
     after (loop 181 0 () (pvc_gone_round cl volName nameSpace)) (\<lambda>_. ret (Inr ())))"

definition ListPVCs :: "'w cluster \<Rightarrow> string \<Rightarrow> ('w, pvc list result) io" where
  "ListPVCs cl nameSpace = check (call (PvcList cl nameSpace)) (wrapped ''failed to list PVCs, error '') (\<lambda>ps. ret (Inr ps))"

definition GetNexuses :: "'w cluster \<Rightarrow> string list \<Rightarrow> ('w, nexus list result) io" where
  "GetNexuses cl nodeIPs =
     check (call (ListNexuses cl nodeIPs)) (wrapped ''failed to list nexuses via gRPC, '') (\<lambda>ns. ret (Inr ns))"

text \<open>
  Inside the loop of \<^verbatim>\<open>WaitForMCPPath\<close> an error returns at once, so the loop body never comes to
  its sleep and never goes on.
\<close>

definition WaitForMCPPath :: "'w cluster \<Rightarrow> string \<Rightarrow> ('w, unit result) io" where
  "WaitForMCPPath cl timeout =
     (case ParseDuration cl timeout of
        Inl err \<Rightarrow> ret (Inl (wrapped (''failed to parse timeout '' @ timeout @ '' string , error: '') err))
      | Inr timeoutSec \<Rightarrow>
          check (GetMayastorNodeIPs cl) (wrapped ''failed to get mayastor nodes IP, err: '') (\<lambda>ms_ips.
          if length ms_ips = 0 then ret (Inl (Errorf ''No mayastor nodes found''))
          else
            after (for_in [0 ..< wait_rounds timeoutSec] () (\<lambda>ix _.
              seq (index ms_ips 0) (\<lambda>ms_ip.
              seq (GetVolumes cl ms_ip) (\<lambda>r. case r of
                Inl err \<Rightarrow> ret (Return (Inl (wrapped ''failed to get volumes, error: '' err)))
              | Inr _ \<Rightarrow> ret (Break ())))))
            (\<lambda>_. ret (Inr ()))))"

definition CreateNamespace :: "'w cluster \<Rightarrow> string \<Rightarrow> ('w, unit result) io" where
  "CreateNamespace cl namespace =
     check (call (NamespaceCreate cl namespace)) (wrapped ''failed to create namespace, err: '') (\<lambda>_. ret (Inr ()))"

section \<open>Storage classes and applications\<close>

definition CreateSc :: "'w cluster \<Rightarrow> storage_class \<Rightarrow> ('w, unit result) io" where
  "CreateSc cl obj = call (ScCreate cl obj)"

definition DeleteSc :: "'w cluster \<Rightarrow> string \<Rightarrow> ('w, unit result) io" where
  "DeleteSc cl name = call (ScDelete cl name)"

definition Sc_BuildAndCreate :: "'w cluster \<Rightarrow> sc_builder \<Rightarrow> ('w, unit result) io" where
  "Sc_BuildAndCreate cl b = (case Sc_Build b of Inl err \<Rightarrow> ret (Inl err) | Inr scObj \<Rightarrow> CreateSc cl scObj)"

definition CreatePod :: "'w cluster \<Rightarrow> pod_object \<Rightarrow> string \<Rightarrow> ('w, bool result) io" where
  "CreatePod cl podDef nameSpace = call (PodsCreate cl nameSpace podDef)"

definition fio_running_round :: "'w cluster \<Rightarrow> string \<Rightarrow> nat \<Rightarrow> unit \<Rightarrow> ('w, (unit, unit result) ctl) io" where
  "fio_running_round cl podName ix u =
     seq (IsPodRunning (pods cl) podName ''default'') (\<lambda>running.
       if running then ret (Break ())
       else if 100 \<le> ix then ret (Return (Inl (Errorf ''timed out waiting for pod to be running'')))
       else seq (sleeps cl 10) (\<lambda>_. ret (Continue ())))"

definition DeployFio :: "'w cluster \<Rightarrow> string \<Rightarrow> string \<Rightarrow> string \<Rightarrow> volume_type \<Rightarrow> int \<Rightarrow> int \<Rightarrow> int \<Rightarrow> int \<Rightarrow> ('w, unit result) io" where
  "DeployFio cl fioImage fioPodName pvcName volumeType volSize fioLoops thinkTime thinkTimeBlocks =
     check (app_pod fioPodName (MakeFioContainer fioImage fioPodName
              (fio_args volumeType volSize fioLoops thinkTime thinkTimeBlocks)) pvcName volumeType ''fio'')
       (wrapped ''failed to build fio test pod object, error: '') (\<lambda>podObj.
     check (CreatePod cl podObj ''default'') (wrapped ''failed to create fio pod, error: '') (\<lambda>pod.
     if \<not> pod then ret (Inl (Errorf ''failed to create fio pod, pod nil''))
     else after (loop 101 0 () (fio_running_round cl fioPodName)) (\<lambda>_. ret (Inr ()))))"

definition tester_running_round :: "'w cluster \<Rightarrow> string \<Rightarrow> nat \<Rightarrow> unit \<Rightarrow> ('w, (unit, unit result) ctl) io" where
  "tester_running_round cl podName ix u =
     seq (IsPodRunning (pods cl) podName ''default'') (\<lambda>running.
       if running then ret (Break ())
       else seq (IsPodFailed (pods cl) podName ''default'') (\<lambda>failed.
         if failed then ret (Return (Inl (Errorf ''pod is in failed state'')))
         else if 100 \<le> ix then ret (Return (Inl (Errorf ''timed out waiting for pod to be running'')))
         else seq (sleeps cl 10) (\<lambda>_. ret (Continue ()))))"

definition DeployStorageTester :: "'w cluster \<Rightarrow> string \<Rightarrow> string \<Rightarrow> string \<Rightarrow> volume_type \<Rightarrow> string list \<Rightarrow> ('w, unit result) io" where
  "DeployStorageTester cl img podName pvcName volumeType args =
     check (app_pod podName (MakePriviligedContainer img podName args) pvcName volumeType ''e2e-storage-tester'')
       (wrapped ''failed to build pod object, error: '') (\<lambda>podObj.
     check (CreatePod cl podObj ''default'') (wrapped ''failed to create pod, error: '') (\<lambda>pod.
     if \<not> pod then ret (Inl (Errorf ''failed to create pod, pod nil''))
     else after (loop 101 0 () (tester_running_round cl podName)) (\<lambda>_. ret (Inr ()))))"

section \<open>The waits come to an end\<close>

lemma returning_sleeps [ends]: "returning (sleeps cl n)"
  unfolding sleeps_def by (intro ends)

lemma returning_mcp [ends]:
  "returning (mcp_sendRequest cl m u)" "returning (GetOnlyVolume cl a)" "returning (GetVolumes cl a)"
  "returning (GetVolume cl a uid)" "returning (GetVolumeStatus cl a uid)" "returning (SetVolumeReplicas cl a uid n)"
  "returning (GetVolumeReplicaCount cl a uid)"
proof -
  show send: "returning (mcp_sendRequest cl m u)" for m u
    unfolding mcp_sendRequest_def by (intro ends)
  show "returning (GetOnlyVolume cl a)"
    unfolding GetOnlyVolume_def by (intro ends send) (auto intro: ends split: list.split)
  show vol: "returning (GetVolume cl a uid)"
    unfolding GetVolume_def by (intro ends send)
  show "returning (GetVolumes cl a)" "returning (SetVolumeReplicas cl a uid n)"
    "returning (GetVolumeReplicaCount cl a uid)"
    unfolding GetVolumes_def SetVolumeReplicas_def GetVolumeReplicaCount_def by (intro ends send)+
  show "returning (GetVolumeStatus cl a uid)"
    unfolding GetVolumeStatus_def by (intro ends vol)
qed

lemma returning_msv_read [ends]: "returning (GetMsVol cl v)" "returning (msv_read cl f v)"
  unfolding msv_read_def GetMsVol_def by (intro ends)+

lemma returning_resources [ends]:
  "returning (CreateMsPool cl p n ds)" "returning (GetMsPool cl p)" "returning (UpdateMsPool cl x)"
  "returning (DeleteMsPool cl p)" "returning (ListMsPools cl)" "returning (ListMsNodes cl)"
  "returning (CheckAllMsPoolsAreOnline cl)" "returning (CheckAllMsPoolFinalizers cl)"
  "returning (CheckMsNodesAreOnline cl)" "returning (CRD_ListMsVols cl)" "returning (CRD_GetMsVolState cl v)"
  "returning (CRD_UpdateMsVolReplicaCount cl v k)" "returning (CRD_CheckAllMsVolsAreHealthy cl)"
  unfolding CreateMsPool_def GetMsPool_def UpdateMsPool_def DeleteMsPool_def ListMsPools_def ListMsNodes_def
    CheckAllMsPoolsAreOnline_def CheckAllMsPoolFinalizers_def CheckMsNodesAreOnline_def CRD_ListMsVols_def
    CRD_GetMsVolState_def CRD_UpdateMsVolReplicaCount_def CRD_CheckAllMsVolsAreHealthy_def
  by (intro ends)+

lemma returning_nodes [ends]:
  "returning (GetNodeLocs cl)" "returning (GetMayastorNodeNames cl)" "returning (GetMayastorNodeIPs cl)"
  "returning (ListReplicasInCluster cl)" "returning (RmReplicasInCluster cl)" "returning (ListPoolsInCluster cl)"
  "returning (GetPoolUsageInCluster cl)"
  unfolding GetPoolUsageInCluster_def ListPoolsInCluster_def RmReplicasInCluster_def ListReplicasInCluster_def
    GetMayastorNodeIPs_def GetMayastorNodeNames_def mayastor_nodes_def GetNodeLocs_def Let_def
  by (intro ends)+

lemma returning_counted_waits [ends]:
  "returning (WaitForMayastorSockets cl addrs t)" "returning (WaitForPoolCrd cl)" "returning (wait_pools_online cl n)"
  "returning (CreatePools cl d)"
proof -
  show pools: "returning (WaitForPoolCrd cl)" "returning (wait_pools_online cl n)" for n
    unfolding WaitForPoolCrd_def wait_pools_online_def by (intro ends)+
  show "returning (WaitForMayastorSockets cl addrs t)" "returning (CreatePools cl d)"
    unfolding WaitForMayastorSockets_def CreatePools_def by (intro ends pools)+
qed

lemma returning_volumes [ends]:
  "returning (GetMSV cl uid)" "returning (GetPvcStatusPhase cl v ns)" "returning (GetPvStatusPhase cl v)"
  "returning (ListPVCs cl ns)" "returning (GetNexuses cl ips)" "returning (CreateNamespace cl ns)"
  unfolding GetMSV_def GetPvcStatusPhase_def GetPvStatusPhase_def ListPVCs_def GetNexuses_def CreateNamespace_def
  by (intro ends)+

lemma returning_rounds [ends]:
  "returning (pvc_bound_round cl v ns i u)" "returning (pv_round cl v i u)" "returning (pv_bound_round cl v i u)"
  "returning (msv_round cl uid i u)" "returning (pvc_gone_round cl v ns i u)"
  "returning (fio_running_round cl p i u)" "returning (tester_running_round cl p i u)"
  unfolding pvc_bound_round_def pv_round_def pv_bound_round_def msv_round_def pvc_gone_round_def fio_running_round_def
    tester_running_round_def
  by (intro ends)+

lemma last_rounds [posts]:
  "180 \<le> i \<Longrightarrow> yields (\<lambda>c. \<not> is_Continue c) (pvc_bound_round cl v ns i u)"
  "180 \<le> i \<Longrightarrow> yields (\<lambda>c. \<not> is_Continue c) (pv_round cl v i u)"
  "180 \<le> i \<Longrightarrow> yields (\<lambda>c. \<not> is_Continue c) (pv_bound_round cl v i u)"
  "180 \<le> i \<Longrightarrow> yields (\<lambda>c. \<not> is_Continue c) (msv_round cl uid i u)"
  "180 \<le> i \<Longrightarrow> yields (\<lambda>c. \<not> is_Continue c) (pvc_gone_round cl v ns i u)"
  "100 \<le> i \<Longrightarrow> yields (\<lambda>c. \<not> is_Continue c) (fio_running_round cl p i u)"
  "100 \<le> i \<Longrightarrow> yields (\<lambda>c. \<not> is_Continue c) (tester_running_round cl p i u)"
  unfolding pvc_bound_round_def pv_round_def pv_bound_round_def msv_round_def pvc_gone_round_def fio_running_round_def
    tester_running_round_def
  by (intro posts; simp)+

lemma returning_after_180:
  "(\<And>i v. returning (body i v)) \<Longrightarrow> (\<And>i v. 180 \<le> i \<Longrightarrow> yields (\<lambda>c. \<not> is_Continue c) (body i v))
     \<Longrightarrow> (\<And>v. returning (f v)) \<Longrightarrow> returning (after (loop 181 0 v body) f)"
  by (rule returning_after_loop [where n = 180]) auto

lemma returning_DeletePVC [ends]: "returning (DeletePVC cl v ns)"
  unfolding DeletePVC_def by (rule returning_check, rule returning_call, rule returning_after_180) (intro ends posts; assumption?)+

lemma returning_app_pod [ends]: "returning (app_pod podName c pvcName volumeType label)"
  by (simp add: returning_def app_pod_def NewPodBuilder_def WithName_def WithNamespace_def WithAppLabel_def
      WithRestartPolicy_def WithContainer_def WithContainers_def WithVolumes_def WithVolumeMounts_def
      WithVolumeDevices_def set_first_container_def index_def pb_set_def pb_error_def Let_def)

lemma returning_deploy [ends]:
  "returning (DeployFio cl img p c t s l tt tb)" "returning (DeployStorageTester cl img p c t args)"
  unfolding DeployFio_def DeployStorageTester_def CreatePod_def
  by (intro returning_check returning_app_pod returning_call returning_if returning_ret
      returning_after_loop [where n = 100] returning_rounds last_rounds; simp)+

lemma MkPVC_returning:
  assumes "\<And>w sc w'. ScGet cl scName w = (Inr sc, w') \<Longrightarrow> sc_VolumeBindingMode sc \<noteq> None"
  shows "returning (MkPVC cl mb name scName typ ns moac)"
proof -
  have mode: "returning (seq (deref (sc_VolumeBindingMode sc)) f)"
    if "call (ScGet cl scName) s = (Done (Inr sc), s')" and f: "\<And>x. returning (f x)"
    for sc s s' and f :: "binding_mode \<Rightarrow> ('a, string result) io"
  proof -
    from that(1) have "ScGet cl scName s = (Inr sc, s')" by (auto simp: call_def split: prod.splits)
    with assms obtain m where "sc_VolumeBindingMode sc = Some m" by blast
    with f show ?thesis by simp
  qed
  show ?thesis
    unfolding MkPVC_def
    by (rule returning_check, rule returning_call, rule returning_check, rule returning_call,
        rule returning_check_post, rule returning_call, erule mode)
       (intro returning_if returning_ret returning_check returning_call returning_after_180 returning_rounds last_rounds;
        assumption?)
qed

section \<open>A small cluster\<close>

text \<open>
  A cluster with one mayastor node whose answers do not change; its world is a clock that
  counts the seconds slept. The instances below use it.
\<close>

definition small_pod :: pod where
  "small_pod = \<lparr>pod_Name = ''fio'', pod_Namespace = ''default'', pod_UID = ''u1'', pod_Labels = [], pod_Phase = PodRunning,
     pod_RestartCounts = [0], pod_NodeName = ''node1'', pod_PodIP = ''10.0.0.9'', pod_CreationTimestamp = 0\<rparr>"

definition small_node :: k8s_node where
  "small_node = \<lparr>kn_Labels = [(''openebs.io/engine'', ''mayastor'')],
     kn_Addresses = [(''InternalIP'', ''10.0.0.1''), (''Hostname'', ''node1'')]\<rparr>"

definition small_pool :: "string \<Rightarrow> msp" where
  "small_pool state = \<lparr>msp_Name = ''node1-pool'', msp_Finalizers = None, msp_Node = ''node1'', msp_Disks = [''/dev/sdb''],
     msp_State = state, msp_Capacity = 100, msp_Used = 0\<rparr>"

definition small_volume :: "string \<Rightarrow> sparse_volume" where
  "small_volume status = \<lparr>sv_Num_replicas = 1, sv_Children = [''CHILD_ONLINE''], sv_TargetUuid = ''nx1'', sv_Uuid = ''v1'', sv_Status = status\<rparr>"

definition small_pvc :: pvc where
  "small_pvc = \<lparr>pvc_UID = ''v1'', pvc_VolumeName = ''pvc-v1'', pvc_Phase = ClaimBound\<rparr>"

definition small_msv :: msv where
  "small_msv = \<lparr>msv_Name = ''v1'', msv_ReplicaCount = 1, msv_State = ''faulted'', msv_NexusState = '''', msv_NexusChildren = [],
     msv_Replicas = [''r1''], msv_TargetNodes = [''node1'']\<rparr>"

definition small_cluster :: "string \<Rightarrow> string \<Rightarrow> string \<Rightarrow> nat cluster" where
  "small_cluster pool_state volume_state nexus_state =
    \<lparr>pods = \<lparr>PodsGet = \<lambda>ns n w. (Inr small_pod, w), PodsList = \<lambda>ns w. (Inr [small_pod], w), PodsDelete = \<lambda>ns n w. (Inr (), w),
       Sleep = \<lambda>n w. w + n, Now = \<lambda>w. (int w, w)\<rparr>,
     PodsCreate = \<lambda>ns p w. (Inr True, w), NodesList = \<lambda>w. (Inr [small_node], w),
     PvcCreate = \<lambda>ns p w. (Inr (), w), PvcGet = \<lambda>ns n w. (Inr small_pvc, w), PvcDelete = \<lambda>ns n w. (Inr (), w),
     PvcList = \<lambda>ns w. (Inr [small_pvc], w), PvGet = \<lambda>n w. (Inr VolumeBound, w),
     ScGet = \<lambda>n w. (Inr (sb_sc NewScBuilder\<lparr>sc_VolumeBindingMode := Some VolumeBindingImmediate\<rparr>), w),
     ScCreate = \<lambda>s w. (Inr (), w), ScDelete = \<lambda>n w. (Inr (), w), NamespaceCreate = \<lambda>n w. (Inr (), w),
     MspCreate = \<lambda>p w. (Inr p, w), MspGet = \<lambda>n w. (Inr (small_pool pool_state), w), MspUpdate = \<lambda>p w. (Inr p, w),
     MspDelete = \<lambda>n w. (Inr (), w), MspList = \<lambda>w. (Inr [small_pool pool_state], w),
     MsnGet = \<lambda>n w. (Inr \<lparr>msn_Name = ''node1'', msn_Status = ''online''\<rparr>, w),
     MsnList = \<lambda>w. (Inr [\<lparr>msn_Name = ''node1'', msn_Status = ''online''\<rparr>], w), MsnDelete = \<lambda>n w. (Inr (), w),
     MsvGet = \<lambda>n w. (Inr small_msv, w), MsvUpdate = \<lambda>v w. (Inr v, w), MsvDelete = \<lambda>n w. (Inr (), w),
     MsvList = \<lambda>w. (Inr [small_msv], w),
     McpNewRequest = \<lambda>m u. None, McpDo = \<lambda>m u w. (Inr (200, '''', Inr ''body''), w),
     DecodeVolumes = \<lambda>b. Inr [small_volume volume_state], DecodeVolume = \<lambda>b. Inr (small_volume volume_state),
     ListNexuses = \<lambda>ips w. (Inr [\<lparr>nx_Uuid = ''nx1'', nx_State = nexus_state\<rparr>], w),
     ListReplicas = \<lambda>ips w. (Inr [''r1''], w), RmNodeReplicas = \<lambda>ips w. (Inr (), w),
     ListPools = \<lambda>ips w. (Inr [], w), CreateReplica = \<lambda>ip u n p w. (Inr (), w), NewUUID = \<lambda>w. (''new'', w), AgentKillMayastor = \<lambda>ip w. (Inr ''ok'', w),
     AgentControlDevice = \<lambda>ip d s w. (Inr ''ok'', w),
     AgentExec = \<lambda>ip c w. ((''running'', None), w), StatusText = \<lambda>v. '''',
     ParseDuration = \<lambda>t. Inr 5000000000, NowNano = \<lambda>w. (int w * 1000000000, w)\<rparr>"

section \<open>Properties\<close>

text \<open>A round of a wait that returns reports an error; one that breaks out has seen what it waits for.\<close>

lemma rounds_report:
  "pvc_bound_round cl v ns i u s \<noteq> (Done (Return (Inr x)), s')" "pv_round cl v i u s \<noteq> (Done (Return (Inr x)), s')"
  "pv_bound_round cl v i u s \<noteq> (Done (Return (Inr x)), s')" "msv_round cl uid i u s \<noteq> (Done (Return (Inr x)), s')"
  "pvc_gone_round cl v ns i u s \<noteq> (Done (Return (Inr y)), s')"
  by (auto simp: pvc_bound_round_def pv_round_def pv_bound_round_def msv_round_def pvc_gone_round_def
      elim!: seq_DoneE split: if_splits prod.splits option.splits sum.splits)

lemma pvc_bound_round_Break:
  "pvc_bound_round cl v ns i u s = (Done (Break x), s') \<Longrightarrow> \<exists>w p. fst (PvcGet cl ns v w) = Inr p \<and> pvc_Phase p = ClaimBound"
  by (auto simp: pvc_bound_round_def GetPvcStatusPhase_def call_def
      elim!: seq_DoneE split: if_splits prod.splits option.splits sum.splits) (metis fst_conv)

lemma pv_bound_round_Break:
  "pv_bound_round cl v i u s = (Done (Break x), s') \<Longrightarrow> \<exists>w. fst (PvGet cl v w) = Inr VolumeBound"
  by (auto simp: pv_bound_round_def GetPvStatusPhase_def call_def
      elim!: seq_DoneE split: if_splits prod.splits option.splits sum.splits) (metis fst_conv)

lemma GetMSV_Some:
  "GetMSV cl uid w = (Done (Inr (Some v)), w') \<Longrightarrow> msv_State v \<notin> {'''', ''pending''} \<and> msv_Replicas v \<noteq> []"
  by (auto simp: GetMSV_def elim!: seq_DoneE split: if_splits prod.splits option.splits)

lemma msv_round_Break:
  assumes "msv_round cl uid i u s = (Done (Break x), s')"
  shows "\<exists>w v. fst (GetMSV cl uid w) = Done (Inr (Some v)) \<and> msv_State v \<notin> {'''', ''pending''} \<and> msv_Replicas v \<noteq> []"
proof -
  from assms obtain v w where "GetMSV cl uid s = (Done (Inr (Some v)), w)"
    by (auto simp: msv_round_def elim!: seq_DoneE split: if_splits prod.splits option.splits sum.splits)
  with GetMSV_Some [OF this] show ?thesis by (metis fst_conv)
qed

lemma pvc_gone_round_Break:
  "pvc_gone_round cl v ns i u s = (Done (Break x), s') \<Longrightarrow> \<exists>w e. fst (PvcGet cl ns v w) = Inl e \<and> IsNotFound e"
  by (auto simp: pvc_gone_round_def call_def elim!: seq_DoneE split: if_splits prod.splits sum.splits)
     (metis fst_conv)+



text \<open>
  Property C15. \<^verbatim>\<open>DeletePVC\<close> always returns, within 181 lookups, and when it returns without an
  error a lookup has said that the claim is not there.
\<close>

theorem DeletePVC_gone:
  "\<exists>r w'. DeletePVC cl name ns w = (Done r, w') \<and>
     (r = Inr () \<longrightarrow> (\<exists>w1 e. fst (PvcGet cl ns name w1) = Inl e \<and> IsNotFound e))"
proof -
  obtain r w' where run: "DeletePVC cl name ns w = (Done r, w')"
    using returning_DeletePVC by (rule returningE)
  moreover have "\<exists>w1 e. fst (PvcGet cl ns name w1) = Inl e \<and> IsNotFound e" if "r = Inr ()"
    using run that unfolding DeletePVC_def
    by (auto elim!: check_DoneE after_loopE dest!: pvc_gone_round_Break simp: rounds_report)
  ultimately show ?thesis by blast
qed

theorem DeletePVC_gone_witness:
  "\<exists>r w'. DeletePVC (small_cluster ''online'' ''Online'' '''') ''vol'' ''default'' 0 = (Done r, w') \<and> r \<noteq> Inr ()"
  using DeletePVC_gone [of "small_cluster ''online'' ''Online'' ''''" "''vol''" "''default''" 0]
  by (auto simp: small_cluster_def)

text \<open>
  \<^verbatim>\<open>CreatePools\<close> does not report that the pools are not online: when the nodes and
  the pools can be listed and the pools created, it returns without an error, whatever the state
  of the pools and however few of them there are.
\<close>

theorem CreatePools_ignores_offline_pools:
  assumes nodes: "\<And>w. NodesList cl w = (Inr ns, w)" "\<forall>n \<in> set ns. NodeName (node_loc n) \<noteq> '''' \<and> IPAddress (node_loc n) \<noteq> ''''"
    and created: "\<And>p w. \<exists>p' w'. MspCreate cl p w = (Inr p', w')"
    and listed: "\<And>w. \<exists>ps w'. MspList cl w = (Inr ps, w')"
  shows "\<exists>w'. CreatePools cl dev w = (Done (Inr ()), w')"
proof -
  obtain r w' where run: "CreatePools cl dev w = (Done r, w')"
    using returning_counted_waits(4) by (rule returningE)
  have list: "ListMsPools cl w \<noteq> (Done (Inl e), w')" for w e w'
    using listed [of w] by (auto simp: ListMsPools_def call_def)
  have create: "CreateMsPool cl p n ds w \<noteq> (Done (Inl e), w')" for p n ds w e w'
    using created [of _ w] by (auto simp: CreateMsPool_def call_def split: prod.splits) (metis Pair_inject sum.distinct(1))
  have crd: "\<exists>w'. WaitForPoolCrd cl w = (Done True, w')" for w
  proof -
    obtain ps w1 where "ListMsPools cl w = (Done (Inr ps), w1)"
      using listed [of w] by (auto simp: ListMsPools_def call_def)
    then show ?thesis
      by (simp add: WaitForPoolCrd_def after_def upt_conv_Cons seq_Done)
  qed
  have names: "\<exists>xs. GetMayastorNodeNames cl w = (Done (Inr xs), w)" for w
    using nodes by (auto simp: GetMayastorNodeNames_def mayastor_nodes_def GetNodeLocs_def call_def check_def seq_def Let_def)
  have online: "r = Inr ()" if "wait_pools_online cl n w = (Done r, w')" for n w r w'
    using that unfolding wait_pools_online_def
    by (auto elim!: after_for_inE seq_DoneE simp: list split: sum.splits if_splits)
  have "r = Inr ()"
    using run names [of w] crd [of w] unfolding CreatePools_def
    by (auto elim!: check_DoneE seq_DoneE after_for_inE dest: online simp: create split: sum.splits if_splits)
  with run show ?thesis by blast
qed

theorem CreatePools_ignores_offline_pools_witness:
  "\<exists>w'. CreatePools (small_cluster ''faulted'' ''Online'' '''') ''/dev/sdb'' 0 = (Done (Inr ()), w')"
  by (rule CreatePools_ignores_offline_pools [of _ "[small_node]"])
     (simp_all add: small_cluster_def small_node_def node_loc_def last_address_def)

text \<open>
  With a timeout of less than ten seconds \<^verbatim>\<open>WaitForMayastorSockets\<close> asks nobody and
  reports that the sockets are there.
\<close>

theorem sockets_not_asked:
  assumes "ParseDuration cl timeout = Inr d" and "d < 10 * 1000000000"
  shows "WaitForMayastorSockets cl addrs timeout w = (Done (Inr ()), w)"
proof -
  have "wait_rounds d = 0" using assms(2) by (simp add: wait_rounds_def)
  then show ?thesis using assms(1) by (simp add: WaitForMayastorSockets_def after_def)
qed

theorem sockets_not_asked_witness:
  "WaitForMayastorSockets (small_cluster ''online'' ''Online'' '''') [''10.0.0.1''] ''5s'' 0 = (Done (Inr ()), 0)"
  by (rule sockets_not_asked [of _ _ 5000000000]) (simp_all add: small_cluster_def)

end
