(* ===== verification/Workload_List.thy ===== *)
theory Workload_List
  imports Models
begin

text \<open>
  \<^verbatim>\<open>workload_monitor/list/workload_list.go\<close>: the registered workloads, a map from
  registrants to maps from workload ids to items. The global \<^verbatim>\<open>gWorkloadList\<close> is the
  state \<open>workload_map\<close> that every operation takes and returns; the mutex is held around
  every use of it (by the handlers and the polling loop), so operations do not interleave.

  The inner maps are references in Go. Every update of an inner map goes through the outer
  map, so writing the changed inner map back under its registrant is the same update.
\<close>

record workload_item =
  wli_Restarts :: "32 word"
  wli_Wl :: workload
  wli_Rid :: uuid

type_synonym workload_map = "(uuid, (uuid, workload_item) gomap) gomap"

definition AddToWorkloadList :: "workload \<Rightarrow> uuid \<Rightarrow> uuid \<Rightarrow> workload_map \<Rightarrow> workload_map" where
  "AddToWorkloadList pwl rid wid m =
     (let m1 = (case map_of m rid of None \<Rightarrow> AList.update rid [] m | Some _ \<Rightarrow> m);
          wli = \<lparr>wli_Restarts = 0, wli_Wl = pwl, wli_Rid = rid\<rparr>
      in AList.update rid (AList.update wid wli (the (map_of m1 rid))) m1)"

definition SetWorkloadListItemRestarts ::
    "uuid \<Rightarrow> uuid \<Rightarrow> 32 word \<Rightarrow> workload_map \<Rightarrow> bool \<times> workload_map" where
  "SetWorkloadListItemRestarts rid wid restarts m =
     (case map_of m rid of
        Some wlmap \<Rightarrow> (case map_of wlmap wid of
            Some wli \<Rightarrow> (True, AList.update rid (AList.update wid (wli\<lparr>wli_Restarts := restarts\<rparr>) wlmap) m)
          | None \<Rightarrow> (False, m))
      | None \<Rightarrow> (False, m))"

definition GetWorkload :: "uuid \<Rightarrow> uuid \<Rightarrow> workload_map \<Rightarrow> workload option" where
  "GetWorkload rid wid m =
     (case map_of m rid of
        Some wlmap \<Rightarrow> (case map_of wlmap wid of Some wli \<Rightarrow> Some (wli_Wl wli) | None \<Rightarrow> None)
      | None \<Rightarrow> None)"

definition DeleteWorkload :: "uuid \<Rightarrow> uuid \<Rightarrow> workload_map \<Rightarrow> workload_map" where
  "DeleteWorkload rid wid m =
     (case map_of m rid of Some wlmap \<Rightarrow> AList.update rid (AList.delete wid wlmap) m | None \<Rightarrow> m)"

definition DeleteWorkloads :: "uuid \<Rightarrow> workload_map \<Rightarrow> int \<times> workload_map" where
  "DeleteWorkloads rid m =
     (case map_of m rid of
        Some wlmap \<Rightarrow> (int (length wlmap), AList.delete rid m)
      | None \<Rightarrow> (0, m))"

text \<open>
  The listing operations range over the maps: \<open>ordo\<close> and \<open>ordi\<close> are the orders in which
  the outer map and the inner maps are visited.
\<close>

definition GetWorkloadListByRegistrant ::
    "((uuid, workload_item) gomap \<Rightarrow> (uuid \<times> workload_item) list) \<Rightarrow> uuid \<Rightarrow> workload_map \<Rightarrow> workload list" where
  "GetWorkloadListByRegistrant ordi rid m =
     (case map_of m rid of Some wlmap \<Rightarrow> map (wli_Wl \<circ> snd) (ordi wlmap) | None \<Rightarrow> [])"

definition GetWorkloadItemList ::
    "(workload_map \<Rightarrow> (uuid \<times> (uuid, workload_item) gomap) list)
     \<Rightarrow> ((uuid, workload_item) gomap \<Rightarrow> (uuid \<times> workload_item) list) \<Rightarrow> workload_map \<Rightarrow> workload_item list" where
  "GetWorkloadItemList ordo ordi m = concat (map (\<lambda>(rid, wlmap). map snd (ordi wlmap)) (ordo m))"

definition GetWorkloadList ::
    "(workload_map \<Rightarrow> (uuid \<times> (uuid, workload_item) gomap) list)
     \<Rightarrow> ((uuid, workload_item) gomap \<Rightarrow> (uuid \<times> workload_item) list) \<Rightarrow> workload_map \<Rightarrow> workload list" where
  "GetWorkloadList ordo ordi m =
     concat (map (\<lambda>(rid, wlmap). map (wli_Wl \<circ> snd) (ordi wlmap)) (ordo m))"

text \<open>The inner loop of \<^verbatim>\<open>DeleteWorkloadById\<close>: visit the entries, deleting as it goes.\<close>

definition delete_by_id :: "uuid \<Rightarrow> (uuid, workload_item) gomap \<Rightarrow> (uuid, workload_item) gomap" where
  "delete_by_id i wlmap =
     fold (\<lambda>(wid, wli) m. if wl_ID (wli_Wl wli) = i then AList.delete wid m else m) wlmap wlmap"

definition DeleteWorkloadById :: "uuid \<Rightarrow> workload_map \<Rightarrow> workload_map" where
  "DeleteWorkloadById i m = map (\<lambda>(rid, wlmap). (rid, delete_by_id i wlmap)) m"

section \<open>Contract\<close>

text \<open>
  What the registry promises to the REST handlers and to the polling loop: it is a partial
  map from (registrant, workload id) to items. The laws say what a lookup returns after each
  operation; every operation keeps the representation invariant.
\<close>

locale registry =
  fixes item_at :: "'m \<Rightarrow> uuid \<Rightarrow> uuid \<Rightarrow> workload_item option"
    and add :: "workload \<Rightarrow> uuid \<Rightarrow> uuid \<Rightarrow> 'm \<Rightarrow> 'm"
    and set_restarts :: "uuid \<Rightarrow> uuid \<Rightarrow> 32 word \<Rightarrow> 'm \<Rightarrow> bool \<times> 'm"
    and del :: "uuid \<Rightarrow> uuid \<Rightarrow> 'm \<Rightarrow> 'm"
    and del_all :: "uuid \<Rightarrow> 'm \<Rightarrow> int \<times> 'm"
    and del_id :: "uuid \<Rightarrow> 'm \<Rightarrow> 'm"
    and invar :: "'m \<Rightarrow> bool"
  assumes at_add: "item_at (add wl r w m) r' w' =
      (if r' = r \<and> w' = w then Some \<lparr>wli_Restarts = 0, wli_Wl = wl, wli_Rid = r\<rparr> else item_at m r' w')"
    and at_set: "item_at (snd (set_restarts r w n m)) r' w' =
      (if r' = r \<and> w' = w then map_option (wli_Restarts_update (\<lambda>_. n)) (item_at m r w) else item_at m r' w')"
    and set_found: "fst (set_restarts r w n m) \<longleftrightarrow> item_at m r w \<noteq> None"
    and at_del: "item_at (del r w m) r' w' = (if r' = r \<and> w' = w then None else item_at m r' w')"
    and at_del_all: "item_at (snd (del_all r m)) r' w' = (if r' = r then None else item_at m r' w')"
    and del_all_count: "invar m \<Longrightarrow> fst (del_all r m) = int (card {w. item_at m r w \<noteq> None})"
    and at_del_id: "invar m \<Longrightarrow> item_at (del_id i m) r w =
      (case item_at m r w of None \<Rightarrow> None | Some it \<Rightarrow> if wl_ID (wli_Wl it) = i then None else Some it)"
    and item_keys: "invar m \<Longrightarrow> item_at m r w = Some it \<Longrightarrow> wli_Rid it = r \<and> wl_ID (wli_Wl it) = w"
    and invar_add: "invar m \<Longrightarrow> wl_ID wl = w \<Longrightarrow> invar (add wl r w m)"
    and invar_set: "invar m \<Longrightarrow> invar (snd (set_restarts r w n m))"
    and invar_del: "invar m \<Longrightarrow> invar (del r w m)"
    and invar_del_all: "invar m \<Longrightarrow> invar (snd (del_all r m))"
    and invar_del_id: "invar m \<Longrightarrow> invar (del_id i m)"
begin

lemmas invars = invar_add invar_set invar_del invar_del_all invar_del_id

text \<open>Registering again replaces the item and forgets its restart count.\<close>

lemma add_resets:
  "item_at (add wl r w (snd (set_restarts r w n m))) r' w' = item_at (add wl r w m) r' w'"
  by (auto simp: at_add at_set)

text \<open>Deleting what was just registered leaves what deleting it before would leave.\<close>

lemma del_add: "item_at (del r w (add wl r w m)) r' w' = item_at (del r w m) r' w'"
  by (auto simp: at_add at_del)

text \<open>Deletion by workload id removes the workload for every registrant and nothing else.\<close>

lemma del_id_at:
  "invar m \<Longrightarrow> item_at (del_id i m) r w = (if w = i then None else item_at m r w)"
  by (auto simp: at_del_id split: option.split dest: item_keys)

lemma count_after_set: "item_at (snd (set_restarts r w n m)) r w = Some it \<Longrightarrow> wli_Restarts it = n"
  by (auto simp: at_set)

lemma del_all_none_left: "invar m \<Longrightarrow> fst (del_all r (snd (del_all r m))) = 0"
  by (simp add: del_all_count invar_del_all at_del_all)

end

section \<open>The map of maps meets the contract\<close>

definition item_at :: "workload_map \<Rightarrow> uuid \<Rightarrow> uuid \<Rightarrow> workload_item option" where
  "item_at m r w = (case map_of m r of None \<Rightarrow> None | Some wlmap \<Rightarrow> map_of wlmap w)"

definition wl_inner_inv :: "uuid \<Rightarrow> (uuid, workload_item) gomap \<Rightarrow> bool" where
  "wl_inner_inv r wlmap \<longleftrightarrow> wf_gomap wlmap \<and>
     (\<forall>(w, it) \<in> set wlmap. wli_Rid it = r \<and> wl_ID (wli_Wl it) = w)"

definition wl_inv :: "workload_map \<Rightarrow> bool" where
  "wl_inv m \<longleftrightarrow> wf_gomap m \<and> (\<forall>(r, wlmap) \<in> set m. wl_inner_inv r wlmap)"

lemma wl_inv_lookup: "wl_inv m \<Longrightarrow> map_of m r = Some wlmap \<Longrightarrow> wl_inner_inv r wlmap"
  by (auto simp: wl_inv_def dest: map_of_SomeD)

lemma wl_inv_inner: "wl_inv m \<Longrightarrow> map_of m r = Some wlmap \<Longrightarrow> map_of wlmap w = Some it
    \<Longrightarrow> wli_Rid it = r \<and> wl_ID (wli_Wl it) = w"
  by (fastforce simp: wl_inner_inv_def dest: wl_inv_lookup map_of_SomeD)

lemma wl_inner_inv_Nil [simp]: "wl_inner_inv r []"
  by (simp add: wl_inner_inv_def)

lemma wl_inner_inv_single:
  "wli_Rid it = r \<Longrightarrow> wl_ID (wli_Wl it) = w \<Longrightarrow> wl_inner_inv r [(w, it)]"
  by (simp add: wl_inner_inv_def wf_gomap_def)

lemma wl_inner_inv_update:
  "wl_inner_inv r wlmap \<Longrightarrow> wli_Rid it = r \<Longrightarrow> wl_ID (wli_Wl it) = w
   \<Longrightarrow> wl_inner_inv r (AList.update w it wlmap)"
  by (auto simp: wl_inner_inv_def wf_gomap_update dest!: subsetD [OF set_gomap_update])

lemma wl_inner_inv_delete: "wl_inner_inv r wlmap \<Longrightarrow> wl_inner_inv r (AList.delete w wlmap)"
  by (auto simp: wl_inner_inv_def wf_gomap_delete dest!: subsetD [OF set_gomap_delete])

lemma wl_inv_update: "wl_inv m \<Longrightarrow> wl_inner_inv r wlmap \<Longrightarrow> wl_inv (AList.update r wlmap m)"
  by (auto simp: wl_inv_def wf_gomap_update dest!: subsetD [OF set_gomap_update])

lemma wl_inv_delete: "wl_inv m \<Longrightarrow> wl_inv (AList.delete r m)"
  by (auto simp: wl_inv_def wf_gomap_delete dest!: subsetD [OF set_gomap_delete])

text \<open>Deleting while visiting removes exactly the entries with the id.\<close>

lemma fold_delete:
  "fold (\<lambda>(wid, wli) m. if P wli then AList.delete wid m else m) ys m
   = filter (\<lambda>(w, it). \<forall>it'. (w, it') \<in> set ys \<longrightarrow> \<not> P it') m"
proof (induction ys arbitrary: m)
  case Nil
  then show ?case by simp
next
  case (Cons y ys)
  then show ?case
    by (cases y) (auto simp: AList.delete_eq intro!: filter_cong split: prod.splits)
qed

lemma delete_by_id_filter:
  "wf_gomap wlmap \<Longrightarrow> delete_by_id i wlmap = filter (\<lambda>(w, it). wl_ID (wli_Wl it) \<noteq> i) wlmap"
  unfolding delete_by_id_def
  by (subst fold_delete) (auto intro!: filter_cong simp: map_of_wf split: prod.splits)

subsection \<open>Lookups after each operation\<close>

lemma item_at_Add:
  "item_at (AddToWorkloadList wl r w m) r' w' =
     (if r' = r \<and> w' = w then Some \<lparr>wli_Restarts = 0, wli_Wl = wl, wli_Rid = r\<rparr> else item_at m r' w')"
  by (auto simp: item_at_def AddToWorkloadList_def gomap Let_def split: option.split)

lemma item_at_Set:
  "item_at (snd (SetWorkloadListItemRestarts r w n m)) r' w' =
     (if r' = r \<and> w' = w then map_option (wli_Restarts_update (\<lambda>_. n)) (item_at m r w) else item_at m r' w')"
  by (auto simp: item_at_def SetWorkloadListItemRestarts_def gomap split: option.split)

lemma Set_found: "fst (SetWorkloadListItemRestarts r w n m) \<longleftrightarrow> item_at m r w \<noteq> None"
  by (auto simp: item_at_def SetWorkloadListItemRestarts_def split: option.split)

lemma item_at_Delete:
  "item_at (DeleteWorkload r w m) r' w' = (if r' = r \<and> w' = w then None else item_at m r' w')"
  by (auto simp: item_at_def DeleteWorkload_def gomap split: option.split)

lemma item_at_DeleteAll:
  "item_at (snd (DeleteWorkloads r m)) r' w' = (if r' = r then None else item_at m r' w')"
  by (auto simp: item_at_def DeleteWorkloads_def gomap split: option.split)

lemma DeleteAll_count:
  assumes "wl_inv m"
  shows "fst (DeleteWorkloads r m) = int (card {w. item_at m r w \<noteq> None})"
proof (cases "map_of m r")
  case None
  then show ?thesis by (simp add: DeleteWorkloads_def item_at_def)
next
  case (Some wlmap)
  with assms have "distinct (map fst wlmap)"
    by (auto simp: wl_inner_inv_def wf_gomap_def dest: wl_inv_lookup)
  then have "card (fst ` set wlmap) = length wlmap"
    by (metis distinct_card length_map set_map)
  moreover have "{w. item_at m r w \<noteq> None} = fst ` set wlmap"
    using Some by (simp add: item_at_def dom_def flip: dom_map_of_conv_image_fst)
  ultimately show ?thesis
    using Some by (simp add: DeleteWorkloads_def)
qed

lemma item_at_DeleteById:
  assumes "wl_inv m"
  shows "item_at (DeleteWorkloadById i m) r w =
     (case item_at m r w of None \<Rightarrow> None | Some it \<Rightarrow> if wl_ID (wli_Wl it) = i then None else Some it)"
proof (cases "map_of m r")
  case None
  then show ?thesis by (simp add: item_at_def DeleteWorkloadById_def map_of_map_values)
next
  case (Some wlmap)
  with assms have "wf_gomap wlmap"
    by (auto simp: wl_inner_inv_def dest: wl_inv_lookup)
  with Some show ?thesis
    by (simp add: item_at_def DeleteWorkloadById_def map_of_map_values delete_by_id_filter
        map_of_filter [where P = "\<lambda>it. wl_ID (wli_Wl it) \<noteq> i"] split: option.split)
qed

lemma GetWorkload_item_at: "GetWorkload r w m = map_option wli_Wl (item_at m r w)"
  by (auto simp: GetWorkload_def item_at_def split: option.split)

subsection \<open>The invariant is kept\<close>

lemma wl_inv_Add: "wl_inv m \<Longrightarrow> wl_ID wl = w \<Longrightarrow> wl_inv (AddToWorkloadList wl r w m)"
  by (auto simp: AddToWorkloadList_def Let_def gomap split: option.split
      intro!: wl_inv_update wl_inner_inv_update wl_inner_inv_single dest: wl_inv_lookup)

lemma wl_inv_Set:
  assumes "wl_inv m"
  shows "wl_inv (snd (SetWorkloadListItemRestarts r w n m))"
proof (cases "item_at m r w")
  case None
  then show ?thesis
    using assms by (auto simp: SetWorkloadListItemRestarts_def item_at_def split: option.splits)
next
  case (Some it)
  then obtain wlmap where "map_of m r = Some wlmap" "map_of wlmap w = Some it"
    by (auto simp: item_at_def split: option.splits)
  with assms wl_inv_lookup wl_inv_inner show ?thesis
    by (simp add: SetWorkloadListItemRestarts_def wl_inv_update wl_inner_inv_update)
qed

lemma wl_inv_Delete: "wl_inv m \<Longrightarrow> wl_inv (DeleteWorkload r w m)"
  by (auto simp: DeleteWorkload_def split: option.split
      intro!: wl_inv_update wl_inner_inv_delete dest: wl_inv_lookup)

lemma wl_inv_DeleteAll: "wl_inv m \<Longrightarrow> wl_inv (snd (DeleteWorkloads r m))"
  by (auto simp: DeleteWorkloads_def split: option.split intro!: wl_inv_delete)

lemma wl_inv_DeleteById:
  assumes "wl_inv m"
  shows "wl_inv (DeleteWorkloadById i m)"
proof -
  have "wl_inner_inv r (delete_by_id i wlmap)" if "(r, wlmap) \<in> set m" for r wlmap
    using assms that
    by (fastforce simp: wl_inv_def wl_inner_inv_def delete_by_id_filter wf_gomap_filter)
  moreover have "map fst (DeleteWorkloadById i m) = map fst m"
    by (simp add: DeleteWorkloadById_def split_beta)
  ultimately show ?thesis
    using assms by (auto simp: wl_inv_def wf_gomap_def) (auto simp: DeleteWorkloadById_def)
qed

interpretation reg: registry item_at AddToWorkloadList SetWorkloadListItemRestarts
  DeleteWorkload DeleteWorkloads DeleteWorkloadById wl_inv
proof (unfold_locales, goal_cases)
  case 8
  then show ?case by (auto simp: item_at_def split: option.splits dest: wl_inv_inner)
qed (simp_all add: item_at_Add item_at_Set Set_found item_at_Delete item_at_DeleteAll DeleteAll_count
      item_at_DeleteById wl_inv_Add wl_inv_Set wl_inv_Delete wl_inv_DeleteAll wl_inv_DeleteById)

section \<open>Listings\<close>

lemma set_item_list:
  assumes "wl_inv m" "enumerates ordo" "enumerates ordi"
  shows "it \<in> set (GetWorkloadItemList ordo ordi m) \<longleftrightarrow> (\<exists>r w. item_at m r w = Some it)"
proof -
  have "it \<in> set (GetWorkloadItemList ordo ordi m) \<longleftrightarrow> (\<exists>r wlmap w. (r, wlmap) \<in> set m \<and> (w, it) \<in> set wlmap)"
  proof -
    have "set (GetWorkloadItemList ordo ordi m) = (\<Union>e \<in> set m. snd ` set (snd e))"
      by (simp add: GetWorkloadItemList_def set_enum [OF assms(2)] set_enum [OF assms(3)] split_beta)
    then show ?thesis by (force simp: Bex_def)
  qed
  also have "\<dots> \<longleftrightarrow> (\<exists>r w. item_at m r w = Some it)"
  proof
    assume "\<exists>r wlmap w. (r, wlmap) \<in> set m \<and> (w, it) \<in> set wlmap"
    then obtain r wlmap w where *: "(r, wlmap) \<in> set m" "(w, it) \<in> set wlmap"
      by blast
    then have "map_of m r = Some wlmap" "wf_gomap wlmap"
      using assms(1) by (auto simp: wl_inv_def wl_inner_inv_def map_of_wf)
    with * have "item_at m r w = Some it"
      by (simp add: item_at_def map_of_wf)
    then show "\<exists>r w. item_at m r w = Some it" by blast
  next
    assume "\<exists>r w. item_at m r w = Some it"
    then show "\<exists>r wlmap w. (r, wlmap) \<in> set m \<and> (w, it) \<in> set wlmap"
      by (metis item_at_def map_of_SomeD not_None_eq option.simps(4,5))
  qed
  finally show ?thesis .
qed

lemma map_item_list: "GetWorkloadList ordo ordi m = map wli_Wl (GetWorkloadItemList ordo ordi m)"
  by (auto simp: GetWorkloadList_def GetWorkloadItemList_def map_concat comp_def
      intro!: arg_cong [where f = concat] map_cong)

lemma distinct_item_list:
  assumes "wl_inv m" "enumerates ordo" "enumerates ordi"
  shows "distinct (map (\<lambda>it. (wli_Rid it, wl_ID (wli_Wl it))) (GetWorkloadItemList ordo ordi m))"
proof -
  have inner: "map (\<lambda>it. (wli_Rid it, wl_ID (wli_Wl it))) (map snd (ordi wlmap)) = map (\<lambda>(w, it). (r, w)) (ordi wlmap)"
    if "(r, wlmap) \<in> set (ordo m)" for r wlmap
  proof -
    from assms(1) that have "wl_inner_inv r wlmap"
      by (auto simp: wl_inv_def set_enum [OF assms(2)])
    then show ?thesis
      by (auto simp: wl_inner_inv_def set_enum [OF assms(3)])
  qed
  have keys: "map (\<lambda>it. (wli_Rid it, wl_ID (wli_Wl it))) (GetWorkloadItemList ordo ordi m)
      = concat (map (\<lambda>(r, wlmap). map (\<lambda>(w, it). (r, w)) (ordi wlmap)) (ordo m))"
    using inner by (auto simp: GetWorkloadItemList_def map_concat comp_def intro!: arg_cong [where f = concat])
  have dist: "distinct (map fst (ordo m))" and each: "\<And>r wlmap. (r, wlmap) \<in> set (ordo m) \<Longrightarrow> distinct (map fst (ordi wlmap))"
    using assms(1) by (auto simp: wl_inv_def wl_inner_inv_def set_enum [OF assms(2)]
        intro: distinct_enum [OF assms(2)] distinct_enum [OF assms(3)])
  have "concat (map (\<lambda>(r, wlmap). map (\<lambda>(w, it). (r, w)) (ordi wlmap)) (ordo m))
      = concat (map (\<lambda>(k, ys). map (Pair k) ys) (map (\<lambda>(r, wlmap). (r, map fst (ordi wlmap))) (ordo m)))"
    by (auto simp: comp_def intro!: arg_cong [where f = concat] map_cong)
  moreover have "distinct (concat (map (\<lambda>(k, ys). map (Pair k) ys)
      (map (\<lambda>(r, wlmap). (r, map fst (ordi wlmap))) (ordo m))))"
    using dist each by (intro distinct_concat_pairs) (auto simp: comp_def split_beta)
  ultimately show ?thesis by (simp add: keys)
qed

end
