(* ===== verification/Workload_Handlers.thy ===== *)
theory Workload_Handlers
  imports Workload_List Pod_Client
begin

text \<open>
  \<^verbatim>\<open>workload_monitor/handlers/workload_handler.go\<close>: the REST handlers over the registry.
  The state of the workload monitor is the registry and the world outside
  (\<open>wm\<close>); a handler is code on that state that returns a \<open>response\<close>. Each handler
  takes the mutex around its use of the registry and releases it before it returns.
\<close>

record 'w wm =
  wm_list :: workload_map
  wm_world :: 'w

definition on_world :: "('w, 'a) io \<Rightarrow> ('w wm, 'a) io" where
  "on_world = zoom wm_world (\<lambda>w. wm_world_update (\<lambda>_. w))"

definition on_list :: "(workload_map \<Rightarrow> 'a \<times> workload_map) \<Rightarrow> ('w wm, 'a) io" where
  "on_list f = call (\<lambda>s. case f (wm_list s) of (x, m) \<Rightarrow> (x, s\<lparr>wm_list := m\<rparr>))"

definition PutWorkloadByRegistrant ::
    "'w pod_api \<Rightarrow> workload_spec option \<Rightarrow> uuid \<Rightarrow> uuid \<Rightarrow> ('w wm, workload response) io" where
  "PutWorkloadByRegistrant api body rid wid =
     (case body of
        None \<Rightarrow> ret (BadRequest (refused ''Body not provided''))
      | Some spec \<Rightarrow>
          seq (on_world (GetPodNameAndNamespaceFromUuid api wid)) (\<lambda>r. case r of
            Inl err \<Rightarrow> ret (BadRequest (refused (err_text err)))
          | Inr (name, namespace) \<Rightarrow>
              let wl = \<lparr>wl_ID = wid, wl_Name = name, wl_Namespace = namespace, wl_Spec = spec\<rparr> in
              seq (on_list (\<lambda>m. ((), AddToWorkloadList wl rid wid m))) (\<lambda>_. ret (RespOK wl))))"

definition GetWorkloadByRegistrant :: "uuid \<Rightarrow> uuid \<Rightarrow> ('w wm, workload response) io" where
  "GetWorkloadByRegistrant rid wid =
     seq (on_list (\<lambda>m. (GetWorkload rid wid m, m))) (\<lambda>pwl. case pwl of
       Some wl \<Rightarrow> ret (RespOK wl)
     | None \<Rightarrow> ret RespNotFound)"

definition GetWorkloadsByRegistrant ::
    "((uuid, workload_item) gomap \<Rightarrow> (uuid \<times> workload_item) list) \<Rightarrow> uuid \<Rightarrow> ('w wm, workload list response) io" where
  "GetWorkloadsByRegistrant ordi rid =
     seq (on_list (\<lambda>m. (GetWorkloadListByRegistrant ordi rid m, m))) (\<lambda>wll. ret (RespOK wll))"

definition GetWorkloads ::
    "(workload_map \<Rightarrow> (uuid \<times> (uuid, workload_item) gomap) list)
     \<Rightarrow> ((uuid, workload_item) gomap \<Rightarrow> (uuid \<times> workload_item) list) \<Rightarrow> ('w wm, workload list response) io" where
  "GetWorkloads ordo ordi =
     seq (on_list (\<lambda>m. (GetWorkloadList ordo ordi m, m))) (\<lambda>wll. ret (RespOK wll))"

definition DeleteWorkloadByRegistrant :: "uuid \<Rightarrow> uuid \<Rightarrow> ('w wm, workload response) io" where
  "DeleteWorkloadByRegistrant rid wid =
     seq (on_list (\<lambda>m. case GetWorkload rid wid m of
            Some wl \<Rightarrow> (Some wl, DeleteWorkload rid wid m)
          | None \<Rightarrow> (None, m)))
     (\<lambda>pwl. case pwl of
       Some wl \<Rightarrow> ret (RespOK wl)
     | None \<Rightarrow> ret RespNotFound)"

definition DeleteWorkloadsByRegistrant :: "uuid \<Rightarrow> ('w wm, request_outcome response) io" where
  "DeleteWorkloadsByRegistrant rid =
     seq (on_list (DeleteWorkloads rid)) (\<lambda>items.
       ret (RespOK \<lparr>ro_Details = '''', ro_ItemsAffected = Some items, ro_Result = ''OK''\<rparr>))"

section \<open>What the handlers do to the state\<close>

lemma on_list_apply: "on_list f s = (Done (fst (f (wm_list s))), s\<lparr>wm_list := snd (f (wm_list s))\<rparr>)"
  by (simp add: on_list_def call_apply split_beta)

lemma on_world_apply: "on_world m s = (fst (m (wm_world s)), s\<lparr>wm_world := snd (m (wm_world s))\<rparr>)"
  by (simp add: on_world_def zoom_apply)

lemma returning_wm [ends]: "returning (on_list f)" "returning m \<Longrightarrow> returning (on_world m)"
  by (auto simp: on_list_def on_world_def intro!: ends)

text \<open>A property of the registry that a handler keeps is one that its registry operation keeps.\<close>

lemma keeping_on_world [keeps]: "keeping (\<lambda>s. P (wm_list s)) (on_world m)"
  unfolding on_world_def by (rule keeping_zoom) simp

lemma keeping_on_list: "(\<And>m. P m \<Longrightarrow> P (snd (f m))) \<Longrightarrow> keeping (\<lambda>s. P (wm_list s)) (on_list f)"
  by (simp add: keeping_def on_list_apply)

lemma wm_read_only [simp]: "s\<lparr>wm_list := wm_list s\<rparr> = s"
  by (cases s) simp

lemma Get_run:
  "GetWorkloadByRegistrant rid wid s =
     (Done (case item_at (wm_list s) rid wid of Some it \<Rightarrow> RespOK (wli_Wl it) | None \<Rightarrow> RespNotFound), s)"
  by (simp add: GetWorkloadByRegistrant_def seq_apply on_list_apply GetWorkload_item_at split: option.split)

lemma Delete_run:
  "DeleteWorkloadByRegistrant rid wid s =
     (case item_at (wm_list s) rid wid of
        Some it \<Rightarrow> (Done (RespOK (wli_Wl it)), s\<lparr>wm_list := DeleteWorkload rid wid (wm_list s)\<rparr>)
      | None \<Rightarrow> (Done RespNotFound, s))"
  by (simp add: DeleteWorkloadByRegistrant_def seq_apply on_list_apply GetWorkload_item_at split: option.split)

lemma Put_run:
  assumes "GetPodNameAndNamespaceFromUuid api wid (wm_world s) = (Done (Inr (n, ns)), w')"
  shows "PutWorkloadByRegistrant api (Some spec) rid wid s =
    (let wl = \<lparr>wl_ID = wid, wl_Name = n, wl_Namespace = ns, wl_Spec = spec\<rparr>
     in (Done (RespOK wl), s\<lparr>wm_list := AddToWorkloadList wl rid wid (wm_list s), wm_world := w'\<rparr>))"
  using assms
  by (simp add: PutWorkloadByRegistrant_def seq_apply on_world_apply on_list_apply Let_def)

end
