(* ===== verification/Conductor_Workloads.thy ===== *)
theory Conductor_Workloads
  imports Cluster_Client Director_Client Workload_Handlers
begin

text \<open>
  \<^verbatim>\<open>test_conductor/tc\<close>: the configuration and the context of the test conductor, how the
  conductor is set up (\<^verbatim>\<open>test_conductor.go\<close>) and how it registers pods with the workload
  monitor (\<^verbatim>\<open>workload_monitor_lib.go\<close>).

  The generated client of the workload monitor is the parameter \<open>wm_api\<close>. A call that fails
  has no payload (nil). Reading the configuration file is \<open>GetConfig\<close>, a field of
  \<open>tc_start\<close>, as are the two functions that make a client out of an address.
\<close>

section \<open>Configuration and context\<close>

record steady_state_config =
  ss_Replicas :: int
  ss_ThinkTime :: int
  ss_ThinkTimeBlocks :: int
  ss_VolumeSizeMb :: int

record non_steady_config =
  ns_ConcurrentVols :: int
  ns_Replicas :: int
  ns_ThinkTime :: int
  ns_ThinkTimeBlocks :: int
  ns_Timeout :: string
  ns_VolumeSizeMb :: int

record pool_deletion_config =
  pd_Iterations :: int
  pd_ReplicaSize :: int
  pd_DefTimeoutSecs :: string
  pd_ReplicasTimeoutSecs :: string
  pd_PoolUsageTimeoutSecs :: string
  pd_PoolDeleteTimeoutSecs :: string
  pd_PoolCreateTimeoutSecs :: string
  pd_PoolListTimeoutSecs :: string
  pd_MayastorRestartTimeout :: int

record elimination_config =
  re_FsVolume :: int
  re_LocalVolume :: int
  re_Replicas :: int
  re_Timeout :: string
  re_VolumeSizeMb :: int
  re_BlocksToWrite :: int
  re_KillMayastor :: int
  re_RandomSleep :: int

record perturbation_config =
  rp_FsVolume :: int
  rp_LocalVolume :: int
  rp_OfflineDeviceTest :: int
  rp_ReplicasTest :: int
  rp_OfflineDevAndReplicasTest :: int
  rp_Replicas :: int
  rp_ThinkTime :: int
  rp_ThinkTimeBlocks :: int
  rp_VolumeSizeMb :: int
  rp_RandomSleep :: int

record tc_config =
  cf_RunName :: string
  cf_TestName :: string
  cf_Duration :: string
  cf_E2eFioImage :: string
  cf_Msnodes :: int
  cf_SendEvent :: int
  cf_SendXrayTest :: int
  cf_XrayTestID :: string
  cf_SteadyState :: steady_state_config
  cf_NonSteadyState :: non_steady_config
  cf_PrimitivePoolDeletion :: pool_deletion_config
  cf_ReplicaElimination :: elimination_config
  cf_ReplicaPerturbation :: perturbation_config

record 'w wm_api =
  WmPutWorkload :: "uuid \<Rightarrow> uuid \<Rightarrow> workload_spec \<Rightarrow> 'w \<Rightarrow> workload result \<times> 'w"
  WmDeleteWorkload :: "uuid \<Rightarrow> uuid \<Rightarrow> 'w \<Rightarrow> workload result \<times> 'w"
  WmDeleteWorkloads :: "uuid \<Rightarrow> 'w \<Rightarrow> request_outcome result \<times> 'w"

text \<open>The context of the conductor; \<open>Kube\<close> stands for the global clients of the cluster.\<close>

record 'w conductor =
  Kube :: "'w cluster"
  TestDirectorClient :: "'w td_api"
  WorkloadMonitorClient :: "'w wm_api"
  Config :: tc_config
  TestRunId :: uuid
  tc_NodeName :: string

section \<open>Setting up\<close>

record 'w tc_start =
  GetConfig :: "'w \<Rightarrow> tc_config result \<times> 'w"
  NewDirectorClient :: "string \<Rightarrow> 'w td_api"
  NewMonitorClient :: "string \<Rightarrow> 'w wm_api"

definition NewTestConductor :: "nat \<Rightarrow> 'w tc_start \<Rightarrow> 'w cluster \<Rightarrow> ('w, 'w conductor result) io" where
  "NewTestConductor fuel st cl =
     check (call (GetConfig st)) (\<lambda>_. Errorf ''failed to get config'') (\<lambda>config.
     check (WaitForPodReady (pods cl) ''workload-monitor'' EtfwNamespace)
       (wrapped ''failed to get workload-monitor, error: '') (\<lambda>workloadMonitorPod.
     check (WaitForPodReady (pods cl) ''test-director'' EtfwNamespace)
       (wrapped ''failed to get test-director, error: '') (\<lambda>testDirectorPod.
     check (GetPod (pods cl) ''test-conductor'' EtfwNamespace) (wrapped ''failed to get tc pod uid, error: '') (\<lambda>tcpod.
     let td = NewDirectorClient st (pod_PodIP testDirectorPod @ '':8080'');
         c = \<lparr>Kube = cl, TestDirectorClient = td,
              WorkloadMonitorClient = NewMonitorClient st (pod_PodIP workloadMonitorPod @ '':8080''),
              Config = config, TestRunId = pod_UID tcpod, tc_NodeName = pod_NodeName tcpod\<rparr>
     in if cf_SendXrayTest config = 1 \<or> cf_SendEvent config = 1
        then seq (WaitTestDirector fuel td) (\<lambda>_. ret (Inr c))
        else ret (Inr c)))))"

section \<open>Registering workloads\<close>

text \<open>One attempt of \<^verbatim>\<open>AddWorkload\<close>; \<open>err\<close> is the error of the last attempt.\<close>

definition put_attempt ::
    "'w cluster \<Rightarrow> 'w wm_api \<Rightarrow> uuid \<Rightarrow> uuid \<Rightarrow> workload_spec \<Rightarrow> nat \<Rightarrow> error option
     \<Rightarrow> ('w, (error option, unit result) ctl) io" where
  "put_attempt cl wm rid wid spec i err =
     seq (call (WmPutWorkload wm rid wid spec)) (\<lambda>r. case r of
       Inl e \<Rightarrow> seq (sleeps cl 10) (\<lambda>_. ret (Continue (Some e)))
     | Inr _ \<Rightarrow> ret (Break None))"

definition AddWorkload ::
    "'w cluster \<Rightarrow> 'w wm_api \<Rightarrow> string \<Rightarrow> string \<Rightarrow> violation list \<Rightarrow> ('w, unit result) io" where
  "AddWorkload cl wm name namespace viol =
     check (GetPod (pods cl) ''test-conductor'' EtfwNamespace)
       (\<lambda>err. Errorf (''failed to get test-conductor pod, error: '' @ err_text err @ [newline])) (\<lambda>tcpod.
     check (GetPod (pods cl) name namespace)
       (\<lambda>err. Errorf (''failed to get pod '' @ name @ '', error: '' @ err_text err @ [newline])) (\<lambda>pod.
     after (for_in [0 ..< 5] None (put_attempt cl wm (pod_UID tcpod) (pod_UID pod) \<lparr>ws_Violations = viol\<rparr>))
     (\<lambda>err. case err of Some e \<Rightarrow> ret (Inl e) | None \<Rightarrow> ret (Inr ()))))"

text \<open>
  In \<^verbatim>\<open>AddNamespaceWorkloads\<close> the log line for a failed attempt reads the payload of the
  answer, which a failed call does not have.
\<close>

definition put_or_panic ::
    "'w cluster \<Rightarrow> 'w wm_api \<Rightarrow> uuid \<Rightarrow> uuid \<Rightarrow> workload_spec \<Rightarrow> nat \<Rightarrow> error option
     \<Rightarrow> ('w, (error option, unit result) ctl) io" where
  "put_or_panic cl wm rid wid spec i err =
     seq (call (WmPutWorkload wm rid wid spec)) (\<lambda>r. case r of
       Inl e \<Rightarrow> seq (deref (None :: workload option)) (\<lambda>_. seq (sleeps cl 10) (\<lambda>_. ret (Continue (Some e))))
     | Inr _ \<Rightarrow> ret (Break None))"

definition excluded :: "string list \<Rightarrow> pod \<Rightarrow> bool" where
  "excluded exclusion_labels pod =
     (case map_of (pod_Labels pod) ''app'' of Some value \<Rightarrow> value \<in> set exclusion_labels | None \<Rightarrow> False)"

definition add_pod ::
    "'w cluster \<Rightarrow> 'w wm_api \<Rightarrow> uuid \<Rightarrow> violation list \<Rightarrow> string list \<Rightarrow> pod \<Rightarrow> error option
     \<Rightarrow> ('w, (error option, unit result) ctl) io" where
  "add_pod cl wm rid viol exclusion_labels pod err =
     (if excluded exclusion_labels pod then ret (Continue err)
      else seq (for_in [0 ..< 5] err (put_or_panic cl wm rid (pod_UID pod) \<lparr>ws_Violations = viol\<rparr>))
        (\<lambda>c. case c of Inl r \<Rightarrow> ret (Return r) | Inr err' \<Rightarrow> ret (Continue err')))"

definition AddNamespaceWorkloads ::
    "'w cluster \<Rightarrow> 'w wm_api \<Rightarrow> uuid \<Rightarrow> violation list \<Rightarrow> string \<Rightarrow> string list \<Rightarrow> ('w, unit result) io" where
  "AddNamespaceWorkloads cl wm requester_uuid viol namespace exclusion_labels =
     check (GetPodsInNamespace (pods cl) namespace)
       (\<lambda>err. Errorf (''failed to get pods in namespace '' @ namespace @ '', error: '' @ err_text err @ [newline])) (\<lambda>podlist.
     after (for_in podlist None (add_pod cl wm requester_uuid viol exclusion_labels))
     (\<lambda>err. case err of Some e \<Rightarrow> ret (Inl e) | None \<Rightarrow> ret (Inr ())))"

definition AddCommonWorkloadsWithExclusions ::
    "'w cluster \<Rightarrow> 'w wm_api \<Rightarrow> violation list \<Rightarrow> string list \<Rightarrow> ('w, unit result) io" where
  "AddCommonWorkloadsWithExclusions cl wm viol exclusions =
     check (GetPod (pods cl) ''test-conductor'' EtfwNamespace)
       (\<lambda>err. Errorf (''failed to get test-conductor pod, error: '' @ err_text err @ [newline])) (\<lambda>tcpod.
     check (AddWorkload cl wm ''test-conductor'' EtfwNamespace viol)
       (wrapped ''failed to inform workload monitor of test-conductor, error: '') (\<lambda>_.
     check (AddNamespaceWorkloads cl wm (pod_UID tcpod) viol ''mayastor'' exclusions)
       (\<lambda>err. Errorf (''failed to add pods in namespace mayastor, error: '' @ err_text err @ [newline])) (\<lambda>_.
     ret (Inr ()))))"

definition AddCommonWorkloads :: "'w cluster \<Rightarrow> 'w wm_api \<Rightarrow> violation list \<Rightarrow> ('w, unit result) io" where
  "AddCommonWorkloads cl wm viol = AddCommonWorkloadsWithExclusions cl wm viol []"

definition tc_DeleteWorkload :: "'w cluster \<Rightarrow> 'w wm_api \<Rightarrow> string \<Rightarrow> string \<Rightarrow> ('w, unit result) io" where
  "tc_DeleteWorkload cl wm name namespace =
     check (GetPod (pods cl) ''test-conductor'' EtfwNamespace)
       (\<lambda>err. Errorf (''failed to get tc pod '' @ name @ '', error: '' @ err_text err @ [newline])) (\<lambda>tcpod.
     check (GetPod (pods cl) name namespace)
       (\<lambda>err. Errorf (''failed to get pod '' @ name @ '', error: '' @ err_text err @ [newline])) (\<lambda>pod.
     check (call (WmDeleteWorkload wm (pod_UID tcpod) (pod_UID pod)))
       (\<lambda>err. Errorf (''failed to delete workload '' @ err_text err @ '' <nil>'' @ [newline])) (\<lambda>_.
     ret (Inr ()))))"

definition tc_DeleteWorkloads :: "'w cluster \<Rightarrow> 'w wm_api \<Rightarrow> ('w, unit result) io" where
  "tc_DeleteWorkloads cl wm =
     check (GetPod (pods cl) ''test-conductor'' EtfwNamespace) (wrapped ''failed to get tc pod, error: '') (\<lambda>tcpod.
     check (call (WmDeleteWorkloads wm (pod_UID tcpod)))
       (\<lambda>err. Errorf (''failed to delete workloads '' @ err_text err @ '' <nil>'' @ [newline])) (\<lambda>_.
     ret (Inr ())))"

definition with_pods :: "violation list \<Rightarrow> pod list \<Rightarrow> (uuid \<Rightarrow> violation list option) \<Rightarrow> uuid \<Rightarrow> violation list option" where
  "with_pods viol ps m = fold (\<lambda>p m. m(pod_UID p \<mapsto> viol)) ps m"

section \<open>The workload monitor as the conductor sees it\<close>

text \<open>
  What the conductor relies on: the monitor keeps, for each registrant, a map from workloads
  to the violations that it looks for. A call that succeeds changes that map as its name says,
  a \<^verbatim>\<open>PUT\<close> that fails leaves it, and looking at pods or sleeping does not touch it.
\<close>

locale workload_service =
  fixes cl :: "'w cluster" and wm :: "'w wm_api"
    and registered :: "'w \<Rightarrow> uuid \<Rightarrow> uuid \<Rightarrow> violation list option"
  assumes put_ok: "WmPutWorkload wm rid wid spec w = (Inr wl, w') \<Longrightarrow>
      registered w' = (registered w)(rid := (registered w rid)(wid \<mapsto> ws_Violations spec))"
    and put_fail: "WmPutWorkload wm rid wid spec w = (Inl e, w') \<Longrightarrow> registered w' = registered w"
    and delete_ok: "WmDeleteWorkload wm rid wid w = (Inr wl, w') \<Longrightarrow>
      registered w' = (registered w)(rid := (registered w rid)(wid := None))"
    and delete_all_ok: "WmDeleteWorkloads wm rid w = (Inr oc, w') \<Longrightarrow> registered w' = (registered w)(rid := Map.empty)"
    and list_keeps: "registered (snd (PodsList (pods cl) ns w)) = registered w"
    and sleep_keeps: "registered (Sleep (pods cl) n w) = registered w"
begin

lemma GetPod_wp:
  assumes "\<And>p s'. registered s' = registered s \<Longrightarrow> pod_Name p = name \<Longrightarrow> Q (Inr p) s'"
    and "\<And>e s'. registered s' = registered s \<Longrightarrow> Q (Inl e) s'"
  shows "wp (GetPod (pods cl) name namespace) Q R s"
  using assms list_keeps [of namespace s]
  by (auto simp: GetPod_def wps split: sum.split option.split dest: find_SomeD)

lemma put_attempt_wp:
  assumes "\<And>s'. registered s' = (registered s)(rid := (registered s rid)(wid \<mapsto> ws_Violations spec)) \<Longrightarrow> Q (Break None) s'"
    and "\<And>e s'. registered s' = registered s \<Longrightarrow> Q (Continue (Some e)) s'"
  shows "wp (put_attempt cl wm rid wid spec i err) Q R s"
proof (cases "WmPutWorkload wm rid wid spec s")
  case (Pair r w')
  then show ?thesis
    using assms put_ok [of rid wid spec s _ w'] put_fail [of rid wid spec s _ w']
    by (cases r) (auto simp: put_attempt_def wps sleeps_def sleep_secs_def sleep_keeps)
qed

lemma put_attempts_wp:
  assumes "\<And>s'. registered s' = (registered s)(rid := (registered s rid)(wid \<mapsto> ws_Violations spec)) \<Longrightarrow> Q (Inr None) s'"
    and "\<And>e s'. registered s' = registered s \<Longrightarrow> Q (Inr (Some e)) s'"
  shows "wp (for_in [0 ..< 5] err (put_attempt cl wm rid wid spec)) Q R s"
proof (rule wp_for_in [where I = "\<lambda>ys v s'. registered s' = registered s \<and> (ys \<noteq> [] \<longrightarrow> v \<noteq> None)"])
  fix v :: "error option" and s' assume "registered s' = registered s \<and> ([0 ..< 5] \<noteq> [] \<longrightarrow> v \<noteq> None)"
  then show "Q (Inr v) s'" using assms(2) by (auto simp: upt_conv_Cons)
next
  fix ys zs :: "nat list" and x and v :: "error option" and s'
  assume "registered s' = registered s \<and> (ys \<noteq> [] \<longrightarrow> v \<noteq> None)"
  then show "wp (put_attempt cl wm rid wid spec x v) (\<lambda>c. case c of
      Continue v' \<Rightarrow> \<lambda>s'. registered s' = registered s \<and> (ys @ [x] \<noteq> [] \<longrightarrow> v' \<noteq> None)
    | Break v' \<Rightarrow> Q (Inr v') | Return r \<Rightarrow> Q (Inl r)) R s'"
    using assms(1) by (intro put_attempt_wp) auto
qed simp

lemma AddWorkload_registers:
  assumes "AddWorkload cl wm name namespace viol w = (Done (Inr ()), w')"
  shows "\<exists>(tcpod :: pod) (pod :: pod). pod_Name tcpod = ''test-conductor'' \<and> pod_Name pod = name \<and>
    registered w' = (registered w)(pod_UID tcpod := (registered w (pod_UID tcpod))(pod_UID pod \<mapsto> viol))"
proof -
  let ?P = "\<lambda>w'. \<exists>(tcpod :: pod) (pod :: pod). pod_Name tcpod = ''test-conductor'' \<and> pod_Name pod = name \<and>
    registered w' = (registered w)(pod_UID tcpod := (registered w (pod_UID tcpod))(pod_UID pod \<mapsto> viol))"
  have "wp (AddWorkload cl wm name namespace viol) (\<lambda>r s. r = Inr () \<longrightarrow> ?P s) (\<lambda>_. True) w"
    unfolding AddWorkload_def wps
    by (rule GetPod_wp; simp add: wps; rule GetPod_wp; simp add: wps; rule put_attempts_wp) auto
  with assms show ?thesis by (auto dest: wp_Done)
qed

text \<open>
  The pods of the namespace that are not excluded are registered, and nothing else changes.
\<close>

lemma put_or_panic_wp:
  assumes "\<And>s'. registered s' = (registered s)(rid := (registered s rid)(wid \<mapsto> ws_Violations spec)) \<Longrightarrow> Q (Break None) s'"
  shows "wp (put_or_panic cl wm rid wid spec i err) Q (\<lambda>_. True) s"
proof (cases "WmPutWorkload wm rid wid spec s")
  case (Pair r w')
  then show ?thesis
    using assms put_ok [of rid wid spec s _ w'] by (cases r) (auto simp: put_or_panic_def wps)
qed

lemma put_or_panic_attempts_wp:
  assumes "\<And>s'. registered s' = (registered s)(rid := (registered s rid)(wid \<mapsto> ws_Violations spec)) \<Longrightarrow> Q (Inr None) s'"
  shows "wp (for_in [0 ..< 5] err (put_or_panic cl wm rid wid spec)) Q (\<lambda>_. True) s"
  by (rule wp_for_in [where I = "\<lambda>ys v s'. s' = s \<and> ys = []"])
     (auto simp: upt_conv_Cons intro!: put_or_panic_wp assms)

lemma AddNamespaceWorkloads_registers:
  assumes "AddNamespaceWorkloads cl wm rid viol namespace excl w = (Done (Inr ()), w')"
    and "fst (PodsList (pods cl) namespace w) = Inr ps"
  shows "registered w' = (registered w)(rid := with_pods viol (filter (Not \<circ> excluded excl) ps) (registered w rid))"
proof -
  let ?reg = "\<lambda>qs. (registered w)(rid := with_pods viol (filter (Not \<circ> excluded excl) qs) (registered w rid))"
  have "wp (for_in ps None (add_pod cl wm rid viol excl)) (\<lambda>c s. c = Inr None \<and> registered s = ?reg ps) (\<lambda>_. True) s"
    if "registered s = registered w" for s
  proof (rule wp_for_in [where I = "\<lambda>qs v s. v = None \<and> registered s = ?reg qs"])
    fix ys x zs and v :: "error option" and s
    assume I: "v = None \<and> registered s = ?reg ys"
    show "wp (add_pod cl wm rid viol excl x v) (\<lambda>c. case c of
        Continue v' \<Rightarrow> \<lambda>s. v' = None \<and> registered s = ?reg (ys @ [x])
      | Break v' \<Rightarrow> \<lambda>s. Inr v' = Inr None \<and> registered s = ?reg ps
      | Return r \<Rightarrow> \<lambda>s. Inl r = Inr None \<and> registered s = ?reg ps) (\<lambda>_. True) s"
      using I by (auto simp: add_pod_def wps with_pods_def fun_eq_iff intro!: put_or_panic_attempts_wp)
  qed (use that in \<open>simp_all add: with_pods_def\<close>)
  then have loop: "wp (for_in ps None (add_pod cl wm rid viol excl))
      (\<lambda>c. case c of Inl r \<Rightarrow> \<lambda>s. r = Inr () \<longrightarrow> registered s = ?reg ps
        | Inr v \<Rightarrow> case v of None \<Rightarrow> \<lambda>s. registered s = ?reg ps | Some e \<Rightarrow> \<lambda>s. True) (\<lambda>_. True)
      (snd (PodsList (pods cl) namespace w))"
    by (rule wp_mono) (auto simp: list_keeps)
  have "wp (AddNamespaceWorkloads cl wm rid viol namespace excl)
      (\<lambda>r s. r = Inr () \<longrightarrow> registered s = ?reg ps) (\<lambda>_. True) w"
    using loop assms(2) unfolding AddNamespaceWorkloads_def GetPodsInNamespace_def wps by simp
  with assms(1) show ?thesis by (auto dest: wp_Done)
qed

lemma delete_all_snd:
  "fst (WmDeleteWorkloads wm rid s) = Inr oc \<Longrightarrow> registered (snd (WmDeleteWorkloads wm rid s)) = (registered s)(rid := Map.empty)"
  by (rule delete_all_ok [where oc = oc]) (simp add: prod_eq_iff)

lemma tc_DeleteWorkloads_empties:
  assumes "tc_DeleteWorkloads cl wm w = (Done (Inr ()), w')"
  shows "\<exists>tcpod :: pod. pod_Name tcpod = ''test-conductor'' \<and> registered w' = (registered w)(pod_UID tcpod := Map.empty)"
proof -
  have "wp (tc_DeleteWorkloads cl wm) (\<lambda>r s. r = Inr () \<longrightarrow>
      (\<exists>tcpod :: pod. pod_Name tcpod = ''test-conductor'' \<and> registered s = (registered w)(pod_UID tcpod := Map.empty)))
      (\<lambda>_. True) w"
    unfolding tc_DeleteWorkloads_def wps
    by (rule GetPod_wp) (auto simp: wps delete_all_snd split: sum.split)
  with assms show ?thesis by (auto dest: wp_Done)
qed

end

section \<open>The handlers of the workload monitor as that service\<close>

text \<open>
  The client of the workload monitor when the handlers of \<^verbatim>\<open>workload_monitor/handlers\<close> answer:
  a response other than OK comes back as an error.
\<close>

definition answer :: "('s, 'a response) io \<Rightarrow> 's \<Rightarrow> 'a result \<times> 's" where
  "answer m s = (case m s of
      (Done (RespOK x), s') \<Rightarrow> (Inr x, s')
    | (Done (BadRequest ro), s') \<Rightarrow> (Inl (Error (ro_Details ro)), s')
    | (Done RespNotFound, s') \<Rightarrow> (Inl (Error ''not found''), s')
    | (_, s') \<Rightarrow> (Inl (Error ''connection closed''), s'))"

definition monitor_client :: "'w pod_api \<Rightarrow> 'w wm wm_api" where
  "monitor_client api =
     \<lparr>WmPutWorkload = \<lambda>rid wid spec. answer (PutWorkloadByRegistrant api (Some spec) rid wid),
      WmDeleteWorkload = \<lambda>rid wid. answer (DeleteWorkloadByRegistrant rid wid),
      WmDeleteWorkloads = \<lambda>rid. answer (DeleteWorkloadsByRegistrant rid)\<rparr>"

definition beside :: "('w \<Rightarrow> 'a \<times> 'w) \<Rightarrow> 'w wm \<Rightarrow> 'a \<times> 'w wm" where
  "beside f s = (case f (wm_world s) of (x, w) \<Rightarrow> (x, s\<lparr>wm_world := w\<rparr>))"

definition pods_beside :: "'w pod_api \<Rightarrow> 'w wm pod_api" where
  "pods_beside api = \<lparr>PodsGet = \<lambda>ns n. beside (PodsGet api ns n), PodsList = \<lambda>ns. beside (PodsList api ns),
     PodsDelete = \<lambda>ns n. beside (PodsDelete api ns n), Sleep = \<lambda>n s. s\<lparr>wm_world := Sleep api n (wm_world s)\<rparr>,
     Now = beside (Now api)\<rparr>"

definition wm_registered :: "'w wm \<Rightarrow> uuid \<Rightarrow> uuid \<Rightarrow> violation list option" where
  "wm_registered s rid wid = map_option (\<lambda>it. ws_Violations (wl_Spec (wli_Wl it))) (item_at (wm_list s) rid wid)"

lemma wm_registered_world [simp]: "wm_registered (s\<lparr>wm_world := w\<rparr>) = wm_registered s"
  by (simp add: wm_registered_def fun_eq_iff)

lemma answer_put:
  "answer (PutWorkloadByRegistrant api (Some spec) rid wid) s = (r, s') \<Longrightarrow>
     wm_registered s' = (if isl r then wm_registered s
       else (wm_registered s)(rid := (wm_registered s rid)(wid \<mapsto> ws_Violations spec)))"
  by (auto simp: answer_def PutWorkloadByRegistrant_def seq_apply on_world_apply on_list_apply Let_def wm_registered_def
      fun_eq_iff reg.at_add split: outcome.splits sum.splits prod.splits response.splits)

interpretation monitor: workload_service "cl\<lparr>pods := pods_beside api\<rparr>" "monitor_client api" wm_registered
proof (unfold_locales, goal_cases)
  case 1
  then show ?case by (auto simp: monitor_client_def dest!: answer_put)
next
  case 2
  then show ?case by (auto simp: monitor_client_def dest!: answer_put)
next
  case 3
  then show ?case
    by (auto simp: monitor_client_def answer_def Delete_run wm_registered_def fun_eq_iff reg.at_del split: option.splits)
next
  case 4
  then show ?case
    by (auto simp: monitor_client_def answer_def DeleteWorkloadsByRegistrant_def seq_apply on_list_apply
        wm_registered_def fun_eq_iff reg.at_del_all)
qed (simp_all add: pods_beside_def beside_def split_beta)

end
