(* ===== verification/Conductor_Common.thy ===== *)
theory Conductor_Common
  imports Conductor_Workloads
begin

text \<open>
  \<^verbatim>\<open>test_conductor/tests/test_common.go\<close>: what the tests of the conductor share. Checks of
  volumes, pools and nodes, durations with days, the monitoring loop, random numbers, faults
  (killing mayastor, taking devices offline), the waits, the reports to the test director and
  the exit code.

  The global map \<^verbatim>\<open>faultedPVCs\<close> is the one piece of state that the conductor keeps; a
  \<open>run\<close> is the world and that map. Code that does not use the map works on the world
  alone. \<^verbatim>\<open>time.Now\<close> is \<open>NowNano\<close>, in nanoseconds. Loops that end only when the clock or
  the cluster says so take a bound on their iterations, \<open>fuel\<close>.
\<close>

unbundle bit_operations_syntax

record 'w run =
  rs_world :: 'w
  faultedPVCs :: "(string, bool) gomap"

definition in_world :: "('w, 'a) io \<Rightarrow> ('w run, 'a) io" where
  "in_world = zoom rs_world (\<lambda>w. rs_world_update (\<lambda>_. w))"

record device_descriptor =
  dd_node :: string
  dd_device :: string

definition violations :: "violation list" where
  "violations = [RESTARTED, TERMINATED, NOTPRESENT]"

section \<open>Checks\<close>

definition checkPVCexists :: "'w cluster \<Rightarrow> string \<Rightarrow> ('w, bool result) io" where
  "checkPVCexists cl vol_id =
     check (ListPVCs cl ''default'') (\<lambda>err. err) (\<lambda>pvc_list.
       ret (Inr (\<exists>p \<in> set pvc_list. pvc_VolumeName p = ''pvc-'' @ vol_id)))"

text \<open>
  With the error the source also returns the presence and the uuid; its caller uses neither.
\<close>

definition checkPVCexistsViaNexusUuid :: "'w cluster \<Rightarrow> string \<Rightarrow> string \<Rightarrow> ('w, (bool \<times> string) result) io" where
  "checkPVCexistsViaNexusUuid cl ms_ip nexus_uuid =
     check (GetVolumes cl ms_ip) (wrapped ''failed to get volumes, error: '') (\<lambda>vols.
       case find (\<lambda>v. sv_TargetUuid v = nexus_uuid) vols of
         Some v \<Rightarrow> check (checkPVCexists cl (sv_Uuid v)) (\<lambda>err. err) (\<lambda>present. ret (Inr (present, sv_Uuid v)))
       | None \<Rightarrow> ret (Inr (False, '''')))"

definition check_cp_volume :: "'w cluster \<Rightarrow> sparse_volume \<Rightarrow> unit \<Rightarrow> ('w run, (unit, unit result) ctl) io" where
  "check_cp_volume cl vol u =
     (if sv_Status vol = ''Faulted'' then
        seq (gets (\<lambda>s. map_of (faultedPVCs s) (sv_Uuid vol) \<noteq> None)) (\<lambda>done.
        if done then ret (Continue ())
        else seq (in_world (checkPVCexists cl (sv_Uuid vol))) (\<lambda>r. case r of
          Inl err \<Rightarrow> ret (Return (Inl (wrapped ''failed to check PVC exists, error: '' err)))
        | Inr exists \<Rightarrow>
            if exists
            then seq (modifies (faultedPVCs_update (AList.update (sv_Uuid vol) True))) (\<lambda>_.
              ret (Return (Inl (Errorf (''found faulted volume, uuid '' @ sv_Uuid vol)))))
            else ret (Continue ())))
      else if sv_Status vol \<in> {''Online'', ''Degraded'', ''Unknown''} then ret (Continue ())
      else ret (Return (Inl (Errorf (''MSV unexpected state '' @ sv_Status vol @ '' in volume '' @ sv_Uuid vol)))))"

definition CheckMSVwithCP :: "'w cluster \<Rightarrow> string \<Rightarrow> ('w run, unit result) io" where
  "CheckMSVwithCP cl ms_ip =
     check (in_world (GetVolumes cl ms_ip)) (wrapped ''failed to get volumes, error: '') (\<lambda>vols.
     after (for_in vols () (check_cp_volume cl)) (\<lambda>_. ret (Inr ())))"

definition check_nexus :: "'w cluster \<Rightarrow> string list \<Rightarrow> nexus \<Rightarrow> unit \<Rightarrow> ('w run, (unit, unit result) ctl) io" where
  "check_nexus cl ms_ips nx u =
     (if nx_State nx = ''NEXUS_FAULTED'' then
        seq (index ms_ips 0) (\<lambda>ms_ip.
        seq (in_world (checkPVCexistsViaNexusUuid cl ms_ip (nx_Uuid nx))) (\<lambda>r. case r of
          Inl err \<Rightarrow> ret (Return (Inl (wrapped (''failed to check PVC exists for nexus '' @ nx_Uuid nx @ '', error: '') err)))
        | Inr (exists, vol_uuid) \<Rightarrow>
            seq (gets (\<lambda>s. map_of (faultedPVCs s) vol_uuid \<noteq> None)) (\<lambda>done.
            if \<not> done \<and> exists
            then seq (modifies (faultedPVCs_update (AList.update vol_uuid True))) (\<lambda>_.
              ret (Return (Inl (Errorf (''Nexus '' @ nx_Uuid nx @ '' is not healthy, state is '' @ nx_State nx @
                '', vol uuid is '' @ vol_uuid)))))
            else ret (Continue ()))))
      else if nx_State nx \<in> {''NEXUS_UNKNOWN'', ''NEXUS_DEGRADED'', ''NEXUS_ONLINE''} then ret (Continue ())
      else ret (Return (Inl (Errorf (''Nexus unexpected state '' @ nx_State nx)))))"

definition CheckMSVwithGrpc :: "'w cluster \<Rightarrow> string list \<Rightarrow> ('w run, unit result) io" where
  "CheckMSVwithGrpc cl ms_ips =
     check (in_world (GetNexuses cl ms_ips)) (wrapped ''Nexus grpc check failed, err: '') (\<lambda>nexuses.
     after (for_in nexuses () (check_nexus cl ms_ips)) (\<lambda>_. ret (Inr ())))"

definition CheckPools :: "'w cluster \<Rightarrow> int \<Rightarrow> ('w, unit result) io" where
  "CheckPools cl poolcount =
     check (CheckAllMsPoolsAreOnline cl) (wrapped ''Not all pools are healthy, error: '') (\<lambda>_.
     check (ListMsPools cl) (wrapped ''failed to list pools, err: '') (\<lambda>ps.
     if int (length ps) \<noteq> poolcount
     then ret (Inl (Errorf (''Wrong number of pools, expected '' @ Itoa poolcount @ '', have '' @ Itoa (int (length ps)))))
     else ret (Inr ())))"

definition CheckNodes :: "'w cluster \<Rightarrow> int \<Rightarrow> ('w, unit result) io" where
  "CheckNodes cl nodecount =
     check (ListMsNodes cl) (wrapped ''Failed to list MS Nodes, error: '') (\<lambda>nodeList.
     if int (length nodeList) \<noteq> nodecount
     then ret (Inl (Errorf (''Wrong number of nodes, expected '' @ Itoa nodecount @ '', have '' @ Itoa (int (length nodeList)))))
     else case find (\<lambda>n. msn_Status n \<noteq> ''online'') nodeList of
       Some node \<Rightarrow> ret (Inl (Errorf (''Found offline node '' @ msn_Name node)))
     | None \<Rightarrow> ret (Inr ()))"

text \<open>The second error is read without a test for nil.\<close>

definition CombineErrors :: "error option \<Rightarrow> error option \<Rightarrow> ('s, error option) io" where
  "CombineErrors first second = (case first of
      None \<Rightarrow> ret second
    | Some e \<Rightarrow> seq (deref second) (\<lambda>e'. ret (Some (Errorf (err_text e @ '': '' @ err_text e')))))"

section \<open>Durations\<close>

text \<open>
  A match of \<^verbatim>\<open>^[0-9]{1,n}c\<close>: the unit is no digit, so the match takes all leading digits and
  there is one exactly if there are between one and \<open>n\<close> of them before the unit. The result is the
  digits and what follows the unit.
\<close>

definition leading_field :: "nat \<Rightarrow> char \<Rightarrow> string \<Rightarrow> (string \<times> string) option" where
  "leading_field n c t =
     (let ds = takeWhile is_digit t in
      case drop (length ds) t of
        [] \<Rightarrow> None
      | x # rest \<Rightarrow> if 1 \<le> length ds \<and> length ds \<le> n \<and> x = c then Some (ds, rest) else None)"

definition convert_failed :: "error \<Rightarrow> error" where
  "convert_failed err = Errorf (''Internal error, failed to convert time, error '' @ err_text err)"

definition ConvertTime :: "string \<Rightarrow> string result" where
  "ConvertTime timestr = (case leading_field 3 CHR ''d'' timestr of
      None \<Rightarrow> Inr timestr
    | Some (daystr, timestr1) \<Rightarrow> (case Atoi daystr of
        Inl err \<Rightarrow> Inl (convert_failed err)
      | Inr days \<Rightarrow>
          (case (case leading_field 2 CHR ''h'' timestr1 of
                   None \<Rightarrow> Inr (0, timestr1)
                 | Some (hourstr, timestr2) \<Rightarrow> (case Atoi hourstr of
                     Inl err \<Rightarrow> Inl (convert_failed err)
                   | Inr h \<Rightarrow> Inr (h, timestr2))) of
             Inl err \<Rightarrow> Inl err
           | Inr (h, timestr2) \<Rightarrow>
               let hours = h + days * 24
               in Inr ((if hours \<noteq> 0 then Itoa hours @ ''h'' else '''') @ timestr2))))"

definition GetDuration :: "'w cluster \<Rightarrow> string \<Rightarrow> int result" where
  "GetDuration cl durationstr = (case ConvertTime durationstr of
      Inl err \<Rightarrow> Inl (wrapped ''failed to convert duration '' err)
    | Inr durationstr' \<Rightarrow> (case ParseDuration cl durationstr' of
        Inl err \<Rightarrow> Inl (wrapped ''failed to parse duration '' err)
      | Inr d \<Rightarrow> Inr d))"

definition getOnlyVolume :: "'w cluster \<Rightarrow> string \<Rightarrow> ('w, (string \<times> string) result) io" where
  "getOnlyVolume cl ms_ip = GetOnlyVolume cl ms_ip"

definition getVolumeStatus :: "'w cluster \<Rightarrow> string \<Rightarrow> string \<Rightarrow> ('w, string result) io" where
  "getVolumeStatus cl ms_ip uid = GetVolumeStatus cl ms_ip uid"

section \<open>Reports to the test director\<close>

definition testDescription :: "'w conductor \<Rightarrow> string" where
  "testDescription tc = cf_XrayTestID (Config tc) @ '', '' @ cf_TestName (Config tc) @ '', '' @ cf_RunName (Config tc)"

definition tc_SendEvent :: "'w conductor \<Rightarrow> event_class \<Rightarrow> string \<Rightarrow> ('w, unit result) io" where
  "tc_SendEvent tc eventClass message =
     (if cf_SendEvent (Config tc) = 1
      then check (SendEvent (TestDirectorClient tc) (TestRunId tc) (testDescription tc @ '' '' @ message) eventClass
             SourceTestConductor) (wrapped ''failed to inform test director of event, error: '') (\<lambda>_. ret (Inr ()))
      else ret (Inr ()))"

definition SendEventTestPreparing :: "'w conductor \<Rightarrow> ('w, unit result) io" where
  "SendEventTestPreparing tc = tc_SendEvent tc EventINFO (''Event: test preparing on node: '' @ tc_NodeName tc)"

definition SendEventTestStarted :: "'w conductor \<Rightarrow> ('w, unit result) io" where
  "SendEventTestStarted tc = tc_SendEvent tc EventINFO ''Event: test started''"

definition SendEventTestCompletedOk :: "'w conductor \<Rightarrow> ('w, unit result) io" where
  "SendEventTestCompletedOk tc = tc_SendEvent tc EventINFO ''Event: test completed''"

definition SendEventTestFail :: "'w conductor \<Rightarrow> string \<Rightarrow> ('w, unit result) io" where
  "SendEventTestFail tc text = tc_SendEvent tc EventFAIL (''Event: test failure: '' @ text)"

definition tc_SendTestRunToDo :: "'w conductor \<Rightarrow> ('w, unit result) io" where
  "tc_SendTestRunToDo tc =
     check (if cf_SendXrayTest (Config tc) = 1
            then SendTestRunToDo (TestDirectorClient tc) (TestRunId tc) (testDescription tc @ '' Test run: preparing'')
                   (cf_XrayTestID (Config tc))
            else ret (Inr ())) (wrapped ''failed to create test run, error: '') (\<lambda>_.
     check (SendEventTestPreparing tc) (wrapped ''failed to inform test director of preparation event, error: '') (\<lambda>_.
     ret (Inr ())))"

definition tc_SendTestRunStarted :: "'w conductor \<Rightarrow> ('w, unit result) io" where
  "tc_SendTestRunStarted tc =
     check (if cf_SendXrayTest (Config tc) = 1
            then SendTestRunStarted (TestDirectorClient tc) (TestRunId tc) (testDescription tc @ '' Test run: started'')
                   (cf_XrayTestID (Config tc))
            else ret (Inr ())) (wrapped ''failed to set test run to executing, error: '') (\<lambda>_.
     check (SendEventTestStarted tc) (wrapped ''failed to inform test director of start event, error: '') (\<lambda>_.
     ret (Inr ())))"

definition GetTestOutcome :: "'w conductor \<Rightarrow> error option \<Rightarrow> ('w, int) io" where
  "GetTestOutcome tc test_err =
     (let last = ret (if test_err \<noteq> None then 1 else 0) in
      if cf_SendXrayTest (Config tc) = 1
      then seq (GetTestRunStatus (TestDirectorClient tc) (TestRunId tc)) (\<lambda>(status, err).
        if err \<noteq> None then ret 1 else if status \<noteq> TestRunPASSED then ret 1 else last)
      else last)"

text \<open>The two halves of \<^verbatim>\<open>SendTestRunFinished\<close>: the state of the run, then the event.\<close>

definition finish_run :: "'w conductor \<Rightarrow> error option \<Rightarrow> ('w, error option) io" where
  "finish_run tc test_err =
     (if cf_SendXrayTest (Config tc) = 1
      then (case test_err of
        None \<Rightarrow> seq (SendTestRunCompletedOk (TestDirectorClient tc) (TestRunId tc)
            (testDescription tc @ '' Test run: finished'') (cf_XrayTestID (Config tc))) (\<lambda>r. case r of
          Inl err \<Rightarrow> ret (Some (wrapped ''failed to set test run to completed, error: '' err))
        | Inr _ \<Rightarrow> ret None)
      | Some e \<Rightarrow> seq (SendTestRunCompletedFail (TestDirectorClient tc) (TestRunId tc) (err_text e)
            (cf_XrayTestID (Config tc))) (\<lambda>r. case r of
          Inl err \<Rightarrow> ret (Some (Errorf (''failed to set test run to failed, error: '' @ err_text err @ ''test outcome: '' @ err_text e)))
        | Inr _ \<Rightarrow> ret (Some e)))
      else ret test_err)"

definition finish_event :: "'w conductor \<Rightarrow> error option \<Rightarrow> ('w, error option) io" where
  "finish_event tc test_err = (case test_err of
      None \<Rightarrow> seq (SendEventTestCompletedOk tc) (\<lambda>r. case r of
        Inl err \<Rightarrow> ret (Some (wrapped ''failed to inform test director of successful completion event, error: '' err))
      | Inr _ \<Rightarrow> ret None)
    | Some e \<Rightarrow> seq (SendEventTestFail tc (err_text e)) (\<lambda>r. case r of
        Inl err \<Rightarrow> ret (Some (Errorf (''failed to inform test director of failed completion event, error: '' @ err_text err @
          '', test outcome: '' @ err_text e)))
      | Inr _ \<Rightarrow> ret (Some e)))"

definition tc_SendTestRunFinished :: "'w conductor \<Rightarrow> error option \<Rightarrow> ('w, unit) io" where
  "tc_SendTestRunFinished tc test_err =
     seq (finish_run tc test_err) (\<lambda>err1.
     seq (finish_event tc err1) (\<lambda>err2.
     seq (GetTestOutcome tc err2) os_Exit))"

section \<open>The monitoring loop\<close>

text \<open>A failed check of the volumes is reported, and a report that fails is only logged.\<close>

definition report_failure :: "'w conductor \<Rightarrow> unit result \<Rightarrow> ('w run, unit) io" where
  "report_failure tc r = (case r of
      Inl err \<Rightarrow> seq (in_world (SendEventTestFail tc (err_text err))) (\<lambda>_. ret ())
    | Inr _ \<Rightarrow> ret ())"

text \<open>One round of \<^verbatim>\<open>MonitorCRs\<close>. The count of elapsed seconds only serves the log.\<close>

definition monitor_round ::
    "'w conductor \<Rightarrow> int \<Rightarrow> string \<Rightarrow> nat \<Rightarrow> unit \<Rightarrow> ('w run, (unit, unit result) ctl) io" where
  "monitor_round tc endTime pod_to_check i u =
     (let cl = Kube tc in
      seq (in_world (GetMayastorNodeIPs cl)) (\<lambda>r. case r of
        Inl err \<Rightarrow> ret (Return (Inl (wrapped ''MSV grpc check failed to get nodes, err: '' err)))
      | Inr ms_ips \<Rightarrow>
          if length ms_ips = 0 then ret (Return (Inl (Errorf ''No MS nodes found'')))
          else
            seq (CheckMSVwithGrpc cl ms_ips) (\<lambda>r1.
            seq (report_failure tc r1) (\<lambda>_.
            seq (index ms_ips 0) (\<lambda>ms_ip.
            seq (CheckMSVwithCP cl ms_ip) (\<lambda>r2.
            seq (report_failure tc r2) (\<lambda>_.
            seq (in_world (CheckPools cl (cf_Msnodes (Config tc)))) (\<lambda>r3. case r3 of
              Inl err \<Rightarrow> ret (Return (Inl (wrapped ''MSP check failed, err: '' err)))
            | Inr _ \<Rightarrow>
                seq (if pod_to_check \<noteq> ''''
                     then seq (in_world (GetPod (pods cl) pod_to_check ''default'')) (\<lambda>r4. case r4 of
                       Inl err \<Rightarrow> ret (Return (Inl (wrapped (''Failed to get application pod '' @ pod_to_check @ '', err: '') err)))
                     | Inr pod \<Rightarrow> if pod_Phase pod \<noteq> PodRunning then ret (Break ()) else ret (Continue ()))
                     else ret (Continue ()))
                (\<lambda>c. case c of
                  Return r \<Rightarrow> ret (Return r)
                | Break _ \<Rightarrow> ret (Break ())
                | Continue _ \<Rightarrow>
                    seq (in_world (call (NowNano cl))) (\<lambda>now.
                    if endTime < now
                    then (if pod_to_check = '''' then ret (Break ())
                          else ret (Return (Inl (Errorf ''Pod is still running, timeout triggered''))))
                    else seq (in_world (sleeps cl 5)) (\<lambda>_. ret (Continue ()))))))))))))"

definition MonitorCRs :: "nat \<Rightarrow> 'w conductor \<Rightarrow> int \<Rightarrow> string \<Rightarrow> ('w run, unit result) io" where
  "MonitorCRs fuel tc duration pod_to_check =
     seq (in_world (call (NowNano (Kube tc)))) (\<lambda>now.
     after (loop fuel 0 () (monitor_round tc (now + duration) pod_to_check)) (\<lambda>_. ret (Inr ())))"

section \<open>Random numbers\<close>

text \<open>The 32 bit FNV-1a checksum of \<^verbatim>\<open>hash/fnv\<close>; writing to it never fails.\<close>

definition fnv32a :: "string \<Rightarrow> 32 word" where
  "fnv32a t = foldl (\<lambda>h c. (h XOR of_char c) * 16777619) 2166136261 t"

definition hex_int :: "int \<Rightarrow> string" where
  "hex_int i = (if i < 0 then ''-'' @ hex_string (nat (- i)) else hex_string (nat i))"

definition EtfwRandom :: "'w cluster \<Rightarrow> 32 word \<Rightarrow> ('w, int result) io" where
  "EtfwRandom cl valrange =
     seq (call (NowNano cl)) (\<lambda>now.
     if valrange = 0 then panic ''integer divide by zero''
     else ret (Inr (uint (fnv32a (hex_int now) mod valrange))))"

definition randomSleep :: "'w cluster \<Rightarrow> ('w, unit result) io" where
  "randomSleep cl =
     check (EtfwRandom cl 4) (\<lambda>err. err) (\<lambda>idx.
     seq (index [2, 5, 10, 30] idx) (\<lambda>sleepMins.
     seq (sleeps cl (60 * sleepMins)) (\<lambda>_. ret (Inr ()))))"

section \<open>Faults\<close>

definition expected_ips :: "int \<Rightarrow> nat \<Rightarrow> error" where
  "expected_ips nodecount n = Errorf (''Expected '' @ Itoa nodecount @ '' ips, found '' @ Itoa (int n))"

definition killMayastor :: "'w cluster \<Rightarrow> int \<Rightarrow> int \<Rightarrow> ('w, unit result) io" where
  "killMayastor cl idx nodecount =
     check (ListMsPools cl) (wrapped ''failed to list pools, err: '') (\<lambda>ps.
     if int (length ps) < nodecount then ret (Inl (expected_ips nodecount (length ps)))
     else check (GetNodeLocs cl) (wrapped ''MSV grpc check failed to get nodes, err: '') (\<lambda>locs.
     if int (length locs) < nodecount then ret (Inl (expected_ips nodecount (length locs)))
     else seq (index ps idx) (\<lambda>pool.
     case find (\<lambda>node. NodeName node = msp_Node pool) locs of
       Some node \<Rightarrow> check (call (AgentKillMayastor cl (IPAddress node))) (\<lambda>err. err) (\<lambda>_. ret (Inr ()))
     | None \<Rightarrow> ret (Inl (Errorf ''Failed to find mayastor node'')))))"

text \<open>\<^verbatim>\<open>checkDeviceState\<close> of \<^verbatim>\<open>replica_perturbation.go\<close> drops the error of the agent.\<close>

definition checkDeviceState :: "'w cluster \<Rightarrow> string \<Rightarrow> string \<Rightarrow> string \<Rightarrow> ('w, unit result) io" where
  "checkDeviceState cl nodeIp poolDevice state =
     seq (call (AgentExec cl nodeIp (''cat /sys/block/'' @ poolDevice @ ''/device/state''))) (\<lambda>(out, _).
     let res = TrimRight out newline in
     if res \<noteq> state then ret (Inl (Errorf (''unexpected state: expected '' @ state @ '', got '' @ res)))
     else ret (Inr ()))"

text \<open>
  The device of a pool: the node of the pool is looked up, and its one disk must be below
  \<^verbatim>\<open>/dev/\<close>. An empty node address counts as no node.
\<close>

definition pool_device :: "msp \<Rightarrow> node_location list \<Rightarrow> (string \<times> string) result" where
  "pool_device pool locs = (case find (\<lambda>node. NodeName node = msp_Node pool) locs of
      Some node \<Rightarrow>
        (case msp_Disks pool of
           [disk] \<Rightarrow>
             if \<not> HasPrefix disk ''/dev/'' then Inl (Errorf (''Unexpected device path '' @ disk))
             else if IPAddress node = '''' then Inl (Errorf (''Could not find node for pool '' @ msp_Name pool))
             else Inr (IPAddress node, drop 5 disk)
         | ds \<Rightarrow> Inl (Errorf (''Unexpected number of disks, expected 1 found '' @ Itoa (int (length ds)))))
    | None \<Rightarrow> Inl (Errorf (''Could not find node for pool '' @ msp_Name pool)))"

text \<open>The log line for each pool reads its first disk.\<close>

definition log_disks :: "msp list \<Rightarrow> ('s, unit) io" where
  "log_disks ps =
     seq (for_in ps () (\<lambda>pool _. seq (index (msp_Disks pool) 0) (\<lambda>_. ret (Continue ())))) (\<lambda>c. case c of
       Inl r \<Rightarrow> ret r | Inr u \<Rightarrow> ret u)"

definition offlineDevice ::
    "'w cluster \<Rightarrow> int \<Rightarrow> int \<Rightarrow> device_descriptor list \<Rightarrow> ('w, device_descriptor list \<times> error option) io" where
  "offlineDevice cl idx nodecount devs =
     seq (ListMsPools cl) (\<lambda>r. case r of
       Inl err \<Rightarrow> ret (devs, Some (wrapped ''failed to list pools, err: '' err))
     | Inr ps \<Rightarrow>
         if int (length ps) < nodecount then ret (devs, Some (expected_ips nodecount (length ps)))
         else seq (log_disks ps) (\<lambda>_.
         seq (GetNodeLocs cl) (\<lambda>r1. case r1 of
           Inl err \<Rightarrow> ret (devs, Some (wrapped ''MSV grpc check failed to get nodes, err: '' err))
         | Inr locs \<Rightarrow>
             if int (length locs) < nodecount then ret (devs, Some (expected_ips nodecount (length locs)))
             else seq (index ps idx) (\<lambda>pool. case pool_device pool locs of
               Inl err \<Rightarrow> ret (devs, Some err)
             | Inr (nodeIp, poolDevice) \<Rightarrow>
                 seq (call (AgentControlDevice cl nodeIp poolDevice ''offline'')) (\<lambda>r2. case r2 of
                   Inl err \<Rightarrow> ret (devs, Some err)
                 | Inr _ \<Rightarrow> seq (checkDeviceState cl nodeIp poolDevice ''offline'') (\<lambda>r3. case r3 of
                     Inl err \<Rightarrow> ret (devs, Some err)
                   | Inr _ \<Rightarrow> ret (devs @ [\<lparr>dd_node = nodeIp, dd_device = poolDevice\<rparr>], None)))))))"

definition onlineDevice :: "'w cluster \<Rightarrow> string \<Rightarrow> string \<Rightarrow> ('w, unit result) io" where
  "onlineDevice cl nodeIp poolDevice =
     check (call (AgentControlDevice cl nodeIp poolDevice ''running'')) (\<lambda>err. err) (\<lambda>_.
     check (checkDeviceState cl nodeIp poolDevice ''running'') (\<lambda>err. err) (\<lambda>_. ret (Inr ())))"

fun restoreDevices :: "'w cluster \<Rightarrow> device_descriptor list \<Rightarrow> ('w, device_descriptor list \<times> error option) io" where
  "restoreDevices cl [] = ret ([], None)"
| "restoreDevices cl (dev # devs) =
     seq (onlineDevice cl (dd_node dev) (dd_device dev)) (\<lambda>r. case r of
       Inl err \<Rightarrow> ret (dev # devs, Some err)
     | Inr _ \<Rightarrow> restoreDevices cl devs)"

section \<open>Waits\<close>

text \<open>
  The timeout of \<^verbatim>\<open>waitForVolumeStatus\<close> is tested only in a round in which the volume has
  replicas, and only for the counter being equal to 100.
\<close>

definition volume_status_round ::
    "'w cluster \<Rightarrow> string \<Rightarrow> string \<Rightarrow> string \<Rightarrow> nat \<Rightarrow> unit \<Rightarrow> ('w, (unit, unit result) ctl) io" where
  "volume_status_round cl ms_ip uid wantedState i u =
     seq (GetVolumeReplicaCount cl ms_ip uid) (\<lambda>r. case r of
       Inl err \<Rightarrow> ret (Return (Inl (wrapped ''failed to get volume replicas, error: '' err)))
     | Inr reps \<Rightarrow>
         if 0 < reps
         then seq (getVolumeStatus cl ms_ip uid) (\<lambda>r1. case r1 of
           Inl err \<Rightarrow> ret (Return (Inl (wrapped ''failed to get volume state, error: '' err)))
         | Inr state \<Rightarrow>
             if state = wantedState then ret (Break ())
             else if i = 100 then ret (Return (Inl (Errorf (''timed out waiting for nexus to be '' @ wantedState))))
             else seq (sleeps cl 10) (\<lambda>_. ret (Continue ())))
         else seq (sleeps cl 10) (\<lambda>_. ret (Continue ())))"

definition waitForVolumeStatus :: "nat \<Rightarrow> 'w cluster \<Rightarrow> string \<Rightarrow> string \<Rightarrow> string \<Rightarrow> ('w, unit result) io" where
  "waitForVolumeStatus fuel cl ms_ip uid wantedState =
     after (loop fuel 0 () (volume_status_round cl ms_ip uid wantedState)) (\<lambda>_. ret (Inr ()))"

definition not_online_round :: "'w cluster \<Rightarrow> string \<Rightarrow> string \<Rightarrow> nat \<Rightarrow> unit \<Rightarrow> ('w, (unit, unit result) ctl) io" where
  "not_online_round cl ms_ip uid i u =
     seq (getVolumeStatus cl ms_ip uid) (\<lambda>r. case r of
       Inl err \<Rightarrow> ret (Return (Inl (wrapped ''failed to get nexus state, error: '' err)))
     | Inr state \<Rightarrow>
         if state \<noteq> ''Online'' then ret (Break ())
         else if i = 100 then ret (Return (Inl (Errorf ''timed out waiting for nexus to be not online'')))
         else seq (sleeps cl 10) (\<lambda>_. ret (Continue ())))"

definition waitForVolumeNotOnline :: "'w cluster \<Rightarrow> string \<Rightarrow> string \<Rightarrow> ('w, unit result) io" where
  "waitForVolumeNotOnline cl ms_ip uid =
     after (loop 101 0 () (not_online_round cl ms_ip uid)) (\<lambda>_. ret (Inr ()))"

definition not_running_round :: "'w cluster \<Rightarrow> string \<Rightarrow> int \<Rightarrow> nat \<Rightarrow> unit \<Rightarrow> ('w, (unit, unit result) ctl) io" where
  "not_running_round cl pod_to_check endTime i u =
     seq (GetPod (pods cl) pod_to_check ''default'') (\<lambda>r. case r of
       Inl err \<Rightarrow> ret (Return (Inl (wrapped (''Failed to get application pod '' @ pod_to_check @ '', err: '') err)))
     | Inr pod \<Rightarrow>
         if pod_Phase pod \<noteq> PodRunning then ret (Break ())
         else seq (call (NowNano cl)) (\<lambda>now.
           if endTime < now
           then ret (Return (Inl (Errorf (''Pod '' @ pod_to_check @ '' is still running, timeout triggered''))))
           else seq (sleeps cl 5) (\<lambda>_. ret (Continue ()))))"

definition WaitPodNotRunning :: "nat \<Rightarrow> 'w cluster \<Rightarrow> string \<Rightarrow> int \<Rightarrow> ('w, unit result) io" where
  "WaitPodNotRunning fuel cl pod_to_check timeout =
     seq (call (NowNano cl)) (\<lambda>now.
     after (loop fuel 0 () (not_running_round cl pod_to_check (now + timeout))) (\<lambda>_. ret (Inr ())))"

section \<open>Code on the world of a run\<close>

lemma in_world_apply: "in_world m s = (fst (m (rs_world s)), s\<lparr>rs_world := snd (m (rs_world s))\<rparr>)"
  by (simp add: in_world_def zoom_apply)

lemma returning_in_world [ends]: "returning m \<Longrightarrow> returning (in_world m)"
  unfolding in_world_def by (rule returning_zoom)

lemma wp_in_world [wps]:
  "wp (in_world m) Q R = (\<lambda>s. wp m (\<lambda>x w. Q x (s\<lparr>rs_world := w\<rparr>)) (\<lambda>w. R (s\<lparr>rs_world := w\<rparr>)) (rs_world s))"
  unfolding in_world_def by (rule wp_zoom)

lemma keeping_in_world_state [keeps]: "keeping (\<lambda>s. P (faultedPVCs s)) (in_world m)"
  unfolding in_world_def by (rule keeping_zoom) simp

lemma keeping_in_world: "keeping P m \<Longrightarrow> keeping (\<lambda>s. P (rs_world s)) (in_world m)"
  by (simp add: keeping_def in_world_apply)

lemma returning_checks [ends]:
  "returning (checkPVCexists cl v)" "returning (checkPVCexistsViaNexusUuid cl ip nx)" "returning (CheckPools cl n)"
  "returning (CheckNodes cl n)" "returning (getVolumeStatus cl ip uid)" "returning (getOnlyVolume cl ip)"
proof -
  show pvc: "returning (checkPVCexists cl v)" for v
    unfolding checkPVCexists_def by (intro ends)
  show "returning (checkPVCexistsViaNexusUuid cl ip nx)" "returning (CheckPools cl n)" "returning (CheckNodes cl n)"
    "returning (getVolumeStatus cl ip uid)" "returning (getOnlyVolume cl ip)"
    unfolding checkPVCexistsViaNexusUuid_def CheckPools_def CheckNodes_def getVolumeStatus_def getOnlyVolume_def
    by (intro ends pvc)+
qed

lemma returning_index: "ms_ips \<noteq> [] \<Longrightarrow> returning (index ms_ips 0)"
  by (simp add: index_def ends)

lemma returning_volume_checks [ends]:
  "returning (check_cp_volume cl v u)" "returning (CheckMSVwithCP cl ip)"
  "ms_ips \<noteq> [] \<Longrightarrow> returning (check_nexus cl ms_ips nx u)" "ms_ips \<noteq> [] \<Longrightarrow> returning (CheckMSVwithGrpc cl ms_ips)"
proof -
  show cp: "returning (check_cp_volume cl v u)" for v u
    unfolding check_cp_volume_def by (intro ends)
  show "returning (CheckMSVwithCP cl ip)"
    unfolding CheckMSVwithCP_def by (intro ends cp)
  assume ip: "ms_ips \<noteq> []"
  show nx: "returning (check_nexus cl ms_ips nx u)" for nx u
    unfolding check_nexus_def by (intro ends returning_index ip)
  show "returning (CheckMSVwithGrpc cl ms_ips)"
    unfolding CheckMSVwithGrpc_def by (intro ends nx)
qed

text \<open>
  The log line of \<^verbatim>\<open>common.SendEvent\<close> reads the first piece of data and the message of the
  answer: reports return when the answers of the test director have both.
\<close>

definition answers_complete :: "'w td_api \<Rightarrow> bool" where
  "answers_complete td \<longleftrightarrow>
     (\<forall>spec w e w'. AddEvent td spec w = (Inr e, w') \<longrightarrow> es_Data (ev_Spec e) \<noteq> [] \<and> es_Message (ev_Spec e) \<noteq> None)"

lemma returning_SendEvent:
  assumes "answers_complete td"
  shows "returning (SendEvent td inst message cls src)"
proof -
  have "returning (check (call (AddEvent td spec)) wrap (\<lambda>e. seq (index (es_Data (ev_Spec e)) 0) (\<lambda>_.
      seq (deref (es_Message (ev_Spec e))) (\<lambda>_. ret (Inr ())))))" for spec wrap
  proof (rule returning_check_post)
    fix s e s'
    assume "call (AddEvent td spec) s = (Done (Inr e), s')"
    then have "AddEvent td spec s = (Inr e, s')" by (auto simp: call_def split: prod.splits)
    with assms have "es_Data (ev_Spec e) \<noteq> []" and "es_Message (ev_Spec e) \<noteq> None"
      unfolding answers_complete_def by blast+
    then show "returning (seq (index (es_Data (ev_Spec e)) 0) (\<lambda>_. seq (deref (es_Message (ev_Spec e))) (\<lambda>_. ret (Inr ()))))"
      by (auto simp: index_def ends)
  qed (rule returning_call)
  then show ?thesis
    unfolding SendEvent_def getTime_def Let_def by (intro returning_seq returning_call)
qed

lemma returning_reports:
  assumes "answers_complete (TestDirectorClient tc)"
  shows "returning (tc_SendEvent tc cls message)" "returning (SendEventTestFail tc text)" "returning (report_failure tc r)"
  unfolding report_failure_def SendEventTestFail_def tc_SendEvent_def
  by (intro ends returning_SendEvent assms)+

section \<open>The clock\<close>

text \<open>
  \<open>never_back T f\<close>: the call \<open>f\<close> does not turn the clock \<open>T\<close> back. \<open>ticking tc T\<close>: \<open>T\<close> is what
  \<^verbatim>\<open>time.Now\<close> reads, no call that the monitoring loop makes turns it back, and sleeping for
  \<open>n\<close> seconds advances it by at least as much.
\<close>

definition never_back :: "('w \<Rightarrow> int) \<Rightarrow> ('w \<Rightarrow> 'a \<times> 'w) \<Rightarrow> bool" where
  "never_back T f \<longleftrightarrow> (\<forall>w. T w \<le> T (snd (f w)))"

definition ticking :: "'w conductor \<Rightarrow> ('w \<Rightarrow> int) \<Rightarrow> bool" where
  "ticking tc T \<longleftrightarrow>
     (\<forall>w. fst (NowNano (Kube tc) w) = T w) \<and> (\<forall>n w. T w + int n * 1000000000 \<le> T (Sleep (pods (Kube tc)) n w)) \<and>
     never_back T (NowNano (Kube tc)) \<and> never_back T (NodesList (Kube tc)) \<and> never_back T (MspList (Kube tc)) \<and>
     (\<forall>ips. never_back T (ListNexuses (Kube tc) ips)) \<and> (\<forall>m u. never_back T (McpDo (Kube tc) m u)) \<and>
     (\<forall>ns. never_back T (PvcList (Kube tc) ns)) \<and> (\<forall>ns. never_back T (PodsList (pods (Kube tc)) ns)) \<and>
     never_back T (TimeText (TestDirectorClient tc)) \<and> (\<forall>spec. never_back T (AddEvent (TestDirectorClient tc) spec))"

named_theorems clock \<open>code that does not turn the clock back\<close>

lemma keeping_never_back: "never_back T f \<Longrightarrow> keeping (\<lambda>w. t \<le> T w) (call f)"
  by (force simp: never_back_def keeping_def call_apply intro: order_trans)

lemma ticking_calls:
  assumes "ticking tc T"
  shows "keeping (\<lambda>w. t \<le> T w) (call (NowNano (Kube tc)))" "keeping (\<lambda>w. t \<le> T w) (call (NodesList (Kube tc)))"
    "keeping (\<lambda>w. t \<le> T w) (call (MspList (Kube tc)))" "keeping (\<lambda>w. t \<le> T w) (call (ListNexuses (Kube tc) ips))"
    "keeping (\<lambda>w. t \<le> T w) (call (McpDo (Kube tc) m u))" "keeping (\<lambda>w. t \<le> T w) (call (PvcList (Kube tc) ns))"
    "keeping (\<lambda>w. t \<le> T w) (call (PodsList (pods (Kube tc)) ns))"
    "keeping (\<lambda>w. t \<le> T w) (call (TimeText (TestDirectorClient tc)))"
    "keeping (\<lambda>w. t \<le> T w) (call (AddEvent (TestDirectorClient tc) spec))"
  using assms unfolding ticking_def by (auto intro: keeping_never_back)

lemma clock_world:
  assumes "ticking tc T"
  shows "keeping (\<lambda>w. t \<le> T w) (GetMayastorNodeIPs (Kube tc))" "keeping (\<lambda>w. t \<le> T w) (GetVolumes (Kube tc) ip)"
    "keeping (\<lambda>w. t \<le> T w) (GetNexuses (Kube tc) ips)" "keeping (\<lambda>w. t \<le> T w) (checkPVCexists (Kube tc) v)"
    "keeping (\<lambda>w. t \<le> T w) (checkPVCexistsViaNexusUuid (Kube tc) ip nx)" "keeping (\<lambda>w. t \<le> T w) (CheckPools (Kube tc) n)"
    "keeping (\<lambda>w. t \<le> T w) (GetPod (pods (Kube tc)) name ns)" "keeping (\<lambda>w. t \<le> T w) (SendEventTestFail tc text)"
  unfolding GetMayastorNodeIPs_def mayastor_nodes_def GetNodeLocs_def GetVolumes_def mcp_sendRequest_def GetNexuses_def
    checkPVCexistsViaNexusUuid_def checkPVCexists_def ListPVCs_def CheckPools_def CheckAllMsPoolsAreOnline_def
    ListMsPools_def GetPod_def SendEventTestFail_def tc_SendEvent_def SendEvent_def getTime_def Let_def
  by (intro keeps ticking_calls [OF assms])+

lemma clock_run:
  assumes "ticking tc T"
  shows "keeping (\<lambda>s. t \<le> T (rs_world s)) (CheckMSVwithGrpc (Kube tc) ips)"
    "keeping (\<lambda>s. t \<le> T (rs_world s)) (CheckMSVwithCP (Kube tc) ip)"
    "keeping (\<lambda>s. t \<le> T (rs_world s)) (report_failure tc r)"
  unfolding CheckMSVwithGrpc_def check_nexus_def CheckMSVwithCP_def check_cp_volume_def report_failure_def
  by (intro keeps keeping_in_world clock_world [OF assms] keeping_modifies; simp)+

text \<open>A round of the monitoring loop that goes on has not reached the end and has slept.\<close>

definition slept :: "('w \<Rightarrow> int) \<Rightarrow> int \<Rightarrow> int \<Rightarrow> ('v, 'r) ctl \<Rightarrow> 'w \<Rightarrow> bool" where
  "slept T t endTime c w \<longleftrightarrow> (case c of Continue _ \<Rightarrow> t \<le> endTime \<and> t + 5000000000 \<le> T w | _ \<Rightarrow> True)"

lemma slept_simps [simp]:
  "slept T t e (Break v) w" "slept T t e (Return r) w"
  "slept T t e (Continue v) w \<longleftrightarrow> t \<le> e \<and> t + 5000000000 \<le> T w"
  by (simp_all add: slept_def)

lemma ticking_sleep:
  assumes "ticking tc T" and "t \<le> T w" and "\<not> e < fst (NowNano (Kube tc) w)"
  shows "t \<le> e \<and> t + 5000000000 \<le> T (Sleep (pods (Kube tc)) 5 (snd (NowNano (Kube tc) w)))"
proof -
  have now: "fst (NowNano (Kube tc) w) = T w" and "T w \<le> T (snd (NowNano (Kube tc) w))"
    and "T w' + int 5 * 1000000000 \<le> T (Sleep (pods (Kube tc)) 5 w')" for w'
    using assms(1) unfolding ticking_def never_back_def by blast+
  from this(2) this(3) [of "snd (NowNano (Kube tc) w)"] now assms(2,3) show ?thesis by simp
qed

lemma monitor_round_slept:
  assumes "ticking tc T"
  shows "leading (\<lambda>s. t \<le> T (rs_world s)) (\<lambda>c s. slept T t endTime c (rs_world s)) (monitor_round tc endTime pod i u)"
proof -
  let ?P = "\<lambda>s. t \<le> T (rs_world s)" and ?Q = "\<lambda>c s. slept T t endTime c (rs_world s)"
  have world: "keeping ?P (in_world (GetPod (pods (Kube tc)) pod ''default''))"
    "keeping ?P (in_world (GetMayastorNodeIPs (Kube tc)))" "keeping ?P (in_world (CheckPools (Kube tc) n))" for n
    by (intro keeping_in_world clock_world [OF assms])+
  have sleep: "leading ?P ?Q (seq (in_world (call (NowNano (Kube tc)))) (\<lambda>now.
      if endTime < now then (if pod = '''' then ret (Break ()) else ret (Return (Inl (Errorf ''Pod is still running, timeout triggered''))))
      else seq (in_world (sleeps (Kube tc) 5)) (\<lambda>_. ret (Continue ()))))"
    unfolding leading_def using ticking_sleep [OF assms] by (simp add: wps sleeps_def sleep_secs_def)
  show ?thesis
    unfolding monitor_round_def Let_def
    by (intro sleep leads; (intro keeps world clock_run [OF assms])?; simp)
qed

text \<open>
  \<open>rounds_left\<close>: how many more rounds there can be before the clock has passed \<open>endTime\<close>, when
  every round sleeps for five seconds.
\<close>

definition rounds_left :: "int \<Rightarrow> int \<Rightarrow> nat" where
  "rounds_left endTime now = nat ((endTime - now) div 5000000000 + 1)"

lemma rounds_left_less: "now \<le> endTime \<Longrightarrow> now + 5000000000 \<le> later \<Longrightarrow> rounds_left endTime later < rounds_left endTime now"
  unfolding rounds_left_def by linarith

lemma rounds_left_mono: "now \<le> later \<Longrightarrow> rounds_left endTime later \<le> rounds_left endTime now"
  unfolding rounds_left_def by (simp add: nat_le_eq_zle zdiv_mono1)

lemma returning_monitor_round:
  assumes "answers_complete (TestDirectorClient tc)"
  shows "returning (monitor_round tc endTime pod i u)"
  unfolding monitor_round_def Let_def
  by (intro ends returning_reports [OF assms] returning_index; (simp add: ends split: ctl.split)?)

section \<open>A small conductor\<close>

text \<open>The conductor on the small cluster, with a test director that accepts everything.\<close>

definition small_run :: "test_run_status \<Rightarrow> test_run" where
  "small_run st = \<lparr>tr_EndDateTime = None, tr_ID = ''r1'', tr_StartDateTime = None, tr_Spec = \<lparr>trs_Data = '''', trs_Status = st,
     trs_TestExecIssueID = '''', trs_TestID = '''', trs_TestKey = Some ''T-1''\<rparr>\<rparr>"

definition small_director :: "test_run_status \<Rightarrow> nat td_api" where
  "small_director st = \<lparr>PutTestRunByID = \<lambda>i sp w. (Inr (small_run (trs_Status sp)), w),
     GetTestRunByID = \<lambda>i w. (Inr (small_run st), w),
     AddEvent = \<lambda>sp w. (Inr \<lparr>ev_ID = ''e'', ev_LoggedDateTime = None, ev_Spec = sp\<lparr>es_Data := [''''], es_Message := Some ''''\<rparr>\<rparr>, w),
     GetTestPlans = \<lambda>w. (Inr [], w), TimeText = \<lambda>w. (''now'', w), TdSleep = \<lambda>n w. w + n\<rparr>"

definition small_config :: tc_config where
  "small_config = \<lparr>cf_RunName = ''run'', cf_TestName = ''steady_state'', cf_Duration = ''1d'', cf_E2eFioImage = ''fio'',
     cf_Msnodes = 1, cf_SendEvent = 1, cf_SendXrayTest = 1, cf_XrayTestID = ''T-1'',
     cf_SteadyState = \<lparr>ss_Replicas = 1, ss_ThinkTime = 0, ss_ThinkTimeBlocks = 0, ss_VolumeSizeMb = 64\<rparr>,
     cf_NonSteadyState = \<lparr>ns_ConcurrentVols = 1, ns_Replicas = 1, ns_ThinkTime = 0, ns_ThinkTimeBlocks = 0, ns_Timeout = ''1m'',
       ns_VolumeSizeMb = 64\<rparr>,
     cf_PrimitivePoolDeletion = \<lparr>pd_Iterations = 1, pd_ReplicaSize = 10, pd_DefTimeoutSecs = ''20s'', pd_ReplicasTimeoutSecs = ''20s'',
       pd_PoolUsageTimeoutSecs = ''20s'', pd_PoolDeleteTimeoutSecs = ''20s'', pd_PoolCreateTimeoutSecs = ''20s'',
       pd_PoolListTimeoutSecs = ''20s'', pd_MayastorRestartTimeout = 20\<rparr>,
     cf_ReplicaElimination = \<lparr>re_FsVolume = 0, re_LocalVolume = 0, re_Replicas = 1, re_Timeout = ''1m'', re_VolumeSizeMb = 64,
       re_BlocksToWrite = 10, re_KillMayastor = 0, re_RandomSleep = 0\<rparr>,
     cf_ReplicaPerturbation = \<lparr>rp_FsVolume = 0, rp_LocalVolume = 0, rp_OfflineDeviceTest = 0, rp_ReplicasTest = 0,
       rp_OfflineDevAndReplicasTest = 0, rp_Replicas = 1, rp_ThinkTime = 0, rp_ThinkTimeBlocks = 0, rp_VolumeSizeMb = 64,
       rp_RandomSleep = 0\<rparr>\<rparr>"

definition small_conductor :: "nat cluster \<Rightarrow> test_run_status \<Rightarrow> nat conductor" where
  "small_conductor cl st = \<lparr>Kube = cl, TestDirectorClient = small_director st,
     WorkloadMonitorClient = \<lparr>WmPutWorkload = \<lambda>r w sp s. (Inr \<lparr>wl_ID = w, wl_Name = '''', wl_Namespace = '''', wl_Spec = sp\<rparr>, s),
       WmDeleteWorkload = \<lambda>r w s. (Inl (Error ''no''), s),
       WmDeleteWorkloads = \<lambda>r s. (Inr \<lparr>ro_Details = '''', ro_ItemsAffected = Some 1, ro_Result = ''OK''\<rparr>, s)\<rparr>,
     Config = small_config, TestRunId = ''r1'', tc_NodeName = ''node1''\<rparr>"

lemma small_ticking: "ticking (small_conductor (small_cluster p v n) st) (\<lambda>w. int w * 1000000000)"
  by (simp add: ticking_def never_back_def small_conductor_def small_cluster_def small_director_def algebra_simps)

lemma small_answers: "answers_complete (TestDirectorClient (small_conductor cl st))"
  by (auto simp: answers_complete_def small_conductor_def small_director_def)

section \<open>Properties\<close>



text \<open>
  Days are turned into hours: a duration of \<open>d\<close> days and \<open>h\<close> hours, whatever
  follows, becomes one of \<open>24 * d + h\<close> hours; a duration that does not begin with one to three
  digits and a \<^verbatim>\<open>d\<close> is left as it is.
\<close>

lemma leading_field_digits:
  assumes "n < 10 ^ k" and "0 < k" and "\<not> is_digit c"
  shows "leading_field k c (Itoa (int n) @ c # rest) = Some (Itoa (int n), rest)"
proof -
  have digits: "list_all is_digit (Itoa (int n))" and "Itoa (int n) \<noteq> []" and len: "length (Itoa (int n)) \<le> k"
    using assms(1,2) by (simp_all add: Itoa_def nat_string_digits nat_string_length)
  moreover from digits assms(3) have "takeWhile is_digit (Itoa (int n) @ c # rest) = Itoa (int n)"
    by (simp add: list_all_iff)
  ultimately show ?thesis by (cases "Itoa (int n)") (simp_all add: leading_field_def)
qed

theorem ConvertTime_days:
  assumes "d < 1000" and "h < 100"
  shows "ConvertTime (Itoa (int d) @ ''d'' @ Itoa (int h) @ ''h'' @ rest) =
      Inr ((if d = 0 \<and> h = 0 then '''' else Itoa (int (24 * d + h)) @ ''h'') @ rest)
    \<and> (leading_field 3 CHR ''d'' t = None \<longrightarrow> ConvertTime t = Inr t)"
proof -
  have "\<not> is_digit CHR ''d''" "\<not> is_digit CHR ''h''" by code_simp+
  then have "leading_field 3 CHR ''d'' (Itoa (int d) @ CHR ''d'' # Itoa (int h) @ CHR ''h'' # rest) =
      Some (Itoa (int d), Itoa (int h) @ CHR ''h'' # rest)"
    and "leading_field 2 CHR ''h'' (Itoa (int h) @ CHR ''h'' # rest) = Some (Itoa (int h), rest)"
    using assms by (intro leading_field_digits; simp)+
  then show ?thesis
    by (simp add: ConvertTime_def Atoi_Itoa Let_def algebra_simps)
qed

theorem ConvertTime_days_witness: "ConvertTime ''2d8h20m30s'' = Inr ''56h20m30s''"
proof -
  have "Itoa 2 = ''2''" "Itoa 8 = ''8''" "Itoa 56 = ''56''" by code_simp+
  with ConvertTime_days [of 2 8 "''20m30s''" "''''"] show ?thesis by simp
qed

text \<open>
  \<^verbatim>\<open>EtfwRandom\<close> returns a number from zero up to but not including the range that it
  is given, and panics exactly when the range is zero; so \<^verbatim>\<open>randomSleep\<close> always finds the number
  of minutes to sleep in its table.
\<close>

theorem EtfwRandom_range:
  "(if valrange = 0 then fst (EtfwRandom cl valrange w) = Panicked ''integer divide by zero''
    else \<exists>v w'. EtfwRandom cl valrange w = (Done (Inr v), w') \<and> 0 \<le> v \<and> v < uint valrange) \<and>
   (\<exists>mins \<in> {2, 5, 10, 30}. randomSleep cl w = (Done (Inr ()), Sleep (pods cl) (60 * mins) (snd (NowNano cl w))))"
proof -
  have range: "0 \<le> uint (x mod r) \<and> uint (x mod r) < uint r" if "r \<noteq> 0" for x r :: "32 word"
    using that by (simp add: uint_mod word_neq_0_conv word_less_def)
  have table: "\<exists>mins. index [2, 5, 10, 30 :: nat] v s = (Done mins, s) \<and> mins \<in> {2, 5, 10, 30}" if "0 \<le> v" "v < 4" for v s
  proof -
    from that have "v = 0 \<or> v = 1 \<or> v = 2 \<or> v = 3" by arith
    then show ?thesis by (elim disjE) (simp_all add: index_def)
  qed
  have four: "0 \<le> uint (x mod 4)" "uint (x mod 4) < 4" for x :: "32 word"
    using range [of 4 x] by simp_all
  obtain mins where "index [2, 5, 10, 30 :: nat] (uint (fnv32a (hex_int (fst (NowNano cl w))) mod 4)) (snd (NowNano cl w)) =
      (Done mins, snd (NowNano cl w))" and mins: "mins \<in> {2, 5, 10, 30}"
    using table [OF four, of "fnv32a (hex_int (fst (NowNano cl w)))" "snd (NowNano cl w)"] by (elim exE conjE)
  then have "randomSleep cl w = (Done (Inr ()), Sleep (pods cl) (60 * mins) (snd (NowNano cl w)))"
    by (simp add: EtfwRandom_def randomSleep_def seq_apply call_apply check_def sleeps_def sleep_secs_def)
  with mins range [of valrange] show ?thesis
    by (auto simp: EtfwRandom_def seq_apply call_apply)
qed

text \<open>
  A faulted volume is reported once: a check of the volumes through the control
  plane always returns; it either leaves the set of known faulted volumes as it is and does not
  report a faulted volume, or reports one that was not in the set, which then is. So no later
  check reports it again.
\<close>

definition found_faulted :: "string \<Rightarrow> error" where
  "found_faulted uid = Errorf (''found faulted volume, uuid '' @ uid)"

lemma not_found_faulted [simp]: "wrapped ''failed to get volumes, error: '' e \<noteq> found_faulted uid"
  by (simp add: found_faulted_def Errorf_def wrapped_def)

lemma check_cp_volume_wp:
  assumes "\<And>s'. faultedPVCs s' = faultedPVCs s \<Longrightarrow> Q (Continue ()) s'"
    and "\<And>s' e. faultedPVCs s' = faultedPVCs s \<Longrightarrow> (\<And>uid. e \<noteq> found_faulted uid) \<Longrightarrow> Q (Return (Inl e)) s'"
    and "\<And>s' uid. map_of (faultedPVCs s) uid = None \<Longrightarrow> faultedPVCs s' = AList.update uid True (faultedPVCs s) \<Longrightarrow>
       Q (Return (Inl (found_faulted uid))) s'"
  shows "wp (check_cp_volume cl vol u) Q (\<lambda>_. True) s"
  unfolding check_cp_volume_def
  using assms
  by (auto simp: wps found_faulted_def Errorf_def wrapped_def split: sum.split intro!: wp_doneI)

theorem faulted_reported_once:
  "\<exists>r s'. CheckMSVwithCP cl ip s = (Done r, s') \<and>
     (faultedPVCs s' = faultedPVCs s \<and> (\<forall>uid. r \<noteq> Inl (found_faulted uid)) \<or>
      (\<exists>uid. r = Inl (found_faulted uid) \<and> map_of (faultedPVCs s) uid = None \<and>
         map_of (faultedPVCs s') = (map_of (faultedPVCs s))(uid \<mapsto> True)))"
proof -
  let ?Q = "\<lambda>r s'. faultedPVCs s' = faultedPVCs s \<and> (\<forall>uid. r \<noteq> Inl (found_faulted uid)) \<or>
      (\<exists>uid. r = Inl (found_faulted uid) \<and> map_of (faultedPVCs s) uid = None \<and>
         map_of (faultedPVCs s') = (map_of (faultedPVCs s))(uid \<mapsto> True))"
  have loop: "wp (for_in vols () (check_cp_volume cl)) (\<lambda>c. case c of Inl r \<Rightarrow> ?Q r | Inr v \<Rightarrow> ?Q (Inr ())) (\<lambda>_. True) s1"
    if "faultedPVCs s1 = faultedPVCs s" for vols s1
  proof (rule wp_for_in [where I = "\<lambda>ys v s1. faultedPVCs s1 = faultedPVCs s"])
    show "wp (check_cp_volume cl x v) (\<lambda>c. case c of Continue v' \<Rightarrow> \<lambda>s1. faultedPVCs s1 = faultedPVCs s
        | Break v' \<Rightarrow> (case Inr v' of Inl r \<Rightarrow> ?Q r | Inr v \<Rightarrow> ?Q (Inr ()))
        | Return r \<Rightarrow> (case Inl r of Inl r \<Rightarrow> ?Q r | Inr v \<Rightarrow> ?Q (Inr ()))) (\<lambda>_. True) s1"
      if "faultedPVCs s1 = faultedPVCs s" for x v s1
      using that by (intro check_cp_volume_wp) (auto simp: update_conv')
  qed (use that in auto)
  obtain r s' where run: "CheckMSVwithCP cl ip s = (Done r, s')"
    using returning_volume_checks(2) by (rule returningE)
  have "?Q r s'"
    using run unfolding CheckMSVwithCP_def
  proof (cases rule: check_DoneE)
    case (err e)
    then show ?thesis by (auto simp: in_world_apply)
  next
    case (ok vols s1)
    have "wp (after (for_in vols () (check_cp_volume cl)) (\<lambda>_. ret (Inr ()))) ?Q (\<lambda>_. True) s1"
      unfolding wps by (rule loop) (use ok(1) in \<open>auto simp: in_world_apply\<close>)
    then show ?thesis using ok(2) by (rule wp_Done)
  qed
  with run show ?thesis by blast
qed

theorem faulted_reported_once_witness:
  "\<exists>r s'. CheckMSVwithCP (small_cluster ''online'' ''Faulted'' '''') ''10.0.0.1'' \<lparr>rs_world = 0, faultedPVCs = [(''v1'', True)]\<rparr> = (Done r, s')
    \<and> r \<noteq> Inl (found_faulted ''v1'')"
  using faulted_reported_once [of "small_cluster ''online'' ''Faulted'' ''''" "''10.0.0.1''"
      "\<lparr>rs_world = 0, faultedPVCs = [(''v1'', True)]\<rparr>"]
  by (auto simp: found_faulted_def Errorf_def)

text \<open>
  The conductor ends by exiting, with 0 or 1; with 0 only if the test had no error
  and, when runs are sent to XRay, the test director has answered that the run has passed.
\<close>

lemma exit_zero:
  assumes "answers_complete (TestDirectorClient tc)"
  shows "\<exists>n \<in> {0, 1}. \<exists>w'. tc_SendTestRunFinished tc test_err w = (Exited n, w') \<and>
    (n = 0 \<longrightarrow> test_err = None \<and> (cf_SendXrayTest (Config tc) = 1 \<longrightarrow>
       (\<exists>w1 run. fst (GetTestRunByID (TestDirectorClient tc) (TestRunId tc) w1) = Inr run \<and> tr_Status run = TestRunPASSED)))"
proof -
  have run: "returning (finish_run tc e)" "yields (\<lambda>e'. e \<noteq> None \<longrightarrow> e' \<noteq> None) (finish_run tc e)" for e
    unfolding finish_run_def SendTestRunCompletedOk_def SendTestRunCompletedFail_def sendTestRunStatus_def getTime_def Let_def
    by (intro ends) (cases e; simp; intro conjI impI posts; simp)
  have event: "returning (finish_event tc e)" "yields (\<lambda>e'. e \<noteq> None \<longrightarrow> e' \<noteq> None) (finish_event tc e)" for e
    unfolding finish_event_def SendEventTestCompletedOk_def
    by (intro ends returning_reports [OF assms]) (cases e; simp; intro posts; simp)
  have outcome: "\<exists>n \<in> {0, 1}. \<exists>w'. GetTestOutcome tc e w = (Done n, w') \<and> (n = 0 \<longrightarrow> e = None \<and>
      (cf_SendXrayTest (Config tc) = 1 \<longrightarrow>
        (\<exists>w1 run. fst (GetTestRunByID (TestDirectorClient tc) (TestRunId tc) w1) = Inr run \<and> tr_Status run = TestRunPASSED)))" for e w
    by (auto simp: GetTestOutcome_def GetTestRunStatus_def Let_def seq_apply call_apply split: sum.split)
  obtain e1 w1 where 1: "finish_run tc test_err w = (Done e1, w1)" using run(1) by (rule returningE)
  obtain e2 w2 where 2: "finish_event tc e1 w1 = (Done e2, w2)" using event(1) by (rule returningE)
  have "test_err = None" if "e2 = None"
    using yieldsD [OF run(2) 1] yieldsD [OF event(2) 2] that by blast
  moreover have "tc_SendTestRunFinished tc test_err w = seq (GetTestOutcome tc e2) os_Exit w2"
    using 1 2 by (simp add: tc_SendTestRunFinished_def seq_Done)
  ultimately show ?thesis
    using outcome [of e2 w2] by (fastforce simp: seq_apply)
qed

lemma status_round_last:
  assumes "\<And>w r. fst (GetVolumeReplicaCount cl ip uid w) = Done (Inr r) \<Longrightarrow> 0 < r"
  shows "volume_status_round cl ip uid st 100 u s \<noteq> (Done (Continue v), s')"
  using assms [of s] by (auto simp: volume_status_round_def elim!: seq_DoneE split: sum.splits if_splits)

lemma returning_status_round [ends]: "returning (volume_status_round cl ip uid st i u)"
  unfolding volume_status_round_def by (intro ends)

text \<open>
  Property C25. While a volume has replicas the wait for its status ends within 101 rounds. But
  a volume without replicas is waited for without end: no number of rounds is enough, because
  the timeout is not tested in such a round.
\<close>

theorem volume_wait:
  "((\<forall>w r. fst (GetVolumeReplicaCount cl ip uid w) = Done (Inr r) \<longrightarrow> 0 < r) \<longrightarrow>
      (\<exists>r w'. waitForVolumeStatus 101 cl ip uid st w = (Done r, w'))) \<and>
   ((\<forall>w. fst (GetVolumeReplicaCount cl ip uid w) = Done (Inr 0)) \<longrightarrow>
      fst (waitForVolumeStatus fuel cl ip uid st w) = Unfinished)"
proof (intro conjI impI)
  assume reps: "\<forall>w r. fst (GetVolumeReplicaCount cl ip uid w) = Done (Inr r) \<longrightarrow> 0 < r"
  let ?body = "volume_status_round cl ip uid st"
  have "\<exists>c w'. loop k (101 - k) () ?body w = (Done c, w')" if "0 < k" "k \<le> 101" for k w
    using that
  proof (induction k arbitrary: w)
    case (Suc k)
    obtain c w1 where b: "?body (101 - Suc k) () w = (Done c, w1)"
      using returning_status_round by (rule returningE)
    show ?case
    proof (cases c)
      case (Continue v)
      have "k \<noteq> 0"
      proof
        assume "k = 0"
        with b Continue have "?body 100 () w = (Done (Continue v), w1)" by simp
        then show False using status_round_last [of cl ip uid st "()" w v w1] reps by blast
      qed
      moreover have "Suc (101 - Suc k) = 101 - k" using Suc.prems by simp
      ultimately show ?thesis
        using Suc.prems Suc.IH [of w1] b Continue by (simp only: loop.simps) (simp add: seq_def)
    qed (use b in \<open>simp_all add: seq_def\<close>)
  qed simp
  from this [of 101 w] obtain c w' where "loop 101 0 () ?body w = (Done c, w')" by auto
  then show "\<exists>r w'. waitForVolumeStatus 101 cl ip uid st w = (Done r, w')"
    by (cases c) (simp_all add: waitForVolumeStatus_def after_def seq_def)
next
  assume none: "\<forall>w. fst (GetVolumeReplicaCount cl ip uid w) = Done (Inr 0)"
  have round: "\<exists>w'. volume_status_round cl ip uid st i () w = (Done (Continue ()), w')" for i w
  proof -
    obtain w' where "GetVolumeReplicaCount cl ip uid w = (Done (Inr 0), w')"
      using none by (metis prod.collapse)
    then show ?thesis by (simp add: volume_status_round_def seq_Done sleeps_def sleep_secs_def seq_apply)
  qed
  have "fst (loop fuel i () (volume_status_round cl ip uid st) w) = Unfinished" for i w
  proof (induction fuel arbitrary: i w)
    case (Suc fuel)
    with round [of i w] show ?case by (auto simp: seq_def)
  qed simp
  from this [of 0 w] obtain w' where "loop fuel 0 () (volume_status_round cl ip uid st) w = (Unfinished, w')"
    by (cases "loop fuel 0 () (volume_status_round cl ip uid st) w") auto
  then show "fst (waitForVolumeStatus fuel cl ip uid st w) = Unfinished"
    by (simp add: waitForVolumeStatus_def after_def seq_def)
qed

theorem volume_wait_witness:
  "\<exists>r w'. waitForVolumeStatus 101 (small_cluster ''online'' ''Degraded'' '''') ''10.0.0.1'' ''v1'' ''Online'' 0 = (Done r, w')"
proof -
  let ?cl = "small_cluster ''online'' ''Degraded'' ''''"
  have "fst (GetVolumeReplicaCount ?cl ''10.0.0.1'' ''v1'' w) = Done (Inr 1)" for w
    by (simp add: small_cluster_def GetVolumeReplicaCount_def mcp_sendRequest_def small_volume_def io_simps)
  with volume_wait [of ?cl "''10.0.0.1''" "''v1''" "''Online''" 0] show ?thesis by auto
qed

definition seen_running :: "'w cluster \<Rightarrow> device_descriptor \<Rightarrow> bool" where
  "seen_running cl d \<longleftrightarrow>
     (\<exists>w. TrimRight (fst (fst (AgentExec cl (dd_node d) (''cat /sys/block/'' @ dd_device d @ ''/device/state'') w))) newline = ''running'')"

lemma checkDeviceState_ok:
  assumes "checkDeviceState cl (dd_node d) (dd_device d) ''running'' w = (Done (Inr ()), w')"
  shows "seen_running cl d"
proof -
  from assms have "TrimRight (fst (fst (AgentExec cl (dd_node d) (''cat /sys/block/'' @ dd_device d @ ''/device/state'') w))) newline = ''running''"
    by (simp add: checkDeviceState_def seq_apply call_apply Let_def split_beta split: if_splits)
  then show ?thesis unfolding seen_running_def by (rule exI [of _ w])
qed

lemma onlineDevice_running: "onlineDevice cl (dd_node d) (dd_device d) w = (Done (Inr ()), w') \<Longrightarrow> seen_running cl d"
  unfolding onlineDevice_def by (erule check_DoneE, simp, erule check_DoneE, simp, simp add: checkDeviceState_ok)

lemma restoreDevices_drop:
  "restoreDevices cl devs w = (Done (devs', err), w') \<Longrightarrow>
     \<exists>k. devs' = drop k devs \<and> (err = None \<longrightarrow> devs' = []) \<and> list_all (seen_running cl) (take k devs)"
proof (induction devs arbitrary: w)
  case Nil
  then show ?case by simp
next
  case (Cons d devs)
  from Cons.prems obtain r w1 where r: "onlineDevice cl (dd_node d) (dd_device d) w = (Done r, w1)"
    and rest: "(case r of Inl err \<Rightarrow> ret (d # devs, Some err) | Inr _ \<Rightarrow> restoreDevices cl devs) w1 = (Done (devs', err), w')"
    by (auto elim: seq_DoneE)
  show ?case
  proof (cases r)
    case (Inl e)
    with rest show ?thesis by (auto intro!: exI [of _ 0])
  next
    case (Inr u)
    with rest have "restoreDevices cl devs w1 = (Done (devs', err), w')" by simp
    from Cons.IH [OF this] obtain k where "devs' = drop k devs" "err = None \<longrightarrow> devs' = []"
      "list_all (seen_running cl) (take k devs)" by (elim exE conjE)
    with onlineDevice_running [of cl d w w1] r Inr show ?thesis
      by (intro exI [of _ "Suc k"]) simp
  qed
qed

lemma pool_device_disk:
  assumes "pool_device pool locs = Inr (ip, dev)"
  shows "msp_Disks pool = [''/dev/'' @ dev]"
proof -
  from assms obtain disk where disk: "msp_Disks pool = [disk]" "HasPrefix disk ''/dev/''" "dev = drop 5 disk"
    by (auto simp: pool_device_def split: option.splits list.splits if_splits)
  then have "take 5 disk = ''/dev/''" by (simp add: HasPrefix_def numeral_eq_Suc)
  with disk show ?thesis using append_take_drop_id [of 5 disk] by simp
qed

lemma offlineDevice_list:
  assumes "offlineDevice cl idx nodecount devs w = (Done (devs1, err1), w1)"
  shows "if err1 = None then \<exists>(pool :: msp) d. msp_Disks pool = [''/dev/'' @ dd_device d] \<and> devs1 = devs @ [d] else devs1 = devs"
proof (cases err1)
  case None
  with assms obtain pool locs ip dev where "pool_device pool locs = Inr (ip, dev)" and "devs1 = devs @ [\<lparr>dd_node = ip, dd_device = dev\<rparr>]"
    unfolding offlineDevice_def by (auto elim!: seq_DoneE split: sum.splits if_splits prod.splits)
  with None show ?thesis by (auto dest!: pool_device_disk intro!: exI [of _ pool])
next
  case (Some e)
  with assms show ?thesis
    unfolding offlineDevice_def by (auto elim!: seq_DoneE split: sum.splits if_splits prod.splits)
qed

text \<open>
  Property C23. No device is lost from the list of devices to restore: \<^verbatim>\<open>offlineDevice\<close> appends the device on success, which is a disk of the chosen pool, and leaves the
  list alone on an error (also when the device went offline and only its state could not be read back). \<^verbatim>\<open>restoreDevices\<close> drops devices from the front, each of which the agent has
  said to be running, and none is left when it reports no error.
\<close>

theorem devices_not_lost:
  assumes "offlineDevice cl idx nodecount devs w = (Done (devs1, err1), w1)"
    and "restoreDevices cl devs1 w2 = (Done (devs2, err2), w3)"
  shows "(if err1 = None then \<exists>(pool :: msp) d. msp_Disks pool = [''/dev/'' @ dd_device d] \<and> devs1 = devs @ [d] else devs1 = devs) \<and>
    (\<exists>k. devs2 = drop k devs1 \<and> (err2 = None \<longrightarrow> devs2 = []) \<and> list_all (seen_running cl) (take k devs1))"
  using offlineDevice_list [OF assms(1)] restoreDevices_drop [OF assms(2)] by blast

text \<open>A cluster whose world says whether the device is offline.\<close>

definition device_cluster :: "nat cluster" where
  "device_cluster = (small_cluster ''online'' ''Online'' '''')
     \<lparr>AgentControlDevice := \<lambda>ip d st w. (Inr ''ok'', if st = ''offline'' then 1 else 0),
      AgentExec := \<lambda>ip c w. (((if w = 1 then ''offline'' else ''running'') @ [newline], None), w)\<rparr>"

theorem devices_not_lost_witness:
  "\<exists>d k. offlineDevice device_cluster 0 1 [] 0 = (Done ([d], None), 1) \<and>
     restoreDevices device_cluster [d] 1 = (Done (drop k [d], None), 0) \<and> drop k [d] = [] \<and> list_all (seen_running device_cluster) (take k [d])"
proof -
  let ?d = "\<lparr>dd_node = ''10.0.0.1'', dd_device = ''sdb''\<rparr>"
  have 1: "offlineDevice device_cluster 0 1 [] 0 = (Done ([?d], None), 1)" by code_simp
  have 2: "restoreDevices device_cluster [?d] 1 = (Done ([], None), 0)" by code_simp
  from devices_not_lost [OF 1 2] 1 2 show ?thesis by auto
qed

end
