(* ===== verification/Director_Service.thy ===== *)
theory Director_Service
  imports Director_Properties Conductor_Common
begin

text \<open>
  The test conductor and the test director together. The locale \<open>run_reports\<close> says what the
  conductor relies on when it reports a run: what its client of the test director does to the
  statuses of the runs. It is interpreted on the handlers of \<^verbatim>\<open>test_director/handlers\<close>, so what
  is proved in it holds for the two programs of the model connected to each other.
\<close>

locale run_reports =
  fixes td :: "'s td_api" and ok :: "'s \<Rightarrow> bool" and status :: "'s \<Rightarrow> string \<Rightarrow> test_run_status option"
  assumes put_ok: "ok s \<Longrightarrow> PutTestRunByID td i spec s = (r, s') \<Longrightarrow> ok s' \<and> status s' =
      (if isl r then status s
       else (status s)(i \<mapsto> (case status s i of None \<Rightarrow> TestRunTODO | Some st \<Rightarrow> run_status_next st (trs_Status spec))))"
    and get_ok: "ok s \<Longrightarrow> status s i = Some st \<Longrightarrow> \<exists>run. GetTestRunByID td i s = (Inr run, s) \<and> tr_Status run = st"
    and event_ok: "ok s \<Longrightarrow> AddEvent td es s = (er, s') \<Longrightarrow> ok s' \<and> status s' = status s"
    and time_ok: "ok s \<Longrightarrow> TimeText td s = (t, s') \<Longrightarrow> ok s' \<and> status s' = status s"
begin

text \<open>Events change no status.\<close>

lemma event_keeps: "keeping (\<lambda>s. ok s \<and> status s = st) (SendEvent td inst message cls src)"
proof -
  have "keeping (\<lambda>s. ok s \<and> status s = st) (call (AddEvent td spec))" "keeping (\<lambda>s. ok s \<and> status s = st) (call (TimeText td))" for spec
    using event_ok [OF _ surjective_pairing] time_ok [OF _ surjective_pairing] by (simp_all add: keeping_def call_apply)
  then show ?thesis
    unfolding SendEvent_def getTime_def Let_def by (intro keeps)
qed

lemma tc_event_keeps:
  assumes "TestDirectorClient tc = td"
  shows "keeping (\<lambda>s. ok s \<and> status s = st) (tc_SendEvent tc cls message)"
  unfolding tc_SendEvent_def by (intro keeps) (simp add: assms event_keeps)

lemma tc_event_outcome:
  "TestDirectorClient tc = td \<Longrightarrow> ok s \<Longrightarrow> tc_SendEvent tc cls message s = (x, s') \<Longrightarrow> ok s' \<and> status s' = status s"
  by (rule keeping_outcome [OF tc_event_keeps [where st = "status s"]]) simp_all

text \<open>A status that has been accepted moves the run along its life cycle.\<close>

lemma sent_status:
  assumes "ok s" and "sendTestRunStatus td uid message key new s = (Done (Inr ()), s')"
  shows "ok s' \<and> status s' = (status s)(uid \<mapsto> (case status s uid of None \<Rightarrow> TestRunTODO | Some st \<Rightarrow> run_status_next st new))"
proof -
  have "wp (sendTestRunStatus td uid message key new) (\<lambda>r s'. r = Inr () \<longrightarrow> ok s' \<and>
      status s' = (status s)(uid \<mapsto> (case status s uid of None \<Rightarrow> TestRunTODO | Some st \<Rightarrow> run_status_next st new))) (\<lambda>_. True) s"
    using put_ok [OF _ surjective_pairing] time_ok [OF assms(1) surjective_pairing]
    by (auto simp: sendTestRunStatus_def getTime_def Let_def wps split: sum.split option.split)
  with assms(2) show ?thesis by (auto dest: wp_Done)
qed

text \<open>The reports that open a run and close it.\<close>

lemma opened_status:
  assumes "ok s" and "TestDirectorClient tc = td" and "cf_SendXrayTest (Config tc) = 1" and "status s (TestRunId tc) = None"
    and "tc_SendTestRunToDo tc s = (Done (Inr ()), s1)" and "tc_SendTestRunStarted tc s1 = (Done (Inr ()), s2)"
  shows "ok s2 \<and> status s2 (TestRunId tc) = Some TestRunEXECUTING"
proof -
  from assms(5) obtain t where t: "sendTestRunStatus td (TestRunId tc) (testDescription tc @ '' Test run: preparing'') (cf_XrayTestID (Config tc)) TestRunTODO s = (Done (Inr ()), t)"
    and t1: "SendEventTestPreparing tc t = (Done (Inr ()), s1)"
    by (auto simp: tc_SendTestRunToDo_def check_def assms(2,3) SendTestRunToDo_def elim!: seq_DoneE split: sum.splits)
  from assms(6) obtain u where u: "sendTestRunStatus td (TestRunId tc) (testDescription tc @ '' Test run: started'') (cf_XrayTestID (Config tc)) TestRunEXECUTING s1 = (Done (Inr ()), u)"
    and u1: "SendEventTestStarted tc u = (Done (Inr ()), s2)"
    by (auto simp: tc_SendTestRunStarted_def check_def assms(2,3) SendTestRunStarted_def elim!: seq_DoneE split: sum.splits)
  from sent_status [OF assms(1) t] assms(4) have "ok t \<and> status t (TestRunId tc) = Some TestRunTODO" by simp
  with tc_event_outcome [OF assms(2) _ t1 [unfolded SendEventTestPreparing_def]]
  have "ok s1 \<and> status s1 (TestRunId tc) = Some TestRunTODO" by simp
  with sent_status [OF _ u] have "ok u \<and> status u (TestRunId tc) = Some TestRunEXECUTING"
    by (simp add: run_status_next_def)
  with tc_event_outcome [OF assms(2) _ u1 [unfolded SendEventTestStarted_def]] show ?thesis by simp
qed

lemma longer_error: "Errorf (a @ b @ c @ err_text e) \<noteq> e" if "c \<noteq> []"
proof
  assume "Errorf (a @ b @ c @ err_text e) = e"
  then have "length (err_text e) = length (a @ b @ c @ err_text e)" by (metis err_text.simps(1) Errorf_def)
  with that show False by simp
qed

lemma finished_status:
  assumes "ok s" and "TestDirectorClient tc = td" and "cf_SendXrayTest (Config tc) = 1"
    and "finish_run tc test_err s = (Done test_err, s')" and "status s (TestRunId tc) = Some TestRunEXECUTING"
  shows "ok s' \<and> status s' (TestRunId tc) = Some (if test_err = None then TestRunPASSED else TestRunFAILED)"
proof (cases test_err)
  case None
  with assms(2-4) have "sendTestRunStatus td (TestRunId tc) (testDescription tc @ '' Test run: finished'') (cf_XrayTestID (Config tc)) TestRunPASSED s
      = (Done (Inr ()), s')"
    by (auto simp: finish_run_def SendTestRunCompletedOk_def elim!: seq_DoneE split: sum.splits)
  from sent_status [OF assms(1) this] assms(5) None show ?thesis by (simp add: run_status_next_def)
next
  case (Some e)
  with assms(2-4) have "sendTestRunStatus td (TestRunId tc) (err_text e) (cf_XrayTestID (Config tc)) TestRunFAILED s = (Done (Inr ()), s')"
    using longer_error [of "''test outcome: ''" "''failed to set test run to failed, error: ''" _ e]
    by (auto simp: finish_run_def SendTestRunCompletedFail_def elim!: seq_DoneE split: sum.splits)
  from sent_status [OF assms(1) this] assms(5) Some show ?thesis by (simp add: run_status_next_def)
qed

lemma run_outcome:
  assumes "ok s" and "TestDirectorClient tc = td" and "cf_SendXrayTest (Config tc) = 1"
    and "status s (TestRunId tc) = Some TestRunEXECUTING"
    and "finish_run tc test_err s = (Done test_err, s1)" and "finish_event tc test_err s1 = (Done test_err, s2)"
  shows "tc_SendTestRunFinished tc test_err s = (Exited (if test_err = None then 0 else 1), s2) \<and>
    status s2 (TestRunId tc) = Some (if test_err = None then TestRunPASSED else TestRunFAILED)"
proof -
  let ?st = "if test_err = None then TestRunPASSED else TestRunFAILED"
  have s1: "ok s1 \<and> status s1 (TestRunId tc) = Some ?st"
    by (rule finished_status [OF assms(1-3,5,4)])
  have "keeping (\<lambda>s. ok s \<and> status s = status s1) (finish_event tc test_err)"
    unfolding finish_event_def SendEventTestCompletedOk_def SendEventTestFail_def
    by (intro keeps tc_event_keeps assms(2))
  from keeping_outcome [OF this _ assms(6)] s1 have s2: "ok s2" "status s2 (TestRunId tc) = Some ?st"
    by simp_all
  with get_ok obtain run where "GetTestRunByID td (TestRunId tc) s2 = (Inr run, s2)" and "tr_Status run = ?st" by blast
  then have "GetTestOutcome tc test_err s2 = (Done (if test_err = None then 0 else 1), s2)"
    by (simp add: GetTestOutcome_def GetTestRunStatus_def assms(2,3) Let_def seq_apply call_apply)
  with assms(5,6) s2 show ?thesis
    by (simp add: tc_SendTestRunFinished_def seq_Done os_Exit_def)
qed

end

section \<open>The handlers of the test director as that service\<close>

text \<open>
  The client of the test director when the handlers answer. \<open>clock\<close> writes the time of the
  conductor, and \<open>wait\<close> lets time pass; both act on the world outside the director only.
\<close>

definition director_client ::
    "('c, 'b, 'w) env \<Rightarrow> ('w \<Rightarrow> string \<times> 'w) \<Rightarrow> (nat \<Rightarrow> 'w \<Rightarrow> 'w) \<Rightarrow> ('c, 'w) director td_api" where
  "director_client E clock wait =
     \<lparr>PutTestRunByID = \<lambda>i spec. answer (PutTestRun_Handle E i spec), GetTestRunByID = \<lambda>i. answer (GetTestRunByID_Handle E i),
      AddEvent = \<lambda>spec. answer (AddEvent_Handle E spec), GetTestPlans = answer (GetTestPlans_Handle E),
      TimeText = \<lambda>s. (case clock (net s) of (t, w) \<Rightarrow> (t, s\<lparr>net := w\<rparr>)), TdSleep = \<lambda>n s. s\<lparr>net := wait n (net s)\<rparr>\<rparr>"

definition run_statuses :: "('c, 'b, 'w) env \<Rightarrow> ('c, 'w) director \<Rightarrow> string \<Rightarrow> test_run_status option" where
  "run_statuses E s i = map_option tr_Status (runs_of E s i)"

lemma run_statuses_net [simp]: "run_statuses E (s\<lparr>net := w\<rparr>) = run_statuses E s"
  by (simp add: run_statuses_def fun_eq_iff)

lemma answer_put_run:
  assumes "env_ok E" and "director_ok E s" and "answer (PutTestRun_Handle E i spec) s = (r, s')"
  shows "director_ok E s' \<and> run_statuses E s' = (if isl r then run_statuses E s
    else (run_statuses E s)(i \<mapsto> (case run_statuses E s i of None \<Rightarrow> TestRunTODO | Some st \<Rightarrow> run_status_next st (trs_Status spec))))"
  using wp_PutTestRun [OF assms(1,2), of i spec] assms(3)
  by (auto simp: wp_def answer_def run_stored_def unchanged_def run_statuses_def fun_eq_iff
      split: prod.splits outcome.splits response.splits option.splits)

lemma runs_noted_status: "map_option tr_Status (runs_noted spec runs i) = map_option tr_Status (runs i)"
  by (auto simp: runs_noted_def option.map_comp o_def split: option.split)

lemma answer_event:
  assumes "env_ok E" and "director_ok E s" and "answer (AddEvent_Handle E spec) s = (r, s')"
  shows "director_ok E s' \<and> run_statuses E s' = run_statuses E s"
proof -
  have "event_mid E spec s s'"
    using wp_AddEvent [OF assms(1,2), of spec] assms(3)
    by (auto simp: wp_def answer_def event_done_def split: prod.splits outcome.splits response.splits)
  then show ?thesis
    by (auto simp: event_mid_def run_statuses_def runs_noted_status fun_eq_iff)
qed

interpretation director: run_reports "director_client E clock wait" "\<lambda>s. env_ok E \<and> director_ok E s" "run_statuses E"
proof (unfold_locales, goal_cases)
  case (1 s i spec r s')
  then show ?case using answer_put_run [of E s i spec r s'] by (simp add: director_client_def)
next
  case (2 s i st)
  then show ?case
    by (auto simp: director_client_def answer_def GetTestRunByID_Handle_def run_Get_def on_runs_def zoom_apply seq_apply
        run_statuses_def runs_of_def run_map_def)
next
  case (3 s es er s')
  then show ?case using answer_event [of E s es er s'] by (simp add: director_client_def)
next
  case (4 s t s')
  then show ?case by (auto simp: director_client_def split: prod.splits)
qed

section \<open>The two programs together\<close>

lemma failure_events_keep:
  assumes "(\<lambda>s s'. \<exists>msg r. SendEventTestFail tc msg s = (r, s'))\<^sup>*\<^sup>* s s'"
    and "TestDirectorClient tc = director_client E clock wait" and "env_ok E" and "director_ok E s"
  shows "director_ok E s' \<and> run_statuses E s' = run_statuses E s"
  using assms(1)
proof (induction rule: rtranclp_induct)
  case base
  then show ?case using assms(4) by simp
next
  case (step t u)
  from step(2) obtain msg r where "tc_SendEvent tc EventFAIL (''Event: test failure: '' @ msg) t = (r, u)"
    by (auto simp: SendEventTestFail_def)
  from director.tc_event_outcome [OF assms(2) _ this] step(3) assms(3) show ?case by simp
qed

text \<open>
  Property C4. The life of a run, seen from both programs: when the conductor prepares and
  starts a run that the test director does not know yet, and its reports are accepted, the run ends
  as passed and the conductor exits with 0 if the test returned no error, and as failed with 1 if it
  did. Events with which failures were reported in between make no difference.
\<close>

theorem run_outcome_ignores_events:
  assumes "env_ok E" and "director_ok E s0" and "TestDirectorClient tc = director_client E clock wait"
    and "cf_SendXrayTest (Config tc) = 1" and "runs_of E s0 (TestRunId tc) = None"
    and "tc_SendTestRunToDo tc s0 = (Done (Inr ()), s1)" and "tc_SendTestRunStarted tc s1 = (Done (Inr ()), s2)"
    and "(\<lambda>s s'. \<exists>msg r. SendEventTestFail tc msg s = (r, s'))\<^sup>*\<^sup>* s2 s3"
    and "finish_run tc test_err s3 = (Done test_err, s4)" and "finish_event tc test_err s4 = (Done test_err, s5)"
  shows "tc_SendTestRunFinished tc test_err s3 = (Exited (if test_err = None then 0 else 1), s5) \<and>
    map_option tr_Status (runs_of E s5 (TestRunId tc)) = Some (if test_err = None then TestRunPASSED else TestRunFAILED)"
proof -
  have "run_statuses E s0 (TestRunId tc) = None"
    using assms(5) by (simp add: run_statuses_def)
  with director.opened_status [OF _ assms(3,4) _ assms(6,7)] assms(1,2)
  have s2: "director_ok E s2" "run_statuses E s2 (TestRunId tc) = Some TestRunEXECUTING" by simp_all
  from failure_events_keep [OF assms(8,3,1) s2(1)] s2(2)
  have "director_ok E s3" "run_statuses E s3 (TestRunId tc) = Some TestRunEXECUTING" by simp_all
  with director.run_outcome [OF _ assms(3,4) _ assms(9,10)] assms(1) show ?thesis
    by (simp add: run_statuses_def)
qed

definition demo_conductor :: "((string \<times> stored) list, http_request list) director cluster \<Rightarrow>
    ((string \<times> stored) list, http_request list) director conductor" where
  "demo_conductor cl = \<lparr>Kube = cl, TestDirectorClient = director_client demo_env (\<lambda>w. (''now'', w)) (\<lambda>n w. w),
     WorkloadMonitorClient = \<lparr>WmPutWorkload = \<lambda>r w sp s. (Inl (Error ''no''), s), WmDeleteWorkload = \<lambda>r w s. (Inl (Error ''no''), s),
       WmDeleteWorkloads = \<lambda>r s. (Inl (Error ''no''), s)\<rparr>,
     Config = small_config, TestRunId = ''r7'', tc_NodeName = ''node1''\<rparr>"

lemma demo_conductor_reports:
  "\<exists>s1 s2 s3 s4 s5. tc_SendTestRunToDo (demo_conductor cl) demo_start = (Done (Inr ()), s1) \<and>
     tc_SendTestRunStarted (demo_conductor cl) s1 = (Done (Inr ()), s2) \<and>
     SendEventTestFail (demo_conductor cl) ''bad'' s2 = (Done (Inr ()), s3) \<and>
     finish_run (demo_conductor cl) None s3 = (Done None, s4) \<and> finish_event (demo_conductor cl) None s4 = (Done None, s5)"
proof -
  let ?ran = "\<lambda>p. case p of (Done x, _) \<Rightarrow> Some x | _ \<Rightarrow> None"
  have "?ran (seq (tc_SendTestRunToDo (demo_conductor cl)) (\<lambda>a. seq (tc_SendTestRunStarted (demo_conductor cl)) (\<lambda>b.
     seq (SendEventTestFail (demo_conductor cl) ''bad'') (\<lambda>c. seq (finish_run (demo_conductor cl) None) (\<lambda>d.
     seq (finish_event (demo_conductor cl) None) (\<lambda>e. ret (a, b, c, d, e)))))) demo_start) = Some (Inr (), Inr (), Inr (), None, None)"
    by code_simp
  then show ?thesis
    by (auto simp: seq_def split: prod.splits outcome.splits)
qed

theorem run_outcome_ignores_events_witness:
  "\<forall>cl. \<exists>s2 s3 s5. SendEventTestFail (demo_conductor cl) ''bad'' s2 = (Done (Inr ()), s3) \<and>
     tc_SendTestRunFinished (demo_conductor cl) None s3 = (Exited 0, s5) \<and>
     map_option tr_Status (runs_of demo_env s5 ''r7'') = Some TestRunPASSED"
proof
  fix cl
  obtain s1 s2 s3 s4 s5 where s: "tc_SendTestRunToDo (demo_conductor cl) demo_start = (Done (Inr ()), s1)"
    "tc_SendTestRunStarted (demo_conductor cl) s1 = (Done (Inr ()), s2)"
    "SendEventTestFail (demo_conductor cl) ''bad'' s2 = (Done (Inr ()), s3)"
    "finish_run (demo_conductor cl) None s3 = (Done None, s4)" "finish_event (demo_conductor cl) None s4 = (Done None, s5)"
    using demo_conductor_reports [of cl] by blast
  have tc: "TestDirectorClient (demo_conductor cl) = director_client demo_env (\<lambda>w. (''now'', w)) (\<lambda>n w. w)"
    "cf_SendXrayTest (Config (demo_conductor cl)) = 1" "TestRunId (demo_conductor cl) = ''r7''"
    by (simp_all add: demo_conductor_def small_config_def)
  have "runs_of demo_env demo_start ''r7'' = None" by code_simp
  moreover have "(\<lambda>s s'. \<exists>msg r. SendEventTestFail (demo_conductor cl) msg s = (r, s'))\<^sup>*\<^sup>* s2 s3"
    using s(3) by blast
  ultimately show "\<exists>s2 s3 s5. SendEventTestFail (demo_conductor cl) ''bad'' s2 = (Done (Inr ()), s3) \<and>
     tc_SendTestRunFinished (demo_conductor cl) None s3 = (Exited 0, s5) \<and>
     map_option tr_Status (runs_of demo_env s5 ''r7'') = Some TestRunPASSED"
    using run_outcome_ignores_events [OF demo_env_ok demo_ok(1) tc(1,2) _ s(1,2) _ s(4,5)] s(3) tc(3) by auto
qed

end
