(* ===== verification/Workload_Monitor.thy ===== *)
theory Workload_Monitor
  imports Workload_Handlers Director_Client
begin

text \<open>
  \<^verbatim>\<open>workload_monitor/wm/workload_monitor.go\<close>: the polling loop that looks for violations
  of the registered workloads and reports them to the test director, the signal handler,
  and the monitor as a whole: REST requests and polls, in any order, on one registry.
\<close>

section \<open>One poll\<close>

text \<open>
  \<^verbatim>\<open>for _, wli := range list\<close> copies each item, so a check works on a copy of the item
  and returns it: the restart check writes the new count into the copy as well as into the
  registry. The three checks are the three cases of the switch.
\<close>

definition restart_count :: "pod \<Rightarrow> 32 word" where
  "restart_count p = foldl (+) 0 (pod_RestartCounts p)"

definition notify :: "'w td_api \<Rightarrow> workload_item \<Rightarrow> string \<Rightarrow> ('w wm, unit result) io" where
  "notify td wli message = on_world (SendEventFail td (wli_Rid wli) message SourceWorkloadMonitor)"

definition check_restarted :: "'w pod_api \<Rightarrow> 'w td_api \<Rightarrow> workload_item \<Rightarrow> ('w wm, workload_item) io" where
  "check_restarted api td wli =
     seq (on_world (GetPodByUuid api (wl_ID (wli_Wl wli)))) (\<lambda>(pod, present, err).
     if present then
       seq (deref pod) (\<lambda>p.
       let restartcount = restart_count p in
       if restartcount \<noteq> wli_Restarts wli then
         let wli' = wli\<lparr>wli_Restarts := restartcount\<rparr>;
             message = ''pod '' @ wl_Name (wli_Wl wli) @ '' restarted '' @ Itoa (sint restartcount) @ '' time(s)''
         in seq (notify td wli' message) (\<lambda>_.
            seq (on_list (SetWorkloadListItemRestarts (wli_Rid wli) (wl_ID (wli_Wl wli)) restartcount)) (\<lambda>_.
            ret wli'))
       else ret wli)
     else ret wli)"

definition report_and_delete :: "'w td_api \<Rightarrow> workload_item \<Rightarrow> string \<Rightarrow> ('w wm, workload_item) io" where
  "report_and_delete td wli message =
     seq (notify td wli message) (\<lambda>r. case r of
       Inl err \<Rightarrow> ret wli
     | Inr _ \<Rightarrow> seq (on_list (\<lambda>m. ((), DeleteWorkloadById (wl_ID (wli_Wl wli)) m))) (\<lambda>_. ret wli))"

definition check_terminated :: "'w pod_api \<Rightarrow> 'w td_api \<Rightarrow> workload_item \<Rightarrow> ('w wm, workload_item) io" where
  "check_terminated api td wli =
     seq (on_world (GetPodStatus api (wl_ID (wli_Wl wli)))) (\<lambda>(podstatus, present, err).
     if present \<and> podstatus = PodFailed
     then report_and_delete td wli (''pod '' @ wl_Name (wli_Wl wli) @ '' terminated'')
     else ret wli)"

definition check_notpresent :: "'w pod_api \<Rightarrow> 'w td_api \<Rightarrow> workload_item \<Rightarrow> ('w wm, workload_item) io" where
  "check_notpresent api td wli =
     seq (on_world (GetPodExistsByUuid api (wl_ID (wli_Wl wli)))) (\<lambda>(present, err).
     if \<not> present
     then report_and_delete td wli (''pod '' @ wl_Name (wli_Wl wli) @ '' absent'')
     else ret wli)"

primrec check_violation ::
    "violation \<Rightarrow> 'w pod_api \<Rightarrow> 'w td_api \<Rightarrow> workload_item \<Rightarrow> ('w wm, workload_item) io" where
  "check_violation RESTARTED = check_restarted"
| "check_violation TERMINATED = check_terminated"
| "check_violation NOTPRESENT = check_notpresent"

fun check_violations ::
    "violation list \<Rightarrow> 'w pod_api \<Rightarrow> 'w td_api \<Rightarrow> workload_item \<Rightarrow> ('w wm, workload_item) io" where
  "check_violations [] api td wli = ret wli"
| "check_violations (v # vs) api td wli =
     seq (check_violation v api td wli) (\<lambda>wli'. check_violations vs api td wli')"

fun check_items :: "workload_item list \<Rightarrow> 'w pod_api \<Rightarrow> 'w td_api \<Rightarrow> ('w wm, unit) io" where
  "check_items [] api td = ret ()"
| "check_items (wli # wlis) api td =
     seq (check_violations (ws_Violations (wl_Spec (wli_Wl wli))) api td wli) (\<lambda>_. check_items wlis api td)"

definition poll ::
    "(workload_map \<Rightarrow> (uuid \<times> (uuid, workload_item) gomap) list)
     \<Rightarrow> ((uuid, workload_item) gomap \<Rightarrow> (uuid \<times> workload_item) list)
     \<Rightarrow> 'w pod_api \<Rightarrow> 'w td_api \<Rightarrow> ('w wm, unit) io" where
  "poll ordo ordi api td =
     seq (on_world (sleep_secs api 10)) (\<lambda>_.
     seq (gets (\<lambda>s. GetWorkloadItemList ordo ordi (wm_list s))) (\<lambda>list. check_items list api td))"

text \<open>
  The signal goroutine and \<^verbatim>\<open>WaitSignal\<close>: \<^verbatim>\<open>SIGTERM\<close> is a normal end; for any other signal
  the registrant is read through the pointer \<^verbatim>\<open>current_registrant\<close>. Its only assignment in
  the sources is its initial value, nil.
\<close>

datatype signal = SIGHUP | SIGINT | SIGTERM | SIGQUIT

definition exit_code :: "signal \<Rightarrow> int" where
  "exit_code sig = (case sig of SIGTERM \<Rightarrow> 0 | _ \<Rightarrow> 1)"

definition WaitSignal :: "'w td_api \<Rightarrow> uuid option \<Rightarrow> signal \<Rightarrow> ('w, unit) io" where
  "WaitSignal td current_registrant sig =
     (if exit_code sig \<noteq> 0 then
        seq (deref current_registrant) (\<lambda>rid.
        seq (SendEventFail td rid ''workload monitor terminated'' SourceWorkloadMonitor) (\<lambda>_. ret ()))
      else ret ())"

section \<open>Requests and polls\<close>

text \<open>
  The monitor runs the REST server and the polling loop concurrently. A poll holds the
  mutex from before it lists the items until after the last check, and a handler holds it
  around its use of the registry, so the monitor is a sequence of steps: a request, a poll,
  or a change of the world outside.
\<close>

inductive wm_step :: "'w pod_api \<Rightarrow> 'w td_api \<Rightarrow> 'w wm \<Rightarrow> 'w wm \<Rightarrow> bool"
  for api :: "'w pod_api" and td :: "'w td_api" where
  step_put: "wm_step api td s (snd (PutWorkloadByRegistrant api body rid wid s))"
| step_get: "wm_step api td s (snd (GetWorkloadByRegistrant rid wid s))"
| step_delete: "wm_step api td s (snd (DeleteWorkloadByRegistrant rid wid s))"
| step_delete_all: "wm_step api td s (snd (DeleteWorkloadsByRegistrant rid s))"
| step_poll: "enumerates ordo \<Longrightarrow> enumerates ordi \<Longrightarrow> wm_step api td s (snd (poll ordo ordi api td s))"
| step_world: "wm_step api td s (s\<lparr>wm_world := w\<rparr>)"

inductive wm_reachable :: "'w pod_api \<Rightarrow> 'w td_api \<Rightarrow> 'w wm \<Rightarrow> bool"
  for api :: "'w pod_api" and td :: "'w td_api" where
  start: "wm_reachable api td \<lparr>wm_list = [], wm_world = w\<rparr>"
| step: "wm_reachable api td s \<Longrightarrow> wm_step api td s t \<Longrightarrow> wm_reachable api td t"

section \<open>The registry invariant\<close>

lemma keeping_poll_parts:
  assumes set: "\<And>m r w n. P m \<Longrightarrow> P (snd (SetWorkloadListItemRestarts r w n m))"
    and del: "\<And>m i. P m \<Longrightarrow> P (DeleteWorkloadById i m)"
  shows "keeping (\<lambda>s. P (wm_list s)) (check_violation v api td wli)"
    and "keeping (\<lambda>s. P (wm_list s)) (check_violations vs api td wli)"
    and "keeping (\<lambda>s. P (wm_list s)) (check_items wlis api td)"
    and "keeping (\<lambda>s. P (wm_list s)) (poll ordo ordi api td)"
proof -
  have s: "keeping (\<lambda>s. P (wm_list s)) (on_list (SetWorkloadListItemRestarts r w n))" for r w n
    by (rule keeping_on_list) (rule set)
  have d: "keeping (\<lambda>s. P (wm_list s)) (on_list (\<lambda>m. ((), DeleteWorkloadById i m)))" for i
    by (rule keeping_on_list) (simp add: del)
  have rd: "keeping (\<lambda>s. P (wm_list s)) (report_and_delete td wli msg)" for wli msg
    unfolding report_and_delete_def notify_def by (intro keeps d)
  show v: "keeping (\<lambda>s. P (wm_list s)) (check_violation v api td wli)" for v wli
    by (cases v) (auto simp: check_restarted_def check_terminated_def check_notpresent_def notify_def Let_def
        intro!: keeps s rd)
  show vs: "keeping (\<lambda>s. P (wm_list s)) (check_violations vs api td wli)" for vs wli
    by (induction vs arbitrary: wli) (auto intro!: keeps v)
  show items: "keeping (\<lambda>s. P (wm_list s)) (check_items wlis api td)" for wlis
    by (induction wlis) (auto intro!: keeps vs)
  show "keeping (\<lambda>s. P (wm_list s)) (poll ordo ordi api td)"
    unfolding poll_def by (intro keeps items)
qed

lemma wm_step_inv: "wm_step api td s t \<Longrightarrow> wl_inv (wm_list s) \<Longrightarrow> wl_inv (wm_list t)"
proof (induction rule: wm_step.induct)
  case (step_put s body rid wid)
  have "keeping (\<lambda>s. wl_inv (wm_list s)) (PutWorkloadByRegistrant api body rid wid)"
    unfolding PutWorkloadByRegistrant_def Let_def
    by (intro keeps keeping_on_list) (simp add: reg.invar_add)
  from keepingD [OF this step_put] show ?case .
next
  case (step_get s rid wid)
  then show ?case by (simp add: Get_run)
next
  case (step_delete s rid wid)
  then show ?case by (simp add: Delete_run reg.invar_del split: option.split)
next
  case (step_delete_all s rid)
  then show ?case
    by (simp add: DeleteWorkloadsByRegistrant_def seq_apply on_list_apply reg.invar_del_all)
next
  case (step_poll ordo ordi s)
  have "keeping (\<lambda>s. wl_inv (wm_list s)) (poll ordo ordi api td)"
    by (rule keeping_poll_parts) (simp_all add: reg.invars)
  from keepingD [OF this step_poll(3)] show ?case .
next
  case (step_world s w)
  then show ?case by simp
qed

lemma wm_reachable_inv: "wm_reachable api td s \<Longrightarrow> wl_inv (wm_list s)"
proof (induction rule: wm_reachable.induct)
  case (start w)
  then show ?case by (simp add: wl_inv_def)
next
  case (step s t)
  then show ?case by (blast intro: wm_step_inv)
qed

section \<open>What one check does\<close>

text \<open>
  The lemmas of this section are about a poll during which the pod listing does not change
  (\<open>listing\<close>). A check leaves the registry alone, deletes the workload it is about, or
  records the restart count of the pod of the workload it is about.
\<close>

definition listing :: "'w pod_api \<Rightarrow> pod list \<Rightarrow> bool" where
  "listing api pods \<longleftrightarrow> (\<forall>w. fst (PodsList api '''' w) = Inr pods)"

definition pod_of :: "pod list \<Rightarrow> uuid \<Rightarrow> pod option" where
  "pod_of pods w = find (\<lambda>p. w = pod_UID p) pods"

lemma GetPodByUuid_listing:
  "listing api pods \<Longrightarrow> \<exists>w'. GetPodByUuid api uid w = (Done (pod_of pods uid, pod_of pods uid \<noteq> None, None), w')"
  by (cases "PodsList api '''' w") (auto simp: listing_def GetPodByUuid_run pod_of_def dest: spec [of _ w])

lemma GetPodByUuid_on_world:
  assumes "listing api pods"
  obtains w' where "on_world (GetPodByUuid api uid) s =
    (Done (pod_of pods uid, pod_of pods uid \<noteq> None, None), s\<lparr>wm_world := w'\<rparr>)"
  using GetPodByUuid_listing [OF assms, of uid "wm_world s"] by (auto simp: on_world_apply)

lemma report_and_delete_cases:
  "report_and_delete td wli msg s = (Done wli', s') \<Longrightarrow>
   wli' = wli \<and> (wm_list s' = wm_list s \<or> wm_list s' = DeleteWorkloadById (wl_ID (wli_Wl wli)) (wm_list s))"
  by (auto simp: report_and_delete_def notify_def seq_apply on_world_apply on_list_apply
      split: outcome.splits sum.splits)

lemma check_restarted_cases:
  assumes "listing api pods" and "check_restarted api td wli s = (Done wli', s')"
  shows "(case pod_of pods (wl_ID (wli_Wl wli)) of
      None \<Rightarrow> wli' = wli \<and> wm_list s' = wm_list s
    | Some p \<Rightarrow> wli' = wli\<lparr>wli_Restarts := restart_count p\<rparr> \<and>
        wm_list s' = (if restart_count p = wli_Restarts wli then wm_list s
          else snd (SetWorkloadListItemRestarts (wli_Rid wli) (wl_ID (wli_Wl wli)) (restart_count p) (wm_list s))))"
proof -
  obtain w' where "on_world (GetPodByUuid api (wl_ID (wli_Wl wli))) s =
      (Done (pod_of pods (wl_ID (wli_Wl wli)), pod_of pods (wl_ID (wli_Wl wli)) \<noteq> None, None), s\<lparr>wm_world := w'\<rparr>)"
    using GetPodByUuid_on_world [OF assms(1)] .
  with assms(2) show ?thesis
    by (auto simp: check_restarted_def notify_def seq_apply on_world_apply on_list_apply Let_def
        split: outcome.splits option.splits if_splits prod.splits)
qed

text \<open>One check, as a relation between the item at hand and the registry before and after.\<close>

inductive check_effect :: "pod list \<Rightarrow> workload_item \<Rightarrow> workload_map \<Rightarrow> workload_item \<Rightarrow> workload_map \<Rightarrow> bool"
  for pods :: "pod list" where
  nothing: "check_effect pods wli m wli m"
| deleted: "check_effect pods wli m wli (DeleteWorkloadById (wl_ID (wli_Wl wli)) m)"
| recorded: "pod_of pods (wl_ID (wli_Wl wli)) = Some p \<Longrightarrow>
    check_effect pods wli m (wli\<lparr>wli_Restarts := restart_count p\<rparr>)
      (snd (SetWorkloadListItemRestarts (wli_Rid wli) (wl_ID (wli_Wl wli)) (restart_count p) m))"

lemma check_violation_effect:
  assumes "listing api pods" and "check_violation v api td wli s = (Done wli', s')"
  shows "check_effect pods wli (wm_list s) wli' (wm_list s')"
proof (cases v)
  case RESTARTED
  with assms(2) have "check_restarted api td wli s = (Done wli', s')" by simp
  from check_restarted_cases [OF assms(1) this] show ?thesis
    by (auto split: option.splits if_splits intro: check_effect.intros)
next
  case TERMINATED
  with assms(2) show ?thesis
    by (auto simp: check_terminated_def seq_apply on_world_apply split: outcome.splits if_splits
        dest!: report_and_delete_cases) (rule check_effect.nothing check_effect.deleted)+
next
  case NOTPRESENT
  with assms(2) show ?thesis
    by (auto simp: check_notpresent_def seq_apply on_world_apply split: outcome.splits if_splits
        dest!: report_and_delete_cases) (rule check_effect.nothing check_effect.deleted)+
qed

subsection \<open>Properties that every check keeps\<close>

text \<open>
  \<open>counted\<close>: the count on record for a workload is that of its pod. \<open>in_step\<close>: the count
  on record is the one in the copy at hand.
\<close>

definition counted :: "pod list \<Rightarrow> uuid \<Rightarrow> uuid \<Rightarrow> workload_map \<Rightarrow> bool" where
  "counted pods r w m \<longleftrightarrow>
     (\<forall>it p. item_at m r w = Some it \<longrightarrow> pod_of pods w = Some p \<longrightarrow> wli_Restarts it = restart_count p)"

definition in_step :: "workload_item \<Rightarrow> workload_map \<Rightarrow> bool" where
  "in_step wli m \<longleftrightarrow>
     (\<forall>it. item_at m (wli_Rid wli) (wl_ID (wli_Wl wli)) = Some it \<longrightarrow> wli_Restarts it = wli_Restarts wli)"

lemma effect_same: "check_effect pods wli m wli' m' \<Longrightarrow> wli_Rid wli' = wli_Rid wli \<and> wli_Wl wli' = wli_Wl wli"
  by (erule check_effect.cases) simp_all

lemma effect_inv: "check_effect pods wli m wli' m' \<Longrightarrow> wl_inv m \<Longrightarrow> wl_inv m'"
  by (erule check_effect.cases) (simp_all add: reg.invars)

lemma effect_at:
  "check_effect pods wli m wli' m' \<Longrightarrow> wl_inv m \<Longrightarrow> item_at m' r w = Some it \<Longrightarrow>
     item_at m r w = Some it \<or>
     (r = wli_Rid wli \<and> w = wl_ID (wli_Wl wli) \<and> wli_Restarts it = wli_Restarts wli' \<and>
      (\<exists>p. pod_of pods w = Some p \<and> wli_Restarts it = restart_count p))"
  by (erule check_effect.cases) (auto simp: reg.del_id_at reg.at_set split: if_splits)

lemma effect_counted:
  "check_effect pods wli m wli' m' \<Longrightarrow> wl_inv m \<Longrightarrow> counted pods r w m \<Longrightarrow> counted pods r w m'"
  by (auto simp: counted_def dest!: effect_at)

lemma effect_in_step:
  assumes "check_effect pods wli m wli' m'" and "wl_inv m" and "in_step wli m"
  shows "in_step wli' m'"
  using assms(1)
proof cases
  case deleted
  with assms(2) show ?thesis by (simp add: in_step_def reg.del_id_at)
next
  case (recorded p)
  then show ?thesis by (auto simp: in_step_def dest: reg.count_after_set)
qed (use assms(3) in simp)

lemma effect_in_step_other:
  "check_effect pods wli m wli' m' \<Longrightarrow> wl_inv m \<Longrightarrow>
   (wli_Rid x, wl_ID (wli_Wl x)) \<noteq> (wli_Rid wli, wl_ID (wli_Wl wli)) \<Longrightarrow> in_step x m \<Longrightarrow> in_step x m'"
  by (auto simp: in_step_def dest!: effect_at)

text \<open>A list of checks, one after another.\<close>

lemma check_violations_ConsE:
  assumes "check_violations (v # vs) api td wli s = (Done wli', s')" and "listing api pods" and "wl_inv (wm_list s)"
  obtains wli1 s1 where "check_violation v api td wli s = (Done wli1, s1)"
    and "check_violations vs api td wli1 s1 = (Done wli', s')"
    and "check_effect pods wli (wm_list s) wli1 (wm_list s1)"
    and "wl_inv (wm_list s1)" and "wli_Rid wli1 = wli_Rid wli" and "wli_Wl wli1 = wli_Wl wli"
proof -
  from assms(1) obtain wli1 s1 where *: "check_violation v api td wli s = (Done wli1, s1)"
    "check_violations vs api td wli1 s1 = (Done wli', s')"
    by (auto elim: seq_DoneE)
  moreover from check_violation_effect [OF assms(2) *(1)]
  have "check_effect pods wli (wm_list s) wli1 (wm_list s1)" .
  ultimately show thesis
    using that effect_inv [OF _ assms(3)] effect_same by blast
qed

text \<open>A property of the item and the registry that every check keeps is kept by a list of checks.\<close>

lemma check_violations_keep:
  assumes "listing api pods" and "check_violations vs api td wli s = (Done wli', s')"
    and "wl_inv (wm_list s)" and "P wli (wm_list s)"
    and keep: "\<And>x m x' m'. check_effect pods x m x' m' \<Longrightarrow> wl_inv m \<Longrightarrow> P x m \<Longrightarrow> P x' m'"
  shows "wl_inv (wm_list s') \<and> P wli' (wm_list s')"
  using assms(2-4)
proof (induction vs arbitrary: wli s)
  case (Cons v vs)
  show ?case
    by (rule check_violations_ConsE [OF Cons.prems(1) assms(1) Cons.prems(2)])
       (rule Cons.IH, assumption, assumption, rule keep [OF _ Cons.prems(2,3)])
qed simp

lemma check_violations_counted:
  assumes "listing api pods" and "check_violations vs api td wli s = (Done wli', s')"
    and "wl_inv (wm_list s)" and "counted pods r w (wm_list s)"
  shows "wl_inv (wm_list s') \<and> counted pods r w (wm_list s')"
  by (rule check_violations_keep [OF assms(1-3), where P = "\<lambda>_. counted pods r w"])
     (rule assms(4), rule effect_counted)

lemma check_violations_other:
  assumes "listing api pods" and "check_violations vs api td wli s = (Done wli', s')"
    and "wl_inv (wm_list s)" and "(wli_Rid x, wl_ID (wli_Wl x)) \<noteq> (wli_Rid wli, wl_ID (wli_Wl wli))"
    and "in_step x (wm_list s)"
  shows "in_step x (wm_list s')"
proof -
  have "wl_inv (wm_list s') \<and> (wli_Rid x, wl_ID (wli_Wl x)) \<noteq> (wli_Rid wli', wl_ID (wli_Wl wli')) \<and> in_step x (wm_list s')"
  proof (rule check_violations_keep [OF assms(1-3),
        where P = "\<lambda>y m. (wli_Rid x, wl_ID (wli_Wl x)) \<noteq> (wli_Rid y, wl_ID (wli_Wl y)) \<and> in_step x m"])
    fix y m y' m'
    assume e: "check_effect pods y m y' m'" and "wl_inv m"
      and "(wli_Rid x, wl_ID (wli_Wl x)) \<noteq> (wli_Rid y, wl_ID (wli_Wl y)) \<and> in_step x m"
    with effect_same [OF e] effect_in_step_other [OF e]
    show "(wli_Rid x, wl_ID (wli_Wl x)) \<noteq> (wli_Rid y', wl_ID (wli_Wl y')) \<and> in_step x m'" by simp
  qed (use assms(4,5) in simp)
  then show ?thesis by simp
qed

text \<open>Checking an item for restarts leaves its pod's count on record.\<close>

lemma check_restarted_counts:
  assumes "listing api pods" and "check_restarted api td wli s = (Done wli', s')" and "in_step wli (wm_list s)"
  shows "counted pods (wli_Rid wli) (wl_ID (wli_Wl wli)) (wm_list s')"
proof (cases "pod_of pods (wl_ID (wli_Wl wli))")
  case None
  then show ?thesis by (simp add: counted_def)
next
  case (Some p)
  with check_restarted_cases [OF assms(1,2)]
  have m: "wm_list s' = (if restart_count p = wli_Restarts wli then wm_list s
      else snd (SetWorkloadListItemRestarts (wli_Rid wli) (wl_ID (wli_Wl wli)) (restart_count p) (wm_list s)))"
    by simp
  show ?thesis
  proof (cases "restart_count p = wli_Restarts wli")
    case True
    with m have "wm_list s' = wm_list s" by simp
    with assms(3) Some True show ?thesis unfolding counted_def in_step_def by (metis option.inject)
  next
    case False
    with m Some show ?thesis by (simp add: counted_def) (blast dest: reg.count_after_set)
  qed
qed

lemma check_violations_counts:
  assumes "listing api pods" and "check_violations vs api td wli s = (Done wli', s')" and "wl_inv (wm_list s)"
    and "RESTARTED \<in> set vs" and "in_step wli (wm_list s)"
  shows "counted pods (wli_Rid wli) (wl_ID (wli_Wl wli)) (wm_list s')"
  using assms(2-)
proof (induction vs arbitrary: wli s)
  case (Cons v vs)
  obtain wli1 s1 where *: "check_violation v api td wli s = (Done wli1, s1)"
    "check_violations vs api td wli1 s1 = (Done wli', s')"
    "check_effect pods wli (wm_list s) wli1 (wm_list s1)" "wl_inv (wm_list s1)"
    and same: "wli_Rid wli1 = wli_Rid wli" "wli_Wl wli1 = wli_Wl wli"
    by (rule check_violations_ConsE [OF Cons.prems(1) assms(1) Cons.prems(2)])
  show ?case
  proof (cases "v = RESTARTED")
    case True
    with *(1) have "check_restarted api td wli s = (Done wli1, s1)" by simp
    from check_restarted_counts [OF assms(1) this Cons.prems(4)]
    have "counted pods (wli_Rid wli) (wl_ID (wli_Wl wli)) (wm_list s1)" .
    with check_violations_counted [OF assms(1) *(2,4)] show ?thesis by simp
  next
    case False
    with Cons.prems have "RESTARTED \<in> set vs" by auto
    from Cons.IH [OF *(2,4) this effect_in_step [OF *(3) Cons.prems(2,4)]] same show ?thesis by simp
  qed
qed simp

section \<open>A whole poll\<close>

lemma check_items_keep:
  assumes "listing api pods" and "check_items wlis api td s = (Done (), s')"
    and "wl_inv (wm_list s)" and "P (wm_list s)"
    and keep: "\<And>x m x' m'. check_effect pods x m x' m' \<Longrightarrow> wl_inv m \<Longrightarrow> P m \<Longrightarrow> P m'"
  shows "wl_inv (wm_list s') \<and> P (wm_list s')"
  using assms(2-4)
proof (induction wlis arbitrary: s)
  case (Cons x wlis)
  from Cons.prems(1) obtain x' s1 where *: "check_violations (ws_Violations (wl_Spec (wli_Wl x))) api td x s = (Done x', s1)"
    "check_items wlis api td s1 = (Done (), s')"
    by (auto elim: seq_DoneE)
  have "wl_inv (wm_list s1) \<and> P (wm_list s1)"
    by (rule check_violations_keep [OF assms(1) *(1) Cons.prems(2), where P = "\<lambda>_. P"])
       (rule Cons.prems(3), rule keep)
  with Cons.IH [OF *(2)] show ?case by simp
qed simp

text \<open>An item is identified by its registrant and its workload id.\<close>

definition item_key :: "workload_item \<Rightarrow> uuid \<times> uuid" where
  "item_key it = (wli_Rid it, wl_ID (wli_Wl it))"

lemma check_items_counts:
  assumes "listing api pods" and "check_items wlis api td s = (Done (), s')"
    and "wl_inv (wm_list s)" and "distinct (map item_key wlis)" and "\<forall>x\<in>set wlis. in_step x (wm_list s)"
    and "x \<in> set wlis" and "RESTARTED \<in> set (ws_Violations (wl_Spec (wli_Wl x)))"
  shows "counted pods (wli_Rid x) (wl_ID (wli_Wl x)) (wm_list s')"
  using assms(2-6)
proof (induction wlis arbitrary: s)
  case (Cons y wlis)
  from Cons.prems(1) obtain y' s1 where *: "check_violations (ws_Violations (wl_Spec (wli_Wl y))) api td y s = (Done y', s1)"
    "check_items wlis api td s1 = (Done (), s')"
    by (auto elim: seq_DoneE)
  have inv: "wl_inv (wm_list s1)"
    using check_violations_keep [OF assms(1) *(1) Cons.prems(2), where P = "\<lambda>_ _. True"] by blast
  have "in_step z (wm_list s1)" if "z \<in> set wlis" for z
  proof (rule check_violations_other [OF assms(1) *(1) Cons.prems(2)])
    show "(wli_Rid z, wl_ID (wli_Wl z)) \<noteq> (wli_Rid y, wl_ID (wli_Wl y))"
      using Cons.prems(3) imageI [OF that, of item_key] by (auto simp: item_key_def)
  qed (use Cons.prems(4) that in simp)
  then have step: "\<forall>z\<in>set wlis. in_step z (wm_list s1)" by blast
  show ?case
  proof (cases "x \<in> set wlis")
    case True
    with Cons.IH [OF *(2) inv _ step] Cons.prems(3) show ?thesis by simp
  next
    case False
    with Cons.prems(5) have y: "x = y" by simp
    have "in_step y (wm_list s)" using Cons.prems(4) by simp
    from check_violations_counts [OF assms(1) *(1) Cons.prems(2) assms(7) [unfolded y] this]
    have "counted pods (wli_Rid x) (wl_ID (wli_Wl x)) (wm_list s1)" by (simp add: y)
    then have "wl_inv (wm_list s') \<and> counted pods (wli_Rid x) (wl_ID (wli_Wl x)) (wm_list s')"
      by (rule check_items_keep [OF assms(1) *(2) inv]) (rule effect_counted)
    then show ?thesis ..
  qed
qed simp

text \<open>No check registers anything or changes what is registered.\<close>

definition wl_at :: "workload_map \<Rightarrow> uuid \<Rightarrow> uuid \<Rightarrow> workload option" where
  "wl_at m r w = map_option wli_Wl (item_at m r w)"

lemma effect_wl_at:
  "check_effect pods x m x' m' \<Longrightarrow> wl_inv m \<Longrightarrow> wl_at m' r w = wl_at m r w \<or> wl_at m' r w = None"
  by (erule check_effect.cases) (simp_all add: wl_at_def reg.del_id_at reg.at_set option.map_comp comp_def)

lemma effect_wl_at_le:
  "check_effect pods x m x' m' \<Longrightarrow> wl_inv m \<Longrightarrow> (wl_at m r w = None \<or> wl_at m r w = c) \<Longrightarrow> (wl_at m' r w = None \<or> wl_at m' r w = c)"
  by (drule (1) effect_wl_at [where r = r and w = w]) auto

lemma pollE:
  assumes "poll ordo ordi api td s = (Done (), s')"
  obtains s1 where "wm_list s1 = wm_list s" "check_items (GetWorkloadItemList ordo ordi (wm_list s)) api td s1 = (Done (), s')"
  using assms that [of "s\<lparr>wm_world := Sleep api 10 (wm_world s)\<rparr>"]
  by (auto simp: poll_def sleep_secs_def seq_apply on_world_apply)

lemma item_list_in_step:
  "wl_inv m \<Longrightarrow> enumerates ordo \<Longrightarrow> enumerates ordi \<Longrightarrow> x \<in> set (GetWorkloadItemList ordo ordi m) \<Longrightarrow>
     item_at m (wli_Rid x) (wl_ID (wli_Wl x)) = Some x \<and> in_step x m"
  by (auto simp: set_item_list in_step_def dest: reg.item_keys)

lemma poll_counted:
  assumes "listing api pods" and "wl_inv (wm_list s)" and "enumerates ordo" and "enumerates ordi"
    and "poll ordo ordi api td s = (Done (), s')"
    and "item_at (wm_list s') r w = Some it" and "RESTARTED \<in> set (ws_Violations (wl_Spec (wli_Wl it)))"
    and "pod_of pods w = Some p"
  shows "wli_Restarts it = restart_count p"
proof -
  obtain s1 where s1: "wm_list s1 = wm_list s"
    "check_items (GetWorkloadItemList ordo ordi (wm_list s)) api td s1 = (Done (), s')"
    using assms(5) by (rule pollE)
  have inv: "wl_inv (wm_list s1)" using assms(2) s1(1) by simp
  have "wl_inv (wm_list s') \<and> (wl_at (wm_list s') r w = None \<or> wl_at (wm_list s') r w = wl_at (wm_list s) r w)"
    by (rule check_items_keep [OF assms(1) s1(2) inv]) (simp add: s1(1), erule (2) effect_wl_at_le)
  with assms(6) obtain it0 where it0: "item_at (wm_list s) r w = Some it0" "wli_Wl it0 = wli_Wl it"
    by (cases "item_at (wm_list s) r w") (auto simp: wl_at_def)
  then have "it0 \<in> set (GetWorkloadItemList ordo ordi (wm_list s))"
    using set_item_list [OF assms(2-4)] by blast
  moreover have "distinct (map item_key (GetWorkloadItemList ordo ordi (wm_list s)))"
    using distinct_item_list [OF assms(2-4)] by (simp add: item_key_def [abs_def])
  moreover have "\<forall>x\<in>set (GetWorkloadItemList ordo ordi (wm_list s)). in_step x (wm_list s1)"
    using item_list_in_step [OF assms(2-4)] s1(1) by simp
  ultimately have "counted pods (wli_Rid it0) (wl_ID (wli_Wl it0)) (wm_list s')"
    using assms(7) it0(2) by (intro check_items_counts [OF assms(1) s1(2) inv]) auto
  moreover have "wli_Rid it0 = r" "wl_ID (wli_Wl it0) = w"
    using reg.item_keys [OF assms(2) it0(1)] by auto
  ultimately show ?thesis
    using assms(6,8) by (simp add: counted_def)
qed

subsection \<open>A poll that finds nothing\<close>

primrec no_violation :: "violation \<Rightarrow> pod option \<Rightarrow> workload_item \<Rightarrow> bool" where
  "no_violation RESTARTED po wli = (\<forall>p. po = Some p \<longrightarrow> restart_count p = wli_Restarts wli)"
| "no_violation TERMINATED po wli = (\<forall>p. po = Some p \<longrightarrow> pod_Phase p \<noteq> PodFailed)"
| "no_violation NOTPRESENT po wli = (po \<noteq> None)"

lemma check_violation_quiet:
  assumes "listing api pods" and "no_violation v (pod_of pods (wl_ID (wli_Wl wli))) wli"
  shows "\<exists>w'. \<forall>td. check_violation v api td wli s = (Done wli, s\<lparr>wm_world := w'\<rparr>)"
proof -
  obtain w' where "GetPodByUuid api (wl_ID (wli_Wl wli)) (wm_world s) =
      (Done (pod_of pods (wl_ID (wli_Wl wli)), pod_of pods (wl_ID (wli_Wl wli)) \<noteq> None, None), w')"
    using GetPodByUuid_listing [OF assms(1)] by blast
  then have "\<forall>td. check_violation v api td wli s = (Done wli, s\<lparr>wm_world := w'\<rparr>)"
    using assms(2)
    by (cases v) (auto simp: check_restarted_def check_terminated_def check_notpresent_def
        GetPodStatus_def GetPodExistsByUuid_def seq_apply on_world_apply Let_def split: option.splits)
  then show ?thesis ..
qed

lemma check_violations_quiet:
  assumes "listing api pods" and "\<forall>v\<in>set vs. no_violation v (pod_of pods (wl_ID (wli_Wl wli))) wli"
  shows "\<exists>w'. \<forall>td. check_violations vs api td wli s = (Done wli, s\<lparr>wm_world := w'\<rparr>)"
  using assms(2)
proof (induction vs arbitrary: s)
  case Nil
  have "s = s\<lparr>wm_world := wm_world s\<rparr>" by simp
  then show ?case by (metis check_violations.simps(1) ret_apply)
next
  case (Cons v vs)
  then obtain w1 where "\<forall>td. check_violation v api td wli s = (Done wli, s\<lparr>wm_world := w1\<rparr>)"
    using check_violation_quiet [OF assms(1)] by (metis list.set_intros(1))
  moreover obtain w2 where "\<forall>td. check_violations vs api td wli (s\<lparr>wm_world := w1\<rparr>) = (Done wli, s\<lparr>wm_world := w2\<rparr>)"
    using Cons.IH [of "s\<lparr>wm_world := w1\<rparr>"] Cons.prems by auto
  ultimately show ?case by (auto simp: seq_apply)
qed

lemma check_items_quiet:
  assumes "listing api pods"
    and "\<forall>x\<in>set wlis. \<forall>v\<in>set (ws_Violations (wl_Spec (wli_Wl x))). no_violation v (pod_of pods (wl_ID (wli_Wl x))) x"
  shows "\<exists>w'. \<forall>td. check_items wlis api td s = (Done (), s\<lparr>wm_world := w'\<rparr>)"
  using assms(2)
proof (induction wlis arbitrary: s)
  case Nil
  have "s = s\<lparr>wm_world := wm_world s\<rparr>" by simp
  then show ?case by (metis check_items.simps(1) ret_apply)
next
  case (Cons x wlis)
  then obtain w1 where "\<forall>td. check_violations (ws_Violations (wl_Spec (wli_Wl x))) api td x s = (Done x, s\<lparr>wm_world := w1\<rparr>)"
    using check_violations_quiet [OF assms(1)] by (metis list.set_intros(1))
  moreover obtain w2 where "\<forall>td. check_items wlis api td (s\<lparr>wm_world := w1\<rparr>) = (Done (), s\<lparr>wm_world := w2\<rparr>)"
    using Cons.IH [of "s\<lparr>wm_world := w1\<rparr>"] Cons.prems by auto
  ultimately show ?case by (auto simp: seq_apply)
qed

subsection \<open>A poll that can report\<close>

definition notifies :: "'w td_api \<Rightarrow> bool" where
  "notifies td \<longleftrightarrow> (\<forall>rid msg w. \<exists>w'. SendEventFail td rid msg SourceWorkloadMonitor w = (Done (Inr ()), w'))"

definition not_found :: "'w pod_api \<Rightarrow> uuid \<Rightarrow> bool" where
  "not_found api uid \<longleftrightarrow> (\<forall>w. \<exists>err w'. GetPodExistsByUuid api uid w = (Done (False, err), w'))"

lemma check_violation_same:
  "yields (\<lambda>x. wli_Wl x = wli_Wl wli) (check_violation v api td wli)"
  by (cases v) (auto simp: check_restarted_def check_terminated_def check_notpresent_def
      report_and_delete_def Let_def intro!: posts)

lemma notify_run:
  assumes "notifies td"
  obtains w' where "notify td wli msg s = (Done (Inr ()), s\<lparr>wm_world := w'\<rparr>)"
proof -
  from assms obtain w' where "SendEventFail td (wli_Rid wli) msg SourceWorkloadMonitor (wm_world s) = (Done (Inr ()), w')"
    unfolding notifies_def by blast
  then show thesis using that by (simp add: notify_def on_world_apply)
qed

lemma returning_notify: "notifies td \<Longrightarrow> returning (notify td wli msg)"
  unfolding returning_def by (metis fst_conv notify_run)

lemma returning_violation_checks:
  assumes "notifies td"
  shows "returning (check_violation v api td wli)" and "returning (check_violations vs api td wli)"
    and "returning (check_items wlis api td)"
proof -
  have rd: "returning (report_and_delete td wli msg)" for wli msg
    unfolding report_and_delete_def by (intro ends returning_notify assms)
  have r: "returning (check_restarted api td wli)" for wli
    unfolding returning_def
  proof
    fix s
    have "returning (seq (notify td x msg) (\<lambda>_. seq (on_list f) (\<lambda>_. ret x)))"
      for x :: workload_item and msg and f :: "workload_map \<Rightarrow> bool \<times> workload_map"
      by (intro ends returning_notify assms)
    then have n: "\<exists>y. fst (seq (notify td x msg) (\<lambda>_. seq (on_list f) (\<lambda>_. ret x)) t) = Done y"
      for x :: workload_item and msg t and f :: "workload_map \<Rightarrow> bool \<times> workload_map"
      by (simp add: returning_def)
    show "\<exists>x. fst (check_restarted api td wli s) = Done x"
      by (cases rule: GetPodByUuid_cases [of api "wl_ID (wli_Wl wli)" "wm_world s"])
         (simp_all add: check_restarted_def seq_apply [of "on_world _"] on_world_apply Let_def n)
  qed
  show v: "returning (check_violation v api td wli)" for v wli
    by (cases v) (auto simp: check_terminated_def check_notpresent_def intro!: ends r rd)
  show vs: "returning (check_violations vs api td wli)" for vs wli
    by (induction vs arbitrary: wli) (auto intro!: ends v)
  show "returning (check_items wlis api td)"
    by (induction wlis) (auto intro!: ends vs)
qed

definition gone :: "uuid \<Rightarrow> uuid \<Rightarrow> workload_map \<Rightarrow> bool" where
  "gone r w m \<longleftrightarrow> wl_inv m \<and> item_at m r w = None"

lemma gone_kept:
  "gone r w m \<Longrightarrow> gone r w (snd (SetWorkloadListItemRestarts r' w' n m))"
  "gone r w m \<Longrightarrow> gone r w (DeleteWorkloadById i m)"
  by (auto simp: gone_def reg.invars reg.at_set reg.del_id_at)

lemma check_notpresent_removes:
  assumes "notifies td" and "not_found api (wl_ID (wli_Wl wli))" and "wl_inv (wm_list s)"
    and "check_notpresent api td wli s = (Done wli', s')"
  shows "gone r (wl_ID (wli_Wl wli)) (wm_list s')"
proof -
  obtain err w1 where g: "GetPodExistsByUuid api (wl_ID (wli_Wl wli)) (wm_world s) = (Done (False, err), w1)"
    using assms(2) unfolding not_found_def by blast
  obtain w2 where n: "notify td wli (''pod '' @ wl_Name (wli_Wl wli) @ '' absent'') (s\<lparr>wm_world := w1\<rparr>)
      = (Done (Inr ()), s\<lparr>wm_world := w1, wm_world := w2\<rparr>)"
    using notify_run [OF assms(1)] by blast
  have "wm_list s' = DeleteWorkloadById (wl_ID (wli_Wl wli)) (wm_list s)"
    using assms(4) g n
    by (auto simp: check_notpresent_def report_and_delete_def seq_apply on_world_apply on_list_apply)
  with assms(3) show ?thesis by (simp add: gone_def reg.invars reg.del_id_at)
qed

lemma check_violations_removes:
  assumes "notifies td" and "not_found api (wl_ID (wli_Wl wli))" and "wl_inv (wm_list s)"
    and "check_violations vs api td wli s = (Done wli', s')" and "NOTPRESENT \<in> set vs"
  shows "gone r (wl_ID (wli_Wl wli)) (wm_list s')"
  using assms(2-)
proof (induction vs arbitrary: wli s)
  case (Cons v vs)
  from Cons.prems(3) obtain wli1 s1 where *: "check_violation v api td wli s = (Done wli1, s1)"
    "check_violations vs api td wli1 s1 = (Done wli', s')"
    by (auto elim: seq_DoneE)
  have same: "wli_Wl wli1 = wli_Wl wli"
    using yieldsD [OF check_violation_same *(1)] .
  have "keeping (\<lambda>s. wl_inv (wm_list s)) (check_violation v api td wli)"
    by (rule keeping_poll_parts) (simp_all add: reg.invars)
  from keepingD [OF this Cons.prems(2)] have inv: "wl_inv (wm_list s1)"
    by (simp add: *(1))
  show ?case
  proof (cases "v = NOTPRESENT")
    case True
    with *(1) have "check_notpresent api td wli s = (Done wli1, s1)" by simp
    from check_notpresent_removes [OF assms(1) Cons.prems(1,2) this]
    have "gone r (wl_ID (wli_Wl wli)) (wm_list s1)" .
    moreover have "keeping (\<lambda>s. gone r (wl_ID (wli_Wl wli)) (wm_list s)) (check_violations vs api td wli1)"
      by (rule keeping_poll_parts) (simp_all add: gone_kept)
    ultimately have "gone r (wl_ID (wli_Wl wli)) (wm_list (snd (check_violations vs api td wli1 s1)))"
      by (simp add: keeping_def)
    with *(2) show ?thesis by simp
  next
    case False
    with Cons.prems have "NOTPRESENT \<in> set vs" by auto
    with Cons.IH [OF _ inv *(2)] Cons.prems(1) same show ?thesis by simp
  qed
qed simp

lemma poll_run: "poll ordo ordi api td s =
    check_items (GetWorkloadItemList ordo ordi (wm_list s)) api td (s\<lparr>wm_world := Sleep api 10 (wm_world s)\<rparr>)"
  by (simp add: poll_def sleep_secs_def seq_apply on_world_apply)

lemma check_items_removes:
  assumes "notifies td" and "not_found api (wl_ID (wli_Wl x))" and "wl_inv (wm_list s)"
    and "x \<in> set wlis" and "NOTPRESENT \<in> set (ws_Violations (wl_Spec (wli_Wl x)))"
  shows "gone r (wl_ID (wli_Wl x)) (wm_list (snd (check_items wlis api td s)))"
  using assms(3,4)
proof (induction wlis arbitrary: s)
  case (Cons y wlis)
  obtain y' s1 where y: "check_violations (ws_Violations (wl_Spec (wli_Wl y))) api td y s = (Done y', s1)"
    using returning_violation_checks(2) [OF assms(1)] by (rule returningE)
  have "keeping (\<lambda>s. wl_inv (wm_list s)) (check_violations (ws_Violations (wl_Spec (wli_Wl y))) api td y)"
    by (rule keeping_poll_parts) (simp_all add: reg.invars)
  from keepingD [OF this Cons.prems(1)] y have inv: "wl_inv (wm_list s1)" by simp
  show ?case
  proof (cases "x \<in> set wlis")
    case True
    with Cons.IH [OF inv] y show ?thesis by (simp add: seq_apply)
  next
    case False
    with Cons.prems(2) have "x = y" by simp
    with check_violations_removes [OF assms(1,2) Cons.prems(1)] y assms(5)
    have "gone r (wl_ID (wli_Wl x)) (wm_list s1)" by simp
    moreover have "keeping (\<lambda>s. gone r (wl_ID (wli_Wl x)) (wm_list s)) (check_items wlis api td)"
      by (rule keeping_poll_parts) (simp_all add: gone_kept)
    ultimately show ?thesis using y by (simp add: seq_apply keeping_def)
  qed
qed simp

lemma poll_removes:
  assumes "notifies td" and "not_found api w" and "wl_inv (wm_list s)" and "enumerates ordo" and "enumerates ordi"
    and "item_at (wm_list s) r w = Some it" and "NOTPRESENT \<in> set (ws_Violations (wl_Spec (wli_Wl it)))"
  shows "\<exists>s'. poll ordo ordi api td s = (Done (), s') \<and> item_at (wm_list s') r' w = None"
proof -
  have w: "wl_ID (wli_Wl it) = w"
    using reg.item_keys [OF assms(3,6)] by simp
  have "it \<in> set (GetWorkloadItemList ordo ordi (wm_list s))"
    using set_item_list [OF assms(3-5)] assms(6) by blast
  from check_items_removes [OF assms(1) _ _ this assms(7), of api "s\<lparr>wm_world := Sleep api 10 (wm_world s)\<rparr>" r'] assms(2,3) w
  have "item_at (wm_list (snd (poll ordo ordi api td s))) r' w = None"
    by (simp add: poll_run gone_def)
  moreover obtain u s' where "poll ordo ordi api td s = (Done u, s')"
    unfolding poll_run using returning_violation_checks(3) [OF assms(1)] by (rule returningE)
  ultimately show ?thesis by simp
qed

subsection \<open>A poll that cannot report\<close>

definition mute :: "'w td_api \<Rightarrow> bool" where
  "mute td \<longleftrightarrow> (\<forall>rid msg w. \<exists>e w'. SendEventFail td rid msg SourceWorkloadMonitor w = (Done (Inl e), w'))"

lemma keeping_report_mute:
  assumes "mute td"
  shows "keeping (\<lambda>s. P (wm_list s)) (report_and_delete td wli msg)"
proof (rule keepingI)
  fix s :: "'a wm"
  assume P: "P (wm_list s)"
  obtain e w' where "SendEventFail td (wli_Rid wli) msg SourceWorkloadMonitor (wm_world s) = (Done (Inl e), w')"
    using assms unfolding mute_def by blast
  with P show "P (wm_list (snd (report_and_delete td wli msg s)))"
    by (simp add: report_and_delete_def notify_def seq_apply on_world_apply)
qed

lemma keeping_poll_mute:
  assumes "mute td" and set: "\<And>m r w n. P m \<Longrightarrow> P (snd (SetWorkloadListItemRestarts r w n m))"
  shows "keeping (\<lambda>s. P (wm_list s)) (poll ordo ordi api td)"
proof -
  have s: "keeping (\<lambda>s. P (wm_list s)) (on_list (SetWorkloadListItemRestarts r w n))" for r w n
    by (rule keeping_on_list) (rule set)
  have v: "keeping (\<lambda>s. P (wm_list s)) (check_violation v api td wli)" for v wli
    by (cases v) (auto simp: check_restarted_def check_terminated_def check_notpresent_def notify_def Let_def
        intro!: keeps s keeping_report_mute [OF assms(1)])
  have vs: "keeping (\<lambda>s. P (wm_list s)) (check_violations vs api td wli)" for vs wli
    by (induction vs arbitrary: wli) (auto intro!: keeps v)
  have "keeping (\<lambda>s. P (wm_list s)) (check_items wlis api td)" for wlis
    by (induction wlis) (auto intro!: keeps vs)
  then show ?thesis unfolding poll_def by (intro keeps)
qed

section \<open>Properties\<close>

text \<open>A small cluster and a director that records what it is told, for the concrete instances.\<close>

definition quiet_pods :: "pod list \<Rightarrow> event_spec list pod_api" where
  "quiet_pods pods = \<lparr>PodsGet = (\<lambda>ns n w. (Inl (NotFound n), w)), PodsList = (\<lambda>ns w. (Inr pods, w)),
     PodsDelete = (\<lambda>ns n w. (Inr (), w)), Sleep = (\<lambda>n w. w), Now = (\<lambda>w. (0, w))\<rparr>"

definition recorder :: "event_spec list td_api" where
  "recorder = \<lparr>PutTestRunByID = (\<lambda>i spec w. (Inl (Error ''refused''), w)),
     GetTestRunByID = (\<lambda>i w. (Inl (Error ''refused''), w)),
     AddEvent = (\<lambda>spec w. (Inr \<lparr>ev_ID = ''e'', ev_LoggedDateTime = None, ev_Spec = spec\<rparr>, w @ [spec])),
     GetTestPlans = (\<lambda>w. (Inr [], w)), TimeText = (\<lambda>w. (''now'', w)), TdSleep = (\<lambda>n w. w)\<rparr>"

definition sample_pod :: pod where
  "sample_pod = \<lparr>pod_Name = ''fio'', pod_Namespace = ''default'', pod_UID = ''u1'', pod_Labels = [],
     pod_Phase = PodRunning, pod_RestartCounts = [2, 1], pod_NodeName = ''n1'', pod_PodIP = '''', pod_CreationTimestamp = 0\<rparr>"

definition sample_workload :: "violation list \<Rightarrow> workload" where
  "sample_workload vs = \<lparr>wl_ID = ''u1'', wl_Name = ''fio'', wl_Namespace = ''default'', wl_Spec = \<lparr>ws_Violations = vs\<rparr>\<rparr>"

definition sample_wm :: "violation list \<Rightarrow> event_spec list wm" where
  "sample_wm vs = \<lparr>wm_list = AddToWorkloadList (sample_workload vs) ''r1'' ''u1'' [], wm_world = []\<rparr>"

lemma item_at_Nil: "item_at [] r w = None"
  by (simp add: item_at_def)

lemma sample_facts:
  "listing (quiet_pods pods) pods" "notifies recorder" "wl_inv (wm_list (sample_wm vs))"
  "item_at (wm_list (sample_wm vs)) ''r1'' ''u1'' =
     Some \<lparr>wli_Restarts = 0, wli_Wl = sample_workload vs, wli_Rid = ''r1''\<rparr>"
proof -
  show "listing (quiet_pods pods) pods" by (simp add: listing_def quiet_pods_def)
  show "notifies recorder"
    by (simp add: notifies_def recorder_def SendEventFail_def SendEvent_def getTime_def io_simps Let_def)
  have "wl_inv []" by (simp add: wl_inv_def)
  then show "wl_inv (wm_list (sample_wm vs))"
    by (simp add: sample_wm_def reg.invar_add sample_workload_def)
qed (simp add: sample_wm_def item_at_Add)

text \<open>
  Property C3. Whatever requests, polls and outside events have happened, every
  registered item is filed under its own registrant and workload id, and in whatever order
  Go ranges over the maps, the listing that a poll works on has every registered item and
  no (registrant, workload) twice.
\<close>

theorem monitor_registry_consistent:
  assumes "wm_reachable api td s" and "enumerates ordo" and "enumerates ordi"
  shows "(\<forall>r w it. item_at (wm_list s) r w = Some it \<longrightarrow> wli_Rid it = r \<and> wl_ID (wli_Wl it) = w)
    \<and> (\<forall>it. it \<in> set (GetWorkloadItemList ordo ordi (wm_list s)) \<longleftrightarrow> (\<exists>r w. item_at (wm_list s) r w = Some it))
    \<and> distinct (map item_key (GetWorkloadItemList ordo ordi (wm_list s)))"
  using wm_reachable_inv [OF assms(1)] reg.item_keys set_item_list [OF _ assms(2,3)]
    distinct_item_list [OF _ assms(2,3)]
  by (auto simp: item_key_def [abs_def])

theorem monitor_registry_consistent_witness:
  "distinct (map item_key (GetWorkloadItemList rev (\<lambda>m. m) (wm_list
     (snd (PutWorkloadByRegistrant (quiet_pods [sample_pod]) (Some \<lparr>ws_Violations = [RESTARTED]\<rparr>) ''r1'' ''u1''
       \<lparr>wm_list = [], wm_world = []\<rparr>)))))"
proof -
  have "wm_reachable (quiet_pods [sample_pod]) recorder (snd (PutWorkloadByRegistrant (quiet_pods [sample_pod])
      (Some \<lparr>ws_Violations = [RESTARTED]\<rparr>) ''r1'' ''u1'' \<lparr>wm_list = [], wm_world = []\<rparr>))"
    by (rule wm_reachable.step [OF wm_reachable.start wm_step.step_put])
  from monitor_registry_consistent [OF this enumerates_rev enumerates_id] show ?thesis by blast
qed

text \<open>
  Property C10. Registering a workload whose pod exists and reading it back returns the
  workload that was registered, named after its pod; deleting it returns it once more and
  then it is not found; registrations of others are not touched by any of this.
\<close>

theorem put_get_delete:
  assumes "GetPodNameAndNamespaceFromUuid api wid (wm_world s) = (Done (Inr (n, ns)), w')"
    and "wl = \<lparr>wl_ID = wid, wl_Name = n, wl_Namespace = ns, wl_Spec = spec\<rparr>"
    and "PutWorkloadByRegistrant api (Some spec) rid wid s = (res, s1)"
    and "DeleteWorkloadByRegistrant rid wid s1 = (res2, s2)"
  shows "res = Done (RespOK wl) \<and> fst (GetWorkloadByRegistrant rid wid s1) = Done (RespOK wl)
    \<and> res2 = Done (RespOK wl) \<and> fst (GetWorkloadByRegistrant rid wid s2) = Done RespNotFound
    \<and> (\<forall>r w. (r, w) \<noteq> (rid, wid) \<longrightarrow> item_at (wm_list s2) r w = item_at (wm_list s) r w)"
  using assms by (auto simp: Put_run Get_run Delete_run item_at_Add item_at_Delete Let_def)

theorem put_get_delete_witness:
  "fst (GetWorkloadByRegistrant ''r1'' ''u1'' (snd (PutWorkloadByRegistrant (quiet_pods [sample_pod])
     (Some \<lparr>ws_Violations = [RESTARTED]\<rparr>) ''r1'' ''u1'' \<lparr>wm_list = [], wm_world = []\<rparr>)))
   = Done (RespOK (sample_workload [RESTARTED]))"
proof -
  have "GetPodNameAndNamespaceFromUuid (quiet_pods [sample_pod]) ''u1'' (wm_world \<lparr>wm_list = [], wm_world = []\<rparr>)
      = (Done (Inr (''fio'', ''default'')), [])"
    by (simp add: GetPodNameAndNamespaceFromUuid_def GetPodByUuid_def quiet_pods_def sample_pod_def io_simps)
  from put_get_delete [OF this refl surjective_pairing surjective_pairing, of "\<lparr>ws_Violations = [RESTARTED]\<rparr>" "''r1''"]
  show ?thesis by (simp add: sample_workload_def)
qed

text \<open>
  No false alarms: when no registered workload breaks any of the rules it is
  registered with (its pod is listed, has not failed, and has the restart count on record),
  a poll returns, leaves the registry as it is and does not call the test director at all:
  what it does is the same for every director.
\<close>

theorem poll_without_violations:
  assumes "listing api pods" and "wl_inv (wm_list s)" and "enumerates ordo" and "enumerates ordi"
    and "\<forall>r w it. item_at (wm_list s) r w = Some it \<longrightarrow>
      (\<forall>v\<in>set (ws_Violations (wl_Spec (wli_Wl it))). no_violation v (pod_of pods w) it)"
  shows "\<exists>w'. \<forall>td. poll ordo ordi api td s = (Done (), s\<lparr>wm_world := w'\<rparr>)"
proof -
  have "\<forall>x\<in>set (GetWorkloadItemList ordo ordi (wm_list s)).
      \<forall>v\<in>set (ws_Violations (wl_Spec (wli_Wl x))). no_violation v (pod_of pods (wl_ID (wli_Wl x))) x"
    using assms(5) item_list_in_step [OF assms(2-4)] by blast
  from check_items_quiet [OF assms(1) this, of "s\<lparr>wm_world := Sleep api 10 (wm_world s)\<rparr>"]
  show ?thesis by (simp add: poll_run)
qed

theorem poll_without_violations_witness:
  "\<exists>w'. \<forall>td. poll rev rev (quiet_pods [sample_pod]) td (sample_wm [TERMINATED, NOTPRESENT]) =
     (Done (), (sample_wm [TERMINATED, NOTPRESENT])\<lparr>wm_world := w'\<rparr>)"
proof (rule poll_without_violations [OF sample_facts(1,3) enumerates_rev enumerates_rev], intro allI impI ballI)
  fix r w it v
  assume "item_at (wm_list (sample_wm [TERMINATED, NOTPRESENT])) r w = Some it"
    and "v \<in> set (ws_Violations (wl_Spec (wli_Wl it)))"
  then show "no_violation v (pod_of [sample_pod] w) it"
    by (auto simp: sample_wm_def item_at_Add sample_workload_def pod_of_def sample_pod_def item_at_Nil split: if_splits)
qed

text \<open>
  Property C8. After a poll that returned, the restart count on record for every workload
  that is still registered and watched for restarts is that of its pod (the sum over its
  containers, as an \<^verbatim>\<open>int32\<close>), so a restart is not reported a second time.
\<close>

theorem poll_records_restarts:
  assumes "listing api pods" and "wl_inv (wm_list s)" and "enumerates ordo" and "enumerates ordi"
    and "poll ordo ordi api td s = (Done (), s')"
    and "item_at (wm_list s') r w = Some it" and "RESTARTED \<in> set (ws_Violations (wl_Spec (wli_Wl it)))"
    and "pod_of pods w = Some p"
  shows "wli_Restarts it = restart_count p"
  using assms by (rule poll_counted)

theorem poll_records_restarts_witness:
  "\<exists>s' it. poll rev rev (quiet_pods [sample_pod]) recorder (sample_wm [RESTARTED]) = (Done (), s') \<and>
     item_at (wm_list s') ''r1'' ''u1'' = Some it \<and> wli_Restarts it = 3 \<and> length (wm_world s') = 1"
proof -
  let ?s' = "snd (poll rev rev (quiet_pods [sample_pod]) recorder (sample_wm [RESTARTED]))"
  have run: "poll rev rev (quiet_pods [sample_pod]) recorder (sample_wm [RESTARTED]) = (Done (), ?s')"
    "length (wm_world ?s') = 1"
    "item_at (wm_list ?s') ''r1'' ''u1'' = Some \<lparr>wli_Restarts = 3, wli_Wl = sample_workload [RESTARTED], wli_Rid = ''r1''\<rparr>"
    by code_simp+
  have "pod_of [sample_pod] ''u1'' = Some sample_pod" by (simp add: pod_of_def sample_pod_def)
  with poll_records_restarts [OF sample_facts(1,3) enumerates_rev enumerates_rev run(1,3)]
  have "(3 :: 32 word) = restart_count sample_pod" by (simp add: sample_workload_def)
  with run show ?thesis by auto
qed



text \<open>
  The check for absent pods does not tell a pod that is gone from a pod listing
  that failed: when the listing fails, a workload that must be present is reported and its
  registration removed as if its pod were absent.
\<close>

theorem poll_takes_failure_for_absence:
  assumes "\<forall>u. \<exists>e u'. PodsList api '''' u = (Inl e, u')" and "notifies td"
    and "wl_inv (wm_list s)" and "enumerates ordo" and "enumerates ordi"
    and "item_at (wm_list s) r w = Some it" and "NOTPRESENT \<in> set (ws_Violations (wl_Spec (wli_Wl it)))"
  shows "\<exists>s'. poll ordo ordi api td s = (Done (), s') \<and> item_at (wm_list s') r w = None"
proof (rule poll_removes [OF assms(2) _ assms(3-7)])
  show "not_found api w"
    unfolding not_found_def
  proof
    fix u
    obtain e u' where "PodsList api '''' u = (Inl e, u')" using assms(1) by blast
    then show "\<exists>err w'. GetPodExistsByUuid api w u = (Done (False, err), w')"
      by (simp add: GetPodExistsByUuid_def GetPodByUuid_run seq_apply)
  qed
qed

theorem poll_takes_failure_for_absence_witness:
  "\<exists>s'. poll rev rev ((quiet_pods [sample_pod])\<lparr>PodsList := (\<lambda>ns w. (Inl (Error ''timeout''), w))\<rparr>) recorder
     (sample_wm [NOTPRESENT]) = (Done (), s') \<and> item_at (wm_list s') ''r1'' ''u1'' = None"
  by (rule poll_takes_failure_for_absence [OF _ sample_facts(2,3) enumerates_rev enumerates_rev sample_facts(4)])
     (simp_all add: sample_workload_def)

text \<open>
  A violation that cannot be reported is not forgotten: while the director takes
  no events, a poll removes no registration.
\<close>

theorem poll_unreported_kept:
  assumes "mute td" and "wl_at (wm_list s) r w = Some wl"
  shows "wl_at (wm_list (snd (poll ordo ordi api td s))) r w = Some wl"
proof -
  have "keeping (\<lambda>s. wl_at (wm_list s) r w = Some wl) (poll ordo ordi api td)"
    by (rule keeping_poll_mute [OF assms(1)]) (auto simp: wl_at_def reg.at_set option.map_comp comp_def)
  from keepingD [OF this assms(2)] show ?thesis .
qed

theorem poll_unreported_kept_witness:
  "wl_at (wm_list (snd (poll rev rev (quiet_pods []) (recorder\<lparr>AddEvent := (\<lambda>spec w. (Inl (Error ''down''), w))\<rparr>)
     (sample_wm [NOTPRESENT, RESTARTED])))) ''r1'' ''u1'' = Some (sample_workload [NOTPRESENT, RESTARTED])"
  by (rule poll_unreported_kept)
     (simp_all add: mute_def recorder_def SendEventFail_def SendEvent_def getTime_def io_simps Let_def
       wl_at_def sample_facts)

text \<open>
  On any signal but \<^verbatim>\<open>SIGTERM\<close> the monitor means to report its own end, but
  with the value that \<^verbatim>\<open>current_registrant\<close> has in the sources it dereferences nil, before
  it sends anything; \<^verbatim>\<open>SIGTERM\<close> ends it quietly.
\<close>

theorem WaitSignal_never_reports:
  "WaitSignal td None sig w =
     (if sig = SIGTERM then (Done (), w) else (Panicked ''nil pointer dereference'', w))"
  by (cases sig) (simp_all add: WaitSignal_def exit_code_def)

end
