(* ===== verification/Conductor_Pools.thy ===== *)
theory Conductor_Pools
  imports Conductor_Common
begin

text \<open>
  \<^verbatim>\<open>test_conductor/tests/primitive_pool_deletion.go\<close>: replicas are created on every pool and
  removed, then all pools are deleted, Mayastor is restarted, the pools are created again and
  compared with what they were.

  \<open>ord\<close> is the order in which Go enumerates the map of the pools.
\<close>

section \<open>Waits\<close>

text \<open>
  The loops that ask for a value until it is as expected, with the value and the error they
  leave. They begin with the values that the variables have from before; the value that goes
  with an error is never read.
\<close>

definition wait_value ::
    "'w cluster \<Rightarrow> nat \<Rightarrow> ('w, 'a result) io \<Rightarrow> ('a \<Rightarrow> bool) \<Rightarrow> 'a \<times> error option \<Rightarrow> ('w, 'a \<times> error option) io" where
  "wait_value cl rounds m expected v =
     after (for_in [0 ..< rounds] v (\<lambda>ix (x, err). seq m (\<lambda>r. case r of
       Inl e \<Rightarrow> seq (sleeps cl 10) (\<lambda>_. ret (Continue (x, Some e)))
     | Inr y \<Rightarrow>
         if expected y then ret (Break (y, None))
         else seq (sleeps cl 10) (\<lambda>_. ret (Continue (y, None))))))
     ret"

definition polled ::
    "('w, 'a \<times> error option) io \<Rightarrow> string \<Rightarrow> ('a \<Rightarrow> bool) \<Rightarrow> ('a \<Rightarrow> error) \<Rightarrow> ('a \<Rightarrow> ('w, 'b result) io)
     \<Rightarrow> ('w, 'b result) io" where
  "polled m failed expected mismatch f = seq m (\<lambda>(x, err). case err of
      Some e \<Rightarrow> ret (Inl (wrapped failed e))
    | None \<Rightarrow> if expected x then f x else ret (Inl (mismatch x)))"

definition replica_mismatch :: "int \<Rightarrow> nat \<Rightarrow> error" where
  "replica_mismatch wanted n = Errorf (''failed to match replica count,Expected Count: '' @ Itoa wanted
     @ '', Actual count: '' @ Itoa (int n) @ '', error: '' @ err_v None)"

definition usage_mismatch :: "string \<Rightarrow> 64 word \<Rightarrow> error" where
  "usage_mismatch wanted u = Errorf (''failed to match pool usage,Expected pool usage: '' @ wanted
     @ '', Actual pool usage: '' @ Itoa (uint u) @ '', error: '' @ err_v None)"

definition pool_mismatch :: "nat \<Rightarrow> error" where
  "pool_mismatch n = Errorf (''failed to match mayastor pools in cluster, Expected count: 0, Actual count: ''
     @ Itoa (int n) @ '', error: '' @ err_v None)"

section \<open>Replicas on every pool\<close>

definition node_replicas ::
    "'w cluster \<Rightarrow> int \<Rightarrow> node_location \<Rightarrow> int \<Rightarrow> ('w, (int, int result) ctl) io" where
  "node_replicas cl replicaSize node replicaCount =
     (if \<not> MayastorNode node then ret (Continue replicaCount)
      else seq (call (NewUUID cl)) (\<lambda>replicaUuid.
        seq (call (ListPools cl [IPAddress node])) (\<lambda>r. case r of
          Inl err \<Rightarrow> ret (Return (Inl (Errorf (''failed to list mayastor pools via gRPC, node: '' @ slice_text [IPAddress node]
            @ '', error: '' @ err_text err))))
        | Inr mayastorPools \<Rightarrow>
            seq (for_in mayastorPools replicaCount (\<lambda>pool n.
              seq (call (CreateReplica cl (IPAddress node) replicaUuid (word_of_int replicaSize) (gp_Name pool))) (\<lambda>r1. case r1 of
                Inl err \<Rightarrow> ret (Return (Inl (Errorf (''failed to create replica with uuid '' @ replicaUuid @ '' via gRPC, error: ''
                  @ err_text err))))
              | Inr _ \<Rightarrow> ret (Continue (n + 1))))) (\<lambda>c. case c of
              Inl r2 \<Rightarrow> ret (Return r2)
            | Inr n \<Rightarrow> ret (Continue n)))))"

definition create_replicas :: "'w cluster \<Rightarrow> int \<Rightarrow> node_location list \<Rightarrow> ('w, int result) io" where
  "create_replicas cl replicaSize nodes =
     after (for_in nodes 0 (node_replicas cl replicaSize)) (\<lambda>replicaCount. ret (Inr replicaCount))"

section \<open>Deleting and creating the pools\<close>

text \<open>
  Both loops run over all pools in every round and gather the errors in one variable, which
  also decides whether there is another round. Nothing sets it back to nil.
\<close>

definition pool_round :: "('a \<Rightarrow> ('w, unit result) io) \<Rightarrow> ('a \<Rightarrow> string) \<Rightarrow> 'a list \<Rightarrow> error option \<Rightarrow> ('w, error option) io" where
  "pool_round op msg ps combinederr =
     after (for_in ps combinederr (\<lambda>pool cerr. seq (op pool) (\<lambda>r. case r of
       Inl err \<Rightarrow> ret (Continue (Some (Errorf (err_v cerr @ msg pool @ err_text err))))
     | Inr _ \<Rightarrow> ret (Continue cerr)))) ret"

definition pool_retry ::
    "'w cluster \<Rightarrow> ('a \<Rightarrow> ('w, unit result) io) \<Rightarrow> ('a \<Rightarrow> string) \<Rightarrow> 'a list \<Rightarrow> nat \<Rightarrow> error option
     \<Rightarrow> ('w, (error option, error option) ctl) io" where
  "pool_retry cl op msg ps ix combinederr = seq (pool_round op msg ps combinederr) (\<lambda>cerr. case cerr of
      Some e \<Rightarrow> seq (sleeps cl 10) (\<lambda>_. ret (Continue (Some e)))
    | None \<Rightarrow> ret (Break None))"

definition pool_rounds ::
    "'w cluster \<Rightarrow> nat \<Rightarrow> ('a \<Rightarrow> ('w, unit result) io) \<Rightarrow> ('a \<Rightarrow> string) \<Rightarrow> 'a list \<Rightarrow> error option \<Rightarrow> ('w, error option) io" where
  "pool_rounds cl rounds op msg ps combinederr = after (for_in [0 ..< rounds] combinederr (pool_retry cl op msg ps)) ret"

definition delete_pool :: "'w cluster \<Rightarrow> msp \<Rightarrow> ('w, unit result) io" where
  "delete_pool cl pool = DeleteMsPool cl (msp_Name pool)"

definition create_pool :: "'w cluster \<Rightarrow> msp \<Rightarrow> ('w, unit result) io" where
  "create_pool cl pool = check (CreateMsPool cl (msp_Name pool) (msp_Node pool) (msp_Disks pool)) (\<lambda>err. err) (\<lambda>_. ret (Inr ()))"

section \<open>Comparing the pools\<close>

definition by_name :: "msp list \<Rightarrow> (string, msp) gomap" where
  "by_name ps = fold (\<lambda>pool. AList.update (msp_Name pool) pool) ps []"

definition compare_pool :: "(string, msp) gomap \<Rightarrow> string \<times> msp \<Rightarrow> unit \<Rightarrow> ('s, (unit, unit result) ctl) io" where
  "compare_pool mspConfigAfter e u =
     (case e of (i, m) \<Rightarrow> case map_of mspConfigAfter i of
        None \<Rightarrow> ret (Return (Inl (Errorf ''pool not found'')))
      | Some m' \<Rightarrow>
          if msp_Capacity m \<noteq> msp_Capacity m' then
            ret (Return (Inl (Errorf (''failed due to capacity mismatch capacity before: '' @ Itoa (msp_Capacity m)
              @ '' capacity after: '' @ Itoa (msp_Capacity m')))))
          else if msp_Used m \<noteq> msp_Used m' then
            ret (Return (Inl (Errorf (''failed due to pool usage mismatch usage before: '' @ Itoa (msp_Used m)
              @ '' usage after: '' @ Itoa (msp_Used m')))))
          else seq (index (msp_Disks m) 0) (\<lambda>d. seq (index (msp_Disks m') 0) (\<lambda>d'.
            if d \<noteq> d' then ret (Return (Inl (Errorf (''failed due to disk mismatch disk before: '' @ d @ '' disk after: '' @ d'))))
            else if msp_Node m \<noteq> msp_Node m' then
              ret (Return (Inl (Errorf (''failed due to node name mismatch node name before: '' @ msp_Node m
                @ '' node name after: '' @ msp_Node m'))))
            else ret (Continue ()))))"

definition compareMsps ::
    "((string, msp) gomap \<Rightarrow> (string \<times> msp) list) \<Rightarrow> msp list \<Rightarrow> msp list \<Rightarrow> ('s, unit result) io" where
  "compareMsps ord mspListBefore mspListAfter =
     after (for_in (ord (by_name mspListBefore)) () (compare_pool (by_name mspListAfter))) (\<lambda>_. ret (Inr ()))"

section \<open>The test\<close>

definition timeout_error :: "string \<Rightarrow> string \<Rightarrow> error \<Rightarrow> error" where
  "timeout_error what text err = Errorf (''failed to parse '' @ what @ '' timeout '' @ text @ '' string , error: '' @ err_text err)"

text \<open>The part up to the empty pools: create replicas, see their usage, remove them.\<close>

definition use_pools :: "'w cluster \<Rightarrow> int \<Rightarrow> nat \<Rightarrow> nat \<Rightarrow> ('w, unit result) io" where
  "use_pools cl replicaSize replicaRounds usageRounds =
     seq (GetNodeLocs cl) (\<lambda>r. case (case r of Inl e \<Rightarrow> ([], Some e) | Inr ns \<Rightarrow> (ns, None)) of (nodes, err) \<Rightarrow>
     check (create_replicas cl replicaSize nodes) (\<lambda>e. e) (\<lambda>replicaCount.
     polled (wait_value cl replicaRounds (ListReplicasInCluster cl) (\<lambda>rs. int (length rs) = replicaCount) ([], err))
       ''failed to list replicas in cluster, error: '' (\<lambda>rs. int (length rs) = replicaCount)
       (\<lambda>rs. replica_mismatch replicaCount (length rs)) (\<lambda>replicas.
     polled (wait_value cl usageRounds (GetPoolUsageInCluster cl) (\<lambda>u. u \<noteq> 0) (0, None))
       ''failed to get mayastor pool usage in cluster, error: '' (\<lambda>u. u \<noteq> 0) (usage_mismatch ''>=0'') (\<lambda>poolUsage.
     check (RmReplicasInCluster cl) (wrapped ''failed to remove replicas from cluster , error: '') (\<lambda>_.
     polled (wait_value cl replicaRounds (ListReplicasInCluster cl) (\<lambda>rs. length rs = 0) (replicas, None))
       ''failed to list replicas in cluster, error: '' (\<lambda>rs. length rs = 0) (\<lambda>rs. replica_mismatch 0 (length rs)) (\<lambda>_.
     polled (wait_value cl usageRounds (GetPoolUsageInCluster cl) (\<lambda>u. u = 0) (poolUsage, None))
       ''failed to get mayastor pool usage in cluster, error: '' (\<lambda>u. u = 0) (usage_mismatch ''0'') (\<lambda>_.
     ret (Inr ()))))))))"

text \<open>Mayastor is restarted and must answer again.\<close>

definition restart_mayastor :: "'w cluster \<Rightarrow> int \<Rightarrow> string \<Rightarrow> ('w, unit result) io" where
  "restart_mayastor cl restartTimeout defTimeout =
     check (RestartMayastorPods (pods cl) restartTimeout) (wrapped ''failed to restart mayastor pods, error: '') (\<lambda>_.
     check (WaitForMCPPath cl defTimeout) (wrapped ''failed to start mayastor control plane components, error: '') (\<lambda>_.
     check (GetMayastorNodeIPs cl) (wrapped ''failed to get mayastor nodes ip, error: '') (\<lambda>ms_ips.
     if length ms_ips = 0 then ret (Inl (Errorf ''no mayastor nodes found''))
     else check (WaitForMayastorSockets cl ms_ips defTimeout) (wrapped ''failed to start socket to mayastor pod, error: '') (\<lambda>_.
     ret (Inr ())))))"

definition delete_pools :: "'w cluster \<Rightarrow> nat \<Rightarrow> nat \<Rightarrow> msp list \<Rightarrow> ('w, unit result) io" where
  "delete_pools cl deleteRounds listRounds ps =
     seq (pool_rounds cl deleteRounds (delete_pool cl) (\<lambda>p. '': failed to delete pool '' @ msp_Name p @ '', error: '') ps None) (\<lambda>cerr.
     case cerr of
       Some e \<Rightarrow> ret (Inl (wrapped ''failed to delete mayastor pools, error: '' e))
     | None \<Rightarrow>
         polled (wait_value cl listRounds (ListMsPools cl) (\<lambda>msp. length msp = 0) ([], None))
           ''failed to list mayastor pools in cluster, error: '' (\<lambda>msp. length msp = 0) (\<lambda>msp. pool_mismatch (length msp)) (\<lambda>_.
         ret (Inr ())))"

definition create_pools :: "'w cluster \<Rightarrow> nat \<Rightarrow> msp list \<Rightarrow> ('w, unit result) io" where
  "create_pools cl rounds ps =
     seq (pool_rounds cl rounds (create_pool cl) (\<lambda>p. '': failed to create pool '' @ msp_Name p @ '', error: '') ps None) (\<lambda>cerr.
     case cerr of
       Some e \<Rightarrow> ret (Inl (wrapped ''failed to create mayastor pools, error: '' e))
     | None \<Rightarrow> ret (Inr ()))"

text \<open>
  When no round is allowed, the variables of the last two waits still hold what the waits
  before them accepted, no usage and no replicas.
\<close>

definition pools_unused :: "'w cluster \<Rightarrow> nat \<Rightarrow> nat \<Rightarrow> ('w, unit result) io" where
  "pools_unused cl replicaRounds usageRounds =
     seq (sleeps cl 60) (\<lambda>_.
     polled (wait_value cl usageRounds (GetPoolUsageInCluster cl) (\<lambda>u. u = 0) (0, None))
       ''failed to match mayastor pool usage to 0, error: '' (\<lambda>u. u = 0) (usage_mismatch ''0'') (\<lambda>_.
     polled (wait_value cl replicaRounds (ListReplicasInCluster cl) (\<lambda>rs. length rs = 0) ([], None))
       ''failed to match replica count to 0, error: '' (\<lambda>rs. length rs = 0) (\<lambda>rs. replica_mismatch 0 (length rs)) (\<lambda>_.
     ret (Inr ()))))"

text \<open>The error of a bad pool list timeout shows the pool usage timeout.\<close>

definition primitivePoolDeletion ::
    "((string, msp) gomap \<Rightarrow> (string \<times> msp) list) \<Rightarrow> 'w conductor \<Rightarrow> ('w, unit result) io" where
  "primitivePoolDeletion ord tc =
     (let cl = Kube tc; params = cf_PrimitivePoolDeletion (Config tc) in
      check (ret (ParseDuration cl (pd_ReplicasTimeoutSecs params))) (timeout_error ''replica'' (pd_ReplicasTimeoutSecs params)) (\<lambda>replicasTimeout.
      check (ret (ParseDuration cl (pd_PoolUsageTimeoutSecs params))) (timeout_error ''pool usage'' (pd_PoolUsageTimeoutSecs params)) (\<lambda>poolUsageTimeout.
      check (ret (ParseDuration cl (pd_PoolDeleteTimeoutSecs params))) (timeout_error ''pool deletion'' (pd_PoolDeleteTimeoutSecs params)) (\<lambda>poolDeletionTimeout.
      check (ret (ParseDuration cl (pd_PoolListTimeoutSecs params))) (timeout_error ''pool list'' (pd_PoolUsageTimeoutSecs params)) (\<lambda>poolListTimeout.
      check (ret (ParseDuration cl (pd_PoolCreateTimeoutSecs params))) (timeout_error ''pool creation'' (pd_PoolCreateTimeoutSecs params)) (\<lambda>poolCreationTimeout.
      check (ListMsPools cl) (wrapped ''failed to list mayastor pools via CRD, error: '') (\<lambda>pools_before.
      check (use_pools cl (pd_ReplicaSize params) (wait_rounds replicasTimeout) (wait_rounds poolUsageTimeout)) (\<lambda>e. e) (\<lambda>_.
      check (delete_pools cl (wait_rounds poolDeletionTimeout) (wait_rounds poolListTimeout) pools_before) (\<lambda>e. e) (\<lambda>_.
      check (restart_mayastor cl (pd_MayastorRestartTimeout params) (pd_DefTimeoutSecs params)) (\<lambda>e. e) (\<lambda>_.
      check (create_pools cl (wait_rounds poolCreationTimeout) pools_before) (\<lambda>e. e) (\<lambda>_.
      check (pools_unused cl (wait_rounds replicasTimeout) (wait_rounds poolUsageTimeout)) (\<lambda>e. e) (\<lambda>_.
      check (ListMsPools cl) (wrapped ''failed to list pools, error: '') (\<lambda>msps.
      check (compareMsps ord pools_before msps) (wrapped ''failed while checking mayastor pool configuration, error: '') (\<lambda>_.
      ret (Inr ())))))))))))))))"

definition PrimitivePoolDeletionTest ::
    "((string, msp) gomap \<Rightarrow> (string \<times> msp) list) \<Rightarrow> 'w conductor \<Rightarrow> ('w, unit result) io" where
  "PrimitivePoolDeletionTest ord tc =
     check (tc_SendTestRunToDo tc) (wrapped ''failed to inform test director of test creation, error: '') (\<lambda>_.
     check (tc_SendTestRunStarted tc) (wrapped ''failed to inform test director of test start, error: '') (\<lambda>_.
     after (for_in [0 ..< nat (pd_Iterations (cf_PrimitivePoolDeletion (Config tc)))] () (\<lambda>ix _.
       seq (primitivePoolDeletion ord tc) (\<lambda>r. case r of
         Inl err \<Rightarrow> ret (Return (Inl err))
       | Inr _ \<Rightarrow> ret (Continue ()))))
     (\<lambda>_. ret (Inr ()))))"

section \<open>A failure in a round stays\<close>

lemma pool_round_failed: "yields (\<lambda>x. x \<noteq> None) (pool_round op msg ps (Some e))"
  unfolding pool_round_def
  by (rule yields_after [where P = "\<lambda>x. x \<noteq> None"], rule yields_for_in) (auto intro!: posts)

lemma pool_round_not_None [simp]: "pool_round op msg ps (Some e) s \<noteq> (Done None, s')"
  by (blast dest: yieldsD [OF pool_round_failed])

lemma pool_retry_failed:
  assumes "v \<noteq> None"
  shows "yields (\<lambda>c. case c of Continue v' \<Rightarrow> v' \<noteq> None | Break v' \<Rightarrow> v' \<noteq> None | Return r \<Rightarrow> r \<noteq> None)
    (pool_retry cl op msg ps ix v)"
  using assms
  by (auto simp: pool_retry_def yields_def elim!: seq_DoneE split: option.splits)

lemma pool_rounds_failed:
  "for_in ixs (Some e) (pool_retry cl op msg ps) w = (Done c, w') \<Longrightarrow> c \<noteq> Inl None \<and> c \<noteq> Inr None"
  using yieldsD [OF yields_for_in [OF pool_retry_failed]] by (force split: sum.splits)

text \<open>So the loop succeeds exactly if its first round does.\<close>

lemma pool_rounds_None:
  assumes "0 < rounds"
  shows "pool_rounds cl rounds op msg ps None s = (Done None, s') \<longleftrightarrow> pool_round op msg ps None s = (Done None, s')"
proof -
  have n: "[0 ..< rounds] = 0 # [1 ..< rounds]"
    using assms by (simp add: upt_rec)
  show ?thesis
  proof
    assume "pool_rounds cl rounds op msg ps None s = (Done None, s')"
    then show "pool_round op msg ps None s = (Done None, s')"
      by (auto simp: pool_rounds_def n after_def pool_retry_def [of cl op msg ps 0] sleeps_def
          elim!: seq_DoneE split: option.splits sum.splits dest!: pool_rounds_failed)
  qed (simp add: pool_rounds_def n after_def pool_retry_def seq_def)
qed

lemma create_pools_ok:
  "create_pools cl rounds ps s = (Done (Inr ()), s') \<longleftrightarrow>
     pool_rounds cl rounds (create_pool cl) (\<lambda>p. '': failed to create pool '' @ msp_Name p @ '', error: '') ps None s = (Done None, s')"
  by (auto simp: create_pools_def seq_def split: prod.splits outcome.splits option.splits)

lemma delete_pools_ok:
  "delete_pools cl rounds listRounds ps s = (Done (Inr ()), s') \<longleftrightarrow>
     (\<exists>w. pool_rounds cl rounds (delete_pool cl) (\<lambda>p. '': failed to delete pool '' @ msp_Name p @ '', error: '') ps None s = (Done None, w) \<and>
       polled (wait_value cl listRounds (ListMsPools cl) (\<lambda>msp. length msp = 0) ([], None))
         ''failed to list mayastor pools in cluster, error: '' (\<lambda>msp. length msp = 0) (\<lambda>msp. pool_mismatch (length msp))
         (\<lambda>_. ret (Inr ())) w = (Done (Inr ()), s'))"
  by (auto simp: delete_pools_def seq_def split: prod.splits outcome.splits option.splits)

text \<open>
  Trying again does not help to delete or to create the pools. However many
  rounds the timeout allows, the test goes on exactly if the first round deleted, or created, every
  pool: the error of a failed round is never cleared, so after the last round it is still there.
\<close>

theorem pool_retries_useless:
  assumes "0 < rounds"
  shows "(create_pools cl rounds ps s = (Done (Inr ()), s') \<longleftrightarrow> create_pools cl 1 ps s = (Done (Inr ()), s')) \<and>
    (delete_pools cl rounds listRounds ps s = (Done (Inr ()), s') \<longleftrightarrow> delete_pools cl 1 listRounds ps s = (Done (Inr ()), s'))"
  by (simp add: create_pools_ok delete_pools_ok pool_rounds_None assms)

text \<open>A pool, and a cluster that is too busy at first to create it.\<close>

definition one_pool :: msp where
  "one_pool = \<lparr>msp_Name = ''p'', msp_Finalizers = None, msp_Node = ''n'', msp_Disks = [''/dev/sdb''],
     msp_State = ''Online'', msp_Capacity = 10, msp_Used = 0\<rparr>"

definition late_pools :: "nat cluster" where
  "late_pools = (small_cluster ''online'' ''Online'' [])\<lparr>MspCreate := \<lambda>p w. (if w = 0 then Inl (Error ''busy'') else Inr p, w)\<rparr>"

theorem pool_retries_useless_witness:
  "create_pool late_pools one_pool 10 = (Done (Inr ()), 10) \<and> (\<forall>w. create_pools late_pools 3 [one_pool] 0 \<noteq> (Done (Inr ()), w))"
proof (intro conjI allI)
  show "create_pool late_pools one_pool 10 = (Done (Inr ()), 10)"
    by (simp add: create_pool_def CreateMsPool_def late_pools_def one_pool_def small_cluster_def io_simps check_def)
  fix w
  have "create_pools late_pools 1 [one_pool] 0 \<noteq> (Done (Inr ()), w)"
    by (simp add: create_pools_def pool_rounds_def pool_retry_def pool_round_def create_pool_def CreateMsPool_def
        late_pools_def one_pool_def small_cluster_def io_simps check_def sleeps_def sleep_secs_def)
  then show "create_pools late_pools 3 [one_pool] 0 \<noteq> (Done (Inr ()), w)"
    using pool_retries_useless [of 3 late_pools "[one_pool]" 0 w 0] by simp
qed

section \<open>What the comparison says\<close>

lemma wf_by_name: "wf_gomap (by_name ps)"
proof -
  have "wf_gomap (fold (\<lambda>pool. AList.update (msp_Name pool) pool) ps m)" if "wf_gomap m" for m
    using that by (induction ps arbitrary: m) (simp_all add: gomap)
  then show ?thesis by (simp add: by_name_def)
qed

lemma map_of_by_name:
  assumes "distinct (map msp_Name ps)"
  shows "map_of (by_name ps) n = Some p \<longleftrightarrow> p \<in> set ps \<and> msp_Name p = n"
proof -
  have "map_of (fold (\<lambda>pool. AList.update (msp_Name pool) pool) ps m) n =
      (case find (\<lambda>p. msp_Name p = n) ps of Some p \<Rightarrow> Some p | None \<Rightarrow> map_of m n)" for m
    using assms
  proof (induction ps arbitrary: m)
    case (Cons q qs)
    then have "msp_Name q \<notin> msp_Name ` set qs" by simp
    then have "find (\<lambda>p. msp_Name p = msp_Name q) qs = None"
      by (auto simp: find_None_iff intro: rev_image_eqI)
    with Cons show ?case by (auto simp: gomap split: option.split)
  qed simp
  then have "map_of (by_name ps) n = find (\<lambda>p. msp_Name p = n) ps"
    by (simp add: by_name_def split: option.split)
  moreover have "find (\<lambda>p. msp_Name p = n) ps = Some p \<longleftrightarrow> p \<in> set ps \<and> msp_Name p = n"
    using assms by (induction ps) (auto simp: image_iff)
  ultimately show ?thesis by simp
qed

definition same_pool :: "msp \<Rightarrow> msp \<Rightarrow> bool" where
  "same_pool m m' \<longleftrightarrow> msp_Name m = msp_Name m' \<and> msp_Capacity m = msp_Capacity m' \<and> msp_Used m = msp_Used m' \<and>
     hd (msp_Disks m) = hd (msp_Disks m') \<and> msp_Node m = msp_Node m'"

lemma compare_pool_result:
  assumes "msp_Disks m \<noteq> []" and "\<And>m'. map_of later i = Some m' \<Longrightarrow> msp_Disks m' \<noteq> [] \<and> msp_Name m' = i" and "msp_Name m = i"
  shows "(\<exists>e. compare_pool later (i, m) u s = (Done (Return (Inl e)), s) \<and> (\<forall>m'. map_of later i = Some m' \<longrightarrow> \<not> same_pool m m')) \<or>
    (compare_pool later (i, m) u s = (Done (Continue ()), s) \<and> (\<exists>m'. map_of later i = Some m' \<and> same_pool m m'))"
proof (cases "map_of later i")
  case (Some m')
  then have "msp_Disks m' \<noteq> []" "msp_Name m' = i" using assms(2) by auto
  with assms(1,3) Some show ?thesis
    by (auto simp: compare_pool_def index_def same_pool_def hd_conv_nth)
qed (simp add: compare_pool_def)

lemma compare_loop:
  assumes "\<And>i m. (i, m) \<in> set es \<Longrightarrow> msp_Disks m \<noteq> [] \<and> msp_Name m = i"
    and "\<And>i m'. map_of later i = Some m' \<Longrightarrow> msp_Disks m' \<noteq> [] \<and> msp_Name m' = i"
  shows "if (\<forall>(i, m) \<in> set es. \<exists>m'. map_of later i = Some m' \<and> same_pool m m')
    then for_in es () (compare_pool later) s = (Done (Inr ()), s)
    else \<exists>e. for_in es () (compare_pool later) s = (Done (Inl (Inl e)), s)"
  using assms(1)
proof (induction es)
  case (Cons x es)
  obtain i m where x: "x = (i, m)" by (cases x)
  have IH: "if (\<forall>(i, m) \<in> set es. \<exists>m'. map_of later i = Some m' \<and> same_pool m m')
      then for_in es () (compare_pool later) s = (Done (Inr ()), s)
      else \<exists>e. for_in es () (compare_pool later) s = (Done (Inl (Inl e)), s)"
    by (rule Cons.IH) (rule Cons.prems, simp)
  from Cons.prems [of i m] assms(2) compare_pool_result [of m later i "()" s]
  have "(\<exists>e. compare_pool later (i, m) () s = (Done (Return (Inl e)), s) \<and> (\<forall>m'. map_of later i = Some m' \<longrightarrow> \<not> same_pool m m')) \<or>
    (compare_pool later (i, m) () s = (Done (Continue ()), s) \<and> (\<exists>m'. map_of later i = Some m' \<and> same_pool m m'))"
    by (simp add: x)
  with IH show ?case
    by (auto simp: x seq_def split: if_splits)
qed simp

text \<open>
  Property C21. The comparison at the end of the test succeeds exactly if every pool that was
  there before is there again with the same name, capacity, usage, node and disk; in any other
  case it returns an error, and it never panics as long as every pool has a disk. The order
  in which the map is enumerated does not matter, and pools that are new are not looked at.
\<close>

theorem compareMsps_correct:
  assumes "enumerates ord" and "distinct (map msp_Name before)" and "distinct (map msp_Name later)"
    and "\<forall>p \<in> set before \<union> set later. msp_Disks p \<noteq> []"
  shows "if (\<forall>m \<in> set before. \<exists>m' \<in> set later. same_pool m m') then compareMsps ord before later s = (Done (Inr ()), s)
    else \<exists>e. compareMsps ord before later s = (Done (Inl e), s)"
proof -
  have mem: "(i, m) \<in> set (ord (by_name before)) \<longleftrightarrow> m \<in> set before \<and> msp_Name m = i" for i m
    using map_of_by_name [OF assms(2)] by (simp add: set_enum assms(1) map_of_wf wf_by_name)
  have "if (\<forall>(i, m) \<in> set (ord (by_name before)). \<exists>m'. map_of (by_name later) i = Some m' \<and> same_pool m m')
    then for_in (ord (by_name before)) () (compare_pool (by_name later)) s = (Done (Inr ()), s)
    else \<exists>e. for_in (ord (by_name before)) () (compare_pool (by_name later)) s = (Done (Inl (Inl e)), s)"
    using assms(4) by (intro compare_loop) (auto simp: mem map_of_by_name [OF assms(3)])
  moreover have "(\<forall>(i, m) \<in> set (ord (by_name before)). \<exists>m'. map_of (by_name later) i = Some m' \<and> same_pool m m')
      \<longleftrightarrow> (\<forall>m \<in> set before. \<exists>m' \<in> set later. same_pool m m')"
    by (simp add: split_def mem map_of_by_name [OF assms(3)] same_pool_def Ball_def Bex_def) (metis eq_fst_iff eq_snd_iff mem)
  ultimately show ?thesis
    by (auto simp: compareMsps_def after_def seq_def split: if_splits)
qed

theorem compareMsps_correct_witness:
  "compareMsps rev [one_pool] [one_pool, one_pool\<lparr>msp_Name := ''q''\<rparr>] () = (Done (Inr ()), ()) \<and>
   (\<exists>e. compareMsps rev [one_pool] [one_pool\<lparr>msp_Used := 1\<rparr>] () = (Done (Inl e), ()))"
  using compareMsps_correct [of rev "[one_pool]" "[one_pool, one_pool\<lparr>msp_Name := ''q''\<rparr>]" "()"]
    compareMsps_correct [of rev "[one_pool]" "[one_pool\<lparr>msp_Used := 1\<rparr>]" "()"]
  by (simp add: one_pool_def same_pool_def)

end
