(* ===== verification/Conductor_Tests.thy ===== *)
theory Conductor_Tests
  imports Conductor_Common
begin

text \<open>
  The tests of \<^verbatim>\<open>test_conductor/tests\<close> that run in one thread: \<^verbatim>\<open>steady_state.go\<close>,
  \<^verbatim>\<open>replica_perturbation.go\<close>, \<^verbatim>\<open>replica_elimination.go\<close> and \<^verbatim>\<open>primitive_pool_deletion.go\<close>. Each
  returns an error, here \<open>Inl\<close>, or nil. The goroutine that the perturbation and the elimination
  start is waited for at once, so it runs like a call.

  \<open>fuel\<close> bounds the rounds of every loop that ends only when the clock or the cluster says so.
\<close>

definition or_nil :: "error option \<Rightarrow> unit result" where
  "or_nil err = (case err of Some e \<Rightarrow> Inl e | None \<Rightarrow> Inr ())"

text \<open>
  \<^verbatim>\<open>if err = f(); err != nil { combinederr = fmt.Errorf("%v: text %v", combinederr, err) }\<close>, and
  the same with \<^verbatim>\<open>CombineErrors\<close>.
\<close>

definition appending :: "('w, unit result) io \<Rightarrow> string \<Rightarrow> error option \<Rightarrow> ('w run, error option) io" where
  "appending m text combinederr = seq (in_world m) (\<lambda>r. case r of
      Inl err \<Rightarrow> ret (Some (Errorf (err_v combinederr @ '': '' @ text @ err_text err)))
    | Inr _ \<Rightarrow> ret combinederr)"

definition combining :: "('w, unit result) io \<Rightarrow> string \<Rightarrow> error option \<Rightarrow> ('w run, error option) io" where
  "combining m text combinederr = seq (in_world m) (\<lambda>r. case r of
      Inl err \<Rightarrow> CombineErrors combinederr (Some (wrapped text err))
    | Inr _ \<Rightarrow> ret combinederr)"

definition test_sc :: "string \<Rightarrow> int \<Rightarrow> binding_mode \<Rightarrow> bool option \<Rightarrow> sc_builder" where
  "test_sc sc_name replicas mode loc =
     (let b = Sc_WithVolumeBindingMode (Some mode) (Sc_WithNamespace ''default'' (Sc_WithProtocol ''nvmf''
            (Sc_WithReplicas replicas (Sc_WithName sc_name NewScBuilder))))
      in case loc of Some l \<Rightarrow> Sc_WithLocal l b | None \<Rightarrow> b)"

section \<open>Steady state\<close>

definition SteadyStateTest :: "nat \<Rightarrow> 'w conductor \<Rightarrow> ('w run, unit result) io" where
  "SteadyStateTest fuel tc =
     (let cl = Kube tc; wm = WorkloadMonitorClient tc; cfg = cf_SteadyState (Config tc);
          sc_name = ''steady-state-sc''; pvc_name = ''steady-state-pvc''; fio_name = ''steady-state-fio'' in
      check (in_world (tc_SendTestRunToDo tc)) (wrapped ''failed to inform test director of test creation, error: '') (\<lambda>_.
      check (ret (GetDuration cl (cf_Duration (Config tc)))) (wrapped ''failed to parse duration '') (\<lambda>duration.
      check (in_world (tc_SendTestRunStarted tc)) (wrapped ''failed to inform test director of test start, error: '') (\<lambda>_.
      check (in_world (AddCommonWorkloads cl wm violations)) (wrapped ''failed add common workloads, error: '') (\<lambda>_.
      check (in_world (Sc_BuildAndCreate cl (test_sc sc_name (ss_Replicas cfg) VolumeBindingImmediate None)))
        (wrapped ''failed to create sc '') (\<lambda>_.
      check (in_world (MkPVC cl (ss_VolumeSizeMb cfg) pvc_name sc_name VolRawBlock ''default'' False))
        (wrapped ''failed to create pvc '') (\<lambda>_.
      check (in_world (DeployFio cl (cf_E2eFioImage (Config tc)) fio_name pvc_name VolRawBlock (ss_VolumeSizeMb cfg) 1000000
          (ss_ThinkTime cfg) (ss_ThinkTimeBlocks cfg)))
        (wrapped (''failed to deploy pod '' @ fio_name @ '', error: '')) (\<lambda>_.
      check (in_world (AddWorkload cl wm fio_name ''default'' violations))
        (wrapped (''failed to inform workload monitor of '' @ fio_name @ '', error: '')) (\<lambda>_.
      seq (MonitorCRs fuel tc duration '''') (\<lambda>r.
      seq (appending (tc_DeleteWorkloads cl wm) ''failed to delete all registered workloads, error: ''
        (case r of Inl e \<Rightarrow> Some e | Inr _ \<Rightarrow> None)) (\<lambda>err1.
      seq (appending (DeletePod (pods cl) fio_name ''default'' 120) (''failed to delete pod '' @ fio_name @ '', error: '') err1) (\<lambda>err2.
      seq (appending (DeletePVC cl pvc_name ''default'') (''failed to delete PVC '' @ pvc_name @ '', error: '') err2) (\<lambda>err3.
      seq (appending (DeleteSc cl sc_name) (''failed to delete storage class '' @ sc_name @ '', error: '') err3) (\<lambda>err4.
      ret (or_nil err4)))))))))))))))"

section \<open>Replica perturbation\<close>

text \<open>
  The error text of \<^verbatim>\<open>setReplicasRetry\<close> ends with the answer, which is empty when the request
  failed.
\<close>

definition set_attempt ::
    "'w cluster \<Rightarrow> string \<Rightarrow> string \<Rightarrow> int \<Rightarrow> nat \<Rightarrow> error option \<times> string
     \<Rightarrow> ('w, (error option \<times> string, unit result) ctl) io" where
  "set_attempt cl ms_ip uid replicas i v =
     seq (SetVolumeReplicas cl ms_ip uid replicas) (\<lambda>r. case r of
       Inr resp \<Rightarrow> ret (Break (None, resp))
     | Inl err \<Rightarrow> seq (sleeps cl 10) (\<lambda>_. ret (Continue (Some err, ''''))))"

definition setReplicasRetry :: "'w cluster \<Rightarrow> string \<Rightarrow> string \<Rightarrow> int \<Rightarrow> nat \<Rightarrow> ('w, unit result) io" where
  "setReplicasRetry cl ms_ip uid replicas retries =
     after (for_in [0 ..< retries] (None, '''') (set_attempt cl ms_ip uid replicas)) (\<lambda>(err, resp).
     case err of
       Some e \<Rightarrow> ret (Inl (Errorf (''failed to set replicas to '' @ Itoa replicas @ '', err: '' @ err_text e @ '', response '' @ resp)))
     | None \<Rightarrow>
         after (for_in [0 ..< 100] () (\<lambda>i _.
           seq (GetVolumeReplicaCount cl ms_ip uid) (\<lambda>r. case r of
             Inl e \<Rightarrow> ret (Return (Inl (Errorf (''failed to get replicas, err: '' @ err_text e @ '', response '' @ resp))))
           | Inr reps \<Rightarrow>
               if reps = replicas then ret (Return (Inr ()))
               else seq (sleeps cl 10) (\<lambda>_. ret (Continue ())))))
         (\<lambda>_. ret (Inl (Errorf (''failed to set replicas to '' @ Itoa replicas @ '', timed out'')))))"

definition setReplicas :: "'w cluster \<Rightarrow> string \<Rightarrow> string \<Rightarrow> int \<Rightarrow> ('w, unit result) io" where
  "setReplicas cl ms_ip uid replicas = setReplicasRetry cl ms_ip uid replicas 1"

text \<open>
  A round of the test is a sequence of steps, each of which breaks out of the loop with its
  error; \<open>devs\<close> are the devices that are offline at that point.
\<close>

type_synonym 'w perturb = "('w, device_descriptor list \<times> error option) io"

definition step_ok :: "('w, 'a result) io \<Rightarrow> device_descriptor list \<Rightarrow> ('a \<Rightarrow> 'w perturb) \<Rightarrow> 'w perturb" where
  "step_ok m devs f = seq m (\<lambda>r. case r of Inl e \<Rightarrow> ret (devs, Some e) | Inr x \<Rightarrow> f x)"

definition step_devs :: "'w perturb \<Rightarrow> (device_descriptor list \<Rightarrow> 'w perturb) \<Rightarrow> 'w perturb" where
  "step_devs m f = seq m (\<lambda>(devs, err). case err of Some e \<Rightarrow> ret (devs, Some e) | None \<Rightarrow> f devs)"

definition random_sleep_step :: "'w cluster \<Rightarrow> int \<Rightarrow> device_descriptor list \<Rightarrow> 'w perturb" where
  "random_sleep_step cl flag devs =
     (if flag = 1 then step_ok (randomSleep cl) devs (\<lambda>_. ret (devs, None)) else ret (devs, None))"

definition offline_device_test :: "nat \<Rightarrow> 'w conductor \<Rightarrow> string \<Rightarrow> string \<Rightarrow> device_descriptor list \<Rightarrow> 'w perturb" where
  "offline_device_test fuel tc ip uid devs =
     (let cl = Kube tc; cfg = cf_ReplicaPerturbation (Config tc); n = cf_Msnodes (Config tc) in
      step_ok (EtfwRandom cl (word_of_int n)) devs (\<lambda>poolToAffect.
      step_devs (offlineDevice cl poolToAffect n devs) (\<lambda>devs1.
      step_ok (waitForVolumeStatus fuel cl ip uid ''Degraded'') devs1 (\<lambda>_.
      step_devs (restoreDevices cl devs1) (\<lambda>devs2.
      step_ok (waitForVolumeStatus fuel cl ip uid ''Online'') devs2 (\<lambda>_.
      random_sleep_step cl (rp_RandomSleep cfg) devs2))))))"

definition replicas_test :: "nat \<Rightarrow> 'w conductor \<Rightarrow> string \<Rightarrow> string \<Rightarrow> device_descriptor list \<Rightarrow> 'w perturb" where
  "replicas_test fuel tc ip uid devs =
     (let cl = Kube tc; cfg = cf_ReplicaPerturbation (Config tc) in
      step_ok (setReplicas cl ip uid 2) devs (\<lambda>_.
      step_ok (waitForVolumeStatus fuel cl ip uid ''Online'') devs (\<lambda>_.
      step_ok (setReplicas cl ip uid 3) devs (\<lambda>_.
      step_ok (waitForVolumeStatus fuel cl ip uid ''Degraded'') devs (\<lambda>_.
      step_ok (waitForVolumeStatus fuel cl ip uid ''Online'') devs (\<lambda>_.
      random_sleep_step cl (rp_RandomSleep cfg) devs))))))"

text \<open>The first attempt to go back to three replicas is expected to fail; its error is dropped.\<close>

definition offline_and_replicas_test :: "nat \<Rightarrow> 'w conductor \<Rightarrow> string \<Rightarrow> string \<Rightarrow> device_descriptor list \<Rightarrow> 'w perturb" where
  "offline_and_replicas_test fuel tc ip uid devs =
     (let cl = Kube tc; cfg = cf_ReplicaPerturbation (Config tc); n = cf_Msnodes (Config tc) in
      step_ok (EtfwRandom cl (word_of_int n)) devs (\<lambda>poolToAffect.
      step_devs (offlineDevice cl poolToAffect n devs) (\<lambda>devs1.
      step_ok (waitForVolumeStatus fuel cl ip uid ''Degraded'') devs1 (\<lambda>_.
      step_ok (setReplicas cl ip uid 2) devs1 (\<lambda>_.
      step_ok (waitForVolumeStatus fuel cl ip uid ''Online'') devs1 (\<lambda>_.
      seq (setReplicas cl ip uid 3) (\<lambda>_.
      step_devs (restoreDevices cl devs1) (\<lambda>devs2.
      step_ok (setReplicasRetry cl ip uid 3 10) devs2 (\<lambda>_.
      step_ok (waitForVolumeStatus fuel cl ip uid ''Online'') devs2 (\<lambda>_.
      random_sleep_step cl (rp_RandomSleep cfg) devs2))))))))))"

definition enabled :: "int \<Rightarrow> (device_descriptor list \<Rightarrow> 'w perturb) \<Rightarrow> device_descriptor list \<Rightarrow> 'w perturb" where
  "enabled flag m devs = (if flag \<noteq> 0 then m devs else ret (devs, None))"

definition perturb_steps :: "nat \<Rightarrow> 'w conductor \<Rightarrow> string \<Rightarrow> device_descriptor list \<Rightarrow> 'w perturb" where
  "perturb_steps fuel tc ip devs =
     (let cl = Kube tc; cfg = cf_ReplicaPerturbation (Config tc) in
      seq (getOnlyVolume cl ip) (\<lambda>r. case r of
        Inl err \<Rightarrow> ret (devs, Some (wrapped ''failed to get volumes via rest, error: '' err))
      | Inr (uid, status) \<Rightarrow>
          if status \<noteq> ''Online''
          then ret (devs, Some (Errorf (''Unexpected volume status, expected Online, got '' @ status)))
          else
            step_devs (enabled (rp_OfflineDeviceTest cfg) (offline_device_test fuel tc ip uid) devs) (\<lambda>devs1.
            step_devs (enabled (rp_ReplicasTest cfg) (replicas_test fuel tc ip uid) devs1) (\<lambda>devs2.
            enabled (rp_OfflineDevAndReplicasTest cfg) (offline_and_replicas_test fuel tc ip uid) devs2))))"

definition perturb_round ::
    "nat \<Rightarrow> 'w conductor \<Rightarrow> string \<Rightarrow> int \<Rightarrow> nat \<Rightarrow> device_descriptor list \<times> error option
     \<Rightarrow> ('w, (device_descriptor list \<times> error option, unit) ctl) io" where
  "perturb_round fuel tc ip endTime i v =
     (case v of (devs, err) \<Rightarrow>
      seq (call (NowNano (Kube tc))) (\<lambda>now.
      if endTime < now then ret (Break (devs, err))
      else seq (perturb_steps fuel tc ip devs) (\<lambda>(devs', err'). case err' of
        Some e \<Rightarrow> ret (Break (devs', Some e))
      | None \<Rightarrow> ret (Continue (devs', None)))))"

definition vol_suffix :: "int \<Rightarrow> volume_type \<times> string" where
  "vol_suffix fs = (if fs \<noteq> 0 then (VolFileSystem, ''fs'') else (VolRawBlock, ''block''))"

text \<open>After the loop the devices are restored, whatever happened, and the objects are deleted.\<close>

definition perturb_cleanup ::
    "'w conductor \<Rightarrow> string \<Rightarrow> string \<Rightarrow> device_descriptor list \<Rightarrow> error option \<Rightarrow> ('w run, unit result) io" where
  "perturb_cleanup tc fio_name pvc_name devs err =
     (let cl = Kube tc in
      seq (in_world (restoreDevices cl devs)) (\<lambda>_.
      seq (combining (tc_DeleteWorkload cl (WorkloadMonitorClient tc) fio_name ''default'')
        ''Failed to delete application workloads, err '' err) (\<lambda>err1.
      seq (combining (DeletePod (pods cl) fio_name ''default'' 120) (''Failed to delete application '' @ fio_name @ '', error = '') err1) (\<lambda>err2.
      seq (combining (DeletePVC cl pvc_name ''default'') (''Failed to delete pvc '' @ pvc_name @ '', error = '') err2) (\<lambda>err3.
      ret (or_nil err3))))))"

definition perturbVolume :: "nat \<Rightarrow> 'w conductor \<Rightarrow> string \<Rightarrow> int \<Rightarrow> ('w run, unit result) io" where
  "perturbVolume fuel tc sc_name duration =
     (let cl = Kube tc; cfg = cf_ReplicaPerturbation (Config tc) in
      seq (in_world (call (NowNano cl))) (\<lambda>now.
      check (in_world (GetMayastorNodeIPs cl)) (wrapped ''Failed to get MS node IPs, error: '') (\<lambda>msNodeIps.
      if length msNodeIps = 0 then ret (Inl (Errorf ''No MS nodes''))
      else seq (index msNodeIps 0) (\<lambda>cpNodeIp.
        case vol_suffix (rp_FsVolume cfg) of (vol_type, suffix) \<Rightarrow>
        let pvc_name = ''replica-perturbation-pvc-'' @ suffix @ ''-'' @ sc_name;
            fio_name = ''replica-perturbation-fio-'' @ suffix @ ''-'' @ sc_name in
        check (in_world (MkPVC cl (rp_VolumeSizeMb cfg) pvc_name sc_name vol_type ''default'' False))
          (wrapped (''failed to create pvc '' @ pvc_name @ '', error: '')) (\<lambda>_.
        check (in_world (DeployFio cl (cf_E2eFioImage (Config tc)) fio_name pvc_name vol_type (rp_VolumeSizeMb cfg) 1000000
            (rp_ThinkTime cfg) (rp_ThinkTimeBlocks cfg)))
          (wrapped (''failed to deploy pod '' @ fio_name @ '', error: '')) (\<lambda>_.
        check (in_world (AddWorkload cl (WorkloadMonitorClient tc) fio_name ''default'' violations))
          (wrapped (''failed to inform workload monitor of '' @ fio_name @ '', error: '')) (\<lambda>_.
        seq (in_world (loop fuel 0 ([], None) (perturb_round fuel tc cpNodeIp (now + duration)))) (\<lambda>c. case c of
          Inl u \<Rightarrow> ret (Inr u)
        | Inr (devs, err) \<Rightarrow> perturb_cleanup tc fio_name pvc_name devs err))))))))"

definition testVolumePerturbation :: "nat \<Rightarrow> 'w conductor \<Rightarrow> string \<Rightarrow> int \<Rightarrow> ('w run, error option) io" where
  "testVolumePerturbation fuel tc sc_name duration =
     seq (perturbVolume fuel tc sc_name duration) (\<lambda>r. case r of
       Inl err \<Rightarrow> CombineErrors None (Some err)
     | Inr _ \<Rightarrow> ret None)"

text \<open>Both replica tests create one of two storage classes and delete it at the end.\<close>

definition replica_sc :: "int \<Rightarrow> int \<Rightarrow> string \<times> sc_builder" where
  "replica_sc localVolume replicas =
     (if localVolume \<noteq> 0 then (''sc-local-wait'', test_sc ''sc-local-wait'' replicas VolumeBindingWaitForFirstConsumer (Some True))
      else (''sc-immed'', test_sc ''sc-immed'' replicas VolumeBindingImmediate (Some False)))"

definition replica_cleanup :: "'w conductor \<Rightarrow> string \<Rightarrow> error option \<Rightarrow> ('w run, unit result) io" where
  "replica_cleanup tc sc_name combinederr =
     seq (combining (tc_DeleteWorkloads (Kube tc) (WorkloadMonitorClient tc))
       ''Failed to delete all registered workloads, error = '' combinederr) (\<lambda>err1.
     seq (combining (DeleteSc (Kube tc) sc_name) (''Failed to delete SC '' @ sc_name @ '', error = '') err1) (\<lambda>err2.
     ret (or_nil err2)))"

definition ReplicaPerturbationTest :: "nat \<Rightarrow> 'w conductor \<Rightarrow> ('w run, unit result) io" where
  "ReplicaPerturbationTest fuel tc =
     (let cl = Kube tc; cfg = cf_ReplicaPerturbation (Config tc) in
      check (in_world (tc_SendTestRunToDo tc)) (wrapped ''failed to inform test director of test start, error: '') (\<lambda>_.
      check (in_world (tc_SendTestRunStarted tc)) (wrapped ''failed to inform test director of test start, error: '') (\<lambda>_.
      check (in_world (AddCommonWorkloads cl (WorkloadMonitorClient tc) violations)) (wrapped ''failed add common workloads, error: '') (\<lambda>_.
      check (ret (GetDuration cl (cf_Duration (Config tc)))) (wrapped ''failed to parse duration '') (\<lambda>duration.
      case replica_sc (rp_LocalVolume cfg) (rp_Replicas cfg) of (sc_name, b) \<Rightarrow>
      check (in_world (Sc_BuildAndCreate cl b)) (wrapped ''failed to create sc '') (\<lambda>_.
      seq (testVolumePerturbation fuel tc sc_name duration) (\<lambda>combinederr.
      replica_cleanup tc sc_name combinederr)))))))"

section \<open>Replica elimination\<close>

definition storage_tester_image :: string where
  "storage_tester_image = ''ci-registry.mayastor-ci.mayadata.io/mayadata/e2e-storage-tester:latest''"

text \<open>The status is asked for and only logged, also when there is none.\<close>

definition checkVolume :: "'w cluster \<Rightarrow> string \<Rightarrow> string \<Rightarrow> nat \<Rightarrow> ('w, unit result) io" where
  "checkVolume cl ms_ip uid seconds =
     after (for_in [0 ..< seconds] () (\<lambda>i _.
       seq (getVolumeStatus cl ms_ip uid) (\<lambda>_.
       seq (GetVolumeReplicaCount cl ms_ip uid) (\<lambda>r. case r of
         Inl e \<Rightarrow> ret (Return (Inl (Errorf (''failed to get replicas, uuid '' @ uid @ '', err: '' @ err_text e))))
       | Inr reps \<Rightarrow> seq (sleeps cl 10) (\<lambda>_. ret (Continue ()))))))
     (\<lambda>_. ret (Inr ()))"

definition deploy_tester ::
    "'w cluster \<Rightarrow> string \<Rightarrow> string \<Rightarrow> volume_type \<Rightarrow> string list \<Rightarrow> ('w, unit result) io" where
  "deploy_tester cl tester pvc_name vol_type args =
     check (DeployStorageTester cl storage_tester_image tester pvc_name vol_type (''./e2e-storage-tester'' # args))
       (wrapped (''failed to deploy e2e-storage-tester pod '' @ tester @ '', error: '')) (\<lambda>x. ret (Inr x))"

text \<open>Take all three devices offline, or kill all three Mayastor instances.\<close>

definition lose_replicas :: "nat \<Rightarrow> 'w conductor \<Rightarrow> string \<Rightarrow> string \<Rightarrow> device_descriptor list \<Rightarrow> 'w perturb" where
  "lose_replicas fuel tc ip uid devs =
     (let cl = Kube tc; n = cf_Msnodes (Config tc) in
      if re_KillMayastor (cf_ReplicaElimination (Config tc)) = 0 then
        step_devs (offlineDevice cl 0 n devs) (\<lambda>devs1.
        step_ok (waitForVolumeStatus fuel cl ip uid ''Degraded'') devs1 (\<lambda>_.
        step_devs (offlineDevice cl 1 n devs1) (\<lambda>devs2.
        step_devs (offlineDevice cl 2 n devs2) (\<lambda>devs3.
        step_ok (checkVolume cl ip uid 100) devs3 (\<lambda>_.
        restoreDevices cl devs3)))))
      else
        step_ok (killMayastor cl 0 n) devs (\<lambda>_.
        step_ok (killMayastor cl 1 n) devs (\<lambda>_.
        step_ok (killMayastor cl 2 n) devs (\<lambda>_.
        step_ok (waitForVolumeNotOnline cl ip uid) devs (\<lambda>_.
        ret (devs, None))))))"

definition eliminate_steps ::
    "nat \<Rightarrow> 'w conductor \<Rightarrow> string \<Rightarrow> string \<Rightarrow> volume_type \<Rightarrow> int \<Rightarrow> device_descriptor list \<Rightarrow> 'w perturb" where
  "eliminate_steps fuel tc ip pvc_name vol_type timeout devs =
     (let cl = Kube tc; cfg = cf_ReplicaElimination (Config tc); blocks = Itoa (re_BlocksToWrite cfg) in
      seq (getOnlyVolume cl ip) (\<lambda>r. case r of
        Inl err \<Rightarrow> ret (devs, Some (wrapped ''failed to get volumes via rest, error: '' err))
      | Inr (uid, status) \<Rightarrow>
          if status \<noteq> ''Online''
          then ret (devs, Some (Errorf (''Unexpected volume status, expected Online, got '' @ status)))
          else
            step_ok (deploy_tester cl ''e2e-storage-tester-write'' pvc_name vol_type
              [''-w'', ''-v'', ''-n'', blocks, ''/dev/sdm'']) devs (\<lambda>_.
            step_ok (WaitPodNotRunning fuel cl ''e2e-storage-tester-write'' timeout) devs (\<lambda>_.
            step_ok (CheckPodAndDelete (pods cl) ''e2e-storage-tester-write'' ''default'' 120) devs (\<lambda>_.
            seq (sleeps cl 10) (\<lambda>_.
            step_ok (deploy_tester cl ''e2e-storage-tester-read'' pvc_name vol_type
              [''-r'', ''-n'', blocks, ''-t'', ''300'', ''-d'', ''100'', ''/dev/sdm'']) devs (\<lambda>_.
            step_devs (lose_replicas fuel tc ip uid devs) (\<lambda>devs1.
            step_ok (waitForVolumeStatus fuel cl ip uid ''Online'') devs1 (\<lambda>_.
            step_ok (WaitPodNotRunning fuel cl ''e2e-storage-tester-read'' timeout) devs1 (\<lambda>_.
            seq (DeletePod (pods cl) ''e2e-storage-tester-read'' ''default'' 120) (\<lambda>_.
            seq (sleeps cl 10) (\<lambda>_.
            step_ok (deploy_tester cl ''e2e-storage-tester-verify'' pvc_name vol_type
              [''-v'', ''-n'', blocks, ''-t'', ''150'', ''/dev/sdm'']) devs1 (\<lambda>_.
            step_ok (WaitPodNotRunning fuel cl ''e2e-storage-tester-verify'' timeout) devs1 (\<lambda>_.
            step_ok (CheckPodAndDelete (pods cl) ''e2e-storage-tester-verify'' ''default'' 120) devs1 (\<lambda>_.
            seq (sleeps cl 10) (\<lambda>_.
            random_sleep_step cl (re_RandomSleep cfg) devs1))))))))))))))))"

text \<open>
  The loop keeps the name of the last tester it deployed, which is read after the loop only
  when there was no error: then it is empty or that of the verifying tester.
\<close>

definition eliminate_round ::
    "nat \<Rightarrow> 'w conductor \<Rightarrow> string \<Rightarrow> string \<Rightarrow> volume_type \<Rightarrow> int \<Rightarrow> int \<Rightarrow> nat
     \<Rightarrow> device_descriptor list \<times> string \<times> error option
     \<Rightarrow> ('w, (device_descriptor list \<times> string \<times> error option, unit) ctl) io" where
  "eliminate_round fuel tc ip pvc_name vol_type timeout endTime i v =
     (case v of (devs, tester, err) \<Rightarrow>
      seq (call (NowNano (Kube tc))) (\<lambda>now.
      if endTime < now then ret (Break (devs, tester, err))
      else seq (eliminate_steps fuel tc ip pvc_name vol_type timeout devs) (\<lambda>(devs', err'). case err' of
        Some e \<Rightarrow> ret (Break (devs', tester, Some e))
      | None \<Rightarrow> ret (Continue (devs', ''e2e-storage-tester-verify'', None)))))"

definition eliminate_cleanup ::
    "'w cluster \<Rightarrow> string \<Rightarrow> device_descriptor list \<Rightarrow> string \<Rightarrow> error option \<Rightarrow> ('w, unit result) io" where
  "eliminate_cleanup cl pvc_name devs tester err =
     seq (restoreDevices cl devs) (\<lambda>_. case err of
       Some e \<Rightarrow> ret (Inl e)
     | None \<Rightarrow>
         seq (DeletePod (pods cl) tester ''default'' 120) (\<lambda>_.
         seq (DeletePVC cl pvc_name ''default'') (\<lambda>r. case r of
           Inl locerr \<Rightarrow> seq (CombineErrors None (Some (wrapped (''Failed to delete pvc '' @ pvc_name @ '', error = '') locerr)))
             (\<lambda>e. ret (or_nil e))
         | Inr _ \<Rightarrow> ret (Inr ()))))"

definition eliminateVolume :: "nat \<Rightarrow> 'w conductor \<Rightarrow> string \<Rightarrow> int \<Rightarrow> int \<Rightarrow> ('w, unit result) io" where
  "eliminateVolume fuel tc sc_name duration timeout =
     (let cl = Kube tc; cfg = cf_ReplicaElimination (Config tc) in
      seq (call (NowNano cl)) (\<lambda>now.
      check (GetMayastorNodeIPs cl) (wrapped ''Failed to get MS node IPs, error: '') (\<lambda>msNodeIps.
      if length msNodeIps = 0 then ret (Inl (Errorf ''No MS nodes''))
      else seq (index msNodeIps 0) (\<lambda>cpNodeIp.
        case vol_suffix (re_FsVolume cfg) of (vol_type, suffix) \<Rightarrow>
        let pvc_name = ''replica-elimination-pvc-'' @ suffix @ ''-'' @ sc_name in
        check (MkPVC cl (re_VolumeSizeMb cfg) pvc_name sc_name vol_type ''default'' False)
          (wrapped (''failed to create pvc '' @ pvc_name @ '', error: '')) (\<lambda>_.
        seq (loop fuel 1 ([], '''', None) (eliminate_round fuel tc cpNodeIp pvc_name vol_type timeout (now + duration))) (\<lambda>c. case c of
          Inl u \<Rightarrow> ret (Inr u)
        | Inr (devs, tester, err) \<Rightarrow> eliminate_cleanup cl pvc_name devs tester err))))))"

definition testVolumeElimination :: "nat \<Rightarrow> 'w conductor \<Rightarrow> string \<Rightarrow> int \<Rightarrow> int \<Rightarrow> ('w, error option) io" where
  "testVolumeElimination fuel tc sc_name duration timeout =
     seq (eliminateVolume fuel tc sc_name duration timeout) (\<lambda>r. case r of
       Inl err \<Rightarrow> CombineErrors None (Some err)
     | Inr _ \<Rightarrow> ret None)"

definition ReplicaEliminationTest :: "nat \<Rightarrow> 'w conductor \<Rightarrow> ('w run, unit result) io" where
  "ReplicaEliminationTest fuel tc =
     (let cl = Kube tc; cfg = cf_ReplicaElimination (Config tc);
          exclusion_list = (if re_KillMayastor cfg \<noteq> 0 then [''mayastor''] else []) in
      check (in_world (tc_SendTestRunToDo tc)) (wrapped ''failed to inform test director of test start, error: '') (\<lambda>_.
      check (in_world (tc_SendTestRunStarted tc)) (wrapped ''failed to inform test director of test start, error: '') (\<lambda>_.
      check (in_world (AddCommonWorkloadsWithExclusions cl (WorkloadMonitorClient tc) violations exclusion_list))
        (wrapped ''failed add common workloads, error: '') (\<lambda>_.
      check (ret (GetDuration cl (cf_Duration (Config tc)))) (wrapped ''failed to parse duration '') (\<lambda>duration.
      check (ret (GetDuration cl (re_Timeout cfg))) (wrapped ''failed to parse duration '') (\<lambda>timeout.
      case replica_sc (re_LocalVolume cfg) (re_Replicas cfg) of (sc_name, b) \<Rightarrow>
      check (in_world (Sc_BuildAndCreate cl b)) (wrapped (''failed to create sc '' @ sc_name @ '' '')) (\<lambda>_.
      seq (in_world (testVolumeElimination fuel tc sc_name duration timeout)) (\<lambda>combinederr.
      replica_cleanup tc sc_name combinederr))))))))"

section \<open>Rounds leave no device offline\<close>

definition restored :: "device_descriptor list \<times> error option \<Rightarrow> bool" where
  "restored v \<longleftrightarrow> (case v of (devs, err) \<Rightarrow> err = None \<longrightarrow> devs = [])"

lemma restored_simps [simp]: "restored (devs, Some e)" "restored (devs, None) \<longleftrightarrow> devs = []"
  by (simp_all add: restored_def)

text \<open>The rules that go through the steps of a round.\<close>

named_theorems restores \<open>steps after which no device is offline unless there was an error\<close>

lemma restored_ok [restores]: "(\<And>x. yields restored (f x)) \<Longrightarrow> yields restored (step_ok m devs f)"
  unfolding step_ok_def by (intro posts) simp

lemma restored_devs:
  "yields P m \<Longrightarrow> (\<And>d. P (d, None) \<Longrightarrow> yields restored (f d)) \<Longrightarrow> yields restored (step_devs m f)"
  unfolding yields_def step_devs_def
  by (fastforce elim!: seq_DoneE split: option.splits prod.splits)

lemma restored_offline [restores]: "(\<And>d. yields restored (f d)) \<Longrightarrow> yields restored (step_devs (offlineDevice cl i n devs) f)"
  by (rule restored_devs [where P = "\<lambda>_. True"]) (simp_all add: yields_def)

lemma restored_restoring [restores]: "yields restored (restoreDevices cl devs)"
  unfolding yields_def using restoreDevices_drop by (fastforce simp: restored_def)

lemma restored_restore [restores]: "yields restored (f []) \<Longrightarrow> yields restored (step_devs (restoreDevices cl devs) f)"
  by (rule restored_devs [OF restored_restoring]) simp

lemma restored_random_sleep [restores]: "yields restored (random_sleep_step cl flag [])"
  unfolding random_sleep_step_def by (intro posts restores) simp_all

lemma restored_enabled [restores]:
  "yields restored (m []) \<Longrightarrow> yields restored (enabled flag m [])"
  unfolding enabled_def by (intro posts) simp_all

lemma restored_enabled_then [restores]:
  "yields restored (m []) \<Longrightarrow> yields restored (f []) \<Longrightarrow> yields restored (step_devs (enabled flag m []) f)"
  by (rule restored_devs [OF restored_enabled]) simp_all

lemmas [restores] = yields_seq [of restored]

lemma restored_tests [restores]:
  "yields restored (offline_device_test fuel tc ip uid [])" "yields restored (replicas_test fuel tc ip uid [])"
  "yields restored (offline_and_replicas_test fuel tc ip uid [])"
  unfolding offline_device_test_def replicas_test_def offline_and_replicas_test_def Let_def
  by (intro restores)+

lemma restored_perturb: "yields restored (perturb_steps fuel tc ip [])"
proof -
  have "yields restored (step_devs (enabled (rp_OfflineDeviceTest cfg) (offline_device_test fuel tc ip uid) []) (\<lambda>devs1.
      step_devs (enabled (rp_ReplicasTest cfg) (replicas_test fuel tc ip uid) devs1) (\<lambda>devs2.
      enabled (rp_OfflineDevAndReplicasTest cfg) (offline_and_replicas_test fuel tc ip uid) devs2)))" for uid cfg
    by (intro restores)
  then show ?thesis
    unfolding perturb_steps_def Let_def by (intro posts) simp_all
qed

lemma restored_lose [restores]: "yields restored (lose_replicas fuel tc ip uid [])"
  unfolding lose_replicas_def Let_def by (intro posts restores) simp_all

lemma restored_lose_then [restores]:
  "yields restored (f []) \<Longrightarrow> yields restored (step_devs (lose_replicas fuel tc ip uid []) f)"
  by (rule restored_devs [OF restored_lose]) simp

lemma restored_eliminate: "yields restored (eliminate_steps fuel tc ip pvc_name vol_type timeout [])"
  unfolding eliminate_steps_def Let_def
  by (intro yields_seq yields_sum_case yields_prod_case yields_if restores; (intro posts)?; simp?)

section \<open>Property\<close>


text \<open>A conductor whose one device goes offline and comes back, and whose volume is degraded in between.\<close>

definition device_conductor :: "nat conductor" where
  "device_conductor = (small_conductor (device_cluster
      \<lparr>McpDo := \<lambda>m u w. (Inr (200, '''', Inr (if w = 1 then ''Degraded'' else ''Online'')), w),
       DecodeVolumes := \<lambda>b. Inr [small_volume b], DecodeVolume := \<lambda>b. Inr (small_volume b)\<rparr>) TestRunPASSED)
     \<lparr>Config := small_config\<lparr>cf_ReplicaPerturbation := (cf_ReplicaPerturbation small_config)\<lparr>rp_OfflineDeviceTest := 1\<rparr>\<rparr>\<rparr>"

lemma device_conductor_round: "perturb_steps 5 device_conductor ''10.0.0.1'' [] 0 = (Done ([], None), 0)"
proof -
  let ?cl = "Kube device_conductor"
  have 1: "EtfwRandom ?cl (word_of_int (cf_Msnodes (Config device_conductor))) 0 = (Done (Inr 0), 0)"
    by (simp add: EtfwRandom_def device_conductor_def small_conductor_def small_config_def device_cluster_def small_cluster_def io_simps)
  have 2: "offlineDevice ?cl 0 (cf_Msnodes (Config device_conductor)) [] 0 = (Done ([\<lparr>dd_node = ''10.0.0.1'', dd_device = ''sdb''\<rparr>], None), 1)"
    by code_simp
  have 3: "waitForVolumeStatus 5 ?cl ''10.0.0.1'' ''v1'' ''Degraded'' 1 = (Done (Inr ()), 1)" by code_simp
  have 4: "restoreDevices ?cl [\<lparr>dd_node = ''10.0.0.1'', dd_device = ''sdb''\<rparr>] 1 = (Done ([], None), 0)" by code_simp
  have 5: "waitForVolumeStatus 5 ?cl ''10.0.0.1'' ''v1'' ''Online'' 0 = (Done (Inr ()), 0)" by code_simp
  have 6: "getOnlyVolume ?cl ''10.0.0.1'' 0 = (Done (Inr (''v1'', ''Online'')), 0)" by code_simp
  have cfg: "rp_OfflineDeviceTest (cf_ReplicaPerturbation (Config device_conductor)) = 1"
    "rp_ReplicasTest (cf_ReplicaPerturbation (Config device_conductor)) = 0"
    "rp_OfflineDevAndReplicasTest (cf_ReplicaPerturbation (Config device_conductor)) = 0"
    "rp_RandomSleep (cf_ReplicaPerturbation (Config device_conductor)) = 0"
    by (simp_all add: device_conductor_def small_config_def)
  show ?thesis
    by (simp add: perturb_steps_def offline_device_test_def enabled_def random_sleep_step_def step_ok_def step_devs_def Let_def
        seq_apply 1 2 3 4 5 6 cfg del: restoreDevices.simps One_nat_def)
qed


end
