(* ===== verification/Conductor_NonSteady.thy ===== *)
theory Conductor_NonSteady
  imports Conductor_Tests
begin

text \<open>
  \<^verbatim>\<open>test_conductor/tests/non_steady_state.go\<close>: a number of goroutines each create and delete
  volumes until the time is over, one more goroutine monitors the cluster, and errors come back
  over a channel.

  A goroutine is a \<open>thread\<close>; what it does between two looks at its loop condition is one step.
  Steps of different threads come in any order: \<open>group_step\<close> is the step relation, and
  \<open>schedule\<close> runs the threads in a given order. Within one step the calls of other threads are not
  interleaved; nothing below rests on what the calls return.
\<close>

section \<open>One volume after the other\<close>

record vol_spec =
  sc_names :: "string list"
  vol_types :: "volume_type list"
  vol_size_mb :: int

definition volume_steps ::
    "nat \<Rightarrow> 'w conductor \<Rightarrow> vol_spec \<Rightarrow> int \<Rightarrow> volume_type \<Rightarrow> string \<Rightarrow> string \<Rightarrow> string \<Rightarrow> ('w, unit result) io" where
  "volume_steps fuel tc vol_spec timeout vol_type sc_name pvc_name fio_name =
     (let cl = Kube tc; cfg = cf_NonSteadyState (Config tc) in
      check (MkPVC cl (vol_size_mb vol_spec) pvc_name sc_name vol_type ''default'' False)
        (wrapped (''failed to create pvc '' @ pvc_name @ '', error: '')) (\<lambda>_.
      check (DeployFio cl (cf_E2eFioImage (Config tc)) fio_name pvc_name vol_type (vol_size_mb vol_spec) 1
          (ns_ThinkTime cfg) (ns_ThinkTimeBlocks cfg))
        (wrapped (''failed to deploy pod '' @ fio_name @ '', error: '')) (\<lambda>_.
      check (WaitPodNotRunning fuel cl fio_name timeout) (\<lambda>err. err) (\<lambda>_.
      check (CheckPodAndDelete (pods cl) fio_name ''default'' 120) (\<lambda>err. err) (\<lambda>_.
      check (DeletePVC cl pvc_name ''default'') (wrapped (''failed to delete pvc '' @ pvc_name @ '', error = '')) (\<lambda>_.
      ret (Inr ())))))))"

text \<open>One iteration of \<^verbatim>\<open>testVolume\<close>, with the number \<open>i\<close> that it has counted up to.\<close>

definition volume_round ::
    "nat \<Rightarrow> 'w conductor \<Rightarrow> nat \<Rightarrow> string \<Rightarrow> vol_spec \<Rightarrow> int \<Rightarrow> int \<Rightarrow> nat \<Rightarrow> error option \<Rightarrow> ('w, (error option, unit result) ctl) io" where
  "volume_round fuel tc tid testName vol_spec endTime timeout i finalerr =
     seq (call (NowNano (Kube tc))) (\<lambda>now.
     if endTime < now then ret (Break finalerr)
     else
       seq (index (vol_types vol_spec) (int ((i + tid) mod length (vol_types vol_spec)))) (\<lambda>vol_type.
       seq (index (sc_names vol_spec) (int ((i + tid) div 2 mod length (sc_names vol_spec)))) (\<lambda>sc_name.
       let suffix = (if vol_type = VolFileSystem then ''fs'' else ''block'');
           tail = Itoa (int tid) @ ''-'' @ Itoa (int i) @ ''-'' @ suffix @ ''-'' @ sc_name;
           pvc_name = testName @ ''-pvc-'' @ tail;
           fio_name = testName @ ''-fio-'' @ tail in
       seq (volume_steps fuel tc vol_spec timeout vol_type sc_name pvc_name fio_name) (\<lambda>r. case r of
         Inl err \<Rightarrow> ret (Break (Some err))
       | Inr _ \<Rightarrow> ret (Continue finalerr)))))"

definition valid_spec :: "vol_spec \<Rightarrow> bool" where
  "valid_spec vol_spec \<longleftrightarrow> length (vol_types vol_spec) \<noteq> 0 \<and> length (sc_names vol_spec) \<noteq> 0"

definition testVolume ::
    "nat \<Rightarrow> 'w conductor \<Rightarrow> nat \<Rightarrow> string \<Rightarrow> vol_spec \<Rightarrow> int \<Rightarrow> int \<Rightarrow> ('w, unit result) io" where
  "testVolume fuel tc tid testName vol_spec duration timeout =
     seq (call (NowNano (Kube tc))) (\<lambda>now.
     if \<not> valid_spec vol_spec then ret (Inl (Errorf ''Invalid volume spec''))
     else after (loop fuel 1 None (volume_round fuel tc tid testName vol_spec (now + duration) timeout)) (\<lambda>finalerr.
       ret (or_nil finalerr)))"

section \<open>The threads\<close>

text \<open>
  A thread runs \<^verbatim>\<open>testVolume\<close> or \<^verbatim>\<open>MonitorCRs\<close>, iteration by iteration, and then finishes or,
  with an error, sends an event and puts the error on the channel.
\<close>

datatype thread =
    StartVolume nat
  | InVolume nat int nat
  | StartMonitor
  | InMonitor int nat
  | Failing error
  | Sending error
  | Finished

definition ended :: "unit result \<Rightarrow> thread" where
  "ended r = (case r of Inl err \<Rightarrow> Failing err | Inr _ \<Rightarrow> Finished)"

fun working :: "thread \<Rightarrow> bool" where
  "working (StartVolume _) = True"
| "working (InVolume _ _ _) = True"
| "working StartMonitor = True"
| "working (InMonitor _ _) = True"
| "working _ = False"

fun thread_step ::
    "nat \<Rightarrow> 'w conductor \<Rightarrow> string \<Rightarrow> vol_spec \<Rightarrow> int \<Rightarrow> int \<Rightarrow> thread \<Rightarrow> ('w run, thread) io" where
  "thread_step fuel tc testName vs duration timeout (StartVolume tid) =
     seq (in_world (call (NowNano (Kube tc)))) (\<lambda>now.
     ret (if valid_spec vs then InVolume tid (now + duration) 1 else Failing (Errorf ''Invalid volume spec'')))"
| "thread_step fuel tc testName vs duration timeout (InVolume tid endTime i) =
     seq (in_world (volume_round fuel tc tid testName vs endTime timeout i None)) (\<lambda>c. case c of
       Continue _ \<Rightarrow> ret (InVolume tid endTime (Suc i))
     | Break finalerr \<Rightarrow> ret (ended (or_nil finalerr))
     | Return r \<Rightarrow> ret (ended r))"
| "thread_step fuel tc testName vs duration timeout StartMonitor =
     seq (in_world (call (NowNano (Kube tc)))) (\<lambda>now. ret (InMonitor (now + duration) 0))"
| "thread_step fuel tc testName vs duration timeout (InMonitor endTime i) =
     seq (monitor_round tc endTime '''' i ()) (\<lambda>c. case c of
       Continue _ \<Rightarrow> ret (InMonitor endTime (Suc i))
     | Break _ \<Rightarrow> ret Finished
     | Return r \<Rightarrow> ret (ended r))"
| "thread_step fuel tc testName vs duration timeout (Failing err) =
     seq (in_world (SendEventTestFail tc (err_text err))) (\<lambda>_. ret (Sending err))"
| "thread_step fuel tc testName vs duration timeout (Sending err) = ret (Sending err)"
| "thread_step fuel tc testName vs duration timeout Finished = ret Finished"

text \<open>The threads and the channel with its buffer of \<open>capacity\<close> errors.\<close>

record group =
  threads :: "thread list"
  capacity :: nat
  errchan :: "error list"

definition start_group :: "int \<Rightarrow> group" where
  "start_group concurrentVolumes =
     \<lparr>threads = map StartVolume [0 ..< nat concurrentVolumes] @ [StartMonitor], capacity = nat (concurrentVolumes + 1), errchan = []\<rparr>"

definition set_thread :: "nat \<Rightarrow> thread \<Rightarrow> group \<Rightarrow> group" where
  "set_thread k t g = g\<lparr>threads := (threads g)[k := t]\<rparr>"

definition put_error :: "error \<Rightarrow> group \<Rightarrow> group" where
  "put_error err g = g\<lparr>errchan := errchan g @ [err]\<rparr>"

text \<open>
  A step of one thread in a state of the world. The label holds the error with which
  \<^verbatim>\<open>testVolume\<close> or \<^verbatim>\<open>MonitorCRs\<close> returned in that step.
\<close>

inductive group_step ::
    "nat \<Rightarrow> 'w conductor \<Rightarrow> string \<Rightarrow> vol_spec \<Rightarrow> int \<Rightarrow> int \<Rightarrow> group \<times> 'w run \<Rightarrow> error option \<Rightarrow> group \<times> 'w run \<Rightarrow> bool"
  for fuel tc testName vs duration timeout where
  body: "k < length (threads g) \<Longrightarrow> working (threads g ! k) \<Longrightarrow>
      thread_step fuel tc testName vs duration timeout (threads g ! k) s = (Done t, s') \<Longrightarrow>
      group_step fuel tc testName vs duration timeout (g, s) (case t of Failing err \<Rightarrow> Some err | _ \<Rightarrow> None) (set_thread k t g, s')"
| event: "k < length (threads g) \<Longrightarrow> threads g ! k = Failing err \<Longrightarrow>
      in_world (SendEventTestFail tc (err_text err)) s = (Done r, s') \<Longrightarrow>
      group_step fuel tc testName vs duration timeout (g, s) None (set_thread k (Sending err) g, s')"
| send: "k < length (threads g) \<Longrightarrow> threads g ! k = Sending err \<Longrightarrow> length (errchan g) < capacity g \<Longrightarrow>
      group_step fuel tc testName vs duration timeout (g, s) None (put_error err (set_thread k Finished g), s)"

inductive group_run ::
    "nat \<Rightarrow> 'w conductor \<Rightarrow> string \<Rightarrow> vol_spec \<Rightarrow> int \<Rightarrow> int \<Rightarrow> group \<times> 'w run \<Rightarrow> error list \<Rightarrow> group \<times> 'w run \<Rightarrow> bool"
  for fuel tc testName vs duration timeout where
  start: "group_run fuel tc testName vs duration timeout c [] c"
| more: "group_run fuel tc testName vs duration timeout c errs c' \<Longrightarrow>
      group_step fuel tc testName vs duration timeout c' l c'' \<Longrightarrow>
      group_run fuel tc testName vs duration timeout c (errs @ (case l of None \<Rightarrow> [] | Some e \<Rightarrow> [e])) c''"

section \<open>The test\<close>

text \<open>Thread \<open>k\<close> takes a step, if it can.\<close>

definition schedule_step ::
    "nat \<Rightarrow> 'w conductor \<Rightarrow> string \<Rightarrow> vol_spec \<Rightarrow> int \<Rightarrow> int \<Rightarrow> nat \<Rightarrow> group \<Rightarrow> ('w run, (group, unit) ctl) io" where
  "schedule_step fuel tc testName vs duration timeout k g =
     (if length (threads g) \<le> k then ret (Continue g)
      else case threads g ! k of
        Finished \<Rightarrow> ret (Continue g)
      | Sending err \<Rightarrow>
          ret (Continue (if length (errchan g) < capacity g then put_error err (set_thread k Finished g) else g))
      | t \<Rightarrow> seq (thread_step fuel tc testName vs duration timeout t) (\<lambda>t'. ret (Continue (set_thread k t' g))))"

definition all_finished :: "group \<Rightarrow> bool" where
  "all_finished g \<longleftrightarrow> list_all (\<lambda>t. t = Finished) (threads g)"

definition all_errors :: "error list \<Rightarrow> error option" where
  "all_errors errs = fold (\<lambda>err allerrs. case allerrs of
      None \<Rightarrow> Some err
    | Some e \<Rightarrow> Some (Errorf (err_text e @ '': '' @ err_text err))) errs None"

text \<open>
  \<open>sched\<close> is the order in which the threads take steps; \<^verbatim>\<open>wg.Wait\<close> does not return as long as
  a thread has not finished. A channel of negative size cannot be made.
\<close>

definition testVolumes ::
    "nat \<Rightarrow> nat list \<Rightarrow> int \<Rightarrow> 'w conductor \<Rightarrow> string \<Rightarrow> vol_spec \<Rightarrow> int \<Rightarrow> int \<Rightarrow> ('w run, unit result) io" where
  "testVolumes fuel sched concurrentVolumes tc testName vol_spec duration timeout =
     (if concurrentVolumes + 1 < 0 then panic ''makechan: size out of range''
      else seq (for_in sched (start_group concurrentVolumes) (schedule_step fuel tc testName vol_spec duration timeout)) (\<lambda>c. case c of
        Inl u \<Rightarrow> ret (Inr u)
      | Inr g \<Rightarrow> if all_finished g then ret (or_nil (all_errors (errchan g))) else unfinished))"

definition NonSteadyStateTest :: "nat \<Rightarrow> nat list \<Rightarrow> 'w conductor \<Rightarrow> ('w run, unit result) io" where
  "NonSteadyStateTest fuel sched tc =
     (let cl = Kube tc; wm = WorkloadMonitorClient tc; cfg = cf_NonSteadyState (Config tc);
          sc_name = ''sc-immed''; sc_name_local = ''sc-local-wait'' in
      check (in_world (tc_SendTestRunToDo tc)) (wrapped ''failed to inform test director of test start, error: '') (\<lambda>_.
      check (ret (GetDuration cl (cf_Duration (Config tc)))) (wrapped ''failed to parse duration '') (\<lambda>duration.
      check (ret (GetDuration cl (ns_Timeout cfg))) (wrapped ''failed to parse duration '') (\<lambda>timeout.
      check (in_world (tc_SendTestRunStarted tc)) (wrapped ''failed to inform test director of test start, error: '') (\<lambda>_.
      check (in_world (AddCommonWorkloads cl wm violations)) (wrapped ''failed add common workloads, error: '') (\<lambda>_.
      check (in_world (Sc_BuildAndCreate cl (test_sc sc_name (ns_Replicas cfg) VolumeBindingImmediate (Some False))))
        (wrapped ''failed to create sc '') (\<lambda>_.
      check (in_world (Sc_BuildAndCreate cl (test_sc sc_name_local (ns_Replicas cfg) VolumeBindingWaitForFirstConsumer (Some True))))
        (wrapped ''failed to create sc '') (\<lambda>_.
      seq (testVolumes fuel sched (ns_ConcurrentVols cfg) tc ''non-steady-state''
        \<lparr>sc_names = [sc_name_local, sc_name], vol_types = [VolFileSystem, VolRawBlock], vol_size_mb = ns_VolumeSizeMb cfg\<rparr>
        duration timeout) (\<lambda>r.
      seq (appending (tc_DeleteWorkloads cl wm) ''failed to delete all registered workloads, err ''
        (case r of Inl e \<Rightarrow> Some e | Inr _ \<Rightarrow> None)) (\<lambda>err1.
      seq (appending (DeleteSc cl sc_name) (''failed to delete SC '' @ sc_name @ '', error = '') err1) (\<lambda>err2.
      seq (appending (DeleteSc cl sc_name_local) (''failed to delete SC '' @ sc_name @ '', error = '') err2) (\<lambda>err3.
      ret (or_nil err3)))))))))))))"

section \<open>No error is lost\<close>

lemma sum_list_set_nth:
  fixes f :: "'a \<Rightarrow> 'b :: comm_monoid_add"
  assumes "k < length xs"
  shows "sum_list (map f (xs[k := t])) + f (xs ! k) = sum_list (map f xs) + f t"
  using assms
proof (induction xs arbitrary: k)
  case (Cons x xs)
  show ?case
  proof (cases k)
    case 0
    then show ?thesis by (simp add: ac_simps)
  next
    case (Suc j)
    with Cons show ?thesis by (simp add: add.assoc)
  qed
qed simp

text \<open>The errors that threads hold, and the threads that have not finished.\<close>

definition held :: "thread \<Rightarrow> error multiset" where
  "held t = (case t of Failing err \<Rightarrow> {#err#} | Sending err \<Rightarrow> {#err#} | _ \<Rightarrow> {#})"

definition unfinished_threads :: "group \<Rightarrow> nat" where
  "unfinished_threads g = sum_list (map (\<lambda>t. if t = Finished then 0 else 1) (threads g))"

definition group_ok :: "nat \<Rightarrow> error list \<Rightarrow> group \<Rightarrow> bool" where
  "group_ok n errs g \<longleftrightarrow> capacity g = n \<and> length (threads g) = n \<and> length (errchan g) + unfinished_threads g \<le> n \<and>
     mset errs = mset (errchan g) + sum_list (map held (threads g))"

lemma start_group_ok: "0 \<le> n \<Longrightarrow> group_ok (nat (n + 1)) [] (start_group n)"
  by (simp add: group_ok_def start_group_def unfinished_threads_def held_def o_def sum_list_triv nat_add_distrib)

lemma working_step:
  assumes "working t" and "thread_step fuel tc testName vs duration timeout t s = (Done t', s')"
  shows "(case t' of Sending _ \<Rightarrow> False | _ \<Rightarrow> True)"
  using assms
  by (cases t) (auto simp: ended_def elim!: seq_DoneE split: if_splits ctl.splits sum.splits)

lemma working_held: "working t \<Longrightarrow> held t = {#} \<and> t \<noteq> Finished"
  by (cases t) (simp_all add: held_def)

lemma set_thread_ok:
  assumes "group_ok n errs g" and "k < length (threads g)" and "threads g ! k \<noteq> Finished" and "t \<noteq> Finished"
    and "mset errs' + held (threads g ! k) = mset errs + held t"
  shows "group_ok n errs' (set_thread k t g)"
proof -
  have "sum_list (map held ((threads g)[k := t])) + held (threads g ! k) = sum_list (map held (threads g)) + held t"
    by (rule sum_list_set_nth) (rule assms(2))
  with assms(1,5) have "mset errs' = mset (errchan g) + sum_list (map held ((threads g)[k := t]))"
    unfolding group_ok_def by (metis add_right_cancel union_assoc)
  moreover have "unfinished_threads (set_thread k t g) = unfinished_threads g"
    using sum_list_set_nth [OF assms(2), of "\<lambda>t. if t = Finished then 0 else 1 :: nat" t] assms(3,4)
    by (simp add: unfinished_threads_def set_thread_def)
  ultimately show ?thesis
    using assms(1) by (simp add: group_ok_def set_thread_def)
qed

lemma group_step_ok:
  assumes "group_step fuel tc testName vs duration timeout c l c'" and "group_ok n errs (fst c)"
  shows "group_ok n (errs @ (case l of None \<Rightarrow> [] | Some e \<Rightarrow> [e])) (fst c')"
  using assms
proof (induction rule: group_step.induct)
  case (body k g s t s')
  have k: "held (threads g ! k) = {#}" "threads g ! k \<noteq> Finished"
    using working_held [OF body(2)] by simp_all
  show ?case
  proof (cases "t = Finished")
    case True
    have "unfinished_threads (set_thread k t g) + 1 = unfinished_threads g"
      using sum_list_set_nth [OF body(1), of "\<lambda>t. if t = Finished then 0 else 1 :: nat" t] k True
      by (simp add: unfinished_threads_def set_thread_def)
    moreover have "sum_list (map held ((threads g)[k := t])) = sum_list (map held (threads g))"
      using sum_list_set_nth [OF body(1), of held t] k True by (simp add: held_def)
    ultimately show ?thesis
      using body(4) True by (simp add: group_ok_def set_thread_def)
  next
    case False
    have "held t = mset (case (case t of Failing err \<Rightarrow> Some err | _ \<Rightarrow> None) of None \<Rightarrow> [] | Some e \<Rightarrow> [e])"
      using working_step [OF body(2,3)] by (cases t) (simp_all add: held_def)
    with False k body(1,4) show ?thesis
      by (auto intro!: set_thread_ok [of n errs])
  qed
next
  case (event k g err s r s')
  then show ?case
    by (auto intro!: set_thread_ok [of n errs] simp: held_def)
next
  case (send k g err s)
  have "unfinished_threads (set_thread k Finished g) + 1 = unfinished_threads g"
    using sum_list_set_nth [OF send(1), of "\<lambda>t. if t = Finished then 0 else 1 :: nat" Finished] send(2)
    by (simp add: unfinished_threads_def set_thread_def)
  moreover have "sum_list (map held ((threads g)[k := Finished])) + {#err#} = sum_list (map held (threads g))"
    using sum_list_set_nth [OF send(1), of held Finished] send(2) by (simp add: held_def)
  ultimately show ?case
    using send(4) by (auto simp: group_ok_def put_error_def set_thread_def unfinished_threads_def)
qed

lemma group_run_ok:
  assumes "group_run fuel tc testName vs duration timeout c errs c'" and "group_ok n [] (fst c)"
  shows "group_ok n errs (fst c')"
  using assms by (induction rule: group_run.induct) (auto intro: group_step_ok)

lemma sending_counts:
  "k < length (threads g) \<Longrightarrow> threads g ! k \<noteq> Finished \<Longrightarrow> 0 < unfinished_threads g"
  using sum_list_set_nth [of k "threads g" "\<lambda>t. if t = Finished then 0 else 1 :: nat" Finished]
  by (simp add: unfinished_threads_def)

lemma finished_holds_nothing: "all_finished g \<Longrightarrow> sum_list (map held (threads g)) = {#}"
proof -
  have "list_all (\<lambda>t. t = Finished) ts \<Longrightarrow> sum_list (map held ts) = {#}" for ts
    by (induction ts) (simp_all add: held_def)
  then show "all_finished g \<Longrightarrow> ?thesis" by (simp add: all_finished_def)
qed

lemma all_errors_None [simp]: "all_errors errs = None \<longleftrightarrow> errs = []"
proof -
  have "fold (\<lambda>err allerrs. case allerrs of None \<Rightarrow> Some err | Some e \<Rightarrow> Some (Errorf (err_text e @ '': '' @ err_text err))) xs (Some e) \<noteq> None" for e xs
    by (induction xs arbitrary: e) auto
  then show ?thesis
    by (cases errs) (auto simp: all_errors_def)
qed

text \<open>Running the threads in a given order is a run of the step relation.\<close>

lemma schedule_step_group_step:
  assumes "schedule_step fuel tc testName vs duration timeout k g s = (Done c, s')"
  shows "\<exists>g'. c = Continue g' \<and> ((g', s') = (g, s) \<or> (\<exists>l. group_step fuel tc testName vs duration timeout (g, s) l (g', s')))"
proof (cases "length (threads g) \<le> k")
  case True
  with assms show ?thesis by (auto simp: schedule_step_def)
next
  case False
  then have k: "k < length (threads g)" by simp
  show ?thesis
  proof (cases "working (threads g ! k)")
    case True
    with assms False obtain t' where "thread_step fuel tc testName vs duration timeout (threads g ! k) s = (Done t', s')"
      and "c = Continue (set_thread k t' g)"
      by (cases "threads g ! k") (auto simp: schedule_step_def simp del: thread_step.simps elim!: seq_DoneE)
    with group_step.body [OF k True] show ?thesis by metis
  next
    case not_working: False
    show ?thesis
    proof (cases "threads g ! k")
      case (Failing err)
      with assms False obtain r where "in_world (SendEventTestFail tc (err_text err)) s = (Done r, s')"
        and "c = Continue (set_thread k (Sending err) g)"
        by (auto simp: schedule_step_def elim!: seq_DoneE)
      with group_step.event [OF k Failing] show ?thesis by metis
    next
      case (Sending err)
      have "group_step fuel tc testName vs duration timeout (g, s) None (put_error err (set_thread k Finished g), s)"
        if "length (errchan g) < capacity g"
        using that by (rule group_step.send [OF k Sending])
      with assms False Sending show ?thesis
        by (auto simp: schedule_step_def)
    qed (use assms False not_working in \<open>auto simp: schedule_step_def\<close>)
  qed
qed

lemma schedule_group_run:
  assumes "for_in sched g (schedule_step fuel tc testName vs duration timeout) s = (Done c, s')"
    and "group_run fuel tc testName vs duration timeout c0 errs (g, s)"
  shows "\<exists>g' errs'. c = Inr g' \<and> group_run fuel tc testName vs duration timeout c0 errs' (g', s')"
  using assms
proof (induction sched arbitrary: g s errs)
  case (Cons k sched)
  from Cons.prems(1) obtain b s1 where b: "schedule_step fuel tc testName vs duration timeout k g s = (Done b, s1)"
    and c: "(case b of Continue v' \<Rightarrow> for_in sched v' (schedule_step fuel tc testName vs duration timeout)
      | Break v' \<Rightarrow> ret (Inr v') | Return r \<Rightarrow> ret (Inl r)) s1 = (Done c, s')"
    unfolding for_in.simps by (rule seq_DoneE)
  from schedule_step_group_step [OF b] obtain g1 where g1: "b = Continue g1"
    and "(g1, s1) = (g, s) \<or> (\<exists>l. group_step fuel tc testName vs duration timeout (g, s) l (g1, s1))" by blast
  with Cons.prems(2) obtain errs1 where "group_run fuel tc testName vs duration timeout c0 errs1 (g1, s1)"
    by (metis group_run.more)
  with Cons.IH [of g1 s1] c g1 show ?case by simp
qed auto

text \<open>A small system: no volumes, and a monitor that runs for one round.\<close>

definition small_nonsteady :: "nat conductor" where
  "small_nonsteady = small_conductor (small_cluster ''online'' ''Online'' ''NEXUS_ONLINE'') TestRunPASSED"

lemma small_testVolumes:
  "testVolumes 5 [0, 0] 0 small_nonsteady ''t''
     \<lparr>sc_names = [], vol_types = [], vol_size_mb = 1\<rparr> (- 1) 0 \<lparr>rs_world = 0, faultedPVCs = []\<rparr> =
   (Done (Inr ()), \<lparr>rs_world = 0, faultedPVCs = []\<rparr>)"
  by code_simp

lemma small_failing_run:
  "group_run 5 small_nonsteady ''t'' \<lparr>sc_names = [], vol_types = [], vol_size_mb = 1\<rparr> (- 1) 0
     (start_group 1, \<lparr>rs_world = 0, faultedPVCs = []\<rparr>) [Errorf ''Invalid volume spec'']
     (set_thread 0 (Sending (Errorf ''Invalid volume spec'')) (set_thread 0 (Failing (Errorf ''Invalid volume spec'')) (start_group 1)),
      \<lparr>rs_world = 0, faultedPVCs = []\<rparr>)"
proof -
  let ?vs = "\<lparr>sc_names = [], vol_types = [], vol_size_mb = 1\<rparr>" and ?s = "\<lparr>rs_world = 0, faultedPVCs = []\<rparr> :: nat run"
    and ?e = "Errorf ''Invalid volume spec''"
  have "thread_step 5 small_nonsteady ''t'' ?vs (- 1) 0 (threads (start_group 1) ! 0) ?s = (Done (Failing ?e), ?s)"
    by code_simp
  then have "group_step 5 small_nonsteady ''t'' ?vs (- 1) 0 (start_group 1, ?s) (Some ?e) (set_thread 0 (Failing ?e) (start_group 1), ?s)"
    using group_step.body [of 0 "start_group 1" 5 small_nonsteady "''t''" ?vs "- 1" 0 ?s "Failing ?e" ?s] by (simp add: start_group_def)
  then have first: "group_run 5 small_nonsteady ''t'' ?vs (- 1) 0 (start_group 1, ?s) [?e] (set_thread 0 (Failing ?e) (start_group 1), ?s)"
    using group_run.more [OF group_run.start] by force
  have "in_world (SendEventTestFail small_nonsteady (err_text ?e)) ?s = (Done (Inr ()), ?s)"
    by code_simp
  then have "group_step 5 small_nonsteady ''t'' ?vs (- 1) 0 (set_thread 0 (Failing ?e) (start_group 1), ?s) None
      (set_thread 0 (Sending ?e) (set_thread 0 (Failing ?e) (start_group 1)), ?s)"
    by (intro group_step.event) (simp_all add: set_thread_def start_group_def)
  from group_run.more [OF first this] show ?thesis by simp
qed

section \<open>Properties\<close>

text \<open>
  Property C5. The goroutines of the non steady state test never wait for each other: in
  whatever order they take their steps, there is room in the channel whenever one of them has an
  error to send, although nobody receives before all have finished. When all have finished the
  channel holds exactly the errors that the goroutines returned, each one once.
\<close>

theorem error_channel_safe:
  assumes "0 \<le> concurrentVolumes"
    and "group_run fuel tc testName vs duration timeout (start_group concurrentVolumes, s) errs (g, s')"
  shows "(\<forall>k err. k < length (threads g) \<and> threads g ! k = Sending err \<longrightarrow> length (errchan g) < capacity g) \<and>
    (all_finished g \<longrightarrow> mset (errchan g) = mset errs)"
proof -
  have ok: "group_ok (nat (concurrentVolumes + 1)) errs g"
    using group_run_ok [OF assms(2)] start_group_ok [OF assms(1)] by simp
  have "length (errchan g) < capacity g" if "k < length (threads g)" "threads g ! k = Sending err" for k err
    using ok sending_counts [of k g] that by (simp add: group_ok_def)
  moreover have "mset (errchan g) = mset errs" if "all_finished g"
    using ok finished_holds_nothing [OF that] by (simp add: group_ok_def)
  ultimately show ?thesis by blast
qed

theorem error_channel_safe_witness:
  "\<exists>g. group_run 5 small_nonsteady ''t'' \<lparr>sc_names = [], vol_types = [], vol_size_mb = 1\<rparr> (- 1) 0
     (start_group 1, \<lparr>rs_world = 0, faultedPVCs = []\<rparr>) [Errorf ''Invalid volume spec''] (g, \<lparr>rs_world = 0, faultedPVCs = []\<rparr>) \<and>
     threads g ! 0 = Sending (Errorf ''Invalid volume spec'') \<and> length (errchan g) < capacity g"
proof -
  let ?g = "set_thread 0 (Sending (Errorf ''Invalid volume spec'')) (set_thread 0 (Failing (Errorf ''Invalid volume spec'')) (start_group 1))"
  have "threads ?g ! 0 = Sending (Errorf ''Invalid volume spec'')" "0 < length (threads ?g)"
    by (simp_all add: set_thread_def start_group_def)
  then show ?thesis
    using error_channel_safe [OF _ small_failing_run] small_failing_run by force
qed

text \<open>
  Property C18. However the goroutines are scheduled, the non steady state test passes its
  volumes exactly if none of the goroutines returned an error.
\<close>

theorem testVolumes_reports_failures:
  assumes "0 \<le> concurrentVolumes"
    and "testVolumes fuel sched concurrentVolumes tc testName vs duration timeout s = (Done r, s')"
  shows "\<exists>errs g. group_run fuel tc testName vs duration timeout (start_group concurrentVolumes, s) errs (g, s') \<and>
    all_finished g \<and> (r = Inr () \<longleftrightarrow> errs = [])"
proof -
  from assms(1) have "\<not> concurrentVolumes + 1 < 0" by simp
  with assms(2) obtain c s1 where c: "for_in sched (start_group concurrentVolumes) (schedule_step fuel tc testName vs duration timeout) s = (Done c, s1)"
    and r: "(case c of Inl u \<Rightarrow> ret (Inr ())
      | Inr g \<Rightarrow> if all_finished g then ret (or_nil (all_errors (errchan g))) else unfinished) s1 = (Done r, s')"
    by (auto simp: testVolumes_def elim!: seq_DoneE)
  obtain g errs where g: "c = Inr g" and run: "group_run fuel tc testName vs duration timeout (start_group concurrentVolumes, s) errs (g, s1)"
    using schedule_group_run [OF c group_run.start] by blast
  from r g have fin: "all_finished g" "s1 = s'" "r = or_nil (all_errors (errchan g))"
    by (auto split: if_splits)
  moreover have "mset (errchan g) = mset errs"
    using group_run_ok [OF run] start_group_ok [OF assms(1)] finished_holds_nothing [OF fin(1)] by (simp add: group_ok_def)
  then have "errchan g = [] \<longleftrightarrow> errs = []" by (metis mset_zero_iff_right)
  then have "r = Inr () \<longleftrightarrow> errs = []"
    using fin(3) all_errors_None [of "errchan g"] by (cases "all_errors (errchan g)") (auto simp: or_nil_def)
  ultimately show ?thesis using run by blast
qed

theorem testVolumes_reports_failures_witness:
  "\<exists>errs g. group_run 5 small_nonsteady ''t'' \<lparr>sc_names = [], vol_types = [], vol_size_mb = 1\<rparr> (- 1) 0
     (start_group 0, \<lparr>rs_world = 0, faultedPVCs = []\<rparr>) errs (g, \<lparr>rs_world = 0, faultedPVCs = []\<rparr>) \<and> all_finished g \<and> errs = []"
  using testVolumes_reports_failures [OF _ small_testVolumes] by simp



text \<open>One thread that is left alone until it has an error or has finished.\<close>

fun run_thread ::
    "nat \<Rightarrow> nat \<Rightarrow> 'w conductor \<Rightarrow> string \<Rightarrow> vol_spec \<Rightarrow> int \<Rightarrow> int \<Rightarrow> thread \<Rightarrow> ('w run, thread) io" where
  "run_thread 0 fuel tc testName vs duration timeout t = ret t"
| "run_thread (Suc n) fuel tc testName vs duration timeout t =
     (if working t then seq (thread_step fuel tc testName vs duration timeout t) (run_thread n fuel tc testName vs duration timeout) else ret t)"

lemma run_thread_ended [simp]: "run_thread n fuel tc testName vs duration timeout (ended r) = ret (ended r)"
  by (cases n) (auto simp: ended_def split: sum.split)

lemma run_thread_volume:
  assumes "loop n i None (volume_round fuel tc tid testName vs endTime timeout) w = (Done c, w')"
  shows "run_thread n fuel tc testName vs duration timeout (InVolume tid endTime i) (s\<lparr>rs_world := w\<rparr>) =
    (Done (ended (case c of Inl r \<Rightarrow> r | Inr finalerr \<Rightarrow> or_nil finalerr)), s\<lparr>rs_world := w'\<rparr>)"
  using assms
proof (induction n arbitrary: i w)
  case (Suc n)
  from Suc.prems obtain b w1 where b: "volume_round fuel tc tid testName vs endTime timeout i None w = (Done b, w1)"
    and c: "(case b of Continue v' \<Rightarrow> loop n (Suc i) v' (volume_round fuel tc tid testName vs endTime timeout)
      | Break v' \<Rightarrow> ret (Inr v') | Return r \<Rightarrow> ret (Inl r)) w1 = (Done c, w')"
    unfolding loop.simps by (rule seq_DoneE)
  have None: "b = Continue v \<Longrightarrow> v = None" for v
    using b by (auto simp: volume_round_def Let_def elim!: seq_DoneE split: if_splits sum.splits)
  show ?case
    using Suc.IH [of "Suc i" w1] b c None
    by (cases b) (auto simp: seq_def in_world_apply)
qed simp



end
