(* ===== verification/Conductor_Run.thy ===== *)
theory Conductor_Run
  imports Conductor_Pools Conductor_NonSteady
begin

text \<open>
  \<^verbatim>\<open>RunTests\<close> of \<^verbatim>\<open>test_conductor/tests/test_common.go\<close>: it runs the test that the configuration names,
  reports the result and exits. \<open>sched\<close> is the order in which the goroutines of the non steady state test
  run, \<open>ord\<close> the order in which Go enumerates a map.
\<close>

definition run_test ::
    "nat \<Rightarrow> nat list \<Rightarrow> ((string, msp) gomap \<Rightarrow> (string \<times> msp) list) \<Rightarrow> 'w conductor \<Rightarrow> ('w run, unit result) io" where
  "run_test fuel sched ord tc =
     (let name = cf_TestName (Config tc) in
      if name = ''steady_state'' then SteadyStateTest fuel tc
      else if name = ''non_steady_state'' then NonSteadyStateTest fuel sched tc
      else if name = ''primitive_pool_deletion'' then in_world (PrimitivePoolDeletionTest ord tc)
      else if name = ''replica_perturbation'' then ReplicaPerturbationTest fuel tc
      else if name = ''replica_elimination'' then ReplicaEliminationTest fuel tc
      else ret (Inl (Errorf (''Unknown test: '' @ name))))"

definition RunTests ::
    "nat \<Rightarrow> nat list \<Rightarrow> ((string, msp) gomap \<Rightarrow> (string \<times> msp) list) \<Rightarrow> 'w conductor \<Rightarrow> ('w run, unit) io" where
  "RunTests fuel sched ord tc =
     seq (run_test fuel sched ord tc) (\<lambda>r.
     in_world (tc_SendTestRunFinished tc (case r of Inl err \<Rightarrow> Some err | Inr _ \<Rightarrow> None)))"

text \<open>\<^verbatim>\<open>main\<close> of \<^verbatim>\<open>test_conductor/cmd\<close>.\<close>

definition conductor_main ::
    "nat \<Rightarrow> nat list \<Rightarrow> ((string, msp) gomap \<Rightarrow> (string \<times> msp) list) \<Rightarrow> 'w tc_start \<Rightarrow> 'w cluster \<Rightarrow> ('w run, unit) io" where
  "conductor_main fuel sched ord st cl =
     seq (in_world (NewTestConductor fuel st cl)) (\<lambda>r. case r of
       Inl err \<Rightarrow> os_Exit 1
     | Inr testConductor \<Rightarrow> RunTests fuel sched ord testConductor)"



end
