(* ===== verification/Log_Monitor.thy ===== *)
theory Log_Monitor
  imports Pod_Client
begin

text \<open>
  \<^verbatim>\<open>log_monitor\<close>: the process that follows the logs of the fluentd pods and reports errors and
  warnings to the test director.

  The parameter \<open>lm_api\<close> has what is not in the sources or is outside the process: pods,
  HTTP, the JSON parser, the regular expressions and the stream of a pod's log. The parser
  gives the objects of the text; which key it takes for which field of a Go struct is
  \<open>FieldNames\<close>. What it does with the fields of the structs of \<^verbatim>\<open>log_monitor/models\<close> is in
  \<open>decode_run\<close>.
\<close>

section \<open>Test runs as JSON\<close>

datatype json = JNull | JString string | JObject "(string \<times> json) list"

text \<open>
  \<^verbatim>\<open>MarshalJSON\<close> of the \<^verbatim>\<open>TestRun\<close> of the test director: the fields of the run and those of its
  specification, one after the other in one object. \<open>omitempty\<close> leaves out an empty string.
\<close>

definition omitempty :: "string \<Rightarrow> string \<Rightarrow> (string \<times> json) list" where
  "omitempty k v = (if v = '''' then [] else [(k, JString v)])"

definition spec_fields :: "test_run_spec \<Rightarrow> (string \<times> json) list" where
  "spec_fields sp = omitempty ''data'' (trs_Data sp) @ omitempty ''status'' (test_run_status_text (trs_Status sp)) @
     omitempty ''testExecIssueId'' (trs_TestExecIssueID sp) @ omitempty ''testId'' (trs_TestID sp) @
     [(''testKey'', case trs_TestKey sp of None \<Rightarrow> JNull | Some k \<Rightarrow> JString k)]"

definition run_fields_json :: "(datetime \<Rightarrow> string) \<Rightarrow> test_run \<Rightarrow> (string \<times> json) list" where
  "run_fields_json fmt run = [(''endDateTime'', JString (fmt (tr_EndDateTime run)))] @ omitempty ''id'' (tr_ID run) @
     [(''startDateTime'', JString (fmt (tr_StartDateTime run)))] @ spec_fields (tr_Spec run)"

text \<open>The structs of \<^verbatim>\<open>log_monitor/models\<close>. There the specification is a field of its own.\<close>

record lm_run_spec =
  lrs_Data :: string
  lrs_Status :: string
  lrs_TestExecIssueID :: string
  lrs_TestID :: string
  lrs_TestKey :: string

record lm_run =
  lr_EndDateTime :: string
  lr_ID :: string
  lr_StartDateTime :: string
  lr_Spec :: lm_run_spec

record lm_event =
  le_SourceClass :: string
  le_SourceInstance :: string
  le_Resource :: string
  le_Class :: string
  le_Message :: string
  le_Data :: "string list"
  le_Items :: string

definition lm_no_spec :: lm_run_spec where
  "lm_no_spec = \<lparr>lrs_Data = '''', lrs_Status = '''', lrs_TestExecIssueID = '''', lrs_TestID = '''', lrs_TestKey = ''''\<rparr>"

definition wrong_type :: error where
  "wrong_type = Error ''json: cannot unmarshal into Go struct field''"

fun string_value :: "string result \<Rightarrow> json \<Rightarrow> string result" where
  "string_value (Inl e) v = Inl e"
| "string_value (Inr s) JNull = Inr s"
| "string_value (Inr s) (JString t) = Inr t"
| "string_value (Inr s) (JObject fs) = Inl wrong_type"

text \<open>The value of the last key that stands for the field; without one the field stays empty.\<close>

definition string_field :: "(string \<Rightarrow> string \<Rightarrow> bool) \<Rightarrow> (string \<times> json) list \<Rightarrow> string \<Rightarrow> string result" where
  "string_field names fs field = foldl (\<lambda>acc (k, v). if names field k then string_value acc v else acc) (Inr '''') fs"

definition res_bind :: "'a result \<Rightarrow> ('a \<Rightarrow> 'b result) \<Rightarrow> 'b result" where
  "res_bind r f = (case r of Inl e \<Rightarrow> Inl e | Inr x \<Rightarrow> f x)"

definition decode_spec :: "(string \<Rightarrow> string \<Rightarrow> bool) \<Rightarrow> (string \<times> json) list \<Rightarrow> lm_run_spec result" where
  "decode_spec names fs =
     res_bind (string_field names fs ''data'') (\<lambda>data.
     res_bind (string_field names fs ''status'') (\<lambda>status.
     res_bind (string_field names fs ''testExecIssueId'') (\<lambda>exec.
     res_bind (string_field names fs ''testId'') (\<lambda>test.
     res_bind (string_field names fs ''testKey'') (\<lambda>key.
     Inr \<lparr>lrs_Data = data, lrs_Status = status, lrs_TestExecIssueID = exec, lrs_TestID = test, lrs_TestKey = key\<rparr>)))))"

fun spec_value :: "(string \<Rightarrow> string \<Rightarrow> bool) \<Rightarrow> lm_run_spec result \<Rightarrow> json \<Rightarrow> lm_run_spec result" where
  "spec_value names (Inl e) v = Inl e"
| "spec_value names (Inr sp) JNull = Inr sp"
| "spec_value names (Inr sp) (JString t) = Inl wrong_type"
| "spec_value names (Inr sp) (JObject fs) = decode_spec names fs"

definition spec_field :: "(string \<Rightarrow> string \<Rightarrow> bool) \<Rightarrow> (string \<times> json) list \<Rightarrow> lm_run_spec result" where
  "spec_field names fs = foldl (\<lambda>acc (k, v). if names ''Spec'' k then spec_value names acc v else acc) (Inr lm_no_spec) fs"

definition decode_run :: "(string \<Rightarrow> string \<Rightarrow> bool) \<Rightarrow> (string \<times> json) list \<Rightarrow> lm_run result" where
  "decode_run names fs =
     res_bind (string_field names fs ''endDateTime'') (\<lambda>end.
     res_bind (string_field names fs ''id'') (\<lambda>ident.
     res_bind (string_field names fs ''startDateTime'') (\<lambda>start.
     res_bind (spec_field names fs) (\<lambda>spec.
     Inr \<lparr>lr_EndDateTime = end, lr_ID = ident, lr_StartDateTime = start, lr_Spec = spec\<rparr>))))"

fun decode_runs :: "(string \<Rightarrow> string \<Rightarrow> bool) \<Rightarrow> (string \<times> json) list list \<Rightarrow> lm_run list result" where
  "decode_runs names [] = Inr []"
| "decode_runs names (fs # fss) = res_bind (decode_run names fs) (\<lambda>r. res_bind (decode_runs names fss) (\<lambda>rs. Inr (r # rs)))"

section \<open>Reporting a line\<close>

datatype tail_start = TailStarted | TailNoConfig | TailNoExecutor

record 'w lm_api =
  lm_pods :: "'w pod_api"
  HttpGet :: "string \<Rightarrow> 'w \<Rightarrow> string result result \<times> 'w"
  HttpPost :: "string \<Rightarrow> lm_event \<Rightarrow> 'w \<Rightarrow> unit result \<times> 'w"
  ParseRuns :: "string \<Rightarrow> (string \<times> json) list list result"
  FieldNames :: "string \<Rightarrow> string \<Rightarrow> bool"
  MatchString :: "string \<Rightarrow> string \<Rightarrow> bool result"
  StartTail :: "pod \<Rightarrow> 'w \<Rightarrow> tail_start \<times> 'w"

definition lm_no_run :: lm_run where
  "lm_no_run = \<lparr>lr_EndDateTime = '''', lr_ID = '''', lr_StartDateTime = '''', lr_Spec = lm_no_spec\<rparr>"

definition executing_run :: "lm_run list \<Rightarrow> lm_run" where
  "executing_run trs = (case find (\<lambda>tr. lrs_Status (lr_Spec tr) = ''EXECUTING'') trs of Some tr \<Rightarrow> tr | None \<Rightarrow> lm_no_run)"

text \<open>Every failure is only logged.\<close>

definition sendEvent :: "'w lm_api \<Rightarrow> string \<Rightarrow> string \<Rightarrow> ('w, unit) io" where
  "sendEvent api level line =
     seq (call (PodsGet (lm_pods api) ''mayastor-e2e'' ''test-director'')) (\<lambda>r. case r of
       Inl err \<Rightarrow> ret ()
     | Inr p \<Rightarrow>
         seq (call (HttpGet api (''http://'' @ pod_PodIP p @ '':8080/api/v1/td/testRuns''))) (\<lambda>r1. case r1 of
           Inl err \<Rightarrow> ret ()
         | Inr (Inl err) \<Rightarrow> ret ()
         | Inr (Inr body) \<Rightarrow> (case res_bind (ParseRuns api body) (decode_runs (FieldNames api)) of
             Inl err \<Rightarrow> ret ()
           | Inr trs \<Rightarrow>
               let testRun = executing_run trs in
               if lr_ID testRun = '''' then ret ()
               else seq (call (HttpPost api (''http://'' @ pod_PodIP p @ '':8080/api/v1/td/events'')
                   \<lparr>le_SourceClass = ''log-monitor'', le_SourceInstance = lr_ID testRun, le_Resource = '''', le_Class = level,
                    le_Message = line, le_Data = [], le_Items = ''''\<rparr>)) (\<lambda>_. ret ()))))"


definition checkLine :: "'w lm_api \<Rightarrow> string \<Rightarrow> string \<Rightarrow> ('w, unit) io" where
  "checkLine api LogRegex s =
     (let s' = ToLower s in case MatchString api LogRegex s' of
        Inl err \<Rightarrow> ret ()
      | Inr match \<Rightarrow>
          if match then
            (if Contains s' ''error'' then sendEvent api ''FAIL'' s'
             else if Contains s' ''warn'' then sendEvent api ''WARN'' s'
             else ret ())
          else ret ())"

section \<open>The pods to follow\<close>

text \<open>The map of the pods whose log is followed, and the world.\<close>

record 'w lm =
  PodMap :: "(string, pod) gomap"
  lm_world :: 'w

definition lm_in_world :: "('w, 'a) io \<Rightarrow> ('w lm, 'a) io" where
  "lm_in_world = zoom lm_world (\<lambda>w. lm_world_update (\<lambda>_. w))"

text \<open>
  The loop over the attempts looks at the pod of the listing each time. (\<^verbatim>\<open>ContainerCreating\<close>, which
  the code also waits for, is not a phase of a pod.)
\<close>

definition settle :: "'w pod_api \<Rightarrow> pod \<Rightarrow> ('w, bool) io" where
  "settle api p =
     after (for_in [0 ..< 4] False (\<lambda>c added.
       if pod_Phase p = PodRunning then ret (Break True)
       else if pod_Phase p = PodPending then seq (sleep_secs api 5) (\<lambda>_. ret (Continue False))
       else ret (Break False))) ret"

definition initFluentdPodMap :: "'w pod_api \<Rightarrow> ('w, (string, pod) gomap) io" where
  "initFluentdPodMap api =
     seq (call (PodsList api ''fluentd'')) (\<lambda>r. case r of
       Inl err \<Rightarrow> os_Exit 1
     | Inr ps \<Rightarrow> after (for_in ps [] (\<lambda>p podMap.
         seq (settle api p) (\<lambda>added. ret (Continue (if added then AList.update (pod_Name p) p podMap else podMap))))) ret)"

definition execTailPodCommand :: "'w lm_api \<Rightarrow> pod \<Rightarrow> ('w, unit) io" where
  "execTailPodCommand api p = seq (call (StartTail api p)) (\<lambda>r. if r = TailNoExecutor then os_Exit 1 else ret ())"

text \<open>One pass of the goroutine; \<open>ord\<close> is the order in which Go enumerates the map.\<close>

definition checkForNewFluentdPods :: "'w lm_api \<Rightarrow> ((string, pod) gomap \<Rightarrow> (string \<times> pod) list) \<Rightarrow> ('w lm, unit) io" where
  "checkForNewFluentdPods api ord =
     seq (lm_in_world (initFluentdPodMap (lm_pods api))) (\<lambda>podNew.
     after (for_in (ord podNew) () (\<lambda>(k, p) _.
       seq (gets (\<lambda>s. map_of (PodMap s) k)) (\<lambda>known. case known of
         Some _ \<Rightarrow> ret (Continue ())
       | None \<Rightarrow>
           seq (modifies (PodMap_update (AList.update k p))) (\<lambda>_.
           seq (lm_in_world (execTailPodCommand api p)) (\<lambda>_. ret (Continue ()))))))
     (\<lambda>_. lm_in_world (sleep_secs (lm_pods api) 300)))"

text \<open>
  \<^verbatim>\<open>main\<close> waits for a pod to appear. While it sleeps the goroutine runs: \<open>others\<close> is what it does in
  the meantime.
\<close>

fun wait_for_pods :: "'w lm_api \<Rightarrow> ('w lm, unit) io \<Rightarrow> nat \<Rightarrow> ('w lm, unit) io" where
  "wait_for_pods api others 0 = seq (gets PodMap) (\<lambda>m. if length m = 0 then os_Exit 1 else ret ())"
| "wait_for_pods api others (Suc n) = seq (gets PodMap) (\<lambda>m.
     if length m = 0 then
       seq (lm_in_world (sleep_secs (lm_pods api) (60 * (5 div Suc n)))) (\<lambda>_. seq others (\<lambda>_. wait_for_pods api others n))
     else ret ())"

section \<open>What the log monitor sees of a run\<close>

text \<open>
  Go takes a key of a JSON object for a field of a struct when it is the name of the field, up to
  the case of letters.
\<close>

definition names_fields :: "(string \<Rightarrow> string \<Rightarrow> bool) \<Rightarrow> bool" where
  "names_fields names \<longleftrightarrow> (\<forall>field k. names field k \<longrightarrow> ToLower field = ToLower k)"

text \<open>The test director answers with test runs: what it sends is their JSON, or nothing that can be parsed.\<close>

definition serves_runs :: "(datetime \<Rightarrow> string) \<Rightarrow> 'w lm_api \<Rightarrow> bool" where
  "serves_runs fmt api \<longleftrightarrow> (\<forall>url w body w' objs. HttpGet api url w = (Inr (Inr body), w') \<and> ParseRuns api body = Inr objs \<longrightarrow>
     (\<exists>runs. objs = map (run_fields_json fmt) runs))"

lemma spec_field_missing:
  assumes "\<And>k v. (k, v) \<in> set fs \<Longrightarrow> \<not> names ''Spec'' k"
  shows "spec_field names fs = Inr lm_no_spec"
proof -
  have "foldl (\<lambda>acc (k, v). if names ''Spec'' k then spec_value names acc v else acc) acc fs = acc" for acc
    using assms by (induction fs arbitrary: acc) fastforce+
  then show ?thesis by (simp add: spec_field_def)
qed

lemma run_keys:
  "(k, v) \<in> set (run_fields_json fmt run) \<Longrightarrow>
     k \<in> {''endDateTime'', ''id'', ''startDateTime'', ''data'', ''status'', ''testExecIssueId'', ''testId'', ''testKey''}"
  by (auto simp: run_fields_json_def spec_fields_def omitempty_def split: if_splits)

lemma other_names:
  "\<forall>k \<in> {''endDateTime'', ''id'', ''startDateTime'', ''data'', ''status'', ''testExecIssueId'', ''testId'', ''testKey''}.
     ToLower ''Spec'' \<noteq> ToLower k"
  by code_simp

lemma decoded_run_status:
  assumes "names_fields names" and "decode_run names (run_fields_json fmt run) = Inr r"
  shows "lrs_Status (lr_Spec r) = ''''"
proof -
  have "\<not> names ''Spec'' k" if "(k, v) \<in> set (run_fields_json fmt run)" for k v
  proof
    assume "names ''Spec'' k"
    with assms(1) have "ToLower ''Spec'' = ToLower k" unfolding names_fields_def by blast
    with run_keys [OF that] other_names show False by metis
  qed
  then have "spec_field names (run_fields_json fmt run) = Inr lm_no_spec" by (rule spec_field_missing)
  with assms(2) show ?thesis
    by (auto simp: decode_run_def res_bind_def lm_no_spec_def split: sum.splits)
qed

lemma decoded_runs_status:
  assumes "names_fields names"
  shows "decode_runs names (map (run_fields_json fmt) runs) = Inr rs \<Longrightarrow> r \<in> set rs \<Longrightarrow> lrs_Status (lr_Spec r) = ''''"
  by (induction runs arbitrary: rs) (auto simp: res_bind_def split: sum.splits dest: decoded_run_status [OF assms])

lemma no_executing_run:
  assumes "\<And>r. r \<in> set rs \<Longrightarrow> lrs_Status (lr_Spec r) = ''''"
  shows "lr_ID (executing_run rs) = ''''"
proof -
  have "find (\<lambda>tr. lrs_Status (lr_Spec tr) = ''EXECUTING'') rs = None"
    using assms by (force simp: find_None_iff)
  then show ?thesis by (simp add: executing_run_def lm_no_run_def)
qed

section \<open>Properties\<close>

text \<open>
  Property C24. The log monitor never reports anything. It looks for an executing run in what the
  test director sends, where the status is a field of the run; but it expects the status in a nested
  object, so every run looks as if it had no status. Whatever line is checked, no event is posted:
  what posting would do makes no difference.
\<close>

theorem log_monitor_never_posts:
  assumes "serves_runs fmt api" and "names_fields (FieldNames api)"
  shows "checkLine (api\<lparr>HttpPost := post\<rparr>) LogRegex line w = checkLine api LogRegex line w"
proof -
  have runs: "lr_ID (executing_run trs) = ''''"
    if get: "HttpGet api url w1 = (Inr (Inr body), w2)" and trs: "res_bind (ParseRuns api body) (decode_runs (FieldNames api)) = Inr trs"
    for url w1 body w2 trs
  proof -
    from trs obtain objs where objs: "ParseRuns api body = Inr objs" "decode_runs (FieldNames api) objs = Inr trs"
      by (auto simp: res_bind_def split: sum.splits)
    with assms(1) get obtain rs where "objs = map (run_fields_json fmt) rs" unfolding serves_runs_def by blast
    with objs(2) show ?thesis by (auto intro!: no_executing_run dest: decoded_runs_status [OF assms(2)])
  qed
  have "sendEvent (api\<lparr>HttpPost := post\<rparr>) level l w = sendEvent api level l w" for level l
    by (auto simp: sendEvent_def seq_def call_def Let_def runs split: prod.splits sum.splits)
  then show ?thesis
    by (simp add: checkLine_def Let_def split: sum.split)
qed

text \<open>A test director with one executing run; the world counts the events that were posted.\<close>

definition small_log_api :: "nat lm_api" where
  "small_log_api = \<lparr>lm_pods = \<lparr>PodsGet = \<lambda>ns n w. (Inr \<lparr>pod_Name = n, pod_Namespace = ns, pod_UID = ''u'', pod_Labels = [],
        pod_Phase = PodRunning, pod_RestartCounts = [], pod_NodeName = '''', pod_PodIP = ''10.0.0.1'', pod_CreationTimestamp = 0\<rparr>, w),
      PodsList = \<lambda>ns w. (Inr [], w), PodsDelete = \<lambda>ns n w. (Inr (), w), Sleep = \<lambda>n w. w, Now = \<lambda>w. (0, w)\<rparr>,
     HttpGet = \<lambda>url w. (Inr (Inr ''runs''), w), HttpPost = \<lambda>url e w. (Inr (), Suc w),
     ParseRuns = \<lambda>b. Inr [run_fields_json (\<lambda>_. ''t'') \<lparr>tr_EndDateTime = None, tr_ID = ''X1'', tr_StartDateTime = None,
       tr_Spec = \<lparr>trs_Data = ''d'', trs_Status = TestRunEXECUTING, trs_TestExecIssueID = ''X1'', trs_TestID = ''T'', trs_TestKey = Some ''T-1''\<rparr>\<rparr>],
     FieldNames = \<lambda>field k. ToLower field = ToLower k, MatchString = \<lambda>re s. Inr True, StartTail = \<lambda>p w. (TailStarted, w)\<rparr>"

theorem log_monitor_never_posts_witness:
  "checkLine (small_log_api\<lparr>HttpPost := \<lambda>url e w. (Inr (), w)\<rparr>) ''error'' ''ERROR: no pool'' 0 = checkLine small_log_api ''error'' ''ERROR: no pool'' 0"
proof (rule log_monitor_never_posts)
  show "serves_runs (\<lambda>_. ''t'') small_log_api"
    by (auto simp: serves_runs_def small_log_api_def intro: exI [of _ "[_]"])
  show "names_fields (FieldNames small_log_api)"
    by (simp add: names_fields_def small_log_api_def)
qed

text \<open>
  The pods that the log monitor follows are those that were running in the listing. A pod that is
  pending is waited for, four times five seconds, but it is never looked up again.
\<close>

lemma settle_result:
  "settle api p w = (Done (pod_Phase p = PodRunning),
     if pod_Phase p = PodPending then Sleep api 5 (Sleep api 5 (Sleep api 5 (Sleep api 5 w))) else w)"
  by (simp add: settle_def after_def seq_def sleep_secs_def numeral_eq_Suc upt_rec)

theorem fluentd_pods_not_looked_up_again:
  assumes "PodsList api ''fluentd'' w = (Inr ps, w1)"
  shows "fst (initFluentdPodMap api w) =
    Done (fold (\<lambda>p. AList.update (pod_Name p) p) (filter (\<lambda>p. pod_Phase p = PodRunning) ps) [])"
proof -
  have "fst (for_in ps m (\<lambda>p podMap. seq (settle api p) (\<lambda>added.
      ret (Continue (if added then AList.update (pod_Name p) p podMap else podMap)) :: ('a, (_, (string, pod) gomap) ctl) io)) v) =
    Done (Inr (fold (\<lambda>p. AList.update (pod_Name p) p) (filter (\<lambda>p. pod_Phase p = PodRunning) ps) m))" for m v
    by (induction ps arbitrary: m v) (simp_all add: seq_def settle_result)
  from this [of "[]" w1] show ?thesis
    by (auto simp: initFluentdPodMap_def seq_def call_def assms after_def split: prod.splits outcome.splits)
qed

end
