(* ===== verification/Grpc_Client.thy ===== *)
theory Grpc_Client
  imports Cluster_Client
begin

text \<open>
  \<^verbatim>\<open>src/src/common/mayastorclient\<close>: the client of the gRPC interface of the mayastor instances.
  It lists and changes pools, replicas and nexuses, one instance at a time, and retries a
  call that ran into its deadline.

  The parameter \<open>grpc\<close> is the gRPC library with the network behind it. An answer comes in the
  fields that the client copies; \<^verbatim>\<open>nil\<close> without an error is \<open>Inr None\<close>. A context is
  its deadline, in seconds of the clock of the parameter. \<open>StatusError\<close> is \<^verbatim>\<open>status.Error\<close> with
  the code \<^verbatim>\<open>DeadlineExceeded\<close>.
\<close>

section \<open>Data\<close>

record mayastor_pool =
  mp_Name :: string
  mp_Disks :: "string list"
  mp_State :: int
  mp_Capacity :: "64 word"
  mp_Used :: "64 word"

record mayastor_nexus =
  mn_Name :: string
  mn_Uuid :: string
  mn_Size :: "64 word"
  mn_State :: int
  mn_Children :: "(string \<times> int) list"
  mn_DeviceUri :: string
  mn_Rebuilds :: "32 word"

record mayastor_replica =
  mr_Uuid :: string
  mr_Pool :: string
  mr_Thin :: bool
  mr_Size :: "64 word"
  mr_Share :: int
  mr_Uri :: string

record nvme_controller =
  nc_Name :: string
  nc_State :: int
  nc_Size :: "64 word"
  nc_BlkSize :: "32 word"

type_synonym ('w, 'a) rpc = "string \<Rightarrow> int \<Rightarrow> 'w \<Rightarrow> 'a option result \<times> 'w"

record 'w grpc =
  Dial :: "string \<Rightarrow> 'w \<Rightarrow> unit result \<times> 'w"
  ConnClose :: "string \<Rightarrow> 'w \<Rightarrow> 'w"
  GrpcNow :: "'w \<Rightarrow> int \<times> 'w"
  GrpcSleep :: "nat \<Rightarrow> 'w \<Rightarrow> 'w"
  StatusError :: "string \<Rightarrow> error"
  RpcMayastorInfo :: "('w, unit) rpc"
  RpcListPools :: "('w, mayastor_pool list) rpc"
  RpcDestroyPool :: "string \<Rightarrow> ('w, unit) rpc"
  RpcListNexus :: "('w, mayastor_nexus list) rpc"
  RpcFaultNexusChild :: "string \<Rightarrow> string \<Rightarrow> ('w, unit) rpc"
  RpcListReplicas :: "('w, mayastor_replica list) rpc"
  RpcDestroyReplica :: "string \<Rightarrow> ('w, unit) rpc"
  RpcCreateReplica :: "mayastor_replica \<Rightarrow> ('w, unit) rpc"
  RpcListNvmeControllers :: "('w, nvme_controller list) rpc"

section \<open>Calls\<close>

definition error_of :: "'a result \<Rightarrow> error option" where
  "error_of r = (case r of Inl e \<Rightarrow> Some e | Inr _ \<Rightarrow> None)"

definition isDeadlineExceeded :: "error option \<Rightarrow> bool" where
  "isDeadlineExceeded err = (case err of Some (DeadlineExceeded _) \<Rightarrow> True | _ \<Rightarrow> False)"

lemma deadline_simps [simp]: "error_of (Inl e) = Some e" "error_of (Inr x) = None" "\<not> isDeadlineExceeded None"
  by (simp_all add: error_of_def isDeadlineExceeded_def)

definition niceError :: "'w grpc \<Rightarrow> error \<Rightarrow> error" where
  "niceError g err = (if isDeadlineExceeded (Some err) then StatusError g ''context deadline exceeded'' else err)"

definition addrPort :: "string \<Rightarrow> string" where
  "addrPort address = address @ '':10124''"

text \<open>
  \<^verbatim>\<open>retryBackoff\<close>: the function that it calls assigns the variables \<^verbatim>\<open>response\<close> and \<^verbatim>\<open>err\<close> of
  its caller, which are nil before the first call.
\<close>

definition retryBackoff :: "'w grpc \<Rightarrow> ('w, 'a option result) io \<Rightarrow> ('w, 'a option result) io" where
  "retryBackoff g f =
     after (for_in [0 ..< 6] (5, Inr None) (\<lambda>i (timeout, _).
       seq f (\<lambda>r.
       if \<not> isDeadlineExceeded (error_of r) then ret (Break (timeout, r))
       else seq (modifies (GrpcSleep g timeout)) (\<lambda>_. ret (Continue (timeout * 2, r))))))
     (\<lambda>(timeout, r). ret r)"

text \<open>Dial, make a context, run the body with its deadline, and close the connection.\<close>

definition connected :: "'w grpc \<Rightarrow> string \<Rightarrow> int \<Rightarrow> (int \<Rightarrow> ('w, 'a result) io) \<Rightarrow> ('w, 'a result) io" where
  "connected g address timeout body =
     check (call (Dial g (addrPort address))) (\<lambda>err. err) (\<lambda>_.
     seq (call (GrpcNow g)) (\<lambda>now.
     seq (body (now + timeout)) (\<lambda>r.
     seq (modifies (ConnClose g (addrPort address))) (\<lambda>_. ret r))))"

definition mayastorInfo :: "'w grpc \<Rightarrow> string \<Rightarrow> ('w, unit option result) io" where
  "mayastorInfo g address = connected g address 5 (\<lambda>ctx. call (RpcMayastorInfo g (addrPort address) ctx))"

text \<open>
  The package variable \<^verbatim>\<open>canConnect\<close> is an argument and the result; it changes only when there
  is a node.
\<close>

definition CheckAndSetConnect :: "'w grpc \<Rightarrow> string list \<Rightarrow> bool \<Rightarrow> ('w, bool) io" where
  "CheckAndSetConnect g nodes canConnect =
     (if nodes \<noteq> [] then
        after (for_in nodes True (\<lambda>node allConnected.
          seq (mayastorInfo g node) (\<lambda>r. case r of
            Inr (Some _) \<Rightarrow> ret (Continue allConnected)
          | _ \<Rightarrow> ret (Break False))))
        ret
      else ret canConnect)"

text \<open>One list call, and the same call on one instance after another.\<close>

definition listing :: "'w grpc \<Rightarrow> string \<Rightarrow> string \<Rightarrow> (error \<Rightarrow> error) \<Rightarrow> ('w, 'a list) rpc \<Rightarrow> ('w, 'a list result) io" where
  "listing g what address nice rpc =
     connected g address 30 (\<lambda>ctx.
     seq (retryBackoff g (call (rpc (addrPort address) ctx))) (\<lambda>r. case r of
       Inl err \<Rightarrow> ret (Inl (nice err))
     | Inr None \<Rightarrow> ret (Inl (Errorf (''nil response for '' @ what @ '' on '' @ address)))
     | Inr (Some xs) \<Rightarrow> ret (Inr xs)))"

definition accumulated :: "error option \<Rightarrow> error \<Rightarrow> error option" where
  "accumulated accErr err = (case accErr of
      None \<Rightarrow> Some err
    | Some e \<Rightarrow> Some (Errorf (err_text e @ '';'' @ err_text err)))"

definition gather :: "(string \<Rightarrow> ('w, 'a list result) io) \<Rightarrow> string list \<Rightarrow> ('w, 'a list \<times> error option) io" where
  "gather lister addrs =
     after (for_in addrs ([], None) (\<lambda>address (infos, accErr).
       seq (lister address) (\<lambda>r. case r of
         Inr xs \<Rightarrow> ret (Continue (infos @ xs, accErr))
       | Inl err \<Rightarrow> ret (Continue (infos, accumulated accErr err)))))
     ret"

section \<open>Pools\<close>

definition listPool :: "'w grpc \<Rightarrow> string \<Rightarrow> ('w, mayastor_pool list result) io" where
  "listPool g address = listing g ''ListPools'' address (niceError g) (RpcListPools g)"

definition GetPool :: "'w grpc \<Rightarrow> string \<Rightarrow> string \<Rightarrow> ('w, mayastor_pool result) io" where
  "GetPool g name addr =
     check (listPool g addr) (\<lambda>err. err) (\<lambda>poolInfo.
       case find (\<lambda>pool. mp_Name pool = name) poolInfo of
         Some pool \<Rightarrow> ret (Inr pool)
       | None \<Rightarrow> ret (Inl (NotFound ('' '' @ [dquote, dquote] @ '' not found''))))"

definition mayastorclient_ListPools :: "'w grpc \<Rightarrow> string list \<Rightarrow> ('w, mayastor_pool list \<times> error option) io" where
  "mayastorclient_ListPools g addrs = gather (listPool g) addrs"

definition DestroyPool :: "'w grpc \<Rightarrow> string \<Rightarrow> string \<Rightarrow> ('w, unit result) io" where
  "DestroyPool g name addr =
     connected g addr 5 (\<lambda>ctx.
     check (call (RpcDestroyPool g name (addrPort addr) ctx)) (\<lambda>err. err) (\<lambda>_. ret (Inr ())))"

definition destroy_pools_on :: "'w grpc \<Rightarrow> string \<Rightarrow> unit \<Rightarrow> ('w, (unit, unit result) ctl) io" where
  "destroy_pools_on g addr u =
     seq (listPool g addr) (\<lambda>r. case r of
       Inl err \<Rightarrow> ret (Return (Inl err))
     | Inr poolInfo \<Rightarrow>
         seq (for_in poolInfo () (\<lambda>pool _.
           seq (DestroyPool g (mp_Name pool) addr) (\<lambda>r. case r of
             Inl err \<Rightarrow> ret (Return (Inl err))
           | Inr _ \<Rightarrow> ret (Continue ()))))
         (\<lambda>c. case c of Inl e \<Rightarrow> ret (Return e) | Inr _ \<Rightarrow> ret (Continue ())))"

definition DestroyAllPools :: "'w grpc \<Rightarrow> string list \<Rightarrow> ('w, unit result) io" where
  "DestroyAllPools g addrs = after (for_in addrs () (destroy_pools_on g)) (\<lambda>_. ret (Inr ()))"

section \<open>Nexuses\<close>

definition NexusState_String :: "int \<Rightarrow> string" where
  "NexusState_String s =
     (if s = 0 then ''NEXUS_UNKNOWN'' else if s = 1 then ''NEXUS_ONLINE'' else if s = 2 then ''NEXUS_DEGRADED''
      else if s = 3 then ''NEXUS_FAULTED'' else Itoa s)"

definition listNexuses :: "'w grpc \<Rightarrow> string \<Rightarrow> ('w, mayastor_nexus list result) io" where
  "listNexuses g address = listing g ''ListNexus'' address (niceError g) (RpcListNexus g)"

definition mayastorclient_ListNexuses :: "'w grpc \<Rightarrow> string list \<Rightarrow> ('w, mayastor_nexus list \<times> error option) io" where
  "mayastorclient_ListNexuses g addrs = gather (listNexuses g) addrs"

definition FaultNexusChild :: "'w grpc \<Rightarrow> string \<Rightarrow> string \<Rightarrow> string \<Rightarrow> ('w, unit result) io" where
  "FaultNexusChild g address uid uri =
     connected g address 30 (\<lambda>ctx.
     seq (retryBackoff g (call (RpcFaultNexusChild g uid uri (addrPort address) ctx))) (\<lambda>r. case r of
       Inl err \<Rightarrow> ret (Inl (niceError g err))
     | Inr None \<Rightarrow> ret (Inl (Errorf ''nil response to FaultNexusChild''))
     | Inr (Some _) \<Rightarrow> ret (Inr ())))"

text \<open>A nexus that is found is returned without an error, also when an instance did not answer.\<close>

definition FindNexus :: "'w grpc \<Rightarrow> string \<Rightarrow> string list \<Rightarrow> ('w, mayastor_nexus option \<times> error option) io" where
  "FindNexus g uid addrs =
     after (for_in addrs None (\<lambda>address accErr.
       seq (listNexuses g address) (\<lambda>r. case r of
         Inr nexusInfos \<Rightarrow> (case find (\<lambda>ni. mn_Uuid ni = uid) nexusInfos of
             Some ni \<Rightarrow> ret (Return (Some ni, None))
           | None \<Rightarrow> ret (Continue accErr))
       | Inl err \<Rightarrow> ret (Continue (case accErr of
             None \<Rightarrow> Some err
           | Some e \<Rightarrow> Some (Errorf (err_text e @ '';'' @ err_text (niceError g err))))))))
     (\<lambda>accErr. ret (None, accErr))"

section \<open>Replicas and controllers\<close>

definition listReplica :: "'w grpc \<Rightarrow> string \<Rightarrow> ('w, mayastor_replica list result) io" where
  "listReplica g address = listing g ''ListReplicas'' address (niceError g) (RpcListReplicas g)"

text \<open>A call with a deadline of a minute whose answer is not looked at.\<close>

definition changing :: "'w grpc \<Rightarrow> string \<Rightarrow> ('w, unit) rpc \<Rightarrow> ('w, unit result) io" where
  "changing g address rpc =
     connected g address 60 (\<lambda>ctx.
     seq (retryBackoff g (call (rpc (addrPort address) ctx))) (\<lambda>r. case r of
       Inl err \<Rightarrow> ret (Inl (niceError g err))
     | Inr _ \<Rightarrow> ret (Inr ())))"

definition RmReplica :: "'w grpc \<Rightarrow> string \<Rightarrow> string \<Rightarrow> ('w, unit result) io" where
  "RmReplica g address uid = changing g address (RpcDestroyReplica g uid)"

definition CreateReplicaExt ::
    "'w grpc \<Rightarrow> string \<Rightarrow> string \<Rightarrow> 64 word \<Rightarrow> string \<Rightarrow> bool \<Rightarrow> int \<Rightarrow> ('w, unit result) io" where
  "CreateReplicaExt g address uid bytes pool thin shareProto =
     changing g address (RpcCreateReplica g
       \<lparr>mr_Uuid = uid, mr_Pool = pool, mr_Thin = thin, mr_Size = bytes, mr_Share = shareProto, mr_Uri = ''''\<rparr>)"

definition mayastorclient_CreateReplica :: "'w grpc \<Rightarrow> string \<Rightarrow> string \<Rightarrow> 64 word \<Rightarrow> string \<Rightarrow> ('w, unit result) io" where
  "mayastorclient_CreateReplica g address uid bytes pool = CreateReplicaExt g address uid bytes pool False 1"

definition mayastorclient_ListReplicas :: "'w grpc \<Rightarrow> string list \<Rightarrow> ('w, mayastor_replica list \<times> error option) io" where
  "mayastorclient_ListReplicas g addrs = gather (listReplica g) addrs"

text \<open>
  The error variable of \<^verbatim>\<open>RmNodeReplicas\<close> is assigned by every removal on the node, and looked at
  after the last.
\<close>

definition remove_on :: "'w grpc \<Rightarrow> string \<Rightarrow> ('w, error option) io" where
  "remove_on g address =
     seq (listReplica g address) (\<lambda>r. case r of
       Inl err \<Rightarrow> ret (Some err)
     | Inr replicaInfos \<Rightarrow>
         after (for_in replicaInfos None (\<lambda>replicaInfo err.
           seq (RmReplica g address (mr_Uuid replicaInfo)) (\<lambda>r. ret (Continue (error_of r)))))
         ret)"

definition mayastorclient_RmNodeReplicas :: "'w grpc \<Rightarrow> string list \<Rightarrow> ('w, error option) io" where
  "mayastorclient_RmNodeReplicas g addrs =
     after (for_in addrs None (\<lambda>address accErr.
       seq (remove_on g address) (\<lambda>err. case err of
         Some e \<Rightarrow> ret (Continue (accumulated accErr e))
       | None \<Rightarrow> ret (Continue accErr))))
     ret"

definition FindReplicas :: "'w grpc \<Rightarrow> string \<Rightarrow> string list \<Rightarrow> ('w, mayastor_replica list \<times> error option) io" where
  "FindReplicas g uid addrs =
     gather (\<lambda>address. check (listReplica g address) (\<lambda>err. err) (\<lambda>replicaInfo.
       ret (Inr (filter (\<lambda>repl. mr_Uuid repl = uid) replicaInfo)))) addrs"

definition listNvmeController :: "'w grpc \<Rightarrow> string \<Rightarrow> ('w, nvme_controller list result) io" where
  "listNvmeController g address = listing g ''ListReplicas'' address (\<lambda>err. err) (RpcListNvmeControllers g)"

definition ListNvmeControllers :: "'w grpc \<Rightarrow> string list \<Rightarrow> ('w, nvme_controller list \<times> error option) io" where
  "ListNvmeControllers g addrs = gather (listNvmeController g) addrs"


section \<open>The client returns\<close>

lemma returning_retryBackoff [ends]: "returning f \<Longrightarrow> returning (retryBackoff g f)"
  unfolding retryBackoff_def by (intro ends allI | simp)+

lemma returning_connected [ends]: "(\<And>ctx. returning (body ctx)) \<Longrightarrow> returning (connected g a t body)"
  unfolding connected_def by (intro ends)

lemma returning_listing [ends]: "returning (listing g what a nice rpc)"
  unfolding listing_def by (intro ends)

lemma returning_gather [ends]: "(\<And>a. returning (lister a)) \<Longrightarrow> returning (gather lister addrs)"
  unfolding gather_def by (intro ends allI | simp)+

lemma returning_changing [ends]: "returning (changing g a rpc)"
  unfolding changing_def by (intro ends)

lemmas grpc_list_defs =
  listPool_def listNexuses_def listReplica_def listNvmeController_def mayastorclient_ListPools_def
  mayastorclient_ListNexuses_def mayastorclient_ListReplicas_def ListNvmeControllers_def FindReplicas_def

lemma returning_grpc [ends]:
  "returning (listPool g a)" "returning (listNexuses g a)" "returning (listReplica g a)"
  "returning (mayastorclient_ListPools g addrs)" "returning (mayastorclient_ListNexuses g addrs)"
  "returning (mayastorclient_ListReplicas g addrs)" "returning (ListNvmeControllers g addrs)"
  "returning (FindReplicas g uid addrs)" "returning (RmReplica g a uid)"
  "returning (mayastorclient_CreateReplica g a uid bytes pool)" "returning (DestroyPool g name a)"
  unfolding grpc_list_defs RmReplica_def mayastorclient_CreateReplica_def CreateReplicaExt_def DestroyPool_def
  by (intro ends)+

lemma returning_RmNodeReplicas [ends]: "returning (mayastorclient_RmNodeReplicas g addrs)"
  unfolding mayastorclient_RmNodeReplicas_def remove_on_def by (intro ends)

section \<open>One instance after another\<close>

text \<open>
  \<open>run_all\<close> runs a piece of code for one argument after another. \<open>gather\<close> is that, with the
  answers joined and the errors accumulated.
\<close>

fun run_all :: "('a \<Rightarrow> ('w, 'b) io) \<Rightarrow> 'a list \<Rightarrow> ('w, 'b list) io" where
  "run_all f [] = ret []"
| "run_all f (x # xs) = seq (f x) (\<lambda>r. seq (run_all f xs) (\<lambda>rs. ret (r # rs)))"

definition answered :: "'a list result list \<Rightarrow> 'a list" where
  "answered rs = concat (map (case_sum (\<lambda>_. []) (\<lambda>xs. xs)) rs)"

definition failures :: "'a result list \<Rightarrow> error list" where
  "failures rs = concat (map (case_sum (\<lambda>e. [e]) (\<lambda>_. [])) rs)"

lemma run_all_length: "run_all f xs w = (Done rs, w') \<Longrightarrow> length rs = length xs"
  by (induction xs arbitrary: w rs) (auto elim!: seq_DoneE)

lemma returning_run_all [ends]: "(\<And>x. returning (f x)) \<Longrightarrow> returning (run_all f xs)"
  by (induction xs) (auto intro!: ends)

lemma seq_cong: "(\<And>x. f x = g x) \<Longrightarrow> seq m f = seq m g"
  by (rule arg_cong [where f = "seq m"]) (rule ext)

lemma gather_loop:
  "for_in addrs (infos, accErr) (\<lambda>address (infos, accErr).
       seq (lister address) (\<lambda>r. case r of
         Inr xs \<Rightarrow> ret (Continue (infos @ xs, accErr))
       | Inl err \<Rightarrow> ret (Continue (infos, accumulated accErr err)))) =
   seq (run_all lister addrs) (\<lambda>rs.
     ret (Inr (infos @ answered rs, fold (\<lambda>e acc. accumulated acc e) (failures rs) accErr)))"
proof (induction addrs arbitrary: infos accErr)
  case Nil
  show ?case by (simp add: answered_def failures_def)
next
  case (Cons a addrs)
  show ?case
    by (simp add: seq_assoc, rule seq_cong)
       (simp add: Cons.IH answered_def failures_def split: sum.split)
qed

lemma gather_run_all:
  "gather lister addrs =
     seq (run_all lister addrs) (\<lambda>rs. ret (answered rs, fold (\<lambda>e acc. accumulated acc e) (failures rs) None))"
  by (simp add: gather_def gather_loop after_def seq_assoc ret_def)

lemma accumulated_None: "fold (\<lambda>e acc. accumulated acc e) es acc = None \<longleftrightarrow> es = [] \<and> acc = None"
  by (induction es arbitrary: acc) (auto simp: accumulated_def split: option.split)


section \<open>Deadlines\<close>

text \<open>
  What the client relies on: sleeping takes its time, a call never turns the clock back, a call
  on a context whose deadline is past fails with \<^verbatim>\<open>DeadlineExceeded\<close>, and a call that fails
  with it has waited for the deadline.
\<close>

definition deadline_kept :: "'w grpc \<Rightarrow> ('w \<Rightarrow> int) \<Rightarrow> ('w, 'a) rpc \<Rightarrow> bool" where
  "deadline_kept g clock rpc \<longleftrightarrow>
     (\<forall>w. GrpcNow g w = (clock w, w)) \<and> (\<forall>n w. clock (GrpcSleep g n w) = clock w + int n) \<and>
     (\<forall>a ctx w. clock w \<le> clock (snd (rpc a ctx w))) \<and>
     (\<forall>a ctx w. ctx \<le> clock w \<longrightarrow> isDeadlineExceeded (error_of (fst (rpc a ctx w)))) \<and>
     (\<forall>a ctx w. isDeadlineExceeded (error_of (fst (rpc a ctx w))) \<longrightarrow> ctx \<le> clock (snd (rpc a ctx w)))"

abbreviation retry_round ::
    "'w grpc \<Rightarrow> ('w, 'a option result) io \<Rightarrow> nat \<Rightarrow> nat \<times> 'a option result \<Rightarrow>
       ('w, (nat \<times> 'a option result, 'a option result) ctl) io" where
  "retry_round g f \<equiv> \<lambda>i (timeout, _).
     seq f (\<lambda>r. if \<not> isDeadlineExceeded (error_of r) then ret (Break (timeout, r))
       else seq (modifies (GrpcSleep g timeout)) (\<lambda>_. ret (Continue (timeout * 2, r))))"

lemma retry_expired:
  assumes "deadline_kept g clock rpc"
  shows "ctx \<le> clock w \<Longrightarrow> isDeadlineExceeded (error_of r0) \<Longrightarrow>
    \<exists>n r w'. for_in is (m, r0) (retry_round g (call (rpc a ctx))) w = (Done (Inr (n, r)), w') \<and>
      isDeadlineExceeded (error_of r) \<and> clock w + int m * (2 ^ length is - 1) \<le> clock w'"
proof (induction "is" arbitrary: m r0 w)
  case Nil
  then show ?case by simp
next
  case (Cons i "is")
  let ?r = "fst (rpc a ctx w)" and ?w = "GrpcSleep g m (snd (rpc a ctx w))"
  have r: "isDeadlineExceeded (error_of ?r)" and w: "clock w + int m \<le> clock ?w"
    using assms Cons.prems(1) by (auto simp: deadline_kept_def)
  with Cons.prems(1) have "ctx \<le> clock ?w" by linarith
  from Cons.IH [OF this r, of "m * 2"] obtain n r' w' where
    run: "for_in is (m * 2, ?r) (retry_round g (call (rpc a ctx))) ?w = (Done (Inr (n, r')), w')"
    and r': "isDeadlineExceeded (error_of r')" and w': "clock ?w + int (m * 2) * (2 ^ length is - 1) \<le> clock w'"
    by blast
  have "int m + int (m * 2) * (2 ^ length is - 1) = int m * (2 ^ Suc (length is) - 1)"
    by (simp add: algebra_simps)
  with w w' have "clock w + int m * (2 ^ length (i # is) - 1) \<le> clock w'" by simp
  moreover have "for_in (i # is) (m, r0) (retry_round g (call (rpc a ctx))) w = (Done (Inr (n, r')), w')"
    using run r by (simp add: seq_apply call_apply)
  ultimately show ?case using r' by blast
qed


lemma retryBackoff_first:
  assumes kept: "deadline_kept g clock rpc" and first: "rpc a ctx w = (r, w1)"
  shows "if isDeadlineExceeded (error_of r)
    then \<exists>r' w'. retryBackoff g (call (rpc a ctx)) w = (Done r', w') \<and> isDeadlineExceeded (error_of r') \<and> clock w1 + 315 \<le> clock w'
    else retryBackoff g (call (rpc a ctx)) w = (Done r, w1)"
proof (cases "isDeadlineExceeded (error_of r)")
  case True
  have w1: "ctx \<le> clock (GrpcSleep g 5 w1)" and "clock (GrpcSleep g 5 w1) = clock w1 + 5"
    using kept first True by (auto simp: deadline_kept_def) (metis fst_conv snd_conv add_increasing2 zero_le_numeral)+
  moreover from retry_expired [OF kept w1 True, of "[1 ..< 6]" 10 a] obtain n r' w' where
    run: "for_in [1 ..< 6] (10, r) (retry_round g (call (rpc a ctx))) (GrpcSleep g 5 w1) = (Done (Inr (n, r')), w')"
    and r': "isDeadlineExceeded (error_of r')" and "clock (GrpcSleep g 5 w1) + int 10 * (2 ^ length [1 ..< 6] - 1) \<le> clock w'"
    by blast
  moreover have "retryBackoff g (call (rpc a ctx)) w = (Done r', w')"
    using run True first
    by (simp add: retryBackoff_def upt_conv_Cons [of 0] after_def seq_apply call_apply)
  ultimately show ?thesis using True by auto
next
  case False
  with first show ?thesis
    by (simp add: retryBackoff_def upt_conv_Cons [of 0] after_def seq_apply call_apply)
qed

lemma connected_Inr:
  assumes "connected g address t body w = (Done (Inr x), w')"
  obtains w1 now w2 w3 where "Dial g (addrPort address) w = (Inr (), w1)" "GrpcNow g w1 = (now, w2)"
    "body (now + t) w2 = (Done (Inr x), w3)"
  using assms by (auto simp: connected_def call_def elim!: check_DoneE seq_DoneE split: prod.splits)

lemma listing_first:
  assumes kept: "deadline_kept g clock rpc" and run: "listing g what address nice rpc w = (Done (Inr xs), w')"
  shows "\<exists>w1 w2. Dial g (addrPort address) w = (Inr (), w1) \<and> rpc (addrPort address) (clock w1 + 30) w1 = (Inr (Some xs), w2)"
proof -
  obtain w1 now w2 w3 where dial: "Dial g (addrPort address) w = (Inr (), w1)" and now: "GrpcNow g w1 = (now, w2)"
    and body: "seq (retryBackoff g (call (rpc (addrPort address) (now + 30)))) (\<lambda>r. case r of
       Inl err \<Rightarrow> ret (Inl (nice err))
     | Inr None \<Rightarrow> ret (Inl (Errorf (''nil response for '' @ what @ '' on '' @ address)))
     | Inr (Some xs) \<Rightarrow> ret (Inr xs)) w2 = (Done (Inr xs), w3)"
    using run unfolding listing_def by (rule connected_Inr)
  from now kept have "now = clock w1" "w2 = w1" by (auto simp: deadline_kept_def)
  moreover obtain r w4 where "rpc (addrPort address) (now + 30) w2 = (r, w4)" by (rule prod.exhaust)
  ultimately show ?thesis
    using retryBackoff_first [OF kept, of "addrPort address" "now + 30" w2 r w4] body dial
    by (auto elim!: seq_DoneE split: sum.splits option.splits if_splits)
qed


section \<open>Properties\<close>

text \<open>
  Property C26. \<^verbatim>\<open>ListPools\<close> asks the instances one after another and always returns: the pools of
  those that answered, in that order, and an error exactly if some instance did not answer.
\<close>

theorem ListPools_complete:
  "\<exists>rs accErr w'. run_all (listPool g) addrs w = (Done rs, w') \<and> length rs = length addrs \<and>
     mayastorclient_ListPools g addrs w = (Done (answered rs, accErr), w') \<and> (accErr = None \<longleftrightarrow> failures rs = [])"
proof -
  obtain rs w' where "run_all (listPool g) addrs w = (Done rs, w')"
    using returning_run_all [OF returning_grpc(1)] by (rule returningE)
  then show ?thesis
    by (simp add: mayastorclient_ListPools_def gather_run_all seq_Done run_all_length accumulated_None)
qed

text \<open>
  The retries of the gRPC client cannot help, since all calls share one context:
  when a list of pools is returned the first call has returned it, and when the first call ran
  into its deadline, then so do all, and at least 315 seconds are spent on the waits between them.
\<close>

theorem grpc_retries_useless:
  assumes "deadline_kept g clock (RpcListPools g)"
  shows "(listPool g address w = (Done (Inr ps), w') \<longrightarrow>
      (\<exists>w1 w2. Dial g (addrPort address) w = (Inr (), w1) \<and>
        RpcListPools g (addrPort address) (clock w1 + 30) w1 = (Inr (Some ps), w2))) \<and>
    (RpcListPools g a ctx v = (r, v1) \<and> isDeadlineExceeded (error_of r) \<longrightarrow>
      (\<exists>r' v2. retryBackoff g (call (RpcListPools g a ctx)) v = (Done r', v2) \<and> isDeadlineExceeded (error_of r') \<and>
        clock v1 + 315 \<le> clock v2))"
proof (intro conjI impI)
  assume "listPool g address w = (Done (Inr ps), w')"
  with listing_first [OF assms] show "\<exists>w1 w2. Dial g (addrPort address) w = (Inr (), w1) \<and>
        RpcListPools g (addrPort address) (clock w1 + 30) w1 = (Inr (Some ps), w2)"
    unfolding listPool_def by blast
next
  assume "RpcListPools g a ctx v = (r, v1) \<and> isDeadlineExceeded (error_of r)"
  with retryBackoff_first [OF assms] show "\<exists>r' v2. retryBackoff g (call (RpcListPools g a ctx)) v = (Done r', v2) \<and>
      isDeadlineExceeded (error_of r') \<and> clock v1 + 315 \<le> clock v2"
    by (metis (full_types))
qed

text \<open>Instances that take \<open>lat\<close> seconds to answer; the world is the clock.\<close>

definition timed :: "nat \<Rightarrow> 'a \<Rightarrow> (nat, 'a) rpc" where
  "timed lat x a ctx w =
     (if int (w + lat) < ctx then (Inr (Some x), w + lat) else (Inl (DeadlineExceeded ''''), max w (nat ctx)))"

definition small_mayastor_pool :: mayastor_pool where
  "small_mayastor_pool = \<lparr>mp_Name = ''node1-pool'', mp_Disks = [''/dev/sdb''], mp_State = 1, mp_Capacity = 100, mp_Used = 7\<rparr>"

definition small_replica :: "string \<Rightarrow> mayastor_replica" where
  "small_replica uid = \<lparr>mr_Uuid = uid, mr_Pool = ''node1-pool'', mr_Thin = False, mr_Size = 64, mr_Share = 1, mr_Uri = ''''\<rparr>"

definition small_grpc :: "nat \<Rightarrow> (string \<Rightarrow> error option) \<Rightarrow> nat grpc" where
  "small_grpc lat failing =
     \<lparr>Dial = \<lambda>a w. (Inr (), w), ConnClose = \<lambda>a w. w, GrpcNow = \<lambda>w. (int w, w), GrpcSleep = \<lambda>n w. w + n,
      StatusError = DeadlineExceeded, RpcMayastorInfo = timed lat (), RpcListPools = timed lat [small_mayastor_pool],
      RpcDestroyPool = \<lambda>name. timed lat (), RpcListNexus = timed lat [], RpcFaultNexusChild = \<lambda>uid uri. timed lat (),
      RpcListReplicas = timed lat [small_replica ''r1'', small_replica ''r2''],
      RpcDestroyReplica = \<lambda>uid a ctx w. (case failing uid of Some e \<Rightarrow> (Inl e, w) | None \<Rightarrow> (Inr (Some ()), w)),
      RpcCreateReplica = \<lambda>r. timed lat (), RpcListNvmeControllers = timed lat []\<rparr>"

lemma small_deadline: "deadline_kept (small_grpc lat failing) int (RpcListPools (small_grpc lat failing))"
  by (auto simp: deadline_kept_def small_grpc_def timed_def isDeadlineExceeded_def)

theorem grpc_retries_useless_witness:
  "\<exists>w1 w2. RpcListPools (small_grpc 1 (\<lambda>_. None)) ''10.0.0.1:10124'' (int w1 + 30) w1 = (Inr (Some [small_mayastor_pool]), w2)"
proof -
  have "listPool (small_grpc 1 (\<lambda>_. None)) ''10.0.0.1'' 0 = (Done (Inr [small_mayastor_pool]), 1)"
    by (simp add: listPool_def listing_def connected_def retryBackoff_def upt_conv_Cons after_def check_def seq_apply call_apply
        small_grpc_def timed_def)
  with grpc_retries_useless [OF small_deadline, THEN conjunct1, of 1 "\<lambda>_. None" "''10.0.0.1''" 0 "[small_mayastor_pool]" 1]
  show ?thesis by (auto simp: addrPort_def)
qed

text \<open>
  When the replicas of an instance are removed, a removal that fails is forgotten if a
  later one succeeds: it is the result of the last removal that counts.
\<close>

theorem removal_errors_lost:
  assumes "listReplica g address w = (Done (Inr (replicas @ [r])), w1)"
    and "\<And>w. \<exists>w'. RmReplica g address (mr_Uuid r) w = (Done (Inr ()), w')"
  shows "\<exists>w'. mayastorclient_RmNodeReplicas g [address] w = (Done None, w')"
proof -
  let ?rm = "\<lambda>replicaInfo err. seq (RmReplica g address (mr_Uuid replicaInfo)) (\<lambda>r. ret (Continue (error_of r)))"
  have "\<exists>w'. for_in (rs @ [r]) e ?rm v = (Done (Inr None :: error option + error option), w')" for rs e v
  proof (induction rs arbitrary: e v)
    case Nil
    from assms(2) [of v] show ?case by (auto simp: seq_apply)
  next
    case (Cons x rs)
    obtain y v' where "RmReplica g address (mr_Uuid x) v = (Done y, v')"
      using returning_grpc(9) by (rule returningE)
    with Cons.IH [of "error_of y" v'] show ?case by (simp add: seq_apply)
  qed
  then obtain w' where "for_in (replicas @ [r]) None ?rm w1 = (Done (Inr None :: error option + error option), w')" by blast
  with assms(1) show ?thesis
    by (simp add: mayastorclient_RmNodeReplicas_def remove_on_def after_def seq_apply)
qed

theorem removal_errors_lost_witness:
  "\<exists>w'. mayastorclient_RmNodeReplicas (small_grpc 1 (\<lambda>u. if u = ''r1'' then Some (Error ''busy'') else None)) [''10.0.0.1''] 0
     = (Done None, w')"
proof (rule removal_errors_lost)
  let ?g = "small_grpc 1 (\<lambda>u. if u = ''r1'' then Some (Error ''busy'') else None)"
  show "listReplica ?g ''10.0.0.1'' 0 = (Done (Inr ([small_replica ''r1''] @ [small_replica ''r2''])), 1)"
    by (simp add: listReplica_def listing_def connected_def retryBackoff_def upt_conv_Cons after_def check_def seq_apply call_apply
        small_grpc_def timed_def)
  show "\<exists>w'. RmReplica ?g ''10.0.0.1'' (mr_Uuid (small_replica ''r2'')) w = (Done (Inr ()), w')" for w
    by (simp add: RmReplica_def changing_def connected_def retryBackoff_def upt_conv_Cons after_def check_def seq_apply call_apply
        small_grpc_def small_replica_def)
qed


section \<open>The cluster client over this client\<close>

text \<open>
  The cluster client of the extended test framework calls this package. \<open>with_mayastorclient\<close>
  puts the functions above in the place of the fields that stand for them there; the cluster
  client drops what comes with an error. \<open>returned\<close> is the value of code that returns.
\<close>

definition returned :: "'a \<Rightarrow> ('w, 'a) io \<Rightarrow> 'w \<Rightarrow> 'a \<times> 'w" where
  "returned d m w = (case m w of (Done x, w') \<Rightarrow> (x, w') | (_, w') \<Rightarrow> (d, w'))"

definition unless_error :: "('a \<Rightarrow> 'b) \<Rightarrow> 'a \<times> error option \<Rightarrow> ('w, 'b result) io" where
  "unless_error f p = (case p of (x, err) \<Rightarrow> ret (case err of Some e \<Rightarrow> Inl e | None \<Rightarrow> Inr (f x)))"

definition with_mayastorclient :: "'w grpc \<Rightarrow> 'w cluster \<Rightarrow> 'w cluster" where
  "with_mayastorclient g cl = cl\<lparr>
     ListNexuses := \<lambda>addrs. returned (Inr []) (seq (mayastorclient_ListNexuses g addrs)
       (unless_error (map (\<lambda>n. \<lparr>nx_Uuid = mn_Uuid n, nx_State = NexusState_String (mn_State n)\<rparr>)))),
     ListReplicas := \<lambda>addrs. returned (Inr []) (seq (mayastorclient_ListReplicas g addrs) (unless_error (map mr_Uuid))),
     RmNodeReplicas := \<lambda>addrs. returned (Inr ()) (seq (mayastorclient_RmNodeReplicas g addrs) (\<lambda>err. unless_error id ((), err))),
     ListPools := \<lambda>addrs. returned (Inr []) (seq (mayastorclient_ListPools g addrs)
       (unless_error (map (\<lambda>p. \<lparr>gp_Name = mp_Name p, gp_Used = mp_Used p\<rparr>)))),
     CreateReplica := \<lambda>a uid bytes pool. returned (Inr ()) (mayastorclient_CreateReplica g a uid bytes pool)\<rparr>"

lemma call_returned: "returning m \<Longrightarrow> call (returned d m) = m"
proof
  fix w
  assume "returning m"
  then obtain x w' where "m w = (Done x, w')" by (rule returningE)
  then show "call (returned d m) w = m w" by (simp add: returned_def call_def)
qed

lemma with_mayastorclient_same [simp]: "GetMayastorNodeIPs (with_mayastorclient g cl) = GetMayastorNodeIPs cl"
  by (simp add: GetMayastorNodeIPs_def mayastor_nodes_def GetNodeLocs_def with_mayastorclient_def)

lemma returning_unless_error [ends]: "returning (unless_error f p)"
  unfolding unless_error_def by (intro ends)

text \<open>
  The pool usage of the cluster is the sum of the usage of the pools of all instances, in
  unsigned 64 bit arithmetic, and an instance that does not answer makes it an error.
\<close>

theorem pool_usage_is_total:
  assumes ips: "GetMayastorNodeIPs cl w = (Done (Inr addrs), w1)" and run: "run_all (listPool g) addrs w1 = (Done rs, w2)"
  shows "\<exists>r. GetPoolUsageInCluster (with_mayastorclient g cl) w = (Done r, w2) \<and>
    (if failures rs = [] then r = Inr (sum_list (map mp_Used (answered rs))) else \<exists>e. r = Inl e)"
proof -
  let ?names = "map (\<lambda>p. \<lparr>gp_Name = mp_Name p, gp_Used = mp_Used p\<rparr>)"
  have "call (ListPools (with_mayastorclient g cl) addrs) = seq (mayastorclient_ListPools g addrs) (unless_error ?names)"
    unfolding with_mayastorclient_def by (simp add: call_returned returning_seq returning_grpc returning_unless_error)
  with ips run accumulated_None [of "failures rs" None] show ?thesis
    by (auto simp: GetPoolUsageInCluster_def ListPoolsInCluster_def mayastorclient_ListPools_def gather_run_all check_def
        seq_Done unless_error_def comp_def split: option.split)
qed

theorem pool_usage_is_total_witness:
  "GetPoolUsageInCluster (with_mayastorclient (small_grpc 1 (\<lambda>_. None)) (small_cluster ''online'' ''Online'' '''')) 0
     = (Done (Inr 7), 1)"
proof -
  let ?g = "small_grpc 1 (\<lambda>_. None)"
  let ?cl = "small_cluster ''online'' ''Online'' ''''"
  have ips: "GetMayastorNodeIPs ?cl 0 = (Done (Inr [''10.0.0.1'']), 0)"
    by (simp add: GetMayastorNodeIPs_def mayastor_nodes_def GetNodeLocs_def check_def seq_apply call_apply small_cluster_def
        small_node_def node_loc_def last_address_def)
  have "run_all (listPool ?g) [''10.0.0.1''] 0 = (Done [Inr [small_mayastor_pool]], 1)"
    by (simp add: listPool_def listing_def connected_def retryBackoff_def upt_conv_Cons after_def check_def seq_apply call_apply
        small_grpc_def timed_def)
  from pool_usage_is_total [OF ips this] show ?thesis
    by (auto simp: failures_def answered_def small_mayastor_pool_def)
qed

end
