(* ===== verification/Control_Plane.thy ===== *)
theory Control_Plane
  imports Grpc_Client
begin

text \<open>
  \<^verbatim>\<open>src/src/common/controlplane\<close>: what the end to end tests know of volumes, nodes and pools. They
  ask the control plane through its \<^verbatim>\<open>kubectl\<close> plugin, whose output is JSON, and for replicas
  through its REST interface. \<^verbatim>\<open>k8stest/msv.go\<close>, \<^verbatim>\<open>msn.go\<close> and \<^verbatim>\<open>msp.go\<close> put the
  addresses of the master nodes in place before each call.

  The parameter \<open>plugin\<close> holds the plugin, the HTTP client and the JSON decoder, one
  function for each type that is decoded. Reading the body of an answer may fail after some bytes.
\<close>

section \<open>Regular expressions\<close>

text \<open>
  The one expression with structure is \<^verbatim>\<open>Error error in response.*RestJsonError.*kind:\s*(\w+)\<close>. The
  matcher takes such a list of characters and repeated classes in front of a group \<^verbatim>\<open>(\w+)\<close>
  and gives what the group matches. A repetition first tries to take as much as it can.
\<close>

datatype rx = Lit char | Many "char \<Rightarrow> bool"

definition word_char :: "char \<Rightarrow> bool" where
  "word_char c \<longleftrightarrow> is_digit c \<or> (let n = of_char c :: nat in 65 \<le> n \<and> n \<le> 90 \<or> 97 \<le> n \<and> n \<le> 122 \<or> n = 95)"

definition any_char :: "char \<Rightarrow> bool" where
  "any_char c \<longleftrightarrow> c \<noteq> newline"

definition space_char :: "char \<Rightarrow> bool" where
  "space_char c \<longleftrightarrow> (of_char c :: nat) \<in> {9, 10, 12, 13, 32}"

fun rx_match :: "rx list \<Rightarrow> string \<Rightarrow> string option" where
  "rx_match [] t = (let g = takeWhile word_char t in if g = [] then None else Some g)"
| "rx_match (Lit c # r) [] = None"
| "rx_match (Lit c # r) (d # t) = (if c = d then rx_match r t else None)"
| "rx_match (Many P # r) [] = rx_match r []"
| "rx_match (Many P # r) (d # t) =
     (if P d then (case rx_match (Many P # r) t of Some g \<Rightarrow> Some g | None \<Rightarrow> rx_match r (d # t)) else rx_match r (d # t))"

fun rx_find :: "rx list \<Rightarrow> string \<Rightarrow> string option" where
  "rx_find r [] = rx_match r []"
| "rx_find r (c # t) = (case rx_match r (c # t) of Some g \<Rightarrow> Some g | None \<Rightarrow> rx_find r t)"

definition not_found_rx :: "rx list" where
  "not_found_rx = map Lit ''Error error in response'' @ [Many any_char] @ map Lit ''RestJsonError'' @ [Many any_char]
     @ map Lit ''kind:'' @ [Many space_char]"

definition HasNotFoundRestJsonError :: "string \<Rightarrow> bool" where
  "HasNotFoundRestJsonError str \<longleftrightarrow> rx_find not_found_rx str = Some ''NotFound''"

definition IsTimeoutError :: "error option \<Rightarrow> bool" where
  "IsTimeoutError err = (Contains (err_v err) ''Request Timeout'' \<or> Contains (err_v err) ''request timed out'')"

section \<open>Data\<close>

record replica_topology =
  rt_Node :: string
  rt_Pool :: string
  rt_State :: string

record cp_volume =
  cv_Num_replicas :: int
  cv_Size :: int
  cv_SpecStatus :: string
  cv_SpecProtocol :: string
  cv_SpecNode :: string
  cv_Uuid :: string
  cv_Children :: "(string \<times> string) list"
  cv_DeviceUri :: string
  cv_Node :: string
  cv_TargetState :: string
  cv_TargetUuid :: string
  cv_StateSize :: int
  cv_Status :: string
  cv_Replica_topology :: "(string, replica_topology) gomap"

record cp_node =
  cn_ID :: string
  cn_GrpcEndpoint :: string
  cn_StateID :: string
  cn_StateGrpcEndpoint :: string
  cn_Status :: string

record cp_pool =
  cl_Id :: string
  cl_SpecNode :: string
  cl_SpecDisks :: "string list"
  cl_Capacity :: "64 word"
  cl_Used :: "64 word"
  cl_Disks :: "string list"
  cl_Status :: string

record cp_replica =
  cr_Node :: string
  cr_Pool :: string
  cr_State :: string
  cr_Uri :: string

text \<open>The types of \<^verbatim>\<open>common/types.go\<close>.\<close>

record vol_replica =
  vr_Node :: string
  vr_Offline :: bool
  vr_Pool :: string
  vr_Uri :: string

record mayastor_volume =
  mv_Name :: string
  mv_Protocol :: string
  mv_ReplicaCount :: int
  mv_RequiredBytes :: int
  mv_NexusChildren :: "(string \<times> string) list"
  mv_NexusDeviceUri :: string
  mv_NexusNode :: string
  mv_NexusState :: string
  mv_NexusUuid :: string
  mv_Replicas :: "vol_replica list"
  mv_Size :: int
  mv_State :: string

record mayastor_node =
  md_Name :: string
  md_ID :: string
  md_GrpcEndpoint :: string
  md_StateID :: string
  md_StateGrpcEndpoint :: string
  md_Status :: string

record cr_pool =
  po_Name :: string
  po_Node :: string
  po_Disks :: "string list"
  po_Capacity :: "64 word"
  po_Used :: "64 word"
  po_StateDisks :: "string list"
  po_Avail :: "64 word"
  po_State :: string

record 'w plugin =
  MayastorVersion :: string
  RunPlugin :: "string list \<Rightarrow> 'w \<Rightarrow> (string \<times> error option) \<times> 'w"
  RestNewRequest :: "string \<Rightarrow> error option"
  RestDo :: "string \<Rightarrow> 'w \<Rightarrow> (string \<times> error option) result \<times> 'w"
  PluginPort :: string
  JsonVolume :: "string \<Rightarrow> cp_volume result"
  JsonVolumes :: "string \<Rightarrow> cp_volume list result"
  JsonNode :: "string \<Rightarrow> cp_node result"
  JsonNodes :: "string \<Rightarrow> cp_node list result"
  JsonPool :: "string \<Rightarrow> cp_pool result"
  JsonPools :: "string \<Rightarrow> cp_pool list result"
  JsonReplica :: "string \<Rightarrow> cp_replica result"
  StateText :: "cp_volume \<Rightarrow> string"

section \<open>Asking the plugin\<close>

definition ErrOutput :: string where
  "ErrOutput = ''Error error''"

text \<open>
  A command of the plugin whose output is decoded. The plugin may exit with success and print an
  error: the volumes and nodes look for that, the pools do not. A decoding error becomes the
  output itself.
\<close>

definition plugin_output :: "'w plugin \<Rightarrow> bool \<Rightarrow> string list \<Rightarrow> ('w, string result) io" where
  "plugin_output p looks args =
     seq (call (RunPlugin p args)) (\<lambda>(out, err). case err of
       Some e \<Rightarrow> ret (Inl e)
     | None \<Rightarrow> if looks \<and> Contains out ErrOutput then ret (Inl (Errorf out)) else ret (Inr out))"

definition plugin_get :: "'w plugin \<Rightarrow> bool \<Rightarrow> string list \<Rightarrow> (string \<Rightarrow> 'a result) \<Rightarrow> ('w, 'a result) io" where
  "plugin_get p looks args decode =
     check (plugin_output p looks args) (\<lambda>err. err) (\<lambda>out. case decode out of
       Inl err \<Rightarrow> ret (Inl (Errorf out))
     | Inr response \<Rightarrow> ret (Inr response))"

definition GetMayastorCpVolume :: "'w plugin \<Rightarrow> string \<Rightarrow> ('w, cp_volume result) io" where
  "GetMayastorCpVolume p uid = plugin_get p True [''-ojson'', ''get'', ''volume'', uid] (JsonVolume p)"

definition ListMayastorCpVolumes :: "'w plugin \<Rightarrow> ('w, cp_volume list result) io" where
  "ListMayastorCpVolumes p = plugin_get p True [''-ojson'', ''get'', ''volumes''] (JsonVolumes p)"

definition scaleMayastorVolume :: "'w plugin \<Rightarrow> string \<Rightarrow> int \<Rightarrow> ('w, unit result) io" where
  "scaleMayastorVolume p uid replicaCount =
     check (plugin_output p True [''scale'', ''volume'', uid, Itoa replicaCount]) (\<lambda>err. err) (\<lambda>_. ret (Inr ()))"

definition GetMayastorCpNode :: "'w plugin \<Rightarrow> string \<Rightarrow> ('w, cp_node result) io" where
  "GetMayastorCpNode p nodeName = plugin_get p True [''-ojson'', ''get'', ''node'', nodeName] (JsonNode p)"

definition ListMayastorCpNodes :: "'w plugin \<Rightarrow> ('w, cp_node list result) io" where
  "ListMayastorCpNodes p = plugin_get p True [''-ojson'', ''get'', ''nodes''] (JsonNodes p)"

definition GetMayastorCpPool :: "'w plugin \<Rightarrow> string \<Rightarrow> ('w, cp_pool result) io" where
  "GetMayastorCpPool p name = plugin_get p False [''-ojson'', ''get'', ''pool'', name] (JsonPool p)"

definition ListMayastorCpPools :: "'w plugin \<Rightarrow> ('w, cp_pool list result) io" where
  "ListMayastorCpPools p = plugin_get p False [''-ojson'', ''get'', ''pools''] (JsonPools p)"

section \<open>Volumes\<close>

definition GetMayastorVolumeState :: "'w plugin \<Rightarrow> string \<Rightarrow> ('w, string result) io" where
  "GetMayastorVolumeState p volName = check (GetMayastorCpVolume p volName) (\<lambda>err. err) (\<lambda>v. ret (Inr (cv_Status v)))"

definition GetMayastorVolumeChildren :: "'w plugin \<Rightarrow> string \<Rightarrow> ('w, (string \<times> string) list result) io" where
  "GetMayastorVolumeChildren p volName =
     check (GetMayastorCpVolume p volName) (\<lambda>err. err) (\<lambda>v. ret (Inr (cv_Children v)))"

definition GetMayastorVolumeChildState :: "'w plugin \<Rightarrow> string \<Rightarrow> ('w, string result) io" where
  "GetMayastorVolumeChildState p uid =
     check (GetMayastorCpVolume p uid) (\<lambda>err. err) (\<lambda>v. ret (Inr (cv_TargetState v)))"

definition IsMayastorVolumePublished :: "'w plugin \<Rightarrow> string \<Rightarrow> ('w, bool) io" where
  "IsMayastorVolumePublished p uid = seq (GetMayastorCpVolume p uid) (\<lambda>r. case r of
     Inr v \<Rightarrow> ret (cv_SpecNode v \<noteq> '''') | Inl err \<Rightarrow> ret False)"

definition IsMayastorVolumeDeleted :: "'w plugin \<Rightarrow> string \<Rightarrow> ('w, bool) io" where
  "IsMayastorVolumeDeleted p uid = seq (GetMayastorCpVolume p uid) (\<lambda>r. case r of
     Inl err \<Rightarrow> ret (HasNotFoundRestJsonError (err_text err))
   | Inr v \<Rightarrow> ret (cv_Uuid v = ''''))"

definition CheckForMayastorVolumes :: "'w plugin \<Rightarrow> ('w, bool \<times> error option) io" where
  "CheckForMayastorVolumes p = seq (ListMayastorCpVolumes p) (\<lambda>r. case r of
     Inl err \<Rightarrow> ret (False, Some err) | Inr msvs \<Rightarrow> ret (msvs \<noteq> [], None))"

definition CheckAllMayastorVolumesAreHealthy :: "'w plugin \<Rightarrow> ('w, unit result) io" where
  "CheckAllMayastorVolumesAreHealthy p =
     check (ListMayastorCpVolumes p) (\<lambda>err. err) (\<lambda>msvs.
       if \<exists>v \<in> set msvs. cv_Status v \<noteq> ''Online''
       then ret (Inl (Errorf ''CheckAllMayastorVolumesAreHealth: all MSVs were not healthy''))
       else ret (Inr ()))"

text \<open>
  \<^verbatim>\<open>getMayastorCpReplica\<close> asks one address after another until the body of an answer could be read. Its
  loop declares an \<^verbatim>\<open>err\<close> of its own, so the one that is tested after it is nil. A request that
  fails leaves a nil response, which is dereferenced.
\<close>

definition replica_request :: "'w plugin \<Rightarrow> string \<Rightarrow> string \<Rightarrow> string \<Rightarrow> ('w, (string, cp_replica result) ctl) io" where
  "replica_request p replicaUuid addr jsonResponse =
     (let url = ''http://'' @ addr @ '':'' @ PluginPort p @ ''/v0/replicas/'' @ replicaUuid in
      seq (deref (case RestNewRequest p url of Some err \<Rightarrow> None | None \<Rightarrow> Some ())) (\<lambda>_.
      seq (call (RestDo p url)) (\<lambda>resp.
      seq (deref (case resp of Inl err \<Rightarrow> None | Inr body \<Rightarrow> Some body)) (\<lambda>(bytes, err).
      ret (if err \<noteq> None then Continue bytes else Break bytes)))))"

definition getMayastorCpReplica :: "'w plugin \<Rightarrow> string \<Rightarrow> string list \<Rightarrow> ('w, cp_replica result) io" where
  "getMayastorCpReplica p replicaUuid address =
     (if address = [] then ret (Inl (Errorf ''mayastor nodes not found''))
      else after (for_in address '''' (replica_request p replicaUuid)) (\<lambda>jsonResponse. ret (JsonReplica p jsonResponse)))"

text \<open>\<^verbatim>\<open>common.MayastorVolume{}\<close>\<close>

definition no_volume :: mayastor_volume where
  "no_volume = \<lparr>mv_Name = '''', mv_Protocol = '''', mv_ReplicaCount = 0, mv_RequiredBytes = 0, mv_NexusChildren = [],
     mv_NexusDeviceUri = '''', mv_NexusNode = '''', mv_NexusState = '''', mv_NexusUuid = '''', mv_Replicas = [], mv_Size = 0,
     mv_State = ''''\<rparr>"

definition volume_replica :: "'w plugin \<Rightarrow> string list \<Rightarrow> string \<times> replica_topology \<Rightarrow> vol_replica list \<Rightarrow>
    ('w, (vol_replica list, mayastor_volume) ctl) io" where
  "volume_replica p address entry replicas =
     seq (getMayastorCpReplica p (fst entry) address) (\<lambda>r. case r of
       Inl err \<Rightarrow> ret (Return no_volume)
     | Inr replica \<Rightarrow> ret (Continue (replicas @
         [\<lparr>vr_Node = cr_Node replica, vr_Offline = (ToLower (cr_State replica) \<noteq> ''online''), vr_Pool = cr_Pool replica,
           vr_Uri = cr_Uri replica\<rparr>])))"

text \<open>\<open>ord\<close> is the order in which the range loop goes through the map of replicas.\<close>

definition cpVolumeToMsv ::
    "'w plugin \<Rightarrow> ((string, replica_topology) gomap \<Rightarrow> (string \<times> replica_topology) list) \<Rightarrow> string list \<Rightarrow> cp_volume \<Rightarrow>
       ('w, mayastor_volume) io" where
  "cpVolumeToMsv p ord address v =
     after (for_in (ord (cv_Replica_topology v)) [] (volume_replica p address)) (\<lambda>replicas.
     ret \<lparr>mv_Name = cv_Uuid v, mv_Protocol = cv_SpecProtocol v, mv_ReplicaCount = cv_Num_replicas v,
          mv_RequiredBytes = cv_Size v, mv_NexusChildren = cv_Children v, mv_NexusDeviceUri = cv_DeviceUri v,
          mv_NexusNode = cv_Node v, mv_NexusState = cv_TargetState v, mv_NexusUuid = cv_TargetUuid v, mv_Replicas = replicas,
          mv_Size = cv_StateSize v, mv_State = cv_Status v\<rparr>)"


type_synonym replica_order = "(string, replica_topology) gomap \<Rightarrow> (string \<times> replica_topology) list"

definition CPv1_GetMSV :: "'w plugin \<Rightarrow> replica_order \<Rightarrow> string list \<Rightarrow> string \<Rightarrow> ('w, mayastor_volume option result) io" where
  "CPv1_GetMSV p ord address uid =
     check (GetMayastorCpVolume p uid) (wrapped ''GetMSV: '') (\<lambda>v.
     if cv_Uuid v = '''' then ret (Inr None)
     else if cv_Status v = ''pending'' then ret (Inr None)
     else if cv_Status v = ''''
       then ret (Inl (Errorf (''GetMSV: state not defined, got msv.Status='' @ [dquote] @ StateText p v @ [dquote])))
     else if cv_Num_replicas v < 1
       then ret (Inl (Errorf (''GetMSV: msv.Spec.Num_replicas='' @ [dquote] @ Itoa (cv_Num_replicas v) @ [dquote])))
     else seq (cpVolumeToMsv p ord address v) (\<lambda>msv. ret (Inr (Some msv))))"

definition CPv1_GetMsvReplicas :: "'w plugin \<Rightarrow> replica_order \<Rightarrow> string list \<Rightarrow> string \<Rightarrow> ('w, vol_replica list result) io" where
  "CPv1_GetMsvReplicas p ord address volName =
     check (CPv1_GetMSV p ord address volName) (\<lambda>err. err) (\<lambda>vol.
     seq (deref vol) (\<lambda>v. ret (Inr (mv_Replicas v))))"

text \<open>
  \<^verbatim>\<open>GetMsvNodes\<close> makes a slice with room for the replicas that the volume asks for and stores the
  node of each replica that it has.
\<close>

definition store_at :: "'a list \<Rightarrow> nat \<Rightarrow> 'a \<Rightarrow> ('s, 'a list) io" where
  "store_at xs i x = (if i < length xs then ret (xs[i := x]) else panic ''index out of range'')"

definition CPv1_GetMsvNodes :: "'w plugin \<Rightarrow> replica_order \<Rightarrow> string list \<Rightarrow> string \<Rightarrow> ('w, string \<times> string list) io" where
  "CPv1_GetMsvNodes p ord address uid =
     seq (GetMayastorCpVolume p uid) (\<lambda>r. case r of
       Inl err \<Rightarrow> ret ('''', [])
     | Inr v \<Rightarrow>
         seq (if cv_Num_replicas v < 0 then panic ''makeslice: len out of range''
              else ret (replicate (nat (cv_Num_replicas v)) '''')) (\<lambda>replicas.
         seq (CPv1_GetMsvReplicas p ord address uid) (\<lambda>r. case r of
           Inl err \<Rightarrow> ret (cv_Node v, [])
         | Inr msvReplicas \<Rightarrow>
             after (for_in (enumerate 0 msvReplicas) replicas (\<lambda>(ix, rep) replicas.
               seq (store_at replicas ix (vr_Node rep)) (\<lambda>rs. ret (Continue rs))))
             (\<lambda>replicas. ret (cv_Node v, replicas)))))"

definition CPv1_ListMsvs :: "'w plugin \<Rightarrow> replica_order \<Rightarrow> string list \<Rightarrow> ('w, mayastor_volume list result) io" where
  "CPv1_ListMsvs p ord address =
     check (ListMayastorCpVolumes p) (\<lambda>err. err) (\<lambda>list.
     after (for_in list [] (\<lambda>item msvs. seq (cpVolumeToMsv p ord address item) (\<lambda>msv. ret (Continue (msvs @ [msv])))))
     (\<lambda>msvs. ret (Inr msvs)))"

definition CPv1_SetMsvReplicaCount :: "'w plugin \<Rightarrow> string \<Rightarrow> int \<Rightarrow> ('w, unit result) io" where
  "CPv1_SetMsvReplicaCount p uid replicaCount = scaleMayastorVolume p uid replicaCount"

definition CPv1_GetMsvState :: "'w plugin \<Rightarrow> string \<Rightarrow> ('w, string result) io" where
  "CPv1_GetMsvState p uid = GetMayastorVolumeState p uid"

definition CPv1_GetMsvNexusChildren :: "'w plugin \<Rightarrow> string \<Rightarrow> ('w, (string \<times> string) list result) io" where
  "CPv1_GetMsvNexusChildren p volName = GetMayastorVolumeChildren p volName"

definition CPv1_GetMsvNexusState :: "'w plugin \<Rightarrow> string \<Rightarrow> ('w, string result) io" where
  "CPv1_GetMsvNexusState p uid = GetMayastorVolumeChildState p uid"

definition CPv1_IsMsvPublished :: "'w plugin \<Rightarrow> string \<Rightarrow> ('w, bool) io" where
  "CPv1_IsMsvPublished p uid = IsMayastorVolumePublished p uid"

definition CPv1_IsMsvDeleted :: "'w plugin \<Rightarrow> string \<Rightarrow> ('w, bool) io" where
  "CPv1_IsMsvDeleted p uid = IsMayastorVolumeDeleted p uid"

definition CPv1_CheckForMsvs :: "'w plugin \<Rightarrow> ('w, bool \<times> error option) io" where
  "CPv1_CheckForMsvs p = CheckForMayastorVolumes p"

definition CPv1_CheckAllMsvsAreHealthy :: "'w plugin \<Rightarrow> ('w, unit result) io" where
  "CPv1_CheckAllMsvsAreHealthy p = CheckAllMayastorVolumesAreHealthy p"

definition CPv1_DeleteMsv :: "string \<Rightarrow> ('w, unit result) io" where
  "CPv1_DeleteMsv volName = ret (Inl (Errorf (''delete of mayastor volume not supported '' @ volName)))"

section \<open>Nodes and pools\<close>

definition cpNodeToMsn :: "cp_node \<Rightarrow> mayastor_node" where
  "cpNodeToMsn n = \<lparr>md_Name = cn_ID n, md_ID = cn_ID n, md_GrpcEndpoint = cn_GrpcEndpoint n, md_StateID = cn_StateID n,
     md_StateGrpcEndpoint = cn_StateGrpcEndpoint n, md_Status = cn_Status n\<rparr>"

definition CPv1_GetMSN :: "'w plugin \<Rightarrow> string \<Rightarrow> ('w, mayastor_node result) io" where
  "CPv1_GetMSN p nodeName = check (GetMayastorCpNode p nodeName) (wrapped ''GetMSN: '') (\<lambda>n. ret (Inr (cpNodeToMsn n)))"

definition CPv1_ListMsns :: "'w plugin \<Rightarrow> ('w, mayastor_node list result) io" where
  "CPv1_ListMsns p = check (ListMayastorCpNodes p) (\<lambda>err. err) (\<lambda>list. ret (Inr (map cpNodeToMsn list)))"

definition CPv1_GetMsNodeStatus :: "'w plugin \<Rightarrow> string \<Rightarrow> ('w, string result) io" where
  "CPv1_GetMsNodeStatus p nodeName =
     check (GetMayastorCpNode p nodeName) (wrapped ''GetMsNodeStatus: '') (\<lambda>n. ret (Inr (cn_Status n)))"

text \<open>The free space of a pool is a difference of unsigned 64 bit numbers.\<close>

definition cpMspToMsp :: "cp_pool \<Rightarrow> cr_pool" where
  "cpMspToMsp c = \<lparr>po_Name = cl_Id c, po_Node = cl_SpecNode c, po_Disks = cl_SpecDisks c, po_Capacity = cl_Capacity c,
     po_Used = cl_Used c, po_StateDisks = cl_Disks c, po_Avail = cl_Capacity c - cl_Used c, po_State = cl_Status c\<rparr>"

definition CPv1_GetMsPool :: "'w plugin \<Rightarrow> string \<Rightarrow> ('w, cr_pool result) io" where
  "CPv1_GetMsPool p poolName = check (GetMayastorCpPool p poolName) (wrapped ''GetMsPool: '') (\<lambda>c. ret (Inr (cpMspToMsp c)))"

definition CPv1_ListMsPools :: "'w plugin \<Rightarrow> ('w, cr_pool list result) io" where
  "CPv1_ListMsPools p = check (ListMayastorCpPools p) (\<lambda>err. err) (\<lambda>list. ret (Inr (map cpMspToMsp list)))"

definition MspGrpcStateToCrdState :: "int \<Rightarrow> string" where
  "MspGrpcStateToCrdState mspState =
     (if mspState = 0 then ''Pending'' else if mspState = 1 then ''Online'' else if mspState = 2 then ''Degraded''
      else if mspState = 3 then ''Faulted'' else ''Offline'')"


section \<open>The control plane of the tests\<close>

text \<open>
  \<^verbatim>\<open>controlplane.go\<close> chooses the control plane by the configured version once, and panics when it
  has none for it. There is one, so every call is a call of it.
\<close>

definition getControlPlane :: "'w plugin \<Rightarrow> ('s, unit) io" where
  "getControlPlane p =
     (case Atoi (first_field (MayastorVersion p) (CHR 0x2E)) of
        Inl err \<Rightarrow> panic (err_text err)
      | Inr major \<Rightarrow> if major = 1 then ret () else panic (''unsupported control plane version '' @ MayastorVersion p))"

definition control_plane :: "'w plugin \<Rightarrow> ('w, 'a) io \<Rightarrow> ('w, 'a) io" where
  "control_plane p m = seq (getControlPlane p) (\<lambda>_. m)"

text \<open>
  \<^verbatim>\<open>k8stest/msv.go\<close>: the addresses of the master nodes are looked up before the first call, and
  never again. An error of the lookup is logged, and leaves no address.
\<close>

record 'w e2e =
  node_addrs :: "string list"
  addrs_set :: bool
  e2e_world :: 'w

definition in_e2e :: "('w, 'a) io \<Rightarrow> ('w e2e, 'a) io" where
  "in_e2e m = zoom e2e_world (\<lambda>w s. s\<lparr>e2e_world := w\<rparr>) m"

definition k8stest_GetNodeLocs :: "'w cluster \<Rightarrow> ('w, node_location list result) io" where
  "k8stest_GetNodeLocs cl =
     check (call (NodesList cl)) (\<lambda>err. Errorf ''failed to list nodes'') (\<lambda>nodes.
       let locs = map node_loc nodes in
       if \<exists>l \<in> set locs. NodeName l = '''' \<or> IPAddress l = '''' then ret (Inl (Errorf ''node lacks expected fields''))
       else ret (Inr locs))"

definition EnsureNodeAddressesAreSet :: "'w cluster \<Rightarrow> ('w e2e, unit) io" where
  "EnsureNodeAddressesAreSet cl =
     seq (gets addrs_set) (\<lambda>done.
     if done then ret ()
     else seq (in_e2e (k8stest_GetNodeLocs cl)) (\<lambda>r.
       let nodes = (case r of Inl err \<Rightarrow> [] | Inr ns \<Rightarrow> ns) in
       modifies (\<lambda>s. s\<lparr>node_addrs := map IPAddress (filter MasterNode nodes), addrs_set := True\<rparr>)))"

definition ensured :: "'w cluster \<Rightarrow> 'w plugin \<Rightarrow> (string list \<Rightarrow> ('w, 'a) io) \<Rightarrow> ('w e2e, 'a) io" where
  "ensured cl p m =
     seq (EnsureNodeAddressesAreSet cl) (\<lambda>_.
     seq (gets node_addrs) (\<lambda>addrs. in_e2e (control_plane p (m addrs))))"

definition k8stest_GetMSV :: "'w cluster \<Rightarrow> 'w plugin \<Rightarrow> replica_order \<Rightarrow> string \<Rightarrow> ('w e2e, mayastor_volume option result) io" where
  "k8stest_GetMSV cl p ord uid = ensured cl p (\<lambda>addrs. CPv1_GetMSV p ord addrs uid)"

definition k8stest_GetMsvNodes :: "'w cluster \<Rightarrow> 'w plugin \<Rightarrow> replica_order \<Rightarrow> string \<Rightarrow> ('w e2e, string \<times> string list) io" where
  "k8stest_GetMsvNodes cl p ord uid = ensured cl p (\<lambda>addrs. CPv1_GetMsvNodes p ord addrs uid)"

definition k8stest_DeleteMsv :: "'w cluster \<Rightarrow> 'w plugin \<Rightarrow> string \<Rightarrow> ('w e2e, unit result) io" where
  "k8stest_DeleteMsv cl p volName = ensured cl p (\<lambda>_. CPv1_DeleteMsv volName)"

definition k8stest_ListMsvs :: "'w cluster \<Rightarrow> 'w plugin \<Rightarrow> replica_order \<Rightarrow> ('w e2e, mayastor_volume list result) io" where
  "k8stest_ListMsvs cl p ord = ensured cl p (\<lambda>addrs. CPv1_ListMsvs p ord addrs)"

definition k8stest_SetMsvReplicaCount :: "'w cluster \<Rightarrow> 'w plugin \<Rightarrow> string \<Rightarrow> int \<Rightarrow> ('w e2e, unit result) io" where
  "k8stest_SetMsvReplicaCount cl p uid n = ensured cl p (\<lambda>_. CPv1_SetMsvReplicaCount p uid n)"

definition k8stest_GetMsvState :: "'w cluster \<Rightarrow> 'w plugin \<Rightarrow> string \<Rightarrow> ('w e2e, string result) io" where
  "k8stest_GetMsvState cl p uid = ensured cl p (\<lambda>_. CPv1_GetMsvState p uid)"

definition k8stest_GetMsvReplicas :: "'w cluster \<Rightarrow> 'w plugin \<Rightarrow> replica_order \<Rightarrow> string \<Rightarrow> ('w e2e, vol_replica list result) io" where
  "k8stest_GetMsvReplicas cl p ord volName = ensured cl p (\<lambda>addrs. CPv1_GetMsvReplicas p ord addrs volName)"

definition k8stest_GetMsvNexusChildren :: "'w cluster \<Rightarrow> 'w plugin \<Rightarrow> string \<Rightarrow> ('w e2e, (string \<times> string) list result) io" where
  "k8stest_GetMsvNexusChildren cl p volName = ensured cl p (\<lambda>_. CPv1_GetMsvNexusChildren p volName)"

definition k8stest_GetMsvNexusState :: "'w cluster \<Rightarrow> 'w plugin \<Rightarrow> string \<Rightarrow> ('w e2e, string result) io" where
  "k8stest_GetMsvNexusState cl p uid = ensured cl p (\<lambda>_. CPv1_GetMsvNexusState p uid)"

definition k8stest_IsMsvPublished :: "'w cluster \<Rightarrow> 'w plugin \<Rightarrow> string \<Rightarrow> ('w e2e, bool) io" where
  "k8stest_IsMsvPublished cl p uid = ensured cl p (\<lambda>_. CPv1_IsMsvPublished p uid)"

definition k8stest_IsMsvDeleted :: "'w cluster \<Rightarrow> 'w plugin \<Rightarrow> string \<Rightarrow> ('w e2e, bool) io" where
  "k8stest_IsMsvDeleted cl p uid = ensured cl p (\<lambda>_. CPv1_IsMsvDeleted p uid)"

definition k8stest_CheckForMsvs :: "'w cluster \<Rightarrow> 'w plugin \<Rightarrow> ('w e2e, bool \<times> error option) io" where
  "k8stest_CheckForMsvs cl p = ensured cl p (\<lambda>_. CPv1_CheckForMsvs p)"

definition k8stest_CheckAllMsvsAreHealthy :: "'w cluster \<Rightarrow> 'w plugin \<Rightarrow> ('w e2e, unit result) io" where
  "k8stest_CheckAllMsvsAreHealthy cl p = ensured cl p (\<lambda>_. CPv1_CheckAllMsvsAreHealthy p)"

definition k8stest_GetMSN :: "'w cluster \<Rightarrow> 'w plugin \<Rightarrow> string \<Rightarrow> ('w e2e, mayastor_node result) io" where
  "k8stest_GetMSN cl p nodeName = ensured cl p (\<lambda>_. CPv1_GetMSN p nodeName)"

definition k8stest_ListMsns :: "'w cluster \<Rightarrow> 'w plugin \<Rightarrow> ('w e2e, mayastor_node list result) io" where
  "k8stest_ListMsns cl p = ensured cl p (\<lambda>_. CPv1_ListMsns p)"

definition k8stest_GetMsNodeStatus :: "'w cluster \<Rightarrow> 'w plugin \<Rightarrow> string \<Rightarrow> ('w e2e, string result) io" where
  "k8stest_GetMsNodeStatus cl p nodeName = ensured cl p (\<lambda>_. CPv1_GetMsNodeStatus p nodeName)"

definition k8stest_GetMsPool :: "'w cluster \<Rightarrow> 'w plugin \<Rightarrow> string \<Rightarrow> ('w e2e, cr_pool result) io" where
  "k8stest_GetMsPool cl p poolName = ensured cl p (\<lambda>_. CPv1_GetMsPool p poolName)"

definition k8stest_ListMsPools :: "'w cluster \<Rightarrow> 'w plugin \<Rightarrow> ('w e2e, cr_pool list result) io" where
  "k8stest_ListMsPools cl p = ensured cl p (\<lambda>_. CPv1_ListMsPools p)"

text \<open>
  \<^verbatim>\<open>mayastor_check.go\<close>. The error that is tested after the loop is that of the last round, or of
  parsing the timeout when there was no round.
\<close>

definition k8stest_WaitForMCPPath :: "'w cluster \<Rightarrow> 'w plugin \<Rightarrow> replica_order \<Rightarrow> string \<Rightarrow> ('w e2e, unit result) io" where
  "k8stest_WaitForMCPPath cl p ord timeout =
     (case ParseDuration cl timeout of
        Inl err \<Rightarrow> ret (Inl (wrapped (''failed to parse timeout '' @ timeout @ '' string , error: '') err))
      | Inr timeoutSec \<Rightarrow>
          after (for_in [0 ..< wait_rounds timeoutSec] None (\<lambda>ix err.
            seq (k8stest_ListMsvs cl p ord) (\<lambda>r. case r of
              Inl e \<Rightarrow> seq (in_e2e (sleeps cl 10)) (\<lambda>_. ret (Continue (Some e)))
            | Inr _ \<Rightarrow> ret (Break None))))
          (\<lambda>err. case err of
              Some e \<Rightarrow> ret (Inl (wrapped ''one of the rest, core agent or etcd pods are not in running state, error: '' e))
            | None \<Rightarrow> ret (Inr ())))"

definition k8stest_WaitForMayastorSockets :: "'w cluster \<Rightarrow> 'w grpc \<Rightarrow> string list \<Rightarrow> string \<Rightarrow> ('w, unit result) io" where
  "k8stest_WaitForMayastorSockets cl g addrs timeout =
     (case ParseDuration cl timeout of
        Inl err \<Rightarrow> ret (Inl (wrapped (''failed to parse timeout '' @ timeout @ '' string , error: '') err))
      | Inr timeoutSec \<Rightarrow>
          after (for_in [0 ..< wait_rounds timeoutSec] None (\<lambda>ix err.
            seq (mayastorclient_ListReplicas g addrs) (\<lambda>(replicas, err). case err of
              Some e \<Rightarrow> seq (sleeps cl 10) (\<lambda>_. ret (Continue (Some e)))
            | None \<Rightarrow> ret (Break None))))
          (\<lambda>err. case err of
              Some e \<Rightarrow> ret (Inl (wrapped (''failed to start listener at the pod, address: '' @ slice_text addrs @ '', error: '') e))
            | None \<Rightarrow> ret (Inr ())))"


section \<open>What the expressions match\<close>

text \<open>The language of the part in front of the group, and the matcher against it.\<close>

inductive in_rx :: "rx list \<Rightarrow> string \<Rightarrow> bool" where
  Nil: "in_rx [] []"
| Lit: "in_rx r t \<Longrightarrow> in_rx (Lit c # r) (c # t)"
| Stop: "in_rx r t \<Longrightarrow> in_rx (Many P # r) t"
| More: "P d \<Longrightarrow> in_rx (Many P # r) t \<Longrightarrow> in_rx (Many P # r) (d # t)"

inductive_cases in_rx_NilE: "in_rx [] t"
inductive_cases in_rx_LitE: "in_rx (Lit c # r) t"
inductive_cases in_rx_ManyE: "in_rx (Many P # r) t"

definition in_front :: "rx list \<Rightarrow> string \<Rightarrow> string \<Rightarrow> bool" where
  "in_front r t g \<longleftrightarrow> (\<exists>m b. t = m @ g @ b \<and> in_rx r m \<and> g \<noteq> [] \<and> list_all word_char g \<and> (b = [] \<or> \<not> word_char (hd b)))"

lemma in_frontI:
  "in_rx r m \<Longrightarrow> g \<noteq> [] \<Longrightarrow> list_all word_char g \<Longrightarrow> b = [] \<or> \<not> word_char (hd b) \<Longrightarrow> t = m @ g @ b \<Longrightarrow> in_front r t g"
  unfolding in_front_def by blast

lemma in_frontE:
  assumes "in_front r t g"
  obtains m b where "in_rx r m" "g \<noteq> []" "list_all word_char g" "b = [] \<or> \<not> word_char (hd b)" "t = m @ g @ b"
  using assms unfolding in_front_def by blast

lemma in_front_word: "g = takeWhile word_char t \<Longrightarrow> g \<noteq> [] \<Longrightarrow> in_front [] t g"
  using hd_dropWhile [of word_char t]
  by (intro in_frontI [OF in_rx.Nil, of _ "dropWhile word_char t"])
     (blast | auto simp: list_all_iff dest: set_takeWhileD)+

lemma in_front_Lit: "in_front r t g \<Longrightarrow> in_front (Lit c # r) (c # t) g"
  by (erule in_frontE, rule in_frontI, erule in_rx.Lit) simp_all

lemma in_front_Many: "in_front r t g \<Longrightarrow> in_front (Many P # r) t g"
  by (erule in_frontE, rule in_frontI, erule in_rx.Stop) simp_all

lemma in_front_More: "in_front (Many P # r) t g \<Longrightarrow> P d \<Longrightarrow> in_front (Many P # r) (d # t) g"
  by (erule in_frontE, rule in_frontI, erule (1) in_rx.More) simp_all

lemma rx_match_sound: "rx_match r t = Some g \<Longrightarrow> in_front r t g"
  by (induction r t rule: rx_match.induct)
     (auto simp: Let_def intro: in_front_word in_front_Lit in_front_Many in_front_More split: if_splits option.splits)

lemma rx_match_complete: "in_rx r m \<Longrightarrow> word_char c \<Longrightarrow> \<exists>g. rx_match r (m @ c # b) = Some g"
proof (induction rule: in_rx.induct)
  case (Stop r t P)
  then show ?case by (cases "t @ c # b") (auto split: option.split)
qed (auto simp: Let_def split: option.split)

lemma rx_find_sound: "rx_find r t = Some g \<Longrightarrow> \<exists>a t'. t = a @ t' \<and> in_front r t' g"
proof (induction t)
  case Nil
  then show ?case by (auto dest: rx_match_sound)
next
  case (Cons c t)
  show ?case
  proof (cases "rx_match r (c # t)")
    case None
    with Cons obtain a t' where "t = a @ t'" "in_front r t' g" by auto
    then have "c # t = (c # a) @ t'" by simp
    with \<open>in_front r t' g\<close> show ?thesis by blast
  next
    case (Some h)
    with Cons.prems rx_match_sound [OF Some] have "c # t = [] @ (c # t)" "in_front r (c # t) g" by simp_all
    then show ?thesis by blast
  qed
qed

lemma rx_find_complete: "in_rx r m \<Longrightarrow> word_char c \<Longrightarrow> \<exists>g. rx_find r (a @ m @ c # b) = Some g"
proof (induction a)
  case Nil
  then obtain g where "rx_match r (m @ c # b) = Some g" using rx_match_complete by blast
  then show ?case by (cases "m @ c # b") simp_all
qed (simp split: option.split)


section \<open>Properties\<close>




lemma in_e2e_apply: "in_e2e m s = (fst (m (e2e_world s)), s\<lparr>e2e_world := snd (m (e2e_world s))\<rparr>)"
  by (simp add: in_e2e_def zoom_apply)

lemma control_plane_1 [simp]: "MayastorVersion p = ''1.0.0'' \<Longrightarrow> control_plane p m = m"
proof -
  have "Atoi (first_field ''1.0.0'' (CHR 0x2E)) = Inr 1" by code_simp
  then show "MayastorVersion p = ''1.0.0'' \<Longrightarrow> control_plane p m = m"
    by (simp add: control_plane_def getControlPlane_def)
qed

lemma nowhere_no_volume:
  assumes "ord (cv_Replica_topology v) \<noteq> []"
  shows "cpVolumeToMsv p ord [] v w = (Done no_volume, w)"
  using assms
  by (cases "ord (cv_Replica_topology v)")
     (simp_all add: cpVolumeToMsv_def volume_replica_def getMayastorCpReplica_def after_def seq_apply)

text \<open>
  A volume as the plugin reports it when \<open>GetMSV\<close> goes on to its replicas.
\<close>

definition reported :: "cp_volume \<Rightarrow> bool" where
  "reported v \<longleftrightarrow> cv_Uuid v \<noteq> '''' \<and> cv_Status v \<notin> {'''', ''pending''} \<and> 1 \<le> cv_Num_replicas v"

lemma CPv1_GetMSV_reported:
  "GetMayastorCpVolume p uid w = (Done (Inr v), w1) \<Longrightarrow> reported v \<Longrightarrow>
     CPv1_GetMSV p ord address uid w = seq (cpVolumeToMsv p ord address v) (\<lambda>msv. ret (Inr (Some msv))) w1"
  by (simp add: CPv1_GetMSV_def check_Inr reported_def)

text \<open>
  When the nodes cannot be listed at the first call, every later look at a volume that has
  replicas gives an empty volume, without an error: the failed lookup is not repeated, there is
  no address to ask for the replicas, and the error of asking nobody is dropped.
\<close>

theorem failed_lookup_empties_volumes:
  assumes unset: "\<not> addrs_set s" and failed: "NodesList cl (e2e_world s) = (Inl e, w0)" and version: "MayastorVersion p = ''1.0.0''"
    and volume: "\<And>w. GetMayastorCpVolume p uid w = (Done (Inr v), w)" "reported v" "ord (cv_Replica_topology v) \<noteq> []"
  shows "\<exists>s1. k8stest_GetMSV cl p ord uid s = (Done (Inr (Some no_volume)), s1) \<and>
    (\<forall>t. addrs_set t \<and> node_addrs t = node_addrs s1 \<longrightarrow> k8stest_GetMSV cl p ord uid t = (Done (Inr (Some no_volume)), t))"
proof -
  have get: "CPv1_GetMSV p ord [] uid w = (Done (Inr (Some no_volume)), w)" for w
    using CPv1_GetMSV_reported [OF volume(1,2)] nowhere_no_volume [of ord v p] volume(3) by (simp add: seq_apply)
  let ?s = "s\<lparr>node_addrs := [], addrs_set := True, e2e_world := w0\<rparr>"
  have "EnsureNodeAddressesAreSet cl s = (Done (), ?s)"
    using unset failed
    by (simp add: EnsureNodeAddressesAreSet_def k8stest_GetNodeLocs_def check_def seq_apply in_e2e_apply call_apply)
  with version get [of w0] have "k8stest_GetMSV cl p ord uid s = (Done (Inr (Some no_volume)), ?s)"
    by (simp add: k8stest_GetMSV_def ensured_def seq_apply in_e2e_apply)
  moreover have "k8stest_GetMSV cl p ord uid t = (Done (Inr (Some no_volume)), t)" if "addrs_set t" "node_addrs t = []" for t
    using that version get [of "e2e_world t"]
    by (simp add: k8stest_GetMSV_def ensured_def EnsureNodeAddressesAreSet_def seq_apply in_e2e_apply)
  ultimately show ?thesis by auto
qed


text \<open>A control plane that knows one volume; its world does not change.\<close>

definition small_cp_volume :: "string \<Rightarrow> int \<Rightarrow> cp_volume" where
  "small_cp_volume status n = \<lparr>cv_Num_replicas = n, cv_Size = 64, cv_SpecStatus = '''', cv_SpecProtocol = ''nvmf'', cv_SpecNode = ''node1'',
     cv_Uuid = ''v1'', cv_Children = [], cv_DeviceUri = '''', cv_Node = ''node1'', cv_TargetState = ''Online'', cv_TargetUuid = ''nx1'',
     cv_StateSize = 64, cv_Status = status,
     cv_Replica_topology = [(''r1'', \<lparr>rt_Node = ''node1'', rt_Pool = ''pool1'', rt_State = ''Online''\<rparr>),
       (''r2'', \<lparr>rt_Node = ''node2'', rt_Pool = ''pool2'', rt_State = ''Online''\<rparr>)]\<rparr>"

definition small_plugin :: "cp_volume \<Rightarrow> nat plugin" where
  "small_plugin v = \<lparr>MayastorVersion = ''1.0.0'', RunPlugin = \<lambda>args w. ((''{}'', None), w), RestNewRequest = \<lambda>url. None,
     RestDo = \<lambda>url w. (Inr (url, None), w), PluginPort = ''30011'', JsonVolume = \<lambda>t. Inr v, JsonVolumes = \<lambda>t. Inr [v],
     JsonNode = \<lambda>t. Inl (Error t), JsonNodes = \<lambda>t. Inr [], JsonPool = \<lambda>t. Inl (Error t), JsonPools = \<lambda>t. Inr [],
     JsonReplica = \<lambda>t. Inr \<lparr>cr_Node = ''node1'', cr_Pool = ''pool1'', cr_State = ''Online'', cr_Uri = t\<rparr>, StateText = \<lambda>v. ''''\<rparr>"

lemma small_plugin_volume: "GetMayastorCpVolume (small_plugin v) uid w = (Done (Inr v), w)"
  by (simp add: GetMayastorCpVolume_def plugin_get_def plugin_output_def small_plugin_def check_def seq_apply call_apply ErrOutput_def
      HasPrefix_def)

theorem failed_lookup_empties_volumes_witness:
  "\<exists>s1. k8stest_GetMSV (small_cluster ''online'' ''Online'' ''''\<lparr>NodesList := \<lambda>w. (Inl (Error ''timeout''), w)\<rparr>)
     (small_plugin (small_cp_volume ''Online'' 2)) (\<lambda>m. m) ''v1'' \<lparr>node_addrs = [], addrs_set = False, e2e_world = 0\<rparr>
     = (Done (Inr (Some no_volume)), s1)"
proof -
  let ?v = "small_cp_volume ''Online'' 2"
  let ?s = "\<lparr>node_addrs = [], addrs_set = False, e2e_world = 0 :: nat\<rparr>"
  let ?cl = "small_cluster ''online'' ''Online'' ''''\<lparr>NodesList := \<lambda>w. (Inl (Error ''timeout''), w)\<rparr>"
  have "\<not> addrs_set ?s" and "NodesList ?cl (e2e_world ?s) = (Inl (Error ''timeout''), 0)" by simp_all
  moreover have "MayastorVersion (small_plugin ?v) = ''1.0.0''" and "reported ?v" and "cv_Replica_topology ?v \<noteq> []"
    by (simp_all add: small_plugin_def reported_def small_cp_volume_def)
  ultimately show ?thesis
    using failed_lookup_empties_volumes [OF _ _ _ small_plugin_volume, of ?s ?cl _ _ ?v "\<lambda>m. m"] by blast
qed

lemma store_nodes:
  "k \<le> length xs \<Longrightarrow>
   for_in (enumerate k rs) xs (\<lambda>(ix, rep) replicas. seq (store_at replicas ix (vr_Node rep)) (\<lambda>rs. ret (Continue rs))) w =
     (if k + length rs \<le> length xs then (Done (Inr (take k xs @ map vr_Node rs @ drop (k + length rs) xs)), w)
      else (Panicked ''index out of range'', w))"
proof (induction rs arbitrary: k xs)
  case Nil
  then show ?case by simp
next
  case (Cons r rs)
  show ?case
  proof (cases "k < length xs")
    case True
    then show ?thesis
      using Cons.IH [of "Suc k" "xs[k := vr_Node r]"]
      by (simp add: store_at_def seq_apply take_Suc_conv_app_nth take_update_swap list_update_append)
  next
    case False
    then show ?thesis by (simp add: store_at_def seq_apply)
  qed
qed



text \<open>
  The replicas and the nodes of a volume that is still being created cannot be asked for: the volume is
  nil, without an error, and is dereferenced.
\<close>

theorem pending_volume_panics:
  assumes "\<And>w. GetMayastorCpVolume p uid w = (Done (Inr v), w)" and "cv_Status v = ''pending''" and "0 \<le> cv_Num_replicas v"
  shows "CPv1_GetMsvReplicas p ord address uid w = (Panicked ''nil pointer dereference'', w) \<and>
    CPv1_GetMsvNodes p ord address uid w = (Panicked ''nil pointer dereference'', w)"
proof -
  have "CPv1_GetMSV p ord address uid w = (Done (Inr None), w)" for w
    using assms(1,2) by (simp add: CPv1_GetMSV_def check_Inr)
  then have "CPv1_GetMsvReplicas p ord address uid w = (Panicked ''nil pointer dereference'', w)" for w
    by (simp add: CPv1_GetMsvReplicas_def check_Inr)
  with assms(1,3) show ?thesis by (simp add: CPv1_GetMsvNodes_def seq_Done seq_Panicked)
qed

theorem pending_volume_panics_witness:
  "CPv1_GetMsvReplicas (small_plugin (small_cp_volume ''pending'' 1)) (\<lambda>m. m) [''10.0.0.1''] ''v1'' 0
     = (Panicked ''nil pointer dereference'', 0)"
  using pending_volume_panics [OF small_plugin_volume, of "small_cp_volume ''pending'' 1"] by (simp add: small_cp_volume_def)

end
