(* ===== verification/Agent_Client.thy ===== *)
theory Agent_Client
  imports Cluster_Client
begin

text \<open>
  \<^verbatim>\<open>src/src/common/e2e-agent/client.go\<close>: the client of the agent that runs on every node and
  takes devices offline, drops connections, runs commands and kills mayastor.

  The parameter \<open>agent_net\<close> is the HTTP client. A body is given before its JSON encoding,
  which does not fail for these types.
\<close>

datatype agent_data =
    NoData
  | NodeList "string list"
  | CmdList string
  | FaultyDevice string string
  | ControlledDevice string string

record 'w agent_net =
  AgentNewRequest :: "string \<Rightarrow> string \<Rightarrow> error option"
  AgentDo :: "string \<Rightarrow> string \<Rightarrow> agent_data \<Rightarrow> 'w \<Rightarrow> (int \<times> string result) result \<times> 'w"

text \<open>When the request cannot be made the code prints the error and goes on with a nil request.\<close>

definition sendRequestGetResponse :: "'w agent_net \<Rightarrow> string \<Rightarrow> string \<Rightarrow> agent_data \<Rightarrow> ('w, string result) io" where
  "sendRequestGetResponse h reqType url data =
     seq (deref (case AgentNewRequest h reqType url of Some err \<Rightarrow> None | None \<Rightarrow> Some ())) (\<lambda>_.
     check (call (AgentDo h reqType url data)) (\<lambda>err. err) (\<lambda>(status, body).
     if status \<noteq> 200 then ret (Inl (Errorf (''request returned code '' @ Itoa status)))
     else check (ret body) (\<lambda>err. err) (\<lambda>bodyBytes. ret (Inr bodyBytes))))"

definition agent_sendRequest :: "'w agent_net \<Rightarrow> string \<Rightarrow> string \<Rightarrow> agent_data \<Rightarrow> ('w, unit result) io" where
  "agent_sendRequest h reqType url data =
     check (sendRequestGetResponse h reqType url data) (\<lambda>err. err) (\<lambda>_. ret (Inr ()))"

definition agent_url :: "string \<Rightarrow> string \<Rightarrow> string" where
  "agent_url serverAddr path = ''http://'' @ serverAddr @ '':'' @ ''10012'' @ path"

definition UngracefulReboot :: "'w agent_net \<Rightarrow> string \<Rightarrow> ('w, unit result) io" where
  "UngracefulReboot h serverAddr = agent_sendRequest h ''POST'' (agent_url serverAddr ''/ungracefulReboot'') NoData"

definition IsAgentReachable :: "'w agent_net \<Rightarrow> string \<Rightarrow> ('w, unit result) io" where
  "IsAgentReachable h serverAddr = agent_sendRequest h ''GET'' (agent_url serverAddr ''/'') NoData"

definition GracefulReboot :: "'w agent_net \<Rightarrow> string \<Rightarrow> ('w, unit result) io" where
  "GracefulReboot h serverAddr = agent_sendRequest h ''POST'' (agent_url serverAddr ''/gracefulReboot'') NoData"

definition DropConnectionsFromNodes :: "'w agent_net \<Rightarrow> string \<Rightarrow> string list \<Rightarrow> ('w, unit result) io" where
  "DropConnectionsFromNodes h serverAddr nodes =
     agent_sendRequest h ''POST'' (agent_url serverAddr ''/dropConnectionsFromNodes'') (NodeList nodes)"

definition AcceptConnectionsFromNodes :: "'w agent_net \<Rightarrow> string \<Rightarrow> string list \<Rightarrow> ('w, unit result) io" where
  "AcceptConnectionsFromNodes h serverAddr nodes =
     agent_sendRequest h ''POST'' (agent_url serverAddr ''/acceptConnectionsFromNodes'') (NodeList nodes)"

definition DiskPartition :: "'w agent_net \<Rightarrow> string \<Rightarrow> string \<Rightarrow> ('w, unit result) io" where
  "DiskPartition h serverAddr cmd = agent_sendRequest h ''POST'' (agent_url serverAddr ''/exec'') (CmdList cmd)"

definition CreateFaultyDevice :: "'w agent_net \<Rightarrow> string \<Rightarrow> string \<Rightarrow> string \<Rightarrow> ('w, unit result) io" where
  "CreateFaultyDevice h serverAddr device table =
     agent_sendRequest h ''POST'' (agent_url serverAddr ''/createFaultyDevice'') (FaultyDevice device table)"

definition Exec :: "'w agent_net \<Rightarrow> string \<Rightarrow> string \<Rightarrow> ('w, string result) io" where
  "Exec h serverAddr command = sendRequestGetResponse h ''POST'' (agent_url serverAddr ''/exec'') (CmdList command)"

definition ControlDevice :: "'w agent_net \<Rightarrow> string \<Rightarrow> string \<Rightarrow> string \<Rightarrow> ('w, string result) io" where
  "ControlDevice h serverAddr device state =
     sendRequestGetResponse h ''POST'' (agent_url serverAddr ''/devicecontrol'') (ControlledDevice device state)"

definition KillMayastor :: "'w agent_net \<Rightarrow> string \<Rightarrow> ('w, string result) io" where
  "KillMayastor h serverAddr = sendRequestGetResponse h ''POST'' (agent_url serverAddr ''/killmayastor'') NoData"

section \<open>What a request comes to\<close>

lemma sendRequestGetResponse_cases:
  "sendRequestGetResponse h m url d w =
     (case AgentNewRequest h m url of
        Some err \<Rightarrow> (Panicked ''nil pointer dereference'', w)
      | None \<Rightarrow> (case AgentDo h m url d w of
          (Inl err, w') \<Rightarrow> (Done (Inl err), w')
        | (Inr (status, body), w') \<Rightarrow>
            (Done (if status \<noteq> 200 then Inl (Errorf (''request returned code '' @ Itoa status)) else body), w')))"
  by (auto simp: sendRequestGetResponse_def check_def seq_apply call_apply split: option.split sum.split prod.split)

text \<open>
  The agent accepts a command when it answers with the status 200. An address that does not make
  a URL is not an error of the client but a panic: this is the one way in which it does not return.
\<close>

theorem agent_request:
  "(AgentNewRequest h ''POST'' (agent_url a ''/devicecontrol'') = None \<longrightarrow> (\<exists>r w'. ControlDevice h a dev st w = (Done r, w'))) \<and>
   (AgentNewRequest h ''POST'' (agent_url a ''/devicecontrol'') \<noteq> None \<longrightarrow> (\<exists>p. ControlDevice h a dev st w = (Panicked p, w))) \<and>
   (ControlDevice h a dev st w = (Done (Inr b), w') \<longrightarrow>
     AgentDo h ''POST'' (agent_url a ''/devicecontrol'') (ControlledDevice dev st) w = (Inr (200, Inr b), w'))"
  by (auto simp: ControlDevice_def sendRequestGetResponse_cases split: option.splits sum.splits prod.splits if_splits)

end
