(* ===== verification/E2E_Volumes.thy ===== *)
theory E2E_Volumes
  imports Control_Plane Agent_Client
begin

text \<open>
  \<^verbatim>\<open>src/src/common/k8stest/util_pvc.go\<close> and \<^verbatim>\<open>util_replica.go\<close>: how the end to end tests create and
  remove volumes, look for volumes that are left over, take a checksum of a replica and move a
  replica away from the nexus.

  \<open>kube\<close> adds to the cluster what these tests ask of Kubernetes beyond it. \<open>JsonDevices\<close> decodes the
  output of \<^verbatim>\<open>nvme list\<close>; Go's decoder fills in what it can also when it reports an
  error. The package variable that says whether gRPC can be used is \<open>canConnect\<close>.
\<close>

section \<open>Parameters\<close>

record pvc_item =
  pi_Name :: string
  pi_StorageClassName :: "string option"

record pv_item =
  pv_Name :: string
  pv_StorageClassName :: string
  pv_Finalizers :: "string list"

record sc_item =
  si_Name :: string
  si_Provisioner :: string

record 'w kube =
  cluster :: "'w cluster"
  plugin :: "'w plugin"
  grpc :: "'w grpc"
  agent :: "'w agent_net"
  CsiProvisioner :: string
  NamespaceList :: "'w \<Rightarrow> string list result \<times> 'w"
  PvcItems :: "string \<Rightarrow> 'w \<Rightarrow> pvc_item list result \<times> 'w"
  PvItems :: "'w \<Rightarrow> pv_item list result \<times> 'w"
  ScItems :: "'w \<Rightarrow> sc_item list result \<times> 'w"
  JsonDevices :: "string \<Rightarrow> (string, (string, string) gomap list) gomap \<times> error option"

section \<open>Claims and volumes\<close>

definition IsPVCDeleted :: "'w kube \<Rightarrow> string \<Rightarrow> string \<Rightarrow> ('w, bool \<times> error option) io" where
  "IsPVCDeleted k volName nameSpace =
     seq (call (PvcGet (cluster k) nameSpace volName)) (\<lambda>r. case r of
       Inl err \<Rightarrow>
         if HasPrefix (err_text err) ''persistentvolumeclaims'' \<and> HasSuffix (err_text err) '' not found'' then ret (True, None)
         else ret (False, Some (wrapped (''failed to get pvc '' @ volName @ '', namespace: '' @ nameSpace @ '', error: '') err))
     | Inr pvc \<Rightarrow> ret (pvc_Phase pvc \<notin> {ClaimBound, ClaimPending, ClaimLost}, None))"

definition IsPVDeleted :: "'w kube \<Rightarrow> string \<Rightarrow> ('w, bool \<times> error option) io" where
  "IsPVDeleted k volName =
     seq (call (PvGet (cluster k) volName)) (\<lambda>r. case r of
       Inl err \<Rightarrow>
         if HasPrefix (err_text err) ''persistentvolumes'' \<and> HasSuffix (err_text err) '' not found'' then ret (True, None)
         else ret (False, Some (wrapped (''failed to get pv '' @ volName @ '', error: '') err))
     | Inr phase \<Rightarrow> ret (phase \<notin> {VolumeBound, VolumeAvailable, VolumeFailed, VolumePending, VolumeReleased}, None))"

definition k8stest_GetPvcStatusPhase :: "'w kube \<Rightarrow> string \<Rightarrow> string \<Rightarrow> ('w, pvc_phase result) io" where
  "k8stest_GetPvcStatusPhase k volname nameSpace =
     check (call (PvcGet (cluster k) nameSpace volname))
       (wrapped (''failed to get pvc: '' @ volname @ '', namespace: '' @ nameSpace @ '', error: '')) (\<lambda>pvc. ret (Inr (pvc_Phase pvc)))"

definition k8stest_GetPvStatusPhase :: "'w kube \<Rightarrow> string \<Rightarrow> ('w, pv_phase result) io" where
  "k8stest_GetPvStatusPhase k volname =
     check (call (PvGet (cluster k) volname)) (wrapped (''failed to get pv: '' @ volname @ '', error: '')) (\<lambda>phase. ret (Inr phase))"

definition IsPvcBound :: "'w kube \<Rightarrow> string \<Rightarrow> string \<Rightarrow> ('w, bool result) io" where
  "IsPvcBound k pvcName nameSpace =
     check (k8stest_GetPvcStatusPhase k pvcName nameSpace) (\<lambda>err. err) (\<lambda>phase. ret (Inr (phase = ClaimBound)))"

text \<open>
  The waits of \<^verbatim>\<open>MkPVC\<close>: up to 360 rounds of one second, until what is asked for is there. What is
  left after the last round is the error of that round, if any: \<open>waiting\<close> gives that.
\<close>

definition waiting :: "'w kube \<Rightarrow> ('w e2e, 'a result) io \<Rightarrow> ('a \<Rightarrow> bool) \<Rightarrow> ('w e2e, error option) io" where
  "waiting k m ready =
     after (for_in [0 ..< 360] None (\<lambda>ix err.
       seq m (\<lambda>r. case r of
         Inr x \<Rightarrow> if ready x then ret (Break None) else seq (in_e2e (sleeps (cluster k) 1)) (\<lambda>_. ret (Continue None))
       | Inl e \<Rightarrow> seq (in_e2e (sleeps (cluster k) 1)) (\<lambda>_. ret (Continue (Some e))))))
     ret"

definition waited :: "('w e2e, error option) io \<Rightarrow> (error \<Rightarrow> error) \<Rightarrow> ('w e2e, 'b result) io \<Rightarrow> ('w e2e, 'b result) io" where
  "waited m wrap rest = seq m (\<lambda>err. case err of Some e \<Rightarrow> ret (Inl (wrap e)) | None \<Rightarrow> rest)"

text \<open>
  \<^verbatim>\<open>MsvConsistencyCheck\<close> checks nothing under a control plane whose version is not 0, and the only
  one there is has the version 1.
\<close>

definition MajorVersion :: int where
  "MajorVersion = 1"

definition GetNodeIPAddress :: "'w kube \<Rightarrow> string \<Rightarrow> ('w, string result) io" where
  "GetNodeIPAddress k nodeName =
     check (k8stest_GetNodeLocs (cluster k)) (\<lambda>err. err) (\<lambda>nodeLocs.
       case find (\<lambda>nl. NodeName nl = nodeName) nodeLocs of
         Some nl \<Rightarrow> ret (Inr (IPAddress nl))
       | None \<Rightarrow> ret (Inl (Errorf (''node '' @ nodeName @ '' not found''))))"

definition GetMayastorNodeIPAddresses :: "'w kube \<Rightarrow> ('w, string list) io" where
  "GetMayastorNodeIPAddresses k =
     seq (k8stest_GetNodeLocs (cluster k)) (\<lambda>r. case r of
       Inl err \<Rightarrow> ret []
     | Inr nodes \<Rightarrow> ret (map IPAddress (filter MayastorNode nodes)))"

definition inconsistent :: "string \<Rightarrow> ('s, unit result) io" where
  "inconsistent t = ret (Inl (Errorf (''MsvConsistencyCheck: '' @ t)))"

definition nexus_consistent :: "'w kube \<Rightarrow> string \<Rightarrow> mayastor_volume \<Rightarrow> ('w, unit result) io" where
  "nexus_consistent k uid msv =
     (if mv_ReplicaCount msv \<noteq> int (length (mv_NexusChildren msv)) then
        inconsistent (''msv spec replica count '' @ Itoa (mv_ReplicaCount msv) @ '' != msv status nexus children '' @ Itoa (int (length (mv_NexusChildren msv))))
      else check (GetNodeIPAddress k (mv_NexusNode msv)) (wrapped ''MsvConsistencyCheck: failed to resolve nexus node IP address, '') (\<lambda>nexusNodeIp.
        seq (FindNexus (grpc k) uid [nexusNodeIp]) (\<lambda>(grpcNexus, err). case err of
          Some e \<Rightarrow> ret (Inl (wrapped ''MsvConsistencyCheck: failed to list nexuses gRPC, '' e))
        | None \<Rightarrow> (case grpcNexus of
            None \<Rightarrow> inconsistent ''failed to find nexus gRPC''
          | Some nx \<Rightarrow>
              if mn_Size nx \<noteq> word_of_int (mv_Size msv) then inconsistent ''nexus size mismatch msv and grpc''
              else if int (length (mn_Children nx)) \<noteq> mv_ReplicaCount msv then inconsistent ''msv replica count != grpc nexus children''
              else if NexusState_String (mn_State nx) \<noteq> mv_NexusState msv then inconsistent ''msv nexus state != grpc nexus state''
              else ret (Inr ())))))"

definition grpc_consistent :: "'w kube \<Rightarrow> string \<Rightarrow> mayastor_volume \<Rightarrow> ('w, unit result) io" where
  "grpc_consistent k uid msv =
     seq (GetMayastorNodeIPAddresses k) (\<lambda>addrs.
     seq (FindReplicas (grpc k) uid addrs) (\<lambda>(gReplicas, err). case err of
       Some e \<Rightarrow> ret (Inl (wrapped ''failed to find replicas using gRPC '' e))
     | None \<Rightarrow> (case find (\<lambda>r. mr_Size r \<noteq> word_of_int (mv_Size msv)) gReplicas of
         Some r \<Rightarrow> inconsistent (''replica size  '' @ Itoa (uint (mr_Size r)) @ '' != msv status size '' @ Itoa (mv_Size msv))
       | None \<Rightarrow>
           if mv_ReplicaCount msv \<noteq> int (length gReplicas) then
             inconsistent (''msv spec replica count '' @ Itoa (mv_ReplicaCount msv) @ '' != list matching replicas found using gRPC ''
               @ Itoa (int (length gReplicas)))
           else if mv_NexusNode msv \<noteq> '''' then nexus_consistent k uid msv
           else ret (Inr ()))))"

definition MsvConsistencyCheck :: "'w kube \<Rightarrow> replica_order \<Rightarrow> bool \<Rightarrow> string \<Rightarrow> ('w e2e, unit result) io" where
  "MsvConsistencyCheck k ord canConnect uid =
     seq (in_e2e (control_plane (plugin k) (ret MajorVersion))) (\<lambda>major.
     if major \<noteq> 0 then ret (Inr ())
     else seq (k8stest_GetMSV (cluster k) (plugin k) ord uid) (\<lambda>r. case r of
       Inl err \<Rightarrow> inconsistent (''GetMsv: '' @ uid @ '', got nil pointer to msv'')
     | Inr None \<Rightarrow> inconsistent (''GetMsv: '' @ uid @ '', got nil pointer to msv'')
     | Inr (Some msv) \<Rightarrow>
         if mv_RequiredBytes msv \<noteq> mv_Size msv then
           inconsistent (''msv spec required bytes '' @ Itoa (mv_RequiredBytes msv) @ '' != msv status size '' @ Itoa (mv_Size msv))
         else if mv_ReplicaCount msv \<noteq> int (length (mv_Replicas msv)) then
           inconsistent (''msv spec replica count '' @ Itoa (mv_ReplicaCount msv) @ '' != msv status replicas '' @ Itoa (int (length (mv_Replicas msv))))
         else if canConnect then in_e2e (grpc_consistent k uid msv)
         else ret (Inr ())))"

definition k8stest_MkPVC ::
    "'w kube \<Rightarrow> replica_order \<Rightarrow> bool \<Rightarrow> int \<Rightarrow> string \<Rightarrow> string \<Rightarrow> volume_type \<Rightarrow> string \<Rightarrow> ('w e2e, string result) io" where
  "k8stest_MkPVC k ord canConnect volSizeMb volName scName volType nameSpace =
     (let cl = cluster k;
          get_pvc = in_e2e (call (PvcGet cl nameSpace volName));
          no_pvc = wrapped (''failed to get pvc: '' @ volName @ '', namespace: '' @ nameSpace @ '', error: '') in
      check (in_e2e (call (PvcCreate cl nameSpace (pvc_create_opts volSizeMb volName scName volType nameSpace))))
        (wrapped (''failed to create pvc: '' @ volName @ '', error: '')) (\<lambda>_.
      check get_pvc no_pvc (\<lambda>pvc.
      check (in_e2e (call (ScGet cl scName))) (wrapped (''failed to get storageclass: '' @ scName @ '', error: '')) (\<lambda>sc.
      seq (deref (sc_VolumeBindingMode sc)) (\<lambda>mode.
      if mode = VolumeBindingWaitForFirstConsumer then ret (Inr (pvc_UID pvc))
      else
        waited (waiting k (in_e2e (k8stest_GetPvcStatusPhase k volName nameSpace)) (\<lambda>phase. phase = ClaimBound))
          (wrapped (''failed to get pvc status, pvc: '' @ volName @ '', namespace:  '' @ nameSpace @ '', error: ''))
        (check get_pvc no_pvc (\<lambda>pvc.
        waited (waiting k (in_e2e (call (PvGet cl (pvc_VolumeName pvc)))) (\<lambda>_. True))
          (wrapped (''failed to get pv, pv: '' @ pvc_VolumeName pvc @ '', error: ''))
        (waited (waiting k (in_e2e (k8stest_GetPvStatusPhase k (pvc_VolumeName pvc))) (\<lambda>phase. phase = VolumeBound))
          (wrapped (''failed to get pv status, pv: '' @ pvc_VolumeName pvc @ '', error: ''))
        (waited (waiting k (k8stest_GetMSV cl (plugin k) ord (pvc_UID pvc)) (\<lambda>msv. msv \<noteq> None))
          (wrapped (''failed to get mayastor volume, uuid: '' @ pvc_UID pvc @ '', error: ''))
        (check (MsvConsistencyCheck k ord canConnect (pvc_UID pvc))
          (wrapped (''msv consistency check failed, msv uuid: '' @ pvc_UID pvc @ '', error: '')) (\<lambda>_.
        ret (Inr (pvc_UID pvc)))))))))))))"

text \<open>The waits of \<^verbatim>\<open>RmPVC\<close>; after the last round both what it has seen and its error count.\<close>

definition deleting :: "'w kube \<Rightarrow> ('w e2e, bool \<times> error option) io \<Rightarrow> ('w e2e, bool \<times> error option) io" where
  "deleting k m =
     after (for_in [0 ..< 360] (False, None) (\<lambda>ix _.
       seq m (\<lambda>(isDeleted, err).
       if isDeleted then ret (Break (isDeleted, err))
       else seq (in_e2e (sleeps (cluster k) 1)) (\<lambda>_. ret (Continue (isDeleted, err))))))
     ret"

definition RmPVC :: "'w kube \<Rightarrow> string \<Rightarrow> string \<Rightarrow> string \<Rightarrow> ('w e2e, unit result) io" where
  "RmPVC k volName scName nameSpace =
     (let cl = cluster k in
      check (in_e2e (call (PvcGet cl nameSpace volName)))
        (\<lambda>err. if IsNotFound err then Errorf (''PVC '' @ volName @ '' not found error, namespace: '' @ nameSpace)
               else wrapped (''failed to get pvc '' @ volName @ '', namespace: '' @ nameSpace @ '', error: '') err) (\<lambda>pvc.
      check (in_e2e (call (PvcDelete cl nameSpace volName)))
        (wrapped (''failed to delete PVC '' @ volName @ '', namespace: '' @ nameSpace @ '', error: '')) (\<lambda>_.
      seq (deleting k (in_e2e (IsPVCDeleted k volName nameSpace))) (\<lambda>(isDeleted, err). case err of
        Some e \<Rightarrow> ret (Inl e)
      | None \<Rightarrow>
          if \<not> isDeleted then ret (Inl (Errorf (''pvc not deleted, pvc: '' @ volName @ '', namespace: '' @ nameSpace)))
          else seq (if pvc_VolumeName pvc \<noteq> '''' then deleting k (in_e2e (IsPVDeleted k (pvc_VolumeName pvc))) else ret (True, None))
            (\<lambda>(isDeleted, err). case err of
              Some e \<Rightarrow> ret (Inl e)
            | None \<Rightarrow>
                if \<not> isDeleted then ret (Inl (Errorf (''PV not deleted, pv: '' @ pvc_VolumeName pvc)))
                else seq (deleting k (seq (k8stest_IsMsvDeleted cl (plugin k) (pvc_UID pvc)) (\<lambda>b. ret (b, None)))) (\<lambda>(isDeleted, err).
                  if \<not> isDeleted then ret (Inl (Errorf (''mayastor volume not deleted, msv: '' @ pvc_UID pvc)))
                  else ret (Inr ())))))))"

definition k8stest_DeletePVC :: "'w kube \<Rightarrow> string \<Rightarrow> string \<Rightarrow> ('w, unit result) io" where
  "k8stest_DeletePVC k volName nameSpace = call (PvcDelete (cluster k) nameSpace volName)"

definition GetPVC :: "'w kube \<Rightarrow> string \<Rightarrow> string \<Rightarrow> ('w, pvc result) io" where
  "GetPVC k volName nameSpace = call (PvcGet (cluster k) nameSpace volName)"

section \<open>What is left over\<close>

definition getMayastorScMap :: "'w kube \<Rightarrow> ('w, string list result) io" where
  "getMayastorScMap k =
     check (call (ScItems k)) (\<lambda>err. err) (\<lambda>scs. ret (Inr (map si_Name (filter (\<lambda>sc. si_Provisioner sc = CsiProvisioner k) scs))))"

text \<open>
  The namespaces of the tests. A claim without a storage class is a nil pointer that is
  dereferenced; a list of claims that fails is skipped.
\<close>

definition of_tests :: "string \<Rightarrow> bool" where
  "of_tests ns \<longleftrightarrow> HasPrefix ns ''e2e-maya'' \<or> ns = ''default''"

definition mayastor_pvcs :: "string list \<Rightarrow> pvc_item list \<Rightarrow> ('w, pvc_item list) io" where
  "mayastor_pvcs scs items =
     after (for_in items [] (\<lambda>pvc acc.
       seq (deref (pi_StorageClassName pvc)) (\<lambda>sc. ret (Continue (if sc \<in> set scs then acc @ [pvc] else acc)))))
     ret"

definition CheckForPVCs :: "'w kube \<Rightarrow> ('w, bool \<times> error option) io" where
  "CheckForPVCs k =
     seq (getMayastorScMap k) (\<lambda>r. case r of
       Inl err \<Rightarrow> ret (False, Some err)
     | Inr scs \<Rightarrow> seq (call (NamespaceList k)) (\<lambda>r. case r of
         Inl err \<Rightarrow> ret (False, Some err)
       | Inr nameSpaces \<Rightarrow>
           after (for_in (filter of_tests nameSpaces) False (\<lambda>ns foundResources.
             seq (call (PvcItems k ns)) (\<lambda>r. case r of
               Inl err \<Rightarrow> ret (Continue foundResources)
             | Inr pvcs \<Rightarrow> seq (mayastor_pvcs scs pvcs) (\<lambda>found. ret (Continue (foundResources \<or> found \<noteq> []))))))
           (\<lambda>foundResources. ret (foundResources, None))))"

definition CheckForPVs :: "'w kube \<Rightarrow> ('w, bool \<times> error option) io" where
  "CheckForPVs k =
     seq (getMayastorScMap k) (\<lambda>r. case r of
       Inl err \<Rightarrow> ret (False, Some err)
     | Inr scs \<Rightarrow> seq (call (PvItems k)) (\<lambda>r. case r of
         Inl err \<Rightarrow> ret (False, Some err)
       | Inr pvs \<Rightarrow> ret (\<exists>pv \<in> set pvs. pv_StorageClassName pv \<in> set scs, None)))"


section \<open>Replicas\<close>

text \<open>\<^verbatim>\<open>strings.Index\<close>, slices of strings and \<^verbatim>\<open>strings.TrimSpace\<close>. A bound of -1 panics.\<close>

fun Index :: "string \<Rightarrow> string \<Rightarrow> int" where
  "Index [] p = (if p = [] then 0 else -1)"
| "Index (c # t) p = (if HasPrefix (c # t) p then 0 else let i = Index t p in if i = -1 then -1 else i + 1)"

definition slice_from :: "string \<Rightarrow> int \<Rightarrow> ('s, string) io" where
  "slice_from t i = (if 0 \<le> i \<and> i \<le> int (length t) then ret (drop (nat i) t) else panic ''slice bounds out of range'')"

definition slice_to :: "string \<Rightarrow> int \<Rightarrow> ('s, string) io" where
  "slice_to t i = (if 0 \<le> i \<and> i \<le> int (length t) then ret (take (nat i) t) else panic ''slice bounds out of range'')"

definition trimmed_char :: "char \<Rightarrow> bool" where
  "trimmed_char c \<longleftrightarrow> (of_char c :: nat) \<in> {9, 10, 11, 12, 13, 32}"

definition TrimSpace :: "string \<Rightarrow> string" where
  "TrimSpace t = rev (dropWhile trimmed_char (rev (dropWhile trimmed_char t)))"

text \<open>
  The search for the device that the connection has made: \<open>Some (path, name)\<close> when it is found. A
  list that is decoded \<^emph>\<open>without\<close> an error is passed over.
\<close>

definition device_round :: "'w kube \<Rightarrow> string \<Rightarrow> nat \<Rightarrow> (string \<times> string) option \<Rightarrow>
    ('w, ((string \<times> string) option, string result) ctl) io" where
  "device_round k initiatorIP retryCount found =
     seq (sleeps (cluster k) 5) (\<lambda>_.
     seq (Exec (agent k) initiatorIP ''nvme list --output-format=json'') (\<lambda>r. case r of
       Inl err \<Rightarrow> ret (Continue None)
     | Inr output \<Rightarrow>
         if output = '''' then ret (Continue None)
         else case JsonDevices k output of (list, err) \<Rightarrow>
           if err = None then ret (Continue None)
           else
             let devices = (case map_of list ''Devices'' of Some ds \<Rightarrow> ds | None \<Rightarrow> []) in
             seq (index devices (int (length devices) - 1)) (\<lambda>lastConnectedDevice.
             let devicePath = (case map_of lastConnectedDevice ''DevicePath'' of Some d \<Rightarrow> d | None \<Rightarrow> '''') in
             seq (slice_from devicePath 5) (\<lambda>deviceOnly. ret (Break (Some (devicePath, deviceOnly)))))))"

definition ChecksumReplica :: "'w kube \<Rightarrow> string \<Rightarrow> string \<Rightarrow> string \<Rightarrow> int \<Rightarrow> ('w, string result) io" where
  "ChecksumReplica k initiatorIP targetIP uri maxRetries =
     seq (slice_from uri (Index uri ''nqn.'')) (\<lambda>nqnlong.
     seq (slice_to nqnlong (Index nqnlong ''?'')) (\<lambda>nqn.
     check (Exec (agent k) initiatorIP
         (Join [''nvme'', ''connect'', ''-a'', targetIP, ''-t'', ''tcp'', ''-s'', ''8420'', ''-n'', nqn] '' '')) (\<lambda>err. err) (\<lambda>resp.
     if TrimSpace resp \<noteq> '''' then ret (Inl (Errorf (''nvme connect returned with '' @ TrimSpace resp)))
     else
       after (for_in [0 ..< nat maxRetries] None (device_round k initiatorIP)) (\<lambda>found. case found of
         None \<Rightarrow> ret (Inl (Errorf ''Failed to get device path''))
       | Some (devicePath, deviceOnly) \<Rightarrow>
           check (Exec (agent k) initiatorIP (''cksum '' @ devicePath)) (\<lambda>err. err) (\<lambda>out.
           let cksumText = TrimSpace out in
           if \<not> Contains cksumText deviceOnly then ret (Inl (Errorf (''Unexpected result from cksum '' @ cksumText)))
           else check (Exec (agent k) initiatorIP (''nvme disconnect -n'' @ nqn)) (\<lambda>err. err) (\<lambda>_.
             check (Exec (agent k) initiatorIP ''ls /dev/'') (\<lambda>err. err) (\<lambda>resp.
             if Contains resp deviceOnly then ret (Inl (Errorf (''Device '' @ deviceOnly @ '' still exists'')))
             else ret (Inr cksumText))))))))"

text \<open>
  \<^verbatim>\<open>ExcludeNexusReplica\<close>: the uri of the child of the nexus that is local to it, then the fault, then
  two waits of 23 rounds of ten seconds.
\<close>

definition local_child :: "mayastor_nexus \<Rightarrow> string option result" where
  "local_child nx = (case filter (\<lambda>ch. HasPrefix (fst ch) ''bdev:///'') (mn_Children nx) of
      [] \<Rightarrow> Inr None
    | [ch] \<Rightarrow> Inr (Some (fst ch))
    | _ \<Rightarrow> Inl (Errorf ''More than 1 nexus local replica found''))"

definition replica_gone :: "'w kube \<Rightarrow> replica_order \<Rightarrow> string \<Rightarrow> string \<Rightarrow> nat \<Rightarrow> bool \<Rightarrow>
    ('w e2e, (bool, bool \<times> error option) ctl) io" where
  "replica_gone k ord volUuid nxChild ix found =
     seq (k8stest_GetMsvReplicas (cluster k) (plugin k) ord volUuid) (\<lambda>r. case r of
       Inl err \<Rightarrow> ret (Return (False, Some (wrapped ''Failed to get replicas, err='' err)))
     | Inr replicas \<Rightarrow>
         if \<exists>rep \<in> set replicas. vr_Uri rep = nxChild
         then seq (in_e2e (sleeps (cluster k) 10)) (\<lambda>_. ret (Continue True))
         else ret (Break False))"

definition volume_healthy :: "'w kube \<Rightarrow> string \<Rightarrow> nat \<Rightarrow> string \<Rightarrow> ('w e2e, (string, bool \<times> error option) ctl) io" where
  "volume_healthy k volUuid ix st =
     seq (k8stest_GetMsvState (cluster k) (plugin k) volUuid) (\<lambda>r. case r of
       Inl err \<Rightarrow> ret (Return (False, Some (wrapped ''Failed to get state, err='' err)))
     | Inr state \<Rightarrow>
         if state = ''Online'' then ret (Break state)
         else seq (in_e2e (sleeps (cluster k) 10)) (\<lambda>_. ret (Continue state)))"

definition ExcludeNexusReplica ::
    "'w kube \<Rightarrow> replica_order \<Rightarrow> bool \<Rightarrow> string \<Rightarrow> string \<Rightarrow> string \<Rightarrow> ('w e2e, bool \<times> error option) io" where
  "ExcludeNexusReplica k ord canConnect nexusIP nexusUuid volUuid =
     (if \<not> canConnect then ret (False, Some (Errorf ''gRPC calls not enabled''))
      else seq (in_e2e (mayastorclient_ListNexuses (grpc k) [nexusIP])) (\<lambda>(nexusList, err). case err of
        Some e \<Rightarrow> ret (False, Some (wrapped ''Failed to list nexuses, err='' e))
      | None \<Rightarrow>
          if nexusList = [] then ret (False, Some (Errorf ''Expected to find at least 1 nexus''))
          else case find (\<lambda>nx. mn_Uuid nx = nexusUuid) nexusList of
            None \<Rightarrow> ret (False, Some (Errorf ''failed to find the nexus''))
          | Some nx \<Rightarrow> (case local_child nx of
              Inl err \<Rightarrow> ret (False, Some err)
            | Inr None \<Rightarrow> ret (False, None)
            | Inr (Some nxChild) \<Rightarrow>
                seq (in_e2e (FaultNexusChild (grpc k) nexusIP nexusUuid nxChild)) (\<lambda>r. case r of
                  Inl err \<Rightarrow> ret (False, Some (wrapped ''Failed to fault child, err='' err))
                | Inr _ \<Rightarrow>
                    after (for_in [0 ..< 23] False (replica_gone k ord volUuid nxChild)) (\<lambda>found.
                    if found then ret (True, Some (Errorf ''timed out waiting for faulted replica to be removed''))
                    else after (for_in [0 ..< 23] '''' (volume_healthy k volUuid)) (\<lambda>state.
                      if state \<noteq> ''Online'' then ret (True, Some (Errorf ''timed out waiting for volume to become healthy''))
                      else ret (True, None)))))))"


section \<open>Waits\<close>

lemma in_e2e_DoneE:
  assumes "in_e2e m s = (Done x, s')"
  obtains w where "m (e2e_world s) = (Done x, w)" "s' = s\<lparr>e2e_world := w\<rparr>"
  using assms by (cases "m (e2e_world s)") (auto simp: in_e2e_apply)

lemma returning_in_e2e [ends]: "returning m \<Longrightarrow> returning (in_e2e m)"
  unfolding in_e2e_def by (rule returning_zoom)

lemma returning_waiting [ends]: "returning m \<Longrightarrow> returning (waiting k m ready)"
  unfolding waiting_def by (intro ends returning_sleeps)

lemma returning_deleting [ends]: "returning m \<Longrightarrow> returning (deleting k m)"
  unfolding deleting_def by (intro ends returning_sleeps)

text \<open>A range loop whose rounds keep a property of its variable.\<close>

lemma for_in_variable:
  assumes "\<And>x v s c s'. P v \<Longrightarrow> body x v s = (Done c, s') \<Longrightarrow> (case c of Continue v' \<Rightarrow> P v' | Break v' \<Rightarrow> P v' | Return r \<Rightarrow> Q r)"
    and "P v" and "for_in xs v body s = (Done c, s')"
  shows "case c of Inl r \<Rightarrow> Q r | Inr v' \<Rightarrow> P v'"
proof -
  have "yields (\<lambda>c. case c of Inl r \<Rightarrow> Q r | Inr v' \<Rightarrow> P v') (for_in xs v body)"
    by (rule yields_for_in [where P = P]) (use assms(1,2) in \<open>auto simp: yields_def\<close>)
  with assms(3) show ?thesis by (rule yieldsD [rotated])
qed

text \<open>A wait that looks at something that can always be looked at ends without an error, whatever it sees.\<close>

lemma waiting_sees_nothing:
  assumes "returning m" and "yields (\<lambda>r. \<exists>x. r = Inr x) m"
  shows "\<exists>s'. waiting k m ready s = (Done None, s')"
proof -
  obtain e s' where run: "waiting k m ready s = (Done e, s')"
    using returning_waiting [OF assms(1)] by (rule returningE)
  have "m s \<noteq> (Done (Inl e), s')" for s e s'
    using assms(2) by (auto simp: yields_def)
  then have "yields (\<lambda>e. e = None) (waiting k m ready)"
    unfolding waiting_def after_def yields_def
    by (auto elim!: seq_DoneE dest!: for_in_variable [where P = "\<lambda>e. e = None" and Q = "\<lambda>e. e = None", rotated 2]
        split: sum.splits if_splits)
  with run show ?thesis by (auto dest: yieldsD)
qed

text \<open>A wait for a deletion that succeeds has seen it.\<close>

lemma deleting_seen:
  assumes "deleting k m s = (Done (True, err), s')"
  shows "\<exists>s1 s2. m s1 = (Done (True, err), s2)"
proof -
  show ?thesis
    using assms unfolding deleting_def after_def
    by (auto elim!: seq_DoneE dest!: for_in_last for_in_Return split: sum.splits if_splits prod.splits)
       blast
qed


section \<open>Properties\<close>

text \<open>A small testbed for the instances below.\<close>

definition small_agent :: "nat agent_net" where
  "small_agent = \<lparr>AgentNewRequest = \<lambda>m u. None, AgentDo = \<lambda>m u d w. (Inr (200, Inr ''''), w)\<rparr>"

definition small_kube :: "nat cluster \<Rightarrow> nat plugin \<Rightarrow> nat grpc \<Rightarrow> nat kube" where
  "small_kube cl p g = \<lparr>cluster = cl, plugin = p, grpc = g, agent = small_agent, CsiProvisioner = ''io.openebs.csi-mayastor'',
     NamespaceList = \<lambda>w. (Inr [''default'', ''e2e-maya''], w), PvcItems = \<lambda>ns w. (Inr [], w), PvItems = \<lambda>w. (Inr [], w),
     ScItems = \<lambda>w. (Inr [\<lparr>si_Name = ''sc'', si_Provisioner = ''io.openebs.csi-mayastor''\<rparr>], w), JsonDevices = \<lambda>t. ([], None)\<rparr>"

abbreviation start_e2e :: "nat e2e" where
  "start_e2e \<equiv> \<lparr>node_addrs = [], addrs_set = False, e2e_world = 0\<rparr>"

definition unbound_kube :: "nat kube" where
  "unbound_kube = small_kube (small_cluster ''online'' ''Online'' ''''\<lparr>PvcGet := \<lambda>ns n w. (Inr (small_pvc\<lparr>pvc_Phase := ClaimPending\<rparr>), w)\<rparr>)
     (small_plugin (small_cp_volume ''pending'' 1)) (small_grpc 1 (\<lambda>_. None))"

text \<open>A cluster whose world counts the deletions: after one everything is gone.\<close>

definition deleting_kube :: "nat kube" where
  "deleting_kube = small_kube (small_cluster ''online'' ''Online'' ''''\<lparr>
       PvcGet := \<lambda>ns n w. (if w = 0 then Inr small_pvc else Inl (NotFound ''persistentvolumeclaims vol not found''), w),
       PvcDelete := \<lambda>ns n w. (Inr (), Suc w),
       PvGet := \<lambda>n w. (if w = 0 then Inr VolumeBound else Inl (NotFound ''persistentvolumes pvc-v1 not found''), w)\<rparr>)
     (small_plugin (small_cp_volume ''Online'' 1\<lparr>cv_Uuid := ''''\<rparr>)) (small_grpc 1 (\<lambda>_. None))"

definition nexus_kube :: "nat kube" where
  "nexus_kube = small_kube (small_cluster ''online'' ''Online'' '''') (small_plugin (small_cp_volume ''Online'' 1))
     (small_grpc 1 (\<lambda>_. None)\<lparr>RpcListNexus := timed 1 [\<lparr>mn_Name = ''nx'', mn_Uuid = ''nx1'', mn_Size = 64, mn_State = 1,
        mn_Children = [(''nvmf://10.0.0.2/r2'', 1)], mn_DeviceUri = '''', mn_Rebuilds = 0\<rparr>]\<rparr>)"

lemma MsvConsistencyCheck_nothing: "MayastorVersion (plugin k) = ''1.0.0'' \<Longrightarrow> MsvConsistencyCheck k ord c uid = ret (Inr ())"
  by (simp add: MsvConsistencyCheck_def MajorVersion_def in_e2e_def zoom_def fun_eq_iff seq_apply)

lemma waited_None: "waiting k m ready s = (Done None, s1) \<Longrightarrow> waited (waiting k m ready) wrap rest s = rest s1"
  by (simp add: waited_def seq_Done)

lemma waiting_ret: "\<exists>s'. waiting k (ret (Inr x)) ready s = (Done None, s')"
  by (rule waiting_sees_nothing) (auto simp: yields_def intro: ends)

text \<open>
  \<^verbatim>\<open>MkPVC\<close> of the end to end tests returns the uid of a claim that is never bound: a wait that
  runs out of time is taken for one that has seen what it waits for, as long as the last look did
  not fail.
\<close>

theorem MkPVC_accepts_unbound:
  assumes "MayastorVersion (plugin k) = ''1.0.0''" and "\<And>o' w. PvcCreate (cluster k) ns o' w = (Inr (), w)"
    and claim: "\<And>w. PvcGet (cluster k) ns name w = (Inr pvc, w)" "pvc_Phase pvc = ClaimPending"
    and "\<And>w. ScGet (cluster k) scName w = (Inr sc, w)" "sc_VolumeBindingMode sc = Some VolumeBindingImmediate"
    and volume: "\<And>w. PvGet (cluster k) (pvc_VolumeName pvc) w = (Inr phase, w)"
    and msv: "returning (k8stest_GetMSV (cluster k) (plugin k) ord (pvc_UID pvc))"
      "yields (\<lambda>r. \<exists>x. r = Inr x) (k8stest_GetMSV (cluster k) (plugin k) ord (pvc_UID pvc))"
  shows "\<exists>s'. k8stest_MkPVC k ord canConnect mb name scName typ ns s = (Done (Inr (pvc_UID pvc)), s')"
proof -
  have calls: "in_e2e (call (PvcGet (cluster k) ns name)) = ret (Inr pvc)" "in_e2e (call (PvcCreate (cluster k) ns o')) = ret (Inr ())"
    "in_e2e (call (ScGet (cluster k) scName)) = ret (Inr sc)" "in_e2e (call (PvGet (cluster k) (pvc_VolumeName pvc))) = ret (Inr phase)"
    "in_e2e (k8stest_GetPvcStatusPhase k name ns) = ret (Inr (pvc_Phase pvc))"
    "in_e2e (k8stest_GetPvStatusPhase k (pvc_VolumeName pvc)) = ret (Inr phase)" for o'
    using assms(2-7)
    by (simp_all add: fun_eq_iff in_e2e_apply call_apply k8stest_GetPvcStatusPhase_def k8stest_GetPvStatusPhase_def check_def seq_apply)
  obtain s1 where s1: "waiting k (ret (Inr (pvc_Phase pvc))) (\<lambda>p. p = ClaimBound) s = (Done None, s1)"
    using waiting_ret [of k "pvc_Phase pvc" "\<lambda>p. p = ClaimBound" s] by blast
  obtain s2 where s2: "waiting k (ret (Inr phase)) (\<lambda>_. True) s1 = (Done None, s2)"
    using waiting_ret [of k phase "\<lambda>_. True" s1] by blast
  obtain s3 where s3: "waiting k (ret (Inr phase)) (\<lambda>p. p = VolumeBound) s2 = (Done None, s3)"
    using waiting_ret [of k phase "\<lambda>p. p = VolumeBound" s2] by blast
  obtain s4 where s4: "waiting k (k8stest_GetMSV (cluster k) (plugin k) ord (pvc_UID pvc)) (\<lambda>m. m \<noteq> None) s3 = (Done None, s4)"
    using waiting_sees_nothing [OF msv] by blast
  show ?thesis
    using assms(6) by (simp add: k8stest_MkPVC_def Let_def calls waited_None [OF s1] waited_None [OF s2] waited_None [OF s3]
        waited_None [OF s4] MsvConsistencyCheck_nothing [OF assms(1)] del: not_None_eq)
qed

theorem MkPVC_accepts_unbound_witness:
  "\<exists>s'. k8stest_MkPVC unbound_kube (\<lambda>m. m) False 64 ''vol'' ''sc'' VolRawBlock ''default'' start_e2e = (Done (Inr ''v1''), s')"
proof -
  let ?cl = "cluster unbound_kube" and ?p = "plugin unbound_kube"
  have p: "MayastorVersion ?p = ''1.0.0''" "?p = small_plugin (small_cp_volume ''pending'' 1)"
    by (simp_all add: unbound_kube_def small_kube_def small_plugin_def)
  have "CPv1_GetMSV ?p ord a uid = ret (Inr None)" for ord a uid
    unfolding p(2) by (simp add: CPv1_GetMSV_def check_def fun_eq_iff seq_Done [OF small_plugin_volume], simp add: small_cp_volume_def)
  then have "k8stest_GetMSV ?cl ?p (\<lambda>m. m) ''v1'' = seq (EnsureNodeAddressesAreSet ?cl) (\<lambda>_. ret (Inr None))"
    using p(1) by (simp add: k8stest_GetMSV_def ensured_def in_e2e_def zoom_def fun_eq_iff seq_apply split: outcome.split prod.split)
  then have "returning (k8stest_GetMSV ?cl ?p (\<lambda>m. m) ''v1'')" and "yields (\<lambda>r. \<exists>x. r = Inr x) (k8stest_GetMSV ?cl ?p (\<lambda>m. m) ''v1'')"
    unfolding EnsureNodeAddressesAreSet_def k8stest_GetNodeLocs_def Let_def by (auto intro!: ends posts)
  moreover let ?pvc = "small_pvc\<lparr>pvc_Phase := ClaimPending\<rparr>"
  have "PvcCreate ?cl ns o' w = (Inr (), w)" "PvcGet ?cl ns n w = (Inr ?pvc, w)" "PvGet ?cl n w = (Inr VolumeBound, w)"
    "ScGet ?cl n w = (Inr (sb_sc NewScBuilder\<lparr>sc_VolumeBindingMode := Some VolumeBindingImmediate\<rparr>), w)"
    "pvc_UID ?pvc = ''v1''" for ns o' n w
    by (simp_all add: unbound_kube_def small_kube_def small_cluster_def small_pvc_def)
  ultimately show ?thesis
    using MkPVC_accepts_unbound [OF p(1), of "''default''" "''vol''" ?pvc "''sc''"
        "sb_sc NewScBuilder\<lparr>sc_VolumeBindingMode := Some VolumeBindingImmediate\<rparr>" VolumeBound "\<lambda>m. m" False 64 VolRawBlock start_e2e]
    by simp
qed


lemma returning_plugin [ends]: "returning (plugin_output p b args)" "returning (plugin_get p b args decode)"
  unfolding plugin_get_def plugin_output_def by (intro ends)+

lemma returning_ensured [ends]:
  "MayastorVersion p = ''1.0.0'' \<Longrightarrow> (\<And>a. returning (m a)) \<Longrightarrow> returning (ensured cl p m)"
  unfolding ensured_def EnsureNodeAddressesAreSet_def k8stest_GetNodeLocs_def Let_def
  by (simp, intro ends)

lemma returning_IsMsvDeleted [ends]: "MayastorVersion p = ''1.0.0'' \<Longrightarrow> returning (k8stest_IsMsvDeleted cl p uid)"
  unfolding k8stest_IsMsvDeleted_def CPv1_IsMsvDeleted_def IsMayastorVolumeDeleted_def GetMayastorCpVolume_def
  by (intro ends)

lemma returning_deleted [ends]: "returning (IsPVCDeleted k name ns)" "returning (IsPVDeleted k name)"
  unfolding IsPVCDeleted_def IsPVDeleted_def by (intro ends)+

lemma returning_RmPVC: "MayastorVersion (plugin k) = ''1.0.0'' \<Longrightarrow> returning (RmPVC k name sc ns)"
  unfolding RmPVC_def Let_def by (intro ends)

text \<open>
  Property C28. \<^verbatim>\<open>RmPVC\<close> always returns, and without an error only when it has seen the claim gone,
  the volume of the claim gone if the claim had one, and the mayastor volume gone.
\<close>

theorem RmPVC_removes:
  assumes "MayastorVersion (plugin k) = ''1.0.0''"
  shows "\<exists>r s'. RmPVC k name sc ns s = (Done r, s') \<and>
    (r = Inr () \<longrightarrow> (\<exists>pvc w0 w1 w2 s3. PvcGet (cluster k) ns name w0 = (Inr pvc, w1) \<and>
       fst (IsPVCDeleted k name ns w2) = Done (True, None) \<and>
       (pvc_VolumeName pvc \<noteq> '''' \<longrightarrow> (\<exists>w. fst (IsPVDeleted k (pvc_VolumeName pvc) w) = Done (True, None))) \<and>
       fst (k8stest_IsMsvDeleted (cluster k) (plugin k) (pvc_UID pvc) s3) = Done True))"
proof -
  obtain r s' where run: "RmPVC k name sc ns s = (Done r, s')"
    using returning_RmPVC [OF assms] by (rule returningE)
  have world: "\<exists>w. fst (m w) = Done (True, None)" if "deleting k (in_e2e m) t = (Done (True, None), t')" for m t t'
    using deleting_seen [OF that] by (auto elim!: in_e2e_DoneE) (metis fst_conv)
  have msv: "\<exists>t. fst (k8stest_IsMsvDeleted (cluster k) (plugin k) uid t) = Done True"
    if "deleting k (seq (k8stest_IsMsvDeleted (cluster k) (plugin k) uid) (\<lambda>b. ret (b, None))) t = (Done (True, err), t')"
    for uid t err t'
    using deleting_seen [OF that] by (auto elim!: seq_DoneE) (metis fst_conv)
  from run have "r = Inr () \<longrightarrow> (\<exists>pvc w0 w1 w2 s3. PvcGet (cluster k) ns name w0 = (Inr pvc, w1) \<and>
       fst (IsPVCDeleted k name ns w2) = Done (True, None) \<and>
       (pvc_VolumeName pvc \<noteq> '''' \<longrightarrow> (\<exists>w. fst (IsPVDeleted k (pvc_VolumeName pvc) w) = Done (True, None))) \<and>
       fst (k8stest_IsMsvDeleted (cluster k) (plugin k) (pvc_UID pvc) s3) = Done True)"
    unfolding RmPVC_def Let_def
    by (auto elim!: check_DoneE seq_DoneE in_e2e_DoneE dest!: world msv simp: call_def split: option.splits if_splits prod.splits)
       blast+
  with run show ?thesis by blast
qed

lemma deleting_at_once: "m s = (Done (True, err), s') \<Longrightarrow> deleting k m s = (Done (True, err), s')"
  by (simp add: deleting_def upt_conv_Cons [of 0] after_def seq_apply)

theorem RmPVC_removes_witness:
  "\<exists>w2. fst (IsPVCDeleted deleting_kube ''vol'' ''default'' w2) = Done (True, None)"
proof -
  let ?k = deleting_kube and ?s = "start_e2e\<lparr>e2e_world := 1\<rparr>"
  have gets: "PvcGet (cluster ?k) ''default'' ''vol'' 0 = (Inr small_pvc, 0)" "PvcDelete (cluster ?k) ''default'' ''vol'' 0 = (Inr (), 1)"
    "pvc_VolumeName small_pvc = ''pvc-v1''" "pvc_UID small_pvc = ''v1''"
    by (simp_all add: deleting_kube_def small_kube_def small_pvc_def)
  have "IsPVCDeleted ?k ''vol'' ''default'' 1 = (Done (True, None), 1)" "IsPVDeleted ?k ''pvc-v1'' 1 = (Done (True, None), 1)"
    by code_simp+
  then have gone: "deleting ?k (in_e2e (IsPVCDeleted ?k ''vol'' ''default'')) ?s = (Done (True, None), ?s)"
    "deleting ?k (in_e2e (IsPVDeleted ?k ''pvc-v1'')) ?s = (Done (True, None), ?s)"
    by (intro deleting_at_once, simp add: in_e2e_apply)+
  have "fst (k8stest_IsMsvDeleted (cluster ?k) (plugin ?k) ''v1'' ?s) = Done True" by code_simp
  then obtain s' where "seq (k8stest_IsMsvDeleted (cluster ?k) (plugin ?k) ''v1'') (\<lambda>b. ret (b, None :: error option)) ?s
      = (Done (True, None), s')"
    by (cases "k8stest_IsMsvDeleted (cluster ?k) (plugin ?k) ''v1'' ?s") (simp add: seq_apply)
  then have "deleting ?k (seq (k8stest_IsMsvDeleted (cluster ?k) (plugin ?k) ''v1'') (\<lambda>b. ret (b, None))) ?s = (Done (True, None), s')"
    by (rule deleting_at_once)
  then have "fst (RmPVC ?k ''vol'' ''sc'' ''default'' start_e2e) = Done (Inr ())"
    using gets gone by (simp add: RmPVC_def Let_def check_def seq_apply in_e2e_apply call_apply)
  moreover have "MayastorVersion (plugin ?k) = ''1.0.0''"
    by (simp add: deleting_kube_def small_kube_def small_plugin_def)
  ultimately show ?thesis
    using RmPVC_removes [of ?k "''vol''" "''sc''" "''default''" start_e2e] by auto
qed


text \<open>
  \<^verbatim>\<open>ChecksumReplica\<close> gives no checksum when the list of devices can be decoded: it goes on only
  with a list that was decoded with an error.
\<close>

theorem checksum_needs_decoding_error:
  assumes "\<And>t. snd (JsonDevices k t) = None"
  shows "ChecksumReplica k initiatorIP targetIP uri maxRetries w \<noteq> (Done (Inr c), w')"
proof
  assume run: "ChecksumReplica k initiatorIP targetIP uri maxRetries w = (Done (Inr c), w')"
  have round: "case c of Continue v' \<Rightarrow> v' = None | Break v' \<Rightarrow> v' = None | Return r \<Rightarrow> True"
    if "v = None" "device_round k initiatorIP i v w1 = (Done c, w2)" for i v c w1 w2
    using that by (auto simp: device_round_def case_prod_beta assms elim!: seq_DoneE split: sum.splits if_splits)
  have "v' = None" if "for_in xs None (device_round k initiatorIP) w1 = (Done (Inr v'), w2)" for xs v' w1 w2
    using for_in_variable [where P = "\<lambda>v. v = None" and Q = "\<lambda>_. True", OF round _ that] by simp
  moreover have "\<exists>e. r = Inl e" if "for_in xs v (device_round k initiatorIP) w1 = (Done (Inl r), w2)" for xs v r w1 w2
    using for_in_Return [OF that]
    by (auto simp: device_round_def case_prod_beta assms elim!: seq_DoneE split: sum.splits if_splits)
  ultimately show False
    using run unfolding ChecksumReplica_def after_def
    by (fastforce elim!: seq_DoneE check_DoneE split: if_splits sum.splits option.splits)
qed

theorem checksum_needs_decoding_error_witness:
  "\<forall>c w'. ChecksumReplica nexus_kube ''10.0.0.1'' ''10.0.0.2'' ''nvmf://10.0.0.2/nqn.x?uuid=r'' 3 0 \<noteq> (Done (Inr c), w')"
  by (intro allI, rule checksum_needs_decoding_error) (simp add: nexus_kube_def small_kube_def)


text \<open>
  Property C29. \<^verbatim>\<open>ExcludeNexusReplica\<close> reports that it did nothing only for a nexus of that uuid without a local
  child, and that it succeeded only when there was exactly one, and after it has seen the
  volume without that replica and has seen it online.
\<close>

theorem ExcludeNexusReplica_sound:
  assumes "ExcludeNexusReplica k ord canConnect nexusIP nexusUuid volUuid s = (Done (changed, None), s')"
  shows "\<exists>nx nexuses t. fst (mayastorclient_ListNexuses (grpc k) [nexusIP] t) = Done (nexuses, None) \<and> nx \<in> set nexuses \<and>
    mn_Uuid nx = nexusUuid \<and>
    (if changed
     then \<exists>child t1 t2 rs. local_child nx = Inr (Some child) \<and>
       fst (k8stest_GetMsvReplicas (cluster k) (plugin k) ord volUuid t1) = Done (Inr rs) \<and> child \<notin> vr_Uri ` set rs \<and>
       fst (k8stest_GetMsvState (cluster k) (plugin k) volUuid t2) = Done (Inr ''Online'')
     else local_child nx = Inr None)"
proof -
  have gone: "\<exists>rs t1. fst (k8stest_GetMsvReplicas (cluster k) (plugin k) ord volUuid t1) = Done (Inr rs) \<and> child \<notin> vr_Uri ` set rs"
    if "for_in [0 ..< 23] False (replica_gone k ord volUuid child) t = (Done (Inr False), t')" for child t t'
    using for_in_last [OF that]
    by (auto simp: replica_gone_def elim!: seq_DoneE split: sum.splits if_splits) (metis fst_conv image_iff)
  have online: "\<exists>t2. fst (k8stest_GetMsvState (cluster k) (plugin k) volUuid t2) = Done (Inr ''Online'')"
    if "for_in [0 ..< 23] '''' (volume_healthy k volUuid) t = (Done (Inr ''Online''), t')" for t t'
    using for_in_last [OF that]
    by (auto simp: volume_healthy_def elim!: seq_DoneE split: sum.splits if_splits) (metis fst_conv)
  have failed: "\<exists>e. snd r = Some e" if "for_in xs v (replica_gone k ord volUuid child) t = (Done (Inl r), t')" for xs v child t r t'
    using for_in_Return [OF that] by (auto simp: replica_gone_def elim!: seq_DoneE split: sum.splits if_splits)
  have failed': "\<exists>e. snd r = Some e" if "for_in xs v (volume_healthy k volUuid) t = (Done (Inl r), t')" for xs v t r t'
    using for_in_Return [OF that] by (auto simp: volume_healthy_def elim!: seq_DoneE split: sum.splits if_splits)
  show ?thesis
    using assms unfolding ExcludeNexusReplica_def after_def
    by (auto elim!: seq_DoneE in_e2e_DoneE dest!: gone online failed failed' find_SomeD
        split: if_splits sum.splits option.splits prod.splits) (metis fst_conv)+
qed

theorem ExcludeNexusReplica_sound_witness:
  "\<exists>nx. mn_Uuid nx = ''nx1'' \<and> local_child nx = Inr None"
proof -
  have "fst (ExcludeNexusReplica nexus_kube (\<lambda>m. m) True ''10.0.0.1'' ''nx1'' ''v1'' start_e2e) = Done (False, None)" by code_simp
  then obtain s' where "ExcludeNexusReplica nexus_kube (\<lambda>m. m) True ''10.0.0.1'' ''nx1'' ''v1'' start_e2e = (Done (False, None), s')"
    by (metis prod.collapse)
  from ExcludeNexusReplica_sound [OF this] show ?thesis by auto
qed

end
