(* ===== verification/E2E_Cleanup.thy ===== *)
theory E2E_Cleanup
  imports E2E_Volumes
begin

text \<open>
  \<^verbatim>\<open>src/src/common/k8stest/util_cleanup.go\<close> and \<^verbatim>\<open>util_node.go\<close>: removing what a test has left in
  the cluster, and the labels and taints of the nodes. \<open>sweep\<close> adds what these ask of Kubernetes and of
  the command \<^verbatim>\<open>kubectl\<close>.

  A \<^verbatim>\<open>List\<close> of the Kubernetes client that fails still returns a list, which is empty.
\<close>

record 'w sweep =
  base :: "'w kube"
  DeploymentNames :: "string \<Rightarrow> 'w \<Rightarrow> string list result \<times> 'w"
  DeploymentDelete :: "string \<Rightarrow> string \<Rightarrow> 'w \<Rightarrow> unit result \<times> 'w"
  PvUpdate :: "pv_item \<Rightarrow> 'w \<Rightarrow> unit result \<times> 'w"
  PvDelete :: "string \<Rightarrow> 'w \<Rightarrow> unit result \<times> 'w"
  NamespaceGet :: "string \<Rightarrow> 'w \<Rightarrow> unit result \<times> 'w"
  NamespaceDelete :: "string \<Rightarrow> 'w \<Rightarrow> unit result \<times> 'w"
  Kubectl :: "string list \<Rightarrow> 'w \<Rightarrow> error option \<times> 'w"
  ProductNamespace :: string
  EngineLabel :: string
  EngineLabelValue :: string

abbreviation the_cluster :: "'w sweep \<Rightarrow> 'w cluster" where
  "the_cluster k \<equiv> cluster (base k)"

text \<open>\<^verbatim>\<open>ErrorAccumulator\<close> of \<^verbatim>\<open>common/types.go\<close>: the errors so far, and what they come to.\<close>

definition Accumulate :: "error option \<Rightarrow> error list \<Rightarrow> error list" where
  "Accumulate err errs = (case err of Some e \<Rightarrow> errs @ [e] | None \<Rightarrow> errs)"

definition GetError :: "error list \<Rightarrow> error option" where
  "GetError errs = fold (\<lambda>e err. case err of Some x \<Rightarrow> Some (Errorf (err_text x @ ''; '' @ err_text e)) | None \<Rightarrow> Some e) errs None"

section \<open>Deployments, pods, claims, volumes\<close>

text \<open>An error of a deletion is logged.\<close>

definition delete_each :: "('a \<Rightarrow> 'w \<Rightarrow> unit result \<times> 'w) \<Rightarrow> 'a list \<Rightarrow> ('w, unit) io" where
  "delete_each del xs = after (for_in xs () (\<lambda>x _. seq (call (del x)) (\<lambda>_. ret (Continue ())))) ret"

definition DeleteAllDeployments :: "'w sweep \<Rightarrow> string \<Rightarrow> ('w, int \<times> error option) io" where
  "DeleteAllDeployments k nameSpace =
     seq (call (DeploymentNames k nameSpace)) (\<lambda>r. case r of
       Inl err \<Rightarrow> ret (0, Some err)
     | Inr items \<Rightarrow> seq (delete_each (DeploymentDelete k nameSpace) items) (\<lambda>_. ret (int (length items), None)))"

definition DeleteAllPods :: "'w sweep \<Rightarrow> string \<Rightarrow> ('w, int \<times> error option) io" where
  "DeleteAllPods k nameSpace =
     seq (call (PodsList (pods (the_cluster k)) nameSpace)) (\<lambda>r. case r of
       Inl err \<Rightarrow> ret (0, Some err)
     | Inr items \<Rightarrow>
         seq (delete_each (PodsDelete (pods (the_cluster k)) nameSpace) (map pod_Name items)) (\<lambda>_. ret (int (length items), None)))"

text \<open>
  The waits of two minutes: the number of things that are left, as of the last round. A round whose list
  fails counts none.
\<close>

definition count_left :: "'w sweep \<Rightarrow> ('w, 'a list result) io \<Rightarrow> ('w, int) io" where
  "count_left k list =
     after (for_in [0 ..< 120] 0 (\<lambda>attempts num.
       seq list (\<lambda>r. case r of
         Inr items \<Rightarrow> if items = [] then ret (Break 0) else seq (sleeps (the_cluster k) 1) (\<lambda>_. ret (Continue (int (length items))))
       | Inl err \<Rightarrow> seq (sleeps (the_cluster k) 1) (\<lambda>_. ret (Continue 0)))))
     ret"

definition list_pvcs :: "'w sweep \<Rightarrow> string list \<Rightarrow> string \<Rightarrow> ('w, pvc_item list result) io" where
  "list_pvcs k scs nameSpace =
     check (call (PvcItems (base k) nameSpace)) (\<lambda>err. err) (\<lambda>items. seq (mayastor_pvcs scs items) (\<lambda>ps. ret (Inr ps)))"

definition delete_claims :: "'w sweep \<Rightarrow> string list \<Rightarrow> string \<Rightarrow> pvc_item list \<Rightarrow> ('w, unit) io" where
  "delete_claims k scs nameSpace items =
     after (for_in items () (\<lambda>pvc _.
       seq (deref (pi_StorageClassName pvc)) (\<lambda>sc.
       if sc \<notin> set scs then ret (Continue ())
       else seq (call (PvcDelete (the_cluster k) nameSpace (pi_Name pvc))) (\<lambda>_. ret (Continue ())))))
     ret"

definition DeleteAllPvcs :: "'w sweep \<Rightarrow> string \<Rightarrow> ('w, int \<times> error option) io" where
  "DeleteAllPvcs k nameSpace =
     seq (getMayastorScMap (base k)) (\<lambda>r. case r of
       Inl err \<Rightarrow> ret (-1, Some err)
     | Inr scs \<Rightarrow>
         seq (call (PvcItems (base k) nameSpace)) (\<lambda>r.
         seq (case r of
             Inl err \<Rightarrow> ret (Some err)
           | Inr items \<Rightarrow> seq (delete_claims k scs nameSpace items) (\<lambda>_. ret None)) (\<lambda>err.
         seq (count_left k (list_pvcs k scs nameSpace)) (\<lambda>numPvcs. ret (numPvcs, err)))))"

definition mayastor_pvs :: "string list \<Rightarrow> pv_item list \<Rightarrow> pv_item list" where
  "mayastor_pvs scs pvs = filter (\<lambda>pv. pv_StorageClassName pv \<in> set scs) pvs"

definition list_pvs :: "'w sweep \<Rightarrow> string list \<Rightarrow> ('w, pv_item list result) io" where
  "list_pvs k scs = check (call (PvItems (base k))) (\<lambda>err. err) (\<lambda>pvs. ret (Inr (mayastor_pvs scs pvs)))"

definition DeleteAllPvs :: "'w sweep \<Rightarrow> ('w, int \<times> error option) io" where
  "DeleteAllPvs k =
     seq (getMayastorScMap (base k)) (\<lambda>r. case r of
       Inl err \<Rightarrow> ret (-1, Some err)
     | Inr scs \<Rightarrow>
         seq (list_pvs k scs) (\<lambda>r.
         seq (case r of
             Inl err \<Rightarrow> ret ()
           | Inr pvs \<Rightarrow> delete_each (\<lambda>pv. PvUpdate k (pv\<lparr>pv_Finalizers := []\<rparr>)) (filter (\<lambda>pv. pv_Finalizers pv \<noteq> []) pvs)) (\<lambda>_.
         seq (count_left k (list_pvs k scs)) (\<lambda>_.
         seq (list_pvs k scs) (\<lambda>r.
         seq (case r of
             Inl err \<Rightarrow> ret (Some err)
           | Inr pvs \<Rightarrow> seq (delete_each (PvDelete k) (map pv_Name pvs)) (\<lambda>_. ret None)) (\<lambda>err.
         seq (count_left k (list_pvs k scs)) (\<lambda>numPvs. ret (numPvs, err))))))))"

text \<open>The rest of \<^verbatim>\<open>DeleteAllMsvs\<close> is not reached with any version.\<close>

definition DeleteAllMsvs :: "'w sweep \<Rightarrow> ('w, int \<times> error option) io" where
  "DeleteAllMsvs k =
     seq (control_plane (plugin (base k)) (ret MajorVersion)) (\<lambda>major.
     if major = 1 then ret (0, None)
     else ret (1, Some (Errorf (''unsupported control plane version '' @ Itoa major @ ''/n''))))"

section \<open>Pools\<close>

definition finalizer_round :: "'w sweep \<Rightarrow> string \<Rightarrow> nat \<Rightarrow> unit \<Rightarrow> ('w, (unit, bool \<times> error option) ctl) io" where
  "finalizer_round k poolName ix u =
     seq (GetMsPool (the_cluster k) poolName) (\<lambda>r. case r of
       Inl err \<Rightarrow> ret (Return (False, if IsNotFound err then None else Some err))
     | Inr msp \<Rightarrow>
         if (case msp_Finalizers msp of None \<Rightarrow> True | Some fs \<Rightarrow> fs = []) then ret (Return (False, None))
         else seq (UpdateMsPool (the_cluster k) (msp\<lparr>msp_Finalizers := Some []\<rparr>)) (\<lambda>r. case r of
           Inr _ \<Rightarrow> ret (Return (True, None))
         | Inl err \<Rightarrow>
             if IsConflict err then seq (sleeps (the_cluster k) 5) (\<lambda>_. ret (Continue ()))
             else ret (Return (False, if IsNotFound err then None else Some err))))"

definition deletePoolFinalizer :: "'w sweep \<Rightarrow> string \<Rightarrow> ('w, bool \<times> error option) io" where
  "deletePoolFinalizer k poolName =
     after (for_in [1, 6, 11, 16, 21, 26] () (finalizer_round k poolName))
     (\<lambda>_. ret (False, Some (Errorf ''failed to remove pool finalizer (conflict)'')))"

definition DeleteAllPoolFinalizers :: "'w sweep \<Rightarrow> ('w, bool \<times> error option) io" where
  "DeleteAllPoolFinalizers k =
     seq (ListMsPools (the_cluster k)) (\<lambda>r. case r of
       Inl err \<Rightarrow> ret (False, Some err)
     | Inr pools \<Rightarrow>
         after (for_in pools (False, []) (\<lambda>pool (deletedFinalizer, errs).
           seq (deletePoolFinalizer k (msp_Name pool)) (\<lambda>(deleted, err).
           ret (Continue (deletedFinalizer \<or> deleted, Accumulate err errs)))))
         (\<lambda>(deletedFinalizer, errs). ret (deletedFinalizer, GetError errs)))"

text \<open>The number of pools changes only in a round that can list them.\<close>

definition DeleteAllPools :: "'w sweep \<Rightarrow> ('w, bool) io" where
  "DeleteAllPools k =
     seq (ListMsPools (the_cluster k)) (\<lambda>r.
     seq (case r of
         Inl err \<Rightarrow> ret ()
       | Inr pools \<Rightarrow> after (for_in pools () (\<lambda>pool _.
           seq (DeleteMsPool (the_cluster k) (msp_Name pool)) (\<lambda>_. ret (Continue ())))) ret) (\<lambda>_.
     after (for_in [0 ..< 120] 0 (\<lambda>attempts numPools.
       seq (ListMsPools (the_cluster k)) (\<lambda>r.
       let numPools' = (case r of Inl err \<Rightarrow> numPools | Inr pools \<Rightarrow> length pools) in
       if numPools' = 0 then ret (Break numPools')
       else seq (sleeps (the_cluster k) 1) (\<lambda>_. ret (Continue numPools')))))
     (\<lambda>numPools. ret (numPools = 0))))"

section \<open>Pods of mayastor\<close>

definition MayastorUndeletedPodCount :: "'w sweep \<Rightarrow> ('w, int) io" where
  "MayastorUndeletedPodCount k =
     seq (call (NamespaceGet k (ProductNamespace k))) (\<lambda>r. case r of
       Inl err \<Rightarrow> ret (-1)
     | Inr _ \<Rightarrow> seq (call (PodsList (pods (the_cluster k)) (ProductNamespace k))) (\<lambda>r. case r of
         Inl err \<Rightarrow> ret (-1)
       | Inr items \<Rightarrow> ret (int (length items))))"

definition settle_round :: "'w sweep \<Rightarrow> nat \<Rightarrow> int \<times> error option \<Rightarrow> ('w, (int \<times> error option, bool \<times> int \<times> error option) ctl) io" where
  "settle_round k attempts st =
     (case st of (podCount, err) \<Rightarrow>
      seq (MayastorUndeletedPodCount k) (\<lambda>n.
      if n = 0 then ret (Break (podCount, err))
      else seq (call (PodsList (pods (the_cluster k)) (ProductNamespace k))) (\<lambda>r. case r of
        Inr items \<Rightarrow>
          if items = [] then ret (Break (0, None))
          else seq (sleeps (the_cluster k) 2) (\<lambda>_. ret (Continue (int (length items), None)))
      | Inl e \<Rightarrow> seq (sleeps (the_cluster k) 2) (\<lambda>_. ret (Continue (podCount, Some e))))))"

definition ForceDeleteMayastorPods :: "'w sweep \<Rightarrow> ('w, bool \<times> int \<times> error option) io" where
  "ForceDeleteMayastorPods k =
     seq (call (PodsList (pods (the_cluster k)) (ProductNamespace k))) (\<lambda>r. case r of
       Inl err \<Rightarrow> ret (False, 0, Some err)
     | Inr items \<Rightarrow>
         if items = [] then ret (False, 0, None)
         else after (for_in items False (\<lambda>pod podsDeleted.
             seq (call (Kubectl k [''-n'', ProductNamespace k, ''delete'', ''pod'', pod_Name pod, ''--grace-period'', ''0'', ''--force'']))
             (\<lambda>err. ret (Continue (podsDeleted \<or> err = None)))))
           (\<lambda>podsDeleted.
             after (for_in [0 ..< 60] (0, None) (settle_round k))
             (\<lambda>(podCount, err). ret (podsDeleted, podCount, err))))"

section \<open>Nodes\<close>

definition LabelNode :: "'w sweep \<Rightarrow> string \<Rightarrow> string \<Rightarrow> string \<Rightarrow> ('w, error option) io" where
  "LabelNode k nodename label val =
     (let labelAssign = label @ ''='' @ val in
      seq (call (Kubectl k [''label'', ''node'', nodename, labelAssign, ''--overwrite=true''])) (\<lambda>err. case err of
        Some e \<Rightarrow> ret (Some (wrapped (''failed to label node '' @ nodename @ '', label: '' @ labelAssign @ '', error: '') e))
      | None \<Rightarrow> ret None))"

definition UnlabelNode :: "'w sweep \<Rightarrow> string \<Rightarrow> string \<Rightarrow> ('w, error option) io" where
  "UnlabelNode k nodename label =
     seq (call (Kubectl k [''label'', ''node'', nodename, label @ ''-''])) (\<lambda>err. case err of
       Some e \<Rightarrow> ret (Some (wrapped (''failed to remove label from node '' @ nodename @ '', label: '' @ label @ '', error: '') e))
     | None \<Rightarrow> ret None)"

definition master_taint :: "'w sweep \<Rightarrow> string \<Rightarrow> string \<Rightarrow> ('w, error option) io" where
  "master_taint k taint what =
     seq (k8stest_GetNodeLocs (the_cluster k)) (\<lambda>r. case r of
       Inl err \<Rightarrow> ret (Some (wrapped ''failed to get nodes, error: '' err))
     | Inr nodes \<Rightarrow>
         let masterNode = (case find MasterNode nodes of Some n \<Rightarrow> NodeName n | None \<Rightarrow> '''') in
         seq (call (Kubectl k [''taint'', ''node'', masterNode, taint])) (\<lambda>err. case err of
           Some e \<Rightarrow> ret (Some (wrapped (''failed to '' @ what @ '' master node '' @ masterNode @ '', error: '') e))
         | None \<Rightarrow> ret None))"

definition AllowMasterScheduling :: "'w sweep \<Rightarrow> ('w, error option) io" where
  "AllowMasterScheduling k = master_taint k ''node-role.kubernetes.io/master:NoSchedule-'' ''remove  no schedule toleration from''"

definition RemoveMasterScheduling :: "'w sweep \<Rightarrow> ('w, error option) io" where
  "RemoveMasterScheduling k = master_taint k ''node-role.kubernetes.io/master:NoSchedule'' ''add  no schedule toleration to''"

definition EnsureNodeLabels :: "'w sweep \<Rightarrow> ('w, error option) io" where
  "EnsureNodeLabels k =
     seq (k8stest_GetNodeLocs (the_cluster k)) (\<lambda>r. case r of
       Inl err \<Rightarrow> ret (Some err)
     | Inr nodes \<Rightarrow>
         after (for_in (filter (\<lambda>n. \<not> MasterNode n) nodes) [] (\<lambda>node errs.
           seq (LabelNode k (NodeName node) (EngineLabel k) (EngineLabelValue k)) (\<lambda>err. ret (Continue (Accumulate err errs)))))
         (\<lambda>errs. ret (GetError errs)))"

section \<open>The big sweep\<close>

text \<open>What \<^verbatim>\<open>CleanUp\<close> does in one namespace: the errors and the number of claims that are left.\<close>

definition clean_namespace :: "'w sweep \<Rightarrow> string \<Rightarrow> error list \<times> int \<Rightarrow> ('w, (error list \<times> int, bool) ctl) io" where
  "clean_namespace k ns st =
     (case st of (errs, pvcCount) \<Rightarrow>
      seq (DeleteAllDeployments k ns) (\<lambda>(_, err1).
      seq (DeleteAllPods k ns) (\<lambda>(_, err2).
      seq (DeleteAllPvcs k ns) (\<lambda>(n, err3).
      ret (Continue (Accumulate err3 (Accumulate err2 (Accumulate err1 errs)), pvcCount + n))))))"

definition delete_storage_classes :: "'w sweep \<Rightarrow> error list \<Rightarrow> ('w, error list) io" where
  "delete_storage_classes k errs =
     seq (call (ScItems (base k))) (\<lambda>r. case r of
       Inl err \<Rightarrow> ret (errs @ [err])
     | Inr scs \<Rightarrow>
         seq (delete_each (ScDelete (the_cluster k)) (map si_Name (filter (\<lambda>sc. si_Provisioner sc = ''io.openebs.csi-mayastor'') scs)))
         (\<lambda>_. ret errs))"

definition delete_namespaces :: "'w sweep \<Rightarrow> string list \<Rightarrow> error list \<Rightarrow> ('w, error list) io" where
  "delete_namespaces k nameSpaces errs =
     after (for_in (filter (\<lambda>ns. HasPrefix ns ''e2e-maya'') nameSpaces) errs (\<lambda>ns errs.
       seq (call (NamespaceDelete k ns)) (\<lambda>r. ret (Continue (Accumulate (error_of r) errs)))))
     ret"

definition getClusterMayastorNodeIPAddrs :: "'w sweep \<Rightarrow> ('w, string list result) io" where
  "getClusterMayastorNodeIPAddrs k =
     check (k8stest_GetNodeLocs (the_cluster k)) (\<lambda>err. err) (\<lambda>nodes. ret (Inr (map IPAddress (filter MayastorNode nodes))))"

definition k8stest_RmReplicasInCluster :: "'w sweep \<Rightarrow> ('w, error option) io" where
  "k8stest_RmReplicasInCluster k =
     seq (getClusterMayastorNodeIPAddrs k) (\<lambda>r. case r of
       Inl err \<Rightarrow> ret (Some err)
     | Inr nodeAddrs \<Rightarrow> mayastorclient_RmNodeReplicas (grpc (base k)) nodeAddrs)"

definition CleanUp :: "'w sweep \<Rightarrow> bool \<Rightarrow> ('w, bool) io" where
  "CleanUp k canConnect =
     seq (call (NamespaceList (base k))) (\<lambda>r.
     let nameSpaces = (case r of Inl err \<Rightarrow> [] | Inr ns \<Rightarrow> ns) in
     after (for_in (filter of_tests nameSpaces) (Accumulate (error_of r) [], 0) (clean_namespace k)) (\<lambda>(errs, pvcCount).
     seq (sleeps (the_cluster k) (nat (2 * pvcCount * 60))) (\<lambda>_.
     seq (DeleteAllPvs k) (\<lambda>(pvCount, err).
     let errs = Accumulate err errs in
     seq (DeleteAllMsvs k) (\<lambda>(msvCount, err).
     let errs = Accumulate err errs in
     seq (DeleteAllPoolFinalizers k) (\<lambda>(poolFinalizerDeleted, delPoolFinalizeErr).
     seq (delete_storage_classes k errs) (\<lambda>errs.
     seq (delete_namespaces k nameSpaces errs) (\<lambda>errs.
     seq (EnsureNodeLabels k) (\<lambda>err.
     let errs = Accumulate err errs in
     seq (if canConnect then seq (k8stest_RmReplicasInCluster k) (\<lambda>_. ret ()) else ret ()) (\<lambda>_.
     ret (errs = [])))))))))))"


section \<open>What the sweep reports\<close>

lemma returning_sweep [ends]:
  "returning (delete_each del xs)" "returning (list_pvs k scs)" "returning (getMayastorScMap kb)" "returning (DeleteAllDeployments k ns)"
  "returning (DeleteAllPods k ns)" "returning (deletePoolFinalizer k pool)" "returning (LabelNode k n l v)"
  unfolding delete_each_def list_pvs_def getMayastorScMap_def DeleteAllDeployments_def DeleteAllPods_def deletePoolFinalizer_def
    finalizer_round_def GetMsPool_def UpdateMsPool_def LabelNode_def Let_def
  by (intro ends returning_sleeps)+

lemma returning_count_left [ends]: "returning list \<Longrightarrow> returning (count_left k list)"
  unfolding count_left_def by (intro ends returning_sleeps)

lemma returning_DeleteAllPvs [ends]: "returning (DeleteAllPvs k)"
  unfolding DeleteAllPvs_def by (intro ends)

lemma returning_pool_sweep [ends]: "returning (DeleteAllPoolFinalizers k)" "returning (DeleteAllPools k)"
  unfolding DeleteAllPoolFinalizers_def DeleteAllPools_def ListMsPools_def DeleteMsPool_def Let_def
  by (intro ends returning_sleeps allI | simp)+

lemma returning_nodes_sweep [ends]:
  "returning (EnsureNodeLabels k)" "returning (delete_storage_classes k errs)" "returning (delete_namespaces k nss errs)"
  "returning (k8stest_RmReplicasInCluster k)"
  unfolding EnsureNodeLabels_def delete_storage_classes_def delete_namespaces_def k8stest_RmReplicasInCluster_def
    getClusterMayastorNodeIPAddrs_def k8stest_GetNodeLocs_def Let_def
  by (intro ends)+

definition classed :: "pvc_item list \<Rightarrow> bool" where
  "classed items \<longleftrightarrow> list_all (\<lambda>p. pi_StorageClassName p \<noteq> None) items"

lemma returning_classed: "classed items \<Longrightarrow> (\<And>sc p v. returning (f p sc v)) \<Longrightarrow>
    returning (for_in items v (\<lambda>p v. seq (deref (pi_StorageClassName p)) (\<lambda>sc. f p sc v)))"
  by (induction items arbitrary: v) (auto simp: classed_def intro!: ends split: ctl.split)

lemma returning_claims:
  "classed items \<Longrightarrow> returning (mayastor_pvcs scs items)" "classed items \<Longrightarrow> returning (delete_claims k scs ns items)"
  unfolding mayastor_pvcs_def delete_claims_def by (intro returning_after returning_classed ends; assumption)+

lemma returning_DeleteAllPvcs:
  assumes "\<And>w items w'. PvcItems (base k) ns w = (Inr items, w') \<Longrightarrow> classed items"
  shows "returning (DeleteAllPvcs k ns)"
proof -
  have items: "classed x" if "call (PvcItems (base k) ns) w = (Done (Inr x), w')" for w x w'
    using that assms by (auto simp: call_def split: prod.splits)
  have "returning (list_pvcs k scs ns)" for scs
    unfolding list_pvcs_def
    by (intro returning_check_post [OF returning_call] returning_seq returning_claims returning_ret) (rule items)
  moreover have "returning (case r of Inl err \<Rightarrow> ret (Some err) | Inr x \<Rightarrow> seq (delete_claims k scs ns x) (\<lambda>_. ret None))"
    if "call (PvcItems (base k) ns) w = (Done r, w')" for r w w' scs
    using that items by (cases r) (auto intro!: returning_seq returning_claims returning_ret)
  ultimately show ?thesis
    unfolding DeleteAllPvcs_def
    by (intro returning_seq [OF returning_sweep(3)] returning_sum_case returning_ret returning_seq_post [OF returning_call])
       (auto intro!: returning_seq returning_count_left returning_ret)
qed

lemma Accumulate_Nil: "Accumulate err errs = [] \<longleftrightarrow> err = None \<and> errs = []"
  by (simp add: Accumulate_def split: option.split)

lemma Accumulate_None [simp]: "Accumulate None errs = errs"
  by (simp add: Accumulate_def)

lemma yields_pair: "(\<And>x y. r = (x, y) \<Longrightarrow> yields Q (f x y)) \<Longrightarrow> yields Q (case r of (x, y) \<Rightarrow> f x y)"
  by (cases r) auto

lemma GetError_Nil [simp]: "GetError [] = None"
  by (simp add: GetError_def)

text \<open>Listings that never fail.\<close>

definition answers :: "('w \<Rightarrow> 'a result \<times> 'w) \<Rightarrow> bool" where
  "answers f \<longleftrightarrow> (\<forall>w. \<exists>x w'. f w = (Inr x, w'))"

lemma yields_answers: "answers f \<Longrightarrow> yields (\<lambda>r. \<exists>x. r = Inr x) (call f)"
  by (auto simp: yields_def answers_def call_def split: prod.splits) (metis Pair_inject)

abbreviation no_error :: "int \<times> error option \<Rightarrow> bool" where
  "no_error r \<equiv> snd r = None"

definition lists_answer :: "'w sweep \<Rightarrow> bool" where
  "lists_answer k \<longleftrightarrow> answers (NamespaceList (base k)) \<and> answers (ScItems (base k)) \<and> answers (PvItems (base k)) \<and>
     (\<forall>ns. answers (PvcItems (base k) ns) \<and> answers (DeploymentNames k ns) \<and> answers (PodsList (pods (the_cluster k)) ns)) \<and>
     (\<forall>ns w items w'. PvcItems (base k) ns w = (Inr items, w') \<longrightarrow> classed items)"

lemma listed:
  assumes "lists_answer k"
  shows "yields (\<lambda>r. \<exists>x. r = Inr x) (getMayastorScMap (base k))" "yields (\<lambda>r. \<exists>x. r = Inr x) (list_pvs k scs)"
    "yields (\<lambda>r. \<exists>x. r = Inr x) (call (ScItems (base k)))" "yields (\<lambda>r. \<exists>x. r = Inr x) (call (PvcItems (base k) ns))"
    "yields (\<lambda>r. \<exists>x. r = Inr x) (call (DeploymentNames k ns))"
    "yields (\<lambda>r. \<exists>x. r = Inr x) (call (PodsList (pods (the_cluster k)) ns))"
    "yields (\<lambda>r. \<exists>x. r = Inr x) (call (NamespaceList (base k)))"
proof -
  show sc: "yields (\<lambda>r. \<exists>x. r = Inr x) (call (ScItems (base k)))"
    using assms by (intro yields_answers) (simp add: lists_answer_def)
  show "yields (\<lambda>r. \<exists>x. r = Inr x) (getMayastorScMap (base k))"
    unfolding getMayastorScMap_def check_def by (rule yields_seq_post [OF sc]) (auto intro!: yields_ret)
  have "yields (\<lambda>r. \<exists>x. r = Inr x) (call (PvItems (base k)))"
    using assms by (intro yields_answers) (simp add: lists_answer_def)
  then show "yields (\<lambda>r. \<exists>x. r = Inr x) (list_pvs k scs)"
    unfolding list_pvs_def check_def by (rule yields_seq_post) (auto intro!: yields_ret)
qed (use assms in \<open>auto simp: lists_answer_def intro!: yields_answers\<close>)

lemma sweep_no_error:
  assumes "lists_answer k"
  shows "yields no_error (DeleteAllDeployments k ns)" "yields no_error (DeleteAllPods k ns)" "yields no_error (DeleteAllPvcs k ns)"
    "yields no_error (DeleteAllPvs k)" "yields (\<lambda>es. es = []) (delete_storage_classes k [])"
proof -
  note list = listed [OF assms, THEN yields_seq_post]
  show "yields no_error (DeleteAllDeployments k ns)" "yields no_error (DeleteAllPods k ns)"
    "yields (\<lambda>es. es = []) (delete_storage_classes k [])"
    unfolding DeleteAllDeployments_def DeleteAllPods_def delete_storage_classes_def
    by (rule list, elim exE, simp, intro posts, simp)+
  have none: "yields (\<lambda>e. e = None) (seq m (\<lambda>_. ret None))" for m :: "('b, unit) io" by (intro posts) simp
  show "yields no_error (DeleteAllPvcs k ns)"
    unfolding DeleteAllPvcs_def
    by (rule list, elim exE, simp, rule list, elim exE, simp, rule yields_seq_post [OF none]) (intro posts, simp)
  show "yields no_error (DeleteAllPvs k)"
    unfolding DeleteAllPvs_def
    by (rule list, elim exE, simp, rule list, elim exE, simp, rule yields_seq, rule yields_seq, rule list, elim exE, simp,
        rule yields_seq_post [OF none]) (intro posts, simp)
qed

text \<open>What else the report of \<^verbatim>\<open>CleanUp\<close> rests on: the namespaces can be removed and the nodes labelled.\<close>

definition nodes_answer :: "'w sweep \<Rightarrow> bool" where
  "nodes_answer k \<longleftrightarrow> (\<forall>ns. answers (NamespaceDelete k ns)) \<and> (\<forall>args w. fst (Kubectl k args w) = None) \<and>
     yields (\<lambda>r. \<exists>x. r = Inr x) (k8stest_GetNodeLocs (the_cluster k))"

lemma namespaces_no_error:
  assumes "\<And>ns. answers (NamespaceDelete k ns)"
  shows "yields (\<lambda>es. es = []) (delete_namespaces k nss [])"
  unfolding delete_namespaces_def
proof (rule yields_after [where P = "\<lambda>es. es = []"], rule yields_for_in)
  show "yields (\<lambda>c. case c of Continue v \<Rightarrow> v = [] | Break v \<Rightarrow> v = [] | Return es \<Rightarrow> es = [])
      (seq (call (NamespaceDelete k ns)) (\<lambda>r. ret (Continue (Accumulate (error_of r) errs))))" if "errs = []" for ns errs
    using that by (intro yields_seq_post [OF yields_answers [OF assms]] yields_ret) (auto simp: Accumulate_def error_of_def)
qed (auto intro: yields_ret)

lemma labels_no_error:
  assumes "\<And>args w. fst (Kubectl k args w) = None" and "yields (\<lambda>r. \<exists>x. r = Inr x) (k8stest_GetNodeLocs (the_cluster k))"
  shows "yields (\<lambda>e. e = None) (EnsureNodeLabels k)"
proof -
  have "yields (\<lambda>e. e = None) (LabelNode k n l v)" for n l v
    unfolding LabelNode_def Let_def
    by (rule yields_seq_post [where P = "\<lambda>e. e = None"]) (auto simp: yields_def call_apply assms(1))
  then have "yields (\<lambda>c. case c of Continue v \<Rightarrow> v = [] | Break v \<Rightarrow> v = [] | Return e \<Rightarrow> e = None)
      (seq (LabelNode k n l v) (\<lambda>err. ret (Continue (Accumulate err errs))))" if "errs = []" for n l v errs
    using that by (intro yields_seq_post [where P = "\<lambda>e. e = None"] yields_ret) (auto simp: Accumulate_def)
  then show ?thesis
    unfolding EnsureNodeLabels_def
    by (intro yields_seq_post [OF assms(2)], elim exE)
       (auto intro!: yields_after [where P = "\<lambda>es. es = []"] yields_for_in yields_ret)
qed

lemma clean_namespace_no_error:
  assumes "lists_answer k" and "fst st = []"
  shows "yields (\<lambda>c. case c of Continue st \<Rightarrow> fst st = [] | Break st \<Rightarrow> fst st = [] | Return r \<Rightarrow> r) (clean_namespace k ns st)"
  unfolding clean_namespace_def using assms(2)
  by (cases st) (auto intro!: sweep_no_error(1-3) [OF assms(1), THEN yields_seq_post] yields_ret simp: Accumulate_def)

lemma DeleteAllMsvs_1: "MayastorVersion (plugin (base k)) = ''1.0.0'' \<Longrightarrow> DeleteAllMsvs k = ret (0, None)"
  by (simp add: DeleteAllMsvs_def MajorVersion_def ret_def fun_eq_iff)

lemma returning_CleanUp:
  assumes "lists_answer k" and "MayastorVersion (plugin (base k)) = ''1.0.0''"
  shows "returning (CleanUp k canConnect)"
proof -
  have "returning (DeleteAllPvcs k ns)" for ns
    using assms(1) unfolding lists_answer_def by (intro returning_DeleteAllPvcs) blast
  then show ?thesis
    unfolding CleanUp_def Let_def clean_namespace_def DeleteAllMsvs_1 [OF assms(2)] by (intro ends returning_sleeps | assumption)+
qed


section \<open>Properties\<close>

text \<open>
  \<^verbatim>\<open>CleanUp\<close> reports success whenever the lists of resources can be read, the nodes labelled and the
  namespaces of the tests removed, whatever comes of the deletion of the deployments, pods, claims, volumes and
  storage classes and of the finalizers of the pools, and however many of them are left.
\<close>

theorem CleanUp_blind_to_leftovers:
  assumes "lists_answer k" and "nodes_answer k" and "MayastorVersion (plugin (base k)) = ''1.0.0''"
  shows "\<exists>w'. CleanUp k canConnect w = (Done True, w')"
proof -
  note list = listed [OF assms(1)] and sweep = sweep_no_error [OF assms(1)]
  have msvs: "yields no_error (DeleteAllMsvs k)"
    by (simp add: DeleteAllMsvs_1 assms(3) yields_ret)
  have nss: "yields (\<lambda>es. es = []) (delete_namespaces k ns [])" for ns
    using assms(2) by (intro namespaces_no_error) (simp add: nodes_answer_def)
  have labels: "yields (\<lambda>e. e = None) (EnsureNodeLabels k)"
    using assms(2) by (intro labels_no_error) (simp_all add: nodes_answer_def)
  have "yields (\<lambda>b. b) (CleanUp k canConnect)"
    unfolding CleanUp_def Let_def
    apply (rule yields_seq_post [OF list(7)], elim exE)
    apply (rule yields_after [where P = "\<lambda>st. fst st = []"], rule yields_for_in)
      apply (rule clean_namespace_no_error [OF assms(1)], assumption)
     apply (simp add: error_of_def Accumulate_def)
    apply (rule yields_pair, rule yields_seq, rule yields_seq_post [OF sweep(4)], rule yields_pair)
    apply (rule yields_seq_post [OF msvs], rule yields_pair, rule yields_seq, rule yields_pair)
    apply (simp only: prod.sel fst_conv snd_conv Accumulate_None)
    apply (rule yields_seq_post [OF sweep(5)], simp only:)
    apply (rule yields_seq_post [OF nss], simp only:)
    apply (rule yields_seq_post [OF labels], simp only: Accumulate_None)
    apply (intro yields_seq yields_ret refl)
    done
  moreover obtain r w' where "CleanUp k canConnect w = (Done r, w')"
    using returning_CleanUp [OF assms(1,3)] by (rule returningE)
  ultimately show ?thesis by (auto dest: yieldsD)
qed

text \<open>A cluster that never lets go of its one claim.\<close>

definition stuck_sweep :: "nat sweep" where
  "stuck_sweep = \<lparr>base = (small_kube (small_cluster ''online'' ''Online'' ''''\<lparr>PvcDelete := \<lambda>ns n w. (Inl (Error ''forbidden''), w)\<rparr>)
       (small_plugin (small_cp_volume ''Online'' 1)) (small_grpc 1 (\<lambda>_. None)))
       \<lparr>PvcItems := \<lambda>ns w. (Inr [\<lparr>pi_Name = ''vol'', pi_StorageClassName = Some ''sc''\<rparr>], w)\<rparr>,
     DeploymentNames = \<lambda>ns w. (Inr [], w), DeploymentDelete = \<lambda>ns n w. (Inr (), w), PvUpdate = \<lambda>pv w. (Inr (), w),
     PvDelete = \<lambda>n w. (Inr (), w), NamespaceGet = \<lambda>n w. (Inr (), w), NamespaceDelete = \<lambda>n w. (Inr (), w),
     Kubectl = \<lambda>args w. (None, w), ProductNamespace = ''mayastor'', EngineLabel = ''openebs.io/engine'', EngineLabelValue = ''mayastor''\<rparr>"

theorem CleanUp_blind_to_leftovers_witness:
  "\<exists>w'. CleanUp stuck_sweep False 0 = (Done True, w')"
proof (rule CleanUp_blind_to_leftovers)
  show "lists_answer stuck_sweep"
    by (simp add: lists_answer_def answers_def classed_def stuck_sweep_def small_kube_def small_cluster_def)
  show "nodes_answer stuck_sweep"
    by (simp add: nodes_answer_def answers_def stuck_sweep_def small_kube_def small_cluster_def k8stest_GetNodeLocs_def
        check_def yields_def seq_apply call_apply small_node_def node_loc_def last_address_def)
  show "MayastorVersion (plugin (base stuck_sweep)) = ''1.0.0''"
    by (simp add: stuck_sweep_def small_kube_def small_plugin_def)
qed

text \<open>
  \<^verbatim>\<open>DeleteAllPools\<close> reports that no pool is left when it cannot list the pools, without a
  request to delete any.
\<close>

theorem DeleteAllPools_blind:
  assumes "\<And>w. MspList (the_cluster k) w = (Inl (failure w), w)"
  shows "DeleteAllPools k w = (Done True, w)"
  by (simp add: DeleteAllPools_def ListMsPools_def upt_conv_Cons [of 0] after_def seq_apply call_apply assms Let_def)

theorem DeleteAllPools_blind_witness:
  "DeleteAllPools (stuck_sweep\<lparr>base := base stuck_sweep\<lparr>cluster := the_cluster stuck_sweep\<lparr>MspList := \<lambda>w. (Inl (Error ''no CRD''), w)\<rparr>\<rparr>\<rparr>) 0
     = (Done True, 0)"
  by (rule DeleteAllPools_blind [where failure = "\<lambda>_. Error ''no CRD''"]) simp

text \<open>
  \<^verbatim>\<open>deletePoolFinalizer\<close> returns; it reports a removal only after an update of the pool to one without
  finalizers was accepted, and no removal and no error only after it found the pool gone or without finalizers.
\<close>

theorem deletePoolFinalizer_sound:
  "\<exists>deleted err w'. deletePoolFinalizer k pool w = (Done (deleted, err), w') \<and>
     (deleted \<longrightarrow> err = None \<and> (\<exists>msp msp' w0 w1 w2. MspGet (the_cluster k) pool w0 = (Inr msp, w1) \<and>
       MspUpdate (the_cluster k) (msp\<lparr>msp_Finalizers := Some []\<rparr>) w1 = (Inr msp', w2))) \<and>
     (\<not> deleted \<and> err = None \<longrightarrow> (\<exists>r w0 w1. MspGet (the_cluster k) pool w0 = (r, w1) \<and>
       (case r of Inl e \<Rightarrow> IsNotFound e
        | Inr msp \<Rightarrow> msp_Finalizers msp = None \<or> msp_Finalizers msp = Some [] \<or>
            (\<exists>e w2. MspUpdate (the_cluster k) (msp\<lparr>msp_Finalizers := Some []\<rparr>) w1 = (Inl e, w2) \<and> IsNotFound e))))"
proof -
  obtain r w' where run: "deletePoolFinalizer k pool w = (Done r, w')"
    using returning_sweep(6) by (rule returningE)
  obtain deleted err where r: "r = (deleted, err)" by (cases r)
  show ?thesis
    using run [unfolded deletePoolFinalizer_def]
  proof (cases rule: after_for_inE)
    case (returned ix u w0)
    from returned(2) [unfolded r finalizer_round_def GetMsPool_def UpdateMsPool_def] show ?thesis
      unfolding run r
      by (auto elim!: seq_DoneE simp: call_def split: sum.splits option.splits if_splits prod.splits) (fastforce | blast)+
  next
    case (went_on v w1)
    with run r show ?thesis by auto
  qed
qed

theorem deletePoolFinalizer_sound_witness:
  "\<exists>r w0 w1. MspGet (the_cluster stuck_sweep) ''node1-pool'' w0 = (r, w1) \<and>
     (case r of Inl e \<Rightarrow> IsNotFound e
      | Inr msp \<Rightarrow> msp_Finalizers msp = None \<or> msp_Finalizers msp = Some [] \<or>
          (\<exists>e w2. MspUpdate (the_cluster stuck_sweep) (msp\<lparr>msp_Finalizers := Some []\<rparr>) w1 = (Inl e, w2) \<and> IsNotFound e))"
proof -
  have "deletePoolFinalizer stuck_sweep ''node1-pool'' 0 = (Done (False, None), 0)" by code_simp
  then show ?thesis
    using deletePoolFinalizer_sound [of stuck_sweep "''node1-pool''" 0] by clarsimp
qed

end
