(* ===== verification/E2E_Cluster.thy ===== *)
theory E2E_Cluster
  imports E2E_Cleanup
begin

text \<open>
  \<^verbatim>\<open>src/src/common/k8stest/util.go\<close>: replication of applications, pods on nodes, readiness of
  mayastor and of the control plane, pools of the configuration. \<open>fleet\<close> adds what these ask of
  Kubernetes, of the package \<^verbatim>\<open>regexp\<close> (\<open>Compile\<close> gives nothing for a pattern that does not
  compile) and of the configuration.
\<close>

record deployment =
  dp_Name :: string
  dp_Replicas :: "int option"
  dp_NodeSelector :: "(string, string) gomap option"
  dp_Conditions :: "(string \<times> string) list"

record daemon_set =
  ds_Name :: string
  ds_DesiredNumberScheduled :: int
  ds_CurrentNumberScheduled :: int
  ds_NumberReady :: int
  ds_NumberAvailable :: int

record stateful_set =
  ss_Name :: string
  ss_SpecReplicas :: "int option"
  ss_Replicas :: int
  ss_ReadyReplicas :: int
  ss_CurrentReplicas :: int

record 'w fleet =
  swept :: "'w sweep"
  Compile :: "string \<Rightarrow> (string \<Rightarrow> bool) option"
  DeploymentGet :: "string \<Rightarrow> string \<Rightarrow> 'w \<Rightarrow> deployment result \<times> 'w"
  DeploymentUpdate :: "string \<Rightarrow> deployment \<Rightarrow> 'w \<Rightarrow> unit result \<times> 'w"
  DeploymentItems :: "string \<Rightarrow> string \<Rightarrow> 'w \<Rightarrow> deployment list result \<times> 'w"
  StsGet :: "string \<Rightarrow> string \<Rightarrow> 'w \<Rightarrow> stateful_set result \<times> 'w"
  StsUpdate :: "string \<Rightarrow> stateful_set \<Rightarrow> 'w \<Rightarrow> unit result \<times> 'w"
  StsItems :: "string \<Rightarrow> string \<Rightarrow> 'w \<Rightarrow> stateful_set list result \<times> 'w"
  DaemonSetGet :: "string \<Rightarrow> string \<Rightarrow> 'w \<Rightarrow> daemon_set result \<times> 'w"
  DaemonSetItems :: "string \<Rightarrow> 'w \<Rightarrow> daemon_set list result \<times> 'w"
  AttachmentItems :: "'w \<Rightarrow> (string \<times> string) list result \<times> 'w"
  AttachmentDelete :: "string \<Rightarrow> 'w \<Rightarrow> unit result \<times> 'w"
  PoolDevice :: string
  CsiDaemonsetName :: string
  DataPlaneName :: string
  DataPlaneCsi :: string
  DataPlaneNats :: string

abbreviation kube_of :: "'w fleet \<Rightarrow> 'w kube" where
  "kube_of f \<equiv> base (swept f)"

abbreviation cluster_of :: "'w fleet \<Rightarrow> 'w cluster" where
  "cluster_of f \<equiv> cluster (kube_of f)"

abbreviation pods_of :: "'w fleet \<Rightarrow> 'w pod_api" where
  "pods_of f \<equiv> pods (cluster_of f)"

section \<open>Storage classes, namespaces\<close>

definition RmStorageClass :: "'w fleet \<Rightarrow> string \<Rightarrow> ('w, unit result) io" where
  "RmStorageClass f scName =
     seq (call (ScDelete (cluster_of f) scName)) (\<lambda>r. case r of
       Inl deleteErr \<Rightarrow> if IsNotFound deleteErr then ret (Inr ()) else ret (Inl deleteErr)
     | Inr _ \<Rightarrow> ret (Inr ()))"

definition CheckForStorageClasses :: "'w fleet \<Rightarrow> ('w, bool \<times> error option) io" where
  "CheckForStorageClasses f =
     seq (call (ScItems (kube_of f))) (\<lambda>r. case r of
       Inl err \<Rightarrow> ret (False, Some err)
     | Inr scs \<Rightarrow> ret (\<exists>sc \<in> set scs. si_Provisioner sc = CsiProvisioner (kube_of f), None))"

definition MkNamespace :: "'w fleet \<Rightarrow> string \<Rightarrow> ('w, unit result) io" where
  "MkNamespace f nameSpace = call (NamespaceCreate (cluster_of f) nameSpace)"

definition EnsureNamespace :: "'w fleet \<Rightarrow> string \<Rightarrow> ('w, unit result) io" where
  "EnsureNamespace f nameSpace =
     seq (call (NamespaceGet (swept f) nameSpace)) (\<lambda>r. case r of
       Inr _ \<Rightarrow> ret (Inr ())
     | Inl err \<Rightarrow> MkNamespace f nameSpace)"

definition RmNamespace :: "'w fleet \<Rightarrow> string \<Rightarrow> ('w, unit result) io" where
  "RmNamespace f nameSpace = call (NamespaceDelete (swept f) nameSpace)"

section \<open>Node selectors and replication\<close>

definition deployment_at :: "string \<Rightarrow> string \<Rightarrow> string" where
  "deployment_at deploymentName namespace = deploymentName @ '' : ns: '' @ namespace @ '' : Error: ''"

definition ApplyNodeSelectorToDeployment :: "'w fleet \<Rightarrow> string \<Rightarrow> string \<Rightarrow> string \<Rightarrow> string \<Rightarrow> ('w, unit result) io" where
  "ApplyNodeSelectorToDeployment f deploymentName namespace label value =
     check (call (DeploymentGet f namespace deploymentName)) (wrapped (''failed to get deployment '' @ deployment_at deploymentName namespace)) (\<lambda>d.
     let selector = (case dp_NodeSelector d of None \<Rightarrow> [] | Some m \<Rightarrow> m) in
     check (call (DeploymentUpdate f namespace (d\<lparr>dp_NodeSelector := Some (AList.update label value selector)\<rparr>)))
       (wrapped (''failed to apply node selector to deployment '' @ deployment_at deploymentName namespace)) (\<lambda>_. ret (Inr ())))"

definition RemoveAllNodeSelectorsFromDeployment :: "'w fleet \<Rightarrow> string \<Rightarrow> string \<Rightarrow> ('w, unit result) io" where
  "RemoveAllNodeSelectorsFromDeployment f deploymentName namespace =
     check (call (DeploymentGet f namespace deploymentName)) (wrapped (''failed to get deployment '' @ deployment_at deploymentName namespace)) (\<lambda>d.
     if dp_NodeSelector d = None then ret (Inr ())
     else check (call (DeploymentUpdate f namespace (d\<lparr>dp_NodeSelector := None\<rparr>)))
       (wrapped (''failed to remove node selector from deployment '' @ deployment_at deploymentName namespace)) (\<lambda>_. ret (Inr ())))"

text \<open>
  A round of the two functions that set a number of replicas. The error that is tested after
  their loop is not the one of the loop, which declares its own, and is always nil.
\<close>

definition replication_round :: "'w cluster \<Rightarrow> string \<Rightarrow> ('w \<Rightarrow> 'a result \<times> 'w) \<Rightarrow> ('a \<Rightarrow> 'w \<Rightarrow> unit result \<times> 'w) \<Rightarrow> nat \<Rightarrow> unit
    \<Rightarrow> ('w, (unit, unit result) ctl) io" where
  "replication_round cl what getter update attempts u =
     seq (call getter) (\<lambda>r. case r of
       Inl err \<Rightarrow> ret (Return (Inl (wrapped what err)))
     | Inr x \<Rightarrow> seq (call (update x)) (\<lambda>r. case r of
         Inr _ \<Rightarrow> ret (Break ())
       | Inl err \<Rightarrow> seq (sleeps cl 1) (\<lambda>_. ret (Continue ()))))"

definition SetDeploymentReplication :: "'w fleet \<Rightarrow> string \<Rightarrow> string \<Rightarrow> int option \<Rightarrow> ('w, unit result) io" where
  "SetDeploymentReplication f deploymentName namespace replicas =
     after (for_in [0 ..< 10] () (replication_round (cluster_of f)
       (''failed to get deployment, name: '' @ deploymentName @ '', namespace: '' @ namespace @ '', error: '')
       (DeploymentGet f namespace deploymentName) (\<lambda>d. DeploymentUpdate f namespace (d\<lparr>dp_Replicas := replicas\<rparr>))))
     (\<lambda>_. ret (Inr ()))"

definition SetStatefulsetReplication :: "'w fleet \<Rightarrow> string \<Rightarrow> string \<Rightarrow> int option \<Rightarrow> ('w, unit result) io" where
  "SetStatefulsetReplication f statefulsetName namespace replicas =
     after (for_in [0 ..< 10] () (replication_round (cluster_of f)
       (''failed to get statefulset, name: '' @ statefulsetName @ '', namespace: '' @ namespace @ '', error: '')
       (StsGet f namespace statefulsetName) (\<lambda>s. StsUpdate f namespace (s\<lparr>ss_SpecReplicas := replicas\<rparr>))))
     (\<lambda>_. ret (Inr ()))"

definition SetReplication :: "'w fleet \<Rightarrow> string \<Rightarrow> string \<Rightarrow> int option \<Rightarrow> ('w, unit result) io" where
  "SetReplication f appName namespace replicas =
     (let labels = ''app='' @ appName in
      check (call (DeploymentItems f namespace labels))
        (wrapped (''failed to list deployment, namespace: '' @ namespace @ '', error: '')) (\<lambda>deployments.
      check (call (StsItems f namespace labels))
        (wrapped (''failed to list statefulset, namespace: '' @ namespace @ '', error: '')) (\<lambda>sts.
      case deployments of
        [d] \<Rightarrow> SetDeploymentReplication f (dp_Name d) namespace replicas
      | _ \<Rightarrow> (case sts of
          [s] \<Rightarrow> SetStatefulsetReplication f (ss_Name s) namespace replicas
        | _ \<Rightarrow> ret (Inl (Errorf (''app '' @ appName @ '' is not deployed as a deployment or sts'')))))))"

section \<open>Pods on nodes\<close>

definition MustCompile :: "'w fleet \<Rightarrow> string \<Rightarrow> ('w, string \<Rightarrow> bool) io" where
  "MustCompile f pattern = (case Compile f pattern of Some m \<Rightarrow> ret m | None \<Rightarrow> panic ''regexp: Compile'')"

definition WaitForPodAbsentFromNode :: "'w fleet \<Rightarrow> string \<Rightarrow> string \<Rightarrow> string \<Rightarrow> int \<Rightarrow> ('w, unit result) io" where
  "WaitForPodAbsentFromNode f podNameRegexp namespace nodeName timeoutSeconds =
     seq (MustCompile f podNameRegexp) (\<lambda>validID.
     after (for_in [0 ..< nat timeoutSeconds] False (\<lambda>i podAbsent.
       seq (sleeps (cluster_of f) 1) (\<lambda>_.
       seq (call (PodsList (pods_of f) namespace)) (\<lambda>r. case r of
         Inl err \<Rightarrow> ret (Return (Inl (Errorf ''failed to list pods'')))
       | Inr podList \<Rightarrow>
           if \<exists>pod \<in> set podList. pod_NodeName pod = nodeName \<and> validID (pod_Name pod) then ret (Continue False)
           else ret (Break True)))))
     (\<lambda>podAbsent. if podAbsent then ret (Inr ()) else ret (Inl (Errorf ''timed out waiting for pod''))))"

definition getPodStatus :: "'w fleet \<Rightarrow> string \<Rightarrow> string \<Rightarrow> string \<Rightarrow> ('w, pod_phase option result) io" where
  "getPodStatus f podNameRegexp namespace nodeName =
     seq (MustCompile f podNameRegexp) (\<lambda>validID.
     check (call (PodsList (pods_of f) namespace)) (wrapped (''failed to list pods , namespace: '' @ namespace @ '', error: '')) (\<lambda>podList.
     ret (Inr (map_option pod_Phase (find (\<lambda>pod. pod_NodeName pod = nodeName \<and> validID (pod_Name pod)) podList)))))"

definition wait_pod_status :: "'w fleet \<Rightarrow> string \<Rightarrow> string \<Rightarrow> string \<Rightarrow> int \<Rightarrow> (pod_phase option \<Rightarrow> bool) \<Rightarrow> string \<Rightarrow> ('w, unit result) io" where
  "wait_pod_status f podNameRegexp namespace nodeName timeoutSeconds ok timed_out =
     after (for_in [0 ..< nat timeoutSeconds] () (\<lambda>i u.
       seq (getPodStatus f podNameRegexp namespace nodeName) (\<lambda>r. case r of
         Inl err \<Rightarrow> ret (Return (Inl (wrapped (''failed to get pod status, podRegexp: '' @ podNameRegexp @ '', namespace: '' @ namespace
           @ '', nodename: '' @ nodeName @ '', error: '') err)))
       | Inr stat \<Rightarrow> if ok stat then ret (Return (Inr ())) else seq (sleeps (cluster_of f) 1) (\<lambda>_. ret (Continue ())))))
     (\<lambda>_. ret (Inl (Errorf timed_out)))"

definition WaitForPodRunningOnNode :: "'w fleet \<Rightarrow> string \<Rightarrow> string \<Rightarrow> string \<Rightarrow> int \<Rightarrow> ('w, unit result) io" where
  "WaitForPodRunningOnNode f podNameRegexp namespace nodeName timeoutSeconds =
     wait_pod_status f podNameRegexp namespace nodeName timeoutSeconds (\<lambda>stat. stat = Some PodRunning)
       ''timed out waiting for pod to be running''"

definition WaitForPodNotRunningOnNode :: "'w fleet \<Rightarrow> string \<Rightarrow> string \<Rightarrow> string \<Rightarrow> int \<Rightarrow> ('w, unit result) io" where
  "WaitForPodNotRunningOnNode f podNameRegexp namespace nodeName timeoutSeconds =
     wait_pod_status f podNameRegexp namespace nodeName timeoutSeconds (\<lambda>stat. stat \<noteq> Some PodRunning)
       ''timed out waiting for pod to stop running''"

definition PodPresentOnNode :: "'w fleet \<Rightarrow> string \<Rightarrow> string \<Rightarrow> string \<Rightarrow> ('w, bool result) io" where
  "PodPresentOnNode f podNameRegexp namespace nodeName =
     seq (MustCompile f podNameRegexp) (\<lambda>validID.
     check (call (PodsList (pods_of f) namespace)) (wrapped (''failed to list pod, podRegexp: '' @ podNameRegexp @ '', namespace: '' @ namespace
       @ '', nodename: '' @ nodeName @ '', error: '')) (\<lambda>podList.
     ret (Inr (\<exists>pod \<in> set podList. pod_NodeName pod = nodeName \<and> validID (pod_Name pod)))))"

section \<open>Readiness\<close>

text \<open>The number of rounds of a wait, with an integer division that truncates and that panics for zero.\<close>

definition rounds_of :: "int \<Rightarrow> int \<Rightarrow> ('s, nat) io" where
  "rounds_of sleepTime duration =
     (if sleepTime = 0 then panic ''integer divide by zero'' else ret (nat ((duration + sleepTime - 1) sdiv sleepTime)))"

text \<open>\<^verbatim>\<open>for ix := 0; ix < count && !ready; ix++\<close>, with a pause before each round.\<close>

definition until_ready :: "'w cluster \<Rightarrow> int \<Rightarrow> int \<Rightarrow> ('w, bool) io \<Rightarrow> ('w, bool) io" where
  "until_ready cl sleepTime duration m =
     seq (rounds_of sleepTime duration) (\<lambda>count'.
     after (for_in [0 ..< count'] False (\<lambda>ix ready.
       seq (sleeps cl (nat sleepTime)) (\<lambda>_.
       seq m (\<lambda>ready. ret (if ready then Break True else Continue False))))) ret)"

definition available_count :: "'w fleet \<Rightarrow> string \<Rightarrow> ('w, int) io" where
  "available_count f name =
     seq (call (DaemonSetGet f (ProductNamespace (swept f)) name)) (\<lambda>r. case r of
       Inl err \<Rightarrow> ret (-1)
     | Inr ds \<Rightarrow> ret (ds_NumberAvailable ds))"

definition mayastorReadyPodCount :: "'w fleet \<Rightarrow> ('w, int) io" where
  "mayastorReadyPodCount f = available_count f ''mayastor''"

definition mayastorCSIReadyPodCount :: "'w fleet \<Rightarrow> ('w, int) io" where
  "mayastorCSIReadyPodCount f = available_count f (CsiDaemonsetName f)"

definition msnOnlineCount :: "'w fleet \<Rightarrow> ('w, int) io" where
  "msnOnlineCount f =
     seq (ListMsNodes (cluster_of f)) (\<lambda>r. case r of
       Inl err \<Rightarrow> ret (-1)
     | Inr msns \<Rightarrow> ret (int (length (filter (\<lambda>n. msn_Status n = ''online'') msns))))"

definition instances_ready :: "'w fleet \<Rightarrow> int \<Rightarrow> ('w, bool) io" where
  "instances_ready f numMayastorInstances =
     seq (control_plane (plugin (kube_of f)) (ret MajorVersion)) (\<lambda>major.
     if major \<noteq> 0 \<and> major \<noteq> 1 then panic ''unexpected control plane version''
     else seq (mayastorReadyPodCount f) (\<lambda>n.
       if n \<noteq> numMayastorInstances then ret False
       else seq (mayastorCSIReadyPodCount f) (\<lambda>n.
         if n < numMayastorInstances then ret False
         else if major = 0 then seq (msnOnlineCount f) (\<lambda>n. ret (n = numMayastorInstances))
         else ret True)))"

definition MayastorInstancesReady :: "'w fleet \<Rightarrow> int \<Rightarrow> int \<Rightarrow> int \<Rightarrow> ('w, bool result) io" where
  "MayastorInstancesReady f numMayastorInstances sleepTime duration =
     seq (until_ready (cluster_of f) sleepTime duration (instances_ready f numMayastorInstances)) (\<lambda>ready. ret (Inr ready))"

definition MayastorReady :: "'w fleet \<Rightarrow> int \<Rightarrow> int \<Rightarrow> ('w, bool result) io" where
  "MayastorReady f sleepTime duration =
     check (k8stest_GetNodeLocs (cluster_of f)) (\<lambda>err. err) (\<lambda>nodes.
       MayastorInstancesReady f (int (length (filter (\<lambda>node. MayastorNode node \<and> \<not> MasterNode node) nodes))) sleepTime duration)"

definition DeploymentReady :: "'w fleet \<Rightarrow> string \<Rightarrow> string \<Rightarrow> ('w, bool) io" where
  "DeploymentReady f deploymentName namespace =
     seq (call (DeploymentGet f namespace deploymentName)) (\<lambda>r. case r of
       Inl err \<Rightarrow> ret False
     | Inr d \<Rightarrow> ret ((''Available'', ''True'') \<in> set (dp_Conditions d)))"

definition DaemonSetReady :: "'w fleet \<Rightarrow> string \<Rightarrow> string \<Rightarrow> ('w, bool) io" where
  "DaemonSetReady f daemonName namespace =
     seq (call (DaemonSetGet f namespace daemonName)) (\<lambda>r. case r of
       Inl err \<Rightarrow> ret False
     | Inr d \<Rightarrow> ret (ds_DesiredNumberScheduled d = ds_CurrentNumberScheduled d \<and> ds_DesiredNumberScheduled d = ds_NumberReady d \<and>
         ds_DesiredNumberScheduled d = ds_NumberAvailable d))"

definition StatefulSetReady :: "'w fleet \<Rightarrow> string \<Rightarrow> string \<Rightarrow> ('w, bool) io" where
  "StatefulSetReady f statefulSetName namespace =
     seq (call (StsGet f namespace statefulSetName)) (\<lambda>r. case r of
       Inl err \<Rightarrow> ret False
     | Inr s \<Rightarrow> ret (ss_Replicas s = ss_ReadyReplicas s \<and> ss_ReadyReplicas s = ss_CurrentReplicas s \<and> ss_ReadyReplicas s \<noteq> 0))"

text \<open>All components of one kind but those of the data plane; every one is looked at.\<close>

definition components_ready :: "'w fleet \<Rightarrow> (string \<Rightarrow> string \<Rightarrow> ('w, bool) io) \<Rightarrow> string list \<Rightarrow> bool \<Rightarrow> ('w, bool) io" where
  "components_ready f is_ready names ready =
     after (for_in (filter (\<lambda>n. n \<notin> {DataPlaneName f, DataPlaneCsi f, DataPlaneNats f}) names) ready (\<lambda>n ready.
       seq (is_ready n (ProductNamespace (swept f))) (\<lambda>tmp. ret (Continue (ready \<and> tmp))))) ret"

definition control_plane_round :: "'w fleet \<Rightarrow> int \<Rightarrow> ('w, bool) io" where
  "control_plane_round f sleepTime =
     (let ns = ProductNamespace (swept f); failed = seq (sleeps (cluster_of f) (nat sleepTime)) (\<lambda>_. ret False) in
      seq (call (DeploymentItems f ns '''')) (\<lambda>r. case r of Inl err \<Rightarrow> failed | Inr deployments \<Rightarrow>
      seq (call (DaemonSetItems f ns)) (\<lambda>r. case r of Inl err \<Rightarrow> failed | Inr daemonsets \<Rightarrow>
      seq (call (StsItems f ns '''')) (\<lambda>r. case r of Inl err \<Rightarrow> failed | Inr statefulsets \<Rightarrow>
      seq (components_ready f (DeploymentReady f) (map dp_Name deployments) True) (\<lambda>ready.
      seq (components_ready f (DaemonSetReady f) (map ds_Name daemonsets) ready) (\<lambda>ready.
      components_ready f (StatefulSetReady f) (map ss_Name statefulsets) ready))))))"

definition ControlPlaneReady :: "'w fleet \<Rightarrow> int \<Rightarrow> int \<Rightarrow> ('w, bool) io" where
  "ControlPlaneReady f sleepTime duration =
     seq (rounds_of sleepTime duration) (\<lambda>_.
     seq (control_plane (plugin (kube_of f)) (ret MajorVersion)) (\<lambda>major.
     if major = 1 then until_ready (cluster_of f) sleepTime duration (control_plane_round f sleepTime)
     else ret False))"

definition MayastorNodeReady :: "'w fleet \<Rightarrow> int \<Rightarrow> int \<Rightarrow> ('w e2e, bool \<times> error option) io" where
  "MayastorNodeReady f sleepTime duration =
     seq (rounds_of sleepTime duration) (\<lambda>count'.
     after (for_in [0 ..< count'] False (\<lambda>ix ready.
       seq (in_e2e (sleeps (cluster_of f) (nat sleepTime))) (\<lambda>_.
       seq (k8stest_ListMsns (cluster_of f) (plugin (kube_of f))) (\<lambda>r. case r of
         Inl err \<Rightarrow> ret (Return (ready, Some err))
       | Inr nodeList \<Rightarrow>
           let readyCount = int (length (filter (\<lambda>n. md_Status n = ''Online'') nodeList)) in
           seq (in_e2e (mayastorReadyPodCount f)) (\<lambda>msReadyPodCount.
           let ready = (msReadyPodCount = int (length nodeList) \<and> readyCount = msReadyPodCount) in
           ret (if ready then Break True else Continue False))))))
     (\<lambda>ready. ret (ready, None)))"

section \<open>Instances of mayastor\<close>

definition in_cluster :: "'w fleet \<Rightarrow> ('w grpc \<Rightarrow> string list \<Rightarrow> ('w, 'a list \<times> error option) io) \<Rightarrow> ('w, 'a list \<times> error option) io" where
  "in_cluster f lister =
     seq (getClusterMayastorNodeIPAddrs (swept f)) (\<lambda>r. case r of
       Inr nodeAddrs \<Rightarrow> lister (grpc (kube_of f)) nodeAddrs
     | Inl err \<Rightarrow> ret ([], Some err))"

definition k8stest_ListPoolsInCluster :: "'w fleet \<Rightarrow> ('w, mayastor_pool list \<times> error option) io" where
  "k8stest_ListPoolsInCluster f = in_cluster f mayastorclient_ListPools"

definition ListNexusesInCluster :: "'w fleet \<Rightarrow> ('w, mayastor_nexus list \<times> error option) io" where
  "ListNexusesInCluster f = in_cluster f mayastorclient_ListNexuses"

definition k8stest_ListReplicasInCluster :: "'w fleet \<Rightarrow> ('w, mayastor_replica list \<times> error option) io" where
  "k8stest_ListReplicasInCluster f = in_cluster f mayastorclient_ListReplicas"

definition ListNvmeControllersInCluster :: "'w fleet \<Rightarrow> ('w, nvme_controller list \<times> error option) io" where
  "ListNvmeControllersInCluster f = in_cluster f ListNvmeControllers"

definition k8stest_GetPoolUsageInCluster :: "'w fleet \<Rightarrow> ('w, 64 word \<times> error option) io" where
  "k8stest_GetPoolUsageInCluster f =
     seq (k8stest_ListPoolsInCluster f) (\<lambda>(pools, err).
     ret (if err = None then fold (\<lambda>pool poolUsage. poolUsage + mp_Used pool) pools 0 else 0, err))"

section \<open>Pools\<close>

text \<open>The verb \<^verbatim>\<open>%v\<close> for a node location.\<close>

definition bool_v :: "bool \<Rightarrow> string" where
  "bool_v b = (if b then ''true'' else ''false'')"

definition location_v :: "node_location \<Rightarrow> string" where
  "location_v n = ''{'' @ NodeName n @ '' '' @ IPAddress n @ '' '' @ bool_v (MayastorNode n) @ '' '' @ bool_v (MasterNode n) @ ''}''"

definition CreateConfiguredPools :: "'w fleet \<Rightarrow> ('w, error option) io" where
  "CreateConfiguredPools f =
     (if PoolDevice f = '''' then ret (Some (Errorf (''pool device not configured, PoolDevice: '' @ PoolDevice f)))
      else seq (k8stest_GetNodeLocs (cluster_of f)) (\<lambda>r. case r of
        Inl err \<Rightarrow> ret (Some (wrapped ''failed to get list of nodes, error: '' err))
      | Inr nodes \<Rightarrow>
          after (for_in (filter MayastorNode nodes) [] (\<lambda>node errs.
            seq (CreateMsPool (cluster_of f) (''pool-on-'' @ NodeName node) (NodeName node) [PoolDevice f]) (\<lambda>r.
            ret (Continue (case r of
              Inl err \<Rightarrow> Accumulate (Some (wrapped (''failed to create pool on '' @ location_v node @ '' , disks: ['' @ PoolDevice f @ ''], error: '') err)) errs
            | Inr _ \<Rightarrow> errs)))))
          (\<lambda>errs. ret (GetError errs))))"

definition list_round :: "'w fleet \<Rightarrow> nat \<Rightarrow> mayastor_pool list \<times> error option
    \<Rightarrow> ('w, (mayastor_pool list \<times> error option, error option) ctl) io" where
  "list_round f ix st =
     seq (GetMayastorNodeIPAddresses (kube_of f)) (\<lambda>addrs.
     seq (mayastorclient_ListPools (grpc (kube_of f)) addrs) (\<lambda>(pools, err).
     if pools = [] \<and> err = None then ret (Break (pools, err))
     else seq (sleeps (cluster_of f) 5) (\<lambda>_. ret (Continue (pools, err)))))"

definition destroy_round :: "'w fleet \<Rightarrow> nat \<Rightarrow> mayastor_pool list \<times> error option
    \<Rightarrow> ('w, (mayastor_pool list \<times> error option, error option) ctl) io" where
  "destroy_round f ix st =
     (if fst st = [] then ret (Break st)
      else seq (GetMayastorNodeIPAddresses (kube_of f)) (\<lambda>addrs.
        seq (DestroyAllPools (grpc (kube_of f)) addrs) (\<lambda>_.
        seq (GetMayastorNodeIPAddresses (kube_of f)) (\<lambda>addrs.
        seq (mayastorclient_ListPools (grpc (kube_of f)) addrs) (\<lambda>(pools, err).
        seq (sleeps (cluster_of f) 5) (\<lambda>_. ret (Continue (pools, err))))))))"

text \<open>
  The rounds of a wait for the pools, and the last look. The text of the error about pools that
  are left leaves out their description.
\<close>

definition pools_online :: "'w fleet \<Rightarrow> nat \<Rightarrow> ('w, unit result) io" where
  "pools_online f rounds =
     after (for_in [0 ..< rounds] () (\<lambda>ix u.
       seq (sleeps (cluster_of f) 5) (\<lambda>_.
       seq (CheckAllMsPoolsAreOnline (cluster_of f)) (\<lambda>r. ret (case r of Inr _ \<Rightarrow> Break () | Inl err \<Rightarrow> Continue ())))))
     (\<lambda>_. CheckAllMsPoolsAreOnline (cluster_of f))"

definition RestoreConfiguredPools :: "'w fleet \<Rightarrow> ('w, error option) io" where
  "RestoreConfiguredPools f =
     seq (DeleteAllPoolFinalizers (swept f)) (\<lambda>(_, err). case err of
       Some e \<Rightarrow> ret (Some (wrapped ''failed to delete pool finalizers, error; '' e))
     | None \<Rightarrow> seq (DeleteAllPools (swept f)) (\<lambda>deletedAllPools.
       if \<not> deletedAllPools then ret (Some (Errorf ''failed to delete all pools''))
       else after (for_in [1 ..< 24] ([], None) (list_round f)) (\<lambda>(pools, err). case err of
         Some e \<Rightarrow> ret (Some (wrapped ''failed to list pools, error; '' e))
       | None \<Rightarrow> after (for_in [1 ..< 24] (pools, err) (destroy_round f)) (\<lambda>(pools, err). case err of
           Some e \<Rightarrow> ret (Some (wrapped ''failed to destroy pools, error; '' e))
         | None \<Rightarrow>
             if pools \<noteq> [] then ret (Some (Errorf ''failed to destroy all pools, existing pool''))
             else seq (CreateConfiguredPools f) (\<lambda>err. case err of
               Some e \<Rightarrow> ret (Some e)
             | None \<Rightarrow> seq (pools_online f 23) (\<lambda>r. ret (error_of r)))))))"

definition WaitForPoolsToBeOnline :: "'w fleet \<Rightarrow> int \<Rightarrow> ('w, unit result) io" where
  "WaitForPoolsToBeOnline f timeoutSeconds =
     after (for_in [0 ..< nat ((timeoutSeconds + 5) sdiv 5 - 1)] () (\<lambda>ix u.
       seq (sleeps (cluster_of f) 5) (\<lambda>_.
       seq (CheckAllMsPoolsAreOnline (cluster_of f)) (\<lambda>r. ret (case r of Inr _ \<Rightarrow> Return (Inr ()) | Inl err \<Rightarrow> Continue ())))))
     (\<lambda>_. CheckAllMsPoolsAreOnline (cluster_of f))"

section \<open>Volume attachments\<close>

text \<open>A deletion that fails returns the error of the list, which is nil.\<close>

definition DeleteVolumeAttachments :: "'w fleet \<Rightarrow> string \<Rightarrow> ('w, unit result) io" where
  "DeleteVolumeAttachments f nodeName =
     check (call (AttachmentItems f)) (wrapped ''failed to list volume attachments, error: '') (\<lambda>items.
     after (for_in (filter (\<lambda>(name, node). node = nodeName) items) () (\<lambda>(name, node) u.
       seq (call (AttachmentDelete f name)) (\<lambda>r. ret (case r of Inr _ \<Rightarrow> Continue () | Inl delErr \<Rightarrow> Return (Inr ())))))
     (\<lambda>_. ret (Inr ())))"

section \<open>Properties\<close>

lemma CheckAllMsPoolsAreOnline_ok:
  assumes "CheckAllMsPoolsAreOnline cl w = (Done (Inr ()), w')"
  shows "\<exists>ps. MspList cl w = (Inr ps, w') \<and> (\<forall>p \<in> set ps. ToLower (msp_State p) = ''online'')"
  using assms by (auto simp: CheckAllMsPoolsAreOnline_def ListMsPools_def call_def elim!: seq_DoneE split: prod.splits sum.splits if_splits)

text \<open>Pools and error that were listed by gRPC on the nodes that were found at the same time.\<close>

definition pools_listed :: "'w fleet \<Rightarrow> mayastor_pool list \<times> error option \<Rightarrow> bool" where
  "pools_listed f st \<longleftrightarrow> (\<exists>addrs w0 w1 w2. GetMayastorNodeIPAddresses (kube_of f) w0 = (Done addrs, w1) \<and>
     mayastorclient_ListPools (grpc (kube_of f)) addrs w1 = (Done st, w2))"

lemma pools_listedI:
  "GetMayastorNodeIPAddresses (kube_of f) w0 = (Done addrs, w1) \<Longrightarrow>
   mayastorclient_ListPools (grpc (kube_of f)) addrs w1 = (Done st, w2) \<Longrightarrow> pools_listed f st"
  unfolding pools_listed_def by blast

lemma list_rounds_listed:
  assumes "for_in [Suc 0 ..< 24] v (list_round f) w = (Done (Inr st), w')"
  shows "pools_listed f st"
  using for_in_last [OF assms]
  by (auto simp: list_round_def elim!: seq_DoneE split: if_splits prod.splits) (erule (1) pools_listedI)+

lemma rounds_no_return:
  "for_in xs v (list_round f) w \<noteq> (Done (Inl r), w')" "for_in xs v (destroy_round f) w \<noteq> (Done (Inl r), w')"
  by (auto dest!: for_in_Return simp: list_round_def destroy_round_def elim!: seq_DoneE split: if_splits prod.splits)

lemma destroy_rounds_listed:
  assumes "for_in xs st (destroy_round f) w = (Done (Inr st'), w')" and "pools_listed f st"
  shows "pools_listed f st'"
proof -
  have "case c of Continue v' \<Rightarrow> pools_listed f v' | Break v' \<Rightarrow> pools_listed f v' | Return r \<Rightarrow> True"
    if "pools_listed f v" "destroy_round f i v s = (Done c, s')" for i v c s s'
    using that by (auto simp: destroy_round_def elim!: seq_DoneE split: if_splits prod.splits) (rule pools_listedI)
  from for_in_variable [where P = "pools_listed f" and Q = "\<lambda>_. True", OF this assms(2,1)] show ?thesis
    by simp
qed

lemma pools_online_ok:
  assumes "pools_online f n w = (Done (Inr ()), w')"
  shows "\<exists>w1 ps. MspList (cluster_of f) w1 = (Inr ps, w') \<and> (\<forall>p \<in> set ps. ToLower (msp_State p) = ''online'')"
  using assms unfolding pools_online_def
  by (cases rule: after_for_inE) (auto elim!: seq_DoneE dest!: CheckAllMsPoolsAreOnline_ok split: sum.splits)


lemma replication_rounds:
  assumes "\<And>w. \<exists>x w'. getter w = (Inr x, w')"
  shows "\<exists>v w'. for_in xs () (replication_round cl what getter update) w = (Done (Inr v), w')"
proof (induction xs arbitrary: w)
  case (Cons i xs)
  obtain x w1 where x: "getter w = (Inr x, w1)" using assms by blast
  obtain r w2 where r: "update x w1 = (r, w2)" by fastforce
  show ?case
  proof (cases r)
    case (Inl e)
    with x r Cons.IH show ?thesis
      by (simp add: replication_round_def seq_apply call_apply sleeps_def sleep_secs_def)
  qed (use x r in \<open>simp add: replication_round_def seq_apply call_apply\<close>)
qed simp

text \<open>
  The two functions that set a number of replicas report success whenever the object can be read, also when none of
  the updates is accepted.
\<close>

theorem replication_failure_unreported:
  assumes "\<And>w. \<exists>d w'. DeploymentGet f ns name w = (Inr d, w')"
  shows "\<exists>w'. SetDeploymentReplication f name ns replicas w = (Done (Inr ()), w')"
proof -
  obtain v w' where "for_in [0 ..< 10] () (replication_round (cluster_of f)
       (''failed to get deployment, name: '' @ name @ '', namespace: '' @ ns @ '', error: '')
       (DeploymentGet f ns name) (\<lambda>d. DeploymentUpdate f ns (d\<lparr>dp_Replicas := replicas\<rparr>))) w = (Done (Inr v), w')"
    using replication_rounds [of "DeploymentGet f ns name", OF assms] by blast
  then show ?thesis
    unfolding SetDeploymentReplication_def after_def by (simp add: seq_Done del: upt_Suc upt_conv_Cons)
qed

lemma returning_MustCompile: "Compile f re = Some m \<Longrightarrow> MustCompile f re = ret m"
  by (simp add: MustCompile_def)

text \<open>
  \<^verbatim>\<open>WaitForPodRunningOnNode\<close> with a pattern that compiles returns, and without an error only after it has seen a
  pod of the namespace on that node whose name matches, the first such pod of a list, and that was running.
\<close>

theorem WaitForPodRunningOnNode_sound:
  assumes "Compile f re = Some m"
  shows "\<exists>r w'. WaitForPodRunningOnNode f re ns node secs w = (Done r, w') \<and>
    (r = Inr () \<longrightarrow> (\<exists>ps w0 w1. PodsList (pods_of f) ns w0 = (Inr ps, w1) \<and>
       (\<exists>pod. find (\<lambda>pod. pod_NodeName pod = node \<and> m (pod_Name pod)) ps = Some pod \<and> pod_Phase pod = PodRunning)))"
proof -
  have status: "returning (getPodStatus f re ns node)"
    unfolding getPodStatus_def returning_MustCompile [OF assms] by (intro ends)
  then have "returning (WaitForPodRunningOnNode f re ns node secs)"
    unfolding WaitForPodRunningOnNode_def wait_pod_status_def by (intro ends returning_sleeps)
  then obtain r w' where run: "WaitForPodRunningOnNode f re ns node secs w = (Done r, w')" by (rule returningE)
  have seen: "\<exists>ps w0 w1. PodsList (pods_of f) ns w0 = (Inr ps, w1) \<and>
       (\<exists>pod. find (\<lambda>pod. pod_NodeName pod = node \<and> m (pod_Name pod)) ps = Some pod \<and> pod_Phase pod = PodRunning)" if "r = Inr ()"
    using run [unfolded that WaitForPodRunningOnNode_def wait_pod_status_def]
  proof (cases rule: after_for_inE)
    case (returned i u w0)
    then obtain w1 where "getPodStatus f re ns node w0 = (Done (Inr (Some PodRunning)), w1)"
      by (auto elim!: seq_DoneE split: sum.splits if_splits)
    then show ?thesis
      by (auto simp: getPodStatus_def returning_MustCompile [OF assms] call_def elim!: check_DoneE split: prod.splits) blast
  qed auto
  with run show ?thesis by blast
qed

text \<open>What a round saw that found the control plane ready: every listed component of it was ready when it was looked at.\<close>

definition component_seen :: "(string \<Rightarrow> string \<Rightarrow> ('w, bool) io) \<Rightarrow> string \<Rightarrow> string \<Rightarrow> bool" where
  "component_seen is_ready ns n \<longleftrightarrow> (\<exists>w. fst (is_ready n ns w) = Done True)"

lemma components_seen:
  assumes "components_ready f is_ready names ready w = (Done True, w')"
  shows "ready \<and> (\<forall>n \<in> set names - {DataPlaneName f, DataPlaneCsi f, DataPlaneNats f}. component_seen is_ready (ProductNamespace (swept f)) n)"
proof -
  have "b \<and> (\<forall>n \<in> set xs. component_seen is_ready (ProductNamespace (swept f)) n)"
    if "for_in xs b (\<lambda>n ready. seq (is_ready n (ProductNamespace (swept f))) (\<lambda>tmp. ret (Continue (ready \<and> tmp)))) w
       = (Done (Inr True :: bool + bool), w')" for xs b w
    using that
  proof (induction xs arbitrary: b w)
    case (Cons x xs)
    from Cons.prems obtain tmp w1 where t: "is_ready x (ProductNamespace (swept f)) w = (Done tmp, w1)"
      and rest: "for_in xs (b \<and> tmp) (\<lambda>n ready. seq (is_ready n (ProductNamespace (swept f))) (\<lambda>tmp. ret (Continue (ready \<and> tmp)))) w1
        = (Done (Inr True :: bool + bool), w')"
      unfolding for_in.simps seq_assoc seq_ret ctl.case by (rule seq_DoneE)
    from Cons.IH [OF rest] t show ?case by (auto simp: component_seen_def) (metis fst_conv)
  qed simp
  from this assms show ?thesis
    unfolding components_ready_def after_def
    by (fastforce elim!: seq_DoneE split: sum.splits dest!: for_in_Return)
qed

lemma until_ready_seen:
  assumes "until_ready cl sleepTime duration m w = (Done True, w')"
  shows "\<exists>w1 w2. m w1 = (Done True, w2)"
proof -
  let ?body = "\<lambda>ix ready. seq (sleeps cl (nat sleepTime)) (\<lambda>_. seq m (\<lambda>ready. ret (if ready then Break True else Continue False)))"
  let ?seen = "\<lambda>ready. ready \<longrightarrow> (\<exists>w1 w2. m w1 = (Done True, w2))"
  have "case c of Continue v' \<Rightarrow> ?seen v' | Break v' \<Rightarrow> ?seen v' | Return r \<Rightarrow> ?seen r"
    if "?body ix v s = (Done c, s')" for ix v c s s'
    using that by (auto elim!: seq_DoneE split: if_splits) (rule exI, rule exI)
  then have "yields (\<lambda>c. case c of Inl r \<Rightarrow> ?seen r | Inr v' \<Rightarrow> ?seen v') (for_in xs False ?body)" for xs
    by (intro yields_for_in) (auto simp: yields_def)
  then have "yields ?seen (until_ready cl sleepTime duration m)"
    unfolding until_ready_def by (intro yields_seq yields_after [where P = ?seen]) (auto intro: yields_ret)
  with assms show ?thesis by (auto dest: yieldsD)
qed

text \<open>
  \<^verbatim>\<open>ControlPlaneReady\<close> says that the control plane is ready only when it has listed the deployments, daemon
  sets and stateful sets of the namespace and has found each of them ready, those of the data plane apart.
\<close>

theorem ControlPlaneReady_sound:
  assumes "ControlPlaneReady f sleepTime duration w = (Done True, w')"
  shows "\<exists>deployments daemonsets statefulsets w1 w2 w3.
    let ns = ProductNamespace (swept f); dataPlane = {DataPlaneName f, DataPlaneCsi f, DataPlaneNats f} in
    fst (DeploymentItems f ns '''' w1) = Inr deployments \<and> fst (DaemonSetItems f ns w2) = Inr daemonsets \<and>
    fst (StsItems f ns '''' w3) = Inr statefulsets \<and>
    (\<forall>n \<in> dp_Name ` set deployments - dataPlane. component_seen (DeploymentReady f) ns n) \<and>
    (\<forall>n \<in> ds_Name ` set daemonsets - dataPlane. component_seen (DaemonSetReady f) ns n) \<and>
    (\<forall>n \<in> ss_Name ` set statefulsets - dataPlane. component_seen (StatefulSetReady f) ns n)"
proof -
  from assms have "\<exists>w1. until_ready (cluster_of f) sleepTime duration (control_plane_round f sleepTime) w1 = (Done True, w')"
    unfolding ControlPlaneReady_def by (auto elim!: seq_DoneE split: if_splits)
  then obtain w1 w2 where "control_plane_round f sleepTime w1 = (Done True, w2)"
    by (auto dest!: until_ready_seen)
  then obtain deployments daemonsets statefulsets r1 r2 wa wb wc wd we
    where "DeploymentItems f (ProductNamespace (swept f)) '''' w1 = (Inr deployments, wa)"
      "DaemonSetItems f (ProductNamespace (swept f)) wa = (Inr daemonsets, wb)"
      "StsItems f (ProductNamespace (swept f)) '''' wb = (Inr statefulsets, wc)"
      and c: "components_ready f (DeploymentReady f) (map dp_Name deployments) True wc = (Done r1, wd)"
      "components_ready f (DaemonSetReady f) (map ds_Name daemonsets) r1 wd = (Done r2, we)"
      "components_ready f (StatefulSetReady f) (map ss_Name statefulsets) r2 we = (Done True, w2)"
    unfolding control_plane_round_def Let_def
    by (auto simp: call_def elim!: seq_DoneE split: sum.splits prod.splits)
  moreover have r: "r2" "r1" using components_seen [OF c(3)] components_seen [of f _ _ r1] c(2) by auto
  ultimately show ?thesis
    using components_seen [OF c(3)] components_seen [OF c(2) [simplified r]] components_seen [OF c(1) [simplified r]]
    unfolding Let_def
    by - (rule exI [of _ deployments], rule exI [of _ daemonsets], rule exI [of _ statefulsets],
      rule exI [of _ w1], rule exI [of _ wa], rule exI [of _ wb], simp)
qed

text \<open>A small testbed: pools that are there and online after one has been created, and components that are all ready.\<close>

definition small_fleet :: "nat fleet" where
  "small_fleet = \<lparr>swept = stuck_sweep\<lparr>base := (base stuck_sweep)\<lparr>
       cluster := (the_cluster stuck_sweep)\<lparr>pods := (pods (the_cluster stuck_sweep))\<lparr>Sleep := \<lambda>n w. w\<rparr>,
         MspList := \<lambda>w. (Inr (if w < 10 then [] else [small_pool ''Online'']), w), MspCreate := \<lambda>p w. (Inr p, w + 10)\<rparr>,
       grpc := small_grpc 1 (\<lambda>_. None)\<lparr>RpcListPools := timed 1 []\<rparr>\<rparr>\<rparr>,
     Compile = \<lambda>re. Some (\<lambda>name. HasPrefix name re),
     DeploymentGet = \<lambda>ns n w. (Inr \<lparr>dp_Name = n, dp_Replicas = Some 1, dp_NodeSelector = None, dp_Conditions = [(''Available'', ''True'')]\<rparr>, w),
     DeploymentUpdate = \<lambda>ns d w. (Inl (Conflict ''modified''), w),
     DeploymentItems = \<lambda>ns l w. (Inr [\<lparr>dp_Name = ''rest'', dp_Replicas = Some 1, dp_NodeSelector = None, dp_Conditions = []\<rparr>], w),
     StsGet = \<lambda>ns n w. (Inr \<lparr>ss_Name = n, ss_SpecReplicas = Some 1, ss_Replicas = 1, ss_ReadyReplicas = 1, ss_CurrentReplicas = 1\<rparr>, w),
     StsUpdate = \<lambda>ns s w. (Inr (), w), StsItems = \<lambda>ns l w. (Inr [], w),
     DaemonSetGet = \<lambda>ns n w. (Inr \<lparr>ds_Name = n, ds_DesiredNumberScheduled = 1, ds_CurrentNumberScheduled = 1, ds_NumberReady = 1,
       ds_NumberAvailable = 1\<rparr>, w),
     DaemonSetItems = \<lambda>ns w. (Inr [], w), AttachmentItems = \<lambda>w. (Inr [], w), AttachmentDelete = \<lambda>n w. (Inr (), w),
     PoolDevice = ''/dev/sdb'', CsiDaemonsetName = ''mayastor-csi'', DataPlaneName = ''mayastor'', DataPlaneCsi = ''mayastor-csi'',
     DataPlaneNats = ''nats''\<rparr>"

theorem ControlPlaneReady_sound_witness:
  "component_seen (DeploymentReady small_fleet) ''mayastor'' ''rest''"
proof -
  have "fst (ControlPlaneReady small_fleet 5 20 0) = Done True" by code_simp
  then obtain w' where "ControlPlaneReady small_fleet 5 20 0 = (Done True, w')" by (metis prod.collapse)
  from ControlPlaneReady_sound [OF this] show ?thesis
    by (auto simp: small_fleet_def stuck_sweep_def Let_def)
qed


theorem replication_failure_unreported_witness:
  "\<exists>w'. SetDeploymentReplication small_fleet ''rest'' ''mayastor'' (Some 3) 0 = (Done (Inr ()), w')"
  by (rule replication_failure_unreported) (simp add: small_fleet_def)

theorem WaitForPodRunningOnNode_sound_witness:
  "\<exists>r w'. WaitForPodRunningOnNode small_fleet ''mayastor'' ''mayastor'' ''node1'' 10 0 = (Done r, w')"
  using WaitForPodRunningOnNode_sound [of small_fleet "''mayastor''" "\<lambda>name. HasPrefix name ''mayastor''" "''mayastor''" "''node1''" 10 0]
  by (auto simp: small_fleet_def)

end
