(* ===== verification/E2E_Checks.thy ===== *)
theory E2E_Checks
  imports E2E_Cluster
begin

text \<open>
  The checks between the tests: \<^verbatim>\<open>src/src/common/k8stest/test.go\<close> (is the cluster fit for a test,
  what is done before and after each test) and the part of \<^verbatim>\<open>util_testpods.go\<close> that looks at pods
  and restarts mayastor. \<open>bench\<close> adds the configuration and whether the instances of mayastor can be
  reached; \<open>suite\<close> is the state that the library keeps between the tests.
\<close>

record container_status =
  ct_Name :: string
  ct_Ready :: bool
  ct_Terminated :: "(string \<times> int) option"

record 'w bench =
  the_fleet :: "'w fleet"
  order :: replica_order
  CanConnect :: bool
  SelfTest :: bool
  FailQuick :: bool
  BeforeEachCheckAndRestart :: bool
  PodStatusGet :: "string \<Rightarrow> string \<Rightarrow> 'w \<Rightarrow> (pod_phase \<times> container_status list) result \<times> 'w"

record 'w suite =
  suite_e2e :: "'w e2e"
  resourceCheckError :: "error option"
  mayastorInitialPodCount :: int

definition in_suite :: "('w e2e, 'a) io \<Rightarrow> ('w suite, 'a) io" where
  "in_suite m = zoom suite_e2e (\<lambda>e s. s\<lparr>suite_e2e := e\<rparr>) m"

abbreviation bench_cluster :: "'w bench \<Rightarrow> 'w cluster" where
  "bench_cluster b \<equiv> cluster_of (the_fleet b)"

abbreviation bench_kube :: "'w bench \<Rightarrow> 'w kube" where
  "bench_kube b \<equiv> kube_of (the_fleet b)"

abbreviation bench_ns :: "'w bench \<Rightarrow> string" where
  "bench_ns b \<equiv> ProductNamespace (swept (the_fleet b))"

section \<open>Pods\<close>

definition CheckForTestPods :: "'w bench \<Rightarrow> ('w, bool \<times> error option) io" where
  "CheckForTestPods b =
     seq (call (NamespaceList (bench_kube b))) (\<lambda>r. case r of
       Inl err \<Rightarrow> ret (False, Some err)
     | Inr nameSpaces \<Rightarrow>
         after (for_in (filter of_tests nameSpaces) False (\<lambda>ns foundPods.
           seq (call (PodsList (pods (bench_cluster b)) ns)) (\<lambda>r.
           ret (Continue (case r of Inr items \<Rightarrow> foundPods \<or> items \<noteq> [] | Inl err \<Rightarrow> foundPods)))))
         (\<lambda>foundPods. ret (foundPods, None)))"

definition isPodHealthCheckCandidate :: "'w bench \<Rightarrow> string \<Rightarrow> string \<Rightarrow> bool" where
  "isPodHealthCheckCandidate b podName namespace =
     (if namespace = bench_ns b then \<not> HasPrefix podName ''mayastor-etcd'' else True)"

text \<open>What is wrong with a pod: one line for each container that was restarted, and one for each when the phase is bad.\<close>

definition pod_complaints :: "pod \<Rightarrow> string list" where
  "pod_complaints pod = concat (map (\<lambda>n.
     (if n \<noteq> 0 then [pod_Name pod @ '' restarted '' @ Itoa (sint n) @ '' times''] else []) @
     (if pod_Phase pod = PodFailed \<or> pod_Phase pod = PodUnknown then [pod_Name pod @ '' phase is '' @ phase_text (pod_Phase pod)] else []))
     (pod_RestartCounts pod))"

definition CheckTestPodsHealth :: "'w bench \<Rightarrow> string \<Rightarrow> ('w, unit result) io" where
  "CheckTestPodsHealth b namespace =
     check (call (PodsList (pods (bench_cluster b)) namespace)) (\<lambda>err. Errorf ''failed to list pods'') (\<lambda>podList.
     let errorStrings = concat (map pod_complaints (filter (\<lambda>pod. isPodHealthCheckCandidate b (pod_Name pod) namespace) podList)) in
     if errorStrings \<noteq> [] then ret (Inl (Errorf (Join errorStrings ''; ''))) else ret (Inr ()))"

definition container_phase :: "string \<Rightarrow> container_status list \<Rightarrow> pod_phase option" where
  "container_phase podName statuses =
     (case find (\<lambda>c. ct_Name c = podName \<and> \<not> ct_Ready c \<and> map_option fst (ct_Terminated c) = Some ''Completed'') statuses of
        Some c \<Rightarrow> (case ct_Terminated c of
            Some (_, code) \<Rightarrow> Some (if code = 0 then PodSucceeded else PodFailed)
          | None \<Rightarrow> None)
      | None \<Rightarrow> None)"

definition CheckPodContainerCompleted :: "'w bench \<Rightarrow> string \<Rightarrow> string \<Rightarrow> ('w, pod_phase \<times> error option) io" where
  "CheckPodContainerCompleted b podName nameSpace =
     seq (call (PodStatusGet b nameSpace podName)) (\<lambda>r. case r of
       Inl err \<Rightarrow> ret (PodUnknown, Some err)
     | Inr (phase, statuses) \<Rightarrow> ret (case container_phase podName statuses of Some p \<Rightarrow> p | None \<Rightarrow> phase, None))"

definition CheckPodCompleted :: "'w bench \<Rightarrow> string \<Rightarrow> string \<Rightarrow> ('w, pod_phase \<times> error option) io" where
  "CheckPodCompleted b podName nameSpace = CheckPodContainerCompleted b podName nameSpace"

text \<open>
  The wait for a pod counts the seconds that it has slept; the phase that it reports is empty before the
  first look. With a pause of zero it would go on until the pod ends, so that the number of rounds is bounded
  by \<open>fuel\<close>.
\<close>

definition completion_round :: "'w bench \<Rightarrow> string \<Rightarrow> int \<Rightarrow> int \<Rightarrow> nat \<Rightarrow> int \<times> pod_phase option
    \<Rightarrow> ('w, (int \<times> pod_phase option, unit result) ctl) io" where
  "completion_round b podName sleepTimeSecs timeoutSecs ix st =
     (case st of (elapsedTime, podPhase) \<Rightarrow>
      if elapsedTime > timeoutSecs then ret (Break st)
      else seq (sleeps (bench_cluster b) (nat sleepTimeSecs)) (\<lambda>_.
        seq (CheckPodCompleted b podName ''default'') (\<lambda>(phase, err). case err of
          Some e \<Rightarrow> ret (Return (Inl (wrapped (''failed to access pod status '' @ podName @ '' '') e)))
        | None \<Rightarrow>
            if phase = PodSucceeded then ret (Return (Inr ()))
            else if phase = PodFailed then ret (Break (elapsedTime, Some phase))
            else ret (Continue (elapsedTime + sleepTimeSecs, Some phase)))))"

definition WaitPodComplete :: "nat \<Rightarrow> 'w bench \<Rightarrow> string \<Rightarrow> int \<Rightarrow> int \<Rightarrow> ('w, unit result) io" where
  "WaitPodComplete fuel b podName sleepTimeSecs timeoutSecs =
     after (loop fuel 0 (0, None) (completion_round b podName sleepTimeSecs timeoutSecs))
     (\<lambda>(_, podPhase). ret (Inl (Errorf (''pod did not complete, phase '' @ (case podPhase of None \<Rightarrow> '''' | Some p \<Rightarrow> phase_text p)))))"

definition GetCoreAgentNodeName :: "'w bench \<Rightarrow> ('w, string result) io" where
  "GetCoreAgentNodeName b =
     check (call (PodsList (pods (bench_cluster b)) (bench_ns b))) (\<lambda>err. err) (\<lambda>pods.
     ret (Inr (case find (\<lambda>pod. HasPrefix (pod_Name pod) ''core-agent'' \<and> pod_Phase pod = PodRunning) pods of
         Some pod \<Rightarrow> pod_NodeName pod
       | None \<Rightarrow> '''')))"

section \<open>Restarting mayastor\<close>

definition k8stest_listMayastorPods :: "'w bench \<Rightarrow> int option \<Rightarrow> ('w, string list result) io" where
  "k8stest_listMayastorPods b timestamp =
     check (call (PodsList (pods (bench_cluster b)) (bench_ns b))) (\<lambda>err. err) (\<lambda>pods.
     ret (Inr (map pod_Name (filter (\<lambda>pod. \<not> HasPrefix (pod_Name pod) ''mayastor-etcd'' \<and>
       (case timestamp of None \<Rightarrow> True | Some t \<Rightarrow> pod_Phase pod = PodRunning \<and> t < pod_CreationTimestamp pod)) pods))))"

definition k8stest_RestartMayastorPods :: "'w bench \<Rightarrow> int \<Rightarrow> int \<Rightarrow> ('w, error option) io" where
  "k8stest_RestartMayastorPods b initialPodCount timeoutSecs =
     seq (k8stest_listMayastorPods b None) (\<lambda>r. case r of
       Inl err \<Rightarrow> ret (Some err)
     | Inr podNames \<Rightarrow>
         seq (call (Now (pods (bench_cluster b)))) (\<lambda>now.
         seq (sleeps (bench_cluster b) 1) (\<lambda>_.
         after (for_in podNames None (\<lambda>podName err.
           seq (call (PodsDelete (pods (bench_cluster b)) (bench_ns b) podName)) (\<lambda>r.
           ret (Continue (case r of Inl delErr \<Rightarrow> Some delErr | Inr _ \<Rightarrow> err)))))
         (\<lambda>err. if err \<noteq> None then ret err
           else after (for_in [0 ..< nat ((timeoutSecs + 10 - 1) sdiv 10 - 1)] None (\<lambda>ix err.
               seq (sleeps (bench_cluster b) 10) (\<lambda>_.
               seq (k8stest_listMayastorPods b (Some now)) (\<lambda>r. case r of
                 Inr newPodNames \<Rightarrow> if int (length newPodNames) \<ge> initialPodCount then ret (Return None) else ret (Continue None)
               | Inl err \<Rightarrow> ret (Continue (Some err))))))
             (\<lambda>err. ret (Some (Errorf (''restart failed incomplete error='' @ err_v err))))))))"

text \<open>After the pods are back: wait for mayastor, make the pools anew, wait for them, remove the replicas.\<close>

definition after_restart :: "'w bench \<Rightarrow> int \<Rightarrow> ('w, error option) io" where
  "after_restart b poolsTOSecs =
     (let f = the_fleet b in
      seq (sleeps (bench_cluster b) 30) (\<lambda>_.
      seq (DeleteAllPoolFinalizers (swept f)) (\<lambda>_.
      seq (if PoolDevice f \<noteq> '''' then seq (DeleteAllPools (swept f)) (\<lambda>_. CreateConfiguredPools f) else ret None) (\<lambda>err. case err of
        Some e \<Rightarrow> ret (Some e)
      | None \<Rightarrow>
          after (for_in [0 ..< nat ((poolsTOSecs + 10 - 1) sdiv 10)] () (\<lambda>ix u.
            seq (sleeps (bench_cluster b) 10) (\<lambda>_.
            seq (CheckAllMsPoolsAreOnline (bench_cluster b)) (\<lambda>r. ret (case r of Inr _ \<Rightarrow> Break () | Inl err \<Rightarrow> Continue ())))))
          (\<lambda>_. seq (CheckAllMsPoolsAreOnline (bench_cluster b)) (\<lambda>r. case r of
            Inl err \<Rightarrow> ret (Some (wrapped ''not all pools are online '' err))
          | Inr _ \<Rightarrow>
              if CanConnect b then seq (k8stest_RmReplicasInCluster (swept f)) (\<lambda>err. case err of
                Some e \<Rightarrow> ret (Some (wrapped ''RmReplicasInCluster failed '' e))
              | None \<Rightarrow> ret None)
              else ret None))))))"

definition restartMayastor :: "'w bench \<Rightarrow> int \<Rightarrow> int \<Rightarrow> int \<Rightarrow> int \<Rightarrow> ('w, error option) io" where
  "restartMayastor b initialPodCount restartTOSecs readyTOSecs poolsTOSecs =
     (let f = the_fleet b in
      seq (CleanUp (swept f) (CanConnect b)) (\<lambda>_.
      seq (DeleteAllPoolFinalizers (swept f)) (\<lambda>_.
      seq (DeleteAllPools (swept f)) (\<lambda>_.
      seq (k8stest_RestartMayastorPods b initialPodCount restartTOSecs) (\<lambda>err. case err of
        Some e \<Rightarrow> ret (Some (wrapped ''RestartMayastorPods failed '' e))
      | None \<Rightarrow> seq (MayastorReady f 5 readyTOSecs) (\<lambda>r. case r of
          Inl err \<Rightarrow> ret (Some (wrapped ''failure waiting for mayastor to be ready '' err))
        | Inr ready \<Rightarrow>
            if \<not> ready then ret (Some (Errorf ''mayastor is not ready after deleting all pods''))
            else after_restart b poolsTOSecs))))))"

section \<open>Is the cluster fit for a test\<close>

definition getMspUsage :: "'w bench \<Rightarrow> ('w e2e, 64 word \<times> error option) io" where
  "getMspUsage b =
     seq (k8stest_ListMsPools (bench_cluster b) (plugin (bench_kube b))) (\<lambda>r. case r of
       Inl err \<Rightarrow> ret (0, Some err)
     | Inr msPools \<Rightarrow> ret (fold (\<lambda>pool mspUsage. mspUsage + po_Used pool) msPools 0, None))"

text \<open>A check that says what it has found, and one that counts what it has listed.\<close>

definition found_check :: "('s, bool \<times> error option) io \<Rightarrow> string \<Rightarrow> error list \<Rightarrow> ('s, error list) io" where
  "found_check m what errs =
     seq m (\<lambda>(found, err). let errs = Accumulate err errs in ret (if found then errs @ [Errorf what] else errs))"

definition count_check :: "('s, 'a list \<times> error option) io \<Rightarrow> string \<Rightarrow> error list \<Rightarrow> ('s, error list) io" where
  "count_check m what errs =
     seq m (\<lambda>(items, err). let errs = Accumulate err errs in
       ret (if items \<noteq> [] then errs @ [Errorf (''gRPC: count of '' @ what @ '' reported via mayastor client is '' @ Itoa (int (length items)))] else errs))"

text \<open>Sixty rounds at most, as long as there is usage.\<close>

definition usage_wait :: "'w cluster \<Rightarrow> nat \<Rightarrow> ('w e2e, 64 word \<times> error option) io \<Rightarrow> 64 word \<times> error option
    \<Rightarrow> ('w e2e, 64 word \<times> error option) io" where
  "usage_wait cl sleepTime m st =
     after (for_in [0 ..< 60] st (\<lambda>ix st.
       if fst st = 0 then ret (Break st)
       else seq (in_e2e (sleeps cl sleepTime)) (\<lambda>_. seq m (\<lambda>st. ret (Continue st))))) ret"

text \<open>
  The usage by the control plane: its error counts only when the check waits. The usage by gRPC:
  its error always counts.
\<close>

definition msp_usage_check :: "'w bench \<Rightarrow> bool \<Rightarrow> error list \<Rightarrow> ('w e2e, error list) io" where
  "msp_usage_check b waitForPools errs =
     seq (getMspUsage b) (\<lambda>(mspUsage, err).
     let skip = (FailQuick b \<and> GetError errs \<noteq> None) in
     seq (if (err \<noteq> None \<or> mspUsage \<noteq> 0) \<and> waitForPools \<and> \<not> skip
          then seq (usage_wait (bench_cluster b) 10 (getMspUsage b) (mspUsage, err)) (\<lambda>(mspUsage, err). ret (mspUsage, Accumulate err errs))
          else ret (mspUsage, errs)) (\<lambda>(mspUsage, errs).
     ret (if mspUsage \<noteq> 0 then errs @ [Errorf (''pool usage reported via custom resources '' @ Itoa (uint mspUsage))] else errs)))"

definition grpc_usage_check :: "'w bench \<Rightarrow> bool \<Rightarrow> error list \<Rightarrow> ('w e2e, error list) io" where
  "grpc_usage_check b waitForPools errs =
     seq (in_e2e (k8stest_GetPoolUsageInCluster (the_fleet b))) (\<lambda>(poolUsage, err).
     let skip = (FailQuick b \<and> GetError errs \<noteq> None) in
     seq (if (err \<noteq> None \<or> poolUsage \<noteq> 0) \<and> waitForPools \<and> \<not> skip
          then usage_wait (bench_cluster b) 2 (in_e2e (k8stest_GetPoolUsageInCluster (the_fleet b))) (poolUsage, err)
          else ret (poolUsage, err)) (\<lambda>(poolUsage, err).
     let errs = Accumulate err errs in
     ret (if poolUsage \<noteq> 0 then errs @ [Errorf (''gRPC: pool usage reported via custom resources '' @ Itoa (uint poolUsage))] else errs)))"

definition volumes_check :: "'w bench \<Rightarrow> error list \<Rightarrow> ('w e2e, error list) io" where
  "volumes_check b errs =
     seq (k8stest_ListMsvs (bench_cluster b) (plugin (bench_kube b)) (order b)) (\<lambda>r. ret (case r of
       Inl err \<Rightarrow> Accumulate (Some err) errs
     | Inr msvs \<Rightarrow> if msvs \<noteq> [] then errs @ [Errorf ''found MayastorVolumes''] else errs))"

definition health_check :: "'w bench \<Rightarrow> error list \<Rightarrow> ('w e2e, error list) io" where
  "health_check b errs =
     seq (in_e2e (CheckTestPodsHealth b (bench_ns b))) (\<lambda>r. ret (if SelfTest b then errs else Accumulate (error_of r) errs))"

definition grpc_checks :: "'w bench \<Rightarrow> bool \<Rightarrow> error list \<Rightarrow> ('w e2e, error list) io" where
  "grpc_checks b waitForPools errs =
     (let f = the_fleet b in
      if \<not> CanConnect b then ret errs
      else seq (grpc_usage_check b waitForPools errs) (\<lambda>errs.
        seq (count_check (in_e2e (ListNexusesInCluster f)) ''nexuses'' errs) (\<lambda>errs.
        seq (count_check (in_e2e (k8stest_ListReplicasInCluster f)) ''replicas'' errs) (\<lambda>errs.
        count_check (in_e2e (ListNvmeControllersInCluster f)) ''replicas'' errs))))"

definition resourceCheck :: "'w bench \<Rightarrow> bool \<Rightarrow> ('w e2e, error option) io" where
  "resourceCheck b waitForPools =
     (let f = the_fleet b; k = bench_kube b in
      seq (health_check b []) (\<lambda>errs.
      seq (found_check (in_e2e (CheckForTestPods b)) ''found Pods'' errs) (\<lambda>errs.
      seq (found_check (in_e2e (CheckForPVCs k)) ''found PersistentVolumeClaims'' errs) (\<lambda>errs.
      seq (found_check (in_e2e (CheckForPVs k)) ''found PersistentVolumes'' errs) (\<lambda>errs.
      seq (volumes_check b errs) (\<lambda>errs.
      seq (found_check (in_e2e (CheckForStorageClasses f)) ''found storage classes using mayastor'' errs) (\<lambda>errs.
      seq (in_e2e (CheckAllMsPoolsAreOnline (bench_cluster b))) (\<lambda>r.
      seq (msp_usage_check b waitForPools (Accumulate (error_of r) errs)) (\<lambda>errs.
      seq (grpc_checks b waitForPools errs) (\<lambda>errs.
      ret (GetError errs)))))))))))"

definition ResourceCheck :: "'w bench \<Rightarrow> ('w e2e, error option) io" where
  "ResourceCheck b = resourceCheck b True"

text \<open>Three tries; the time that the caller allows for readiness is not used, the one for the restart is used twice.\<close>

definition restart_round :: "'w bench \<Rightarrow> int \<Rightarrow> int \<Rightarrow> int \<Rightarrow> nat \<Rightarrow> error option \<Rightarrow> ('w e2e, (error option, error option) ctl) io" where
  "restart_round b initialPodCount restartTOSecs poolsTOSecs ix err =
     (let again = (\<lambda>err. seq (in_e2e (sleeps (bench_cluster b) 10)) (\<lambda>_. ret (Continue err))) in
      seq (in_e2e (restartMayastor b initialPodCount restartTOSecs restartTOSecs poolsTOSecs)) (\<lambda>err.
      if err \<noteq> None then again err
      else seq (in_e2e (CheckTestPodsHealth b (bench_ns b))) (\<lambda>r. case r of
        Inl e \<Rightarrow> again (Some e)
      | Inr _ \<Rightarrow> seq (ResourceCheck b) (\<lambda>err. if err \<noteq> None then again err else ret (Break None)))))"

definition RestartMayastor :: "'w bench \<Rightarrow> int \<Rightarrow> int \<Rightarrow> int \<Rightarrow> int \<Rightarrow> ('w e2e, error option) io" where
  "RestartMayastor b initialPodCount restartTOSecs readyTOSecs poolsTOSecs =
     after (for_in [1 .. 3] None (\<lambda>ix. restart_round b initialPodCount restartTOSecs poolsTOSecs (nat ix))) ret"

section \<open>Before and after each test\<close>

definition set_check_error :: "error option \<Rightarrow> ('w suite, unit) io" where
  "set_check_error err = modifies (\<lambda>s. s\<lparr>resourceCheckError := err\<rparr>)"

definition suffixed :: "string \<Rightarrow> error \<Rightarrow> error" where
  "suffixed text' err = Errorf (err_text err @ text')"

text \<open>The check that decides whether the test is run.\<close>

definition final_check :: "'w bench \<Rightarrow> ('w suite, error option) io" where
  "final_check b =
     seq (in_suite (resourceCheck b False)) (\<lambda>err. case err of
       Some e \<Rightarrow>
         let e' = suffixed (''; not running test case, k8s cluster is not '' @ [dquote] @ ''clean'' @ [dquote] @ ''!!! '') e in
         seq (set_check_error (Some e')) (\<lambda>_. ret (Some e'))
     | None \<Rightarrow>
         seq (set_check_error None) (\<lambda>_.
         seq (in_suite (in_e2e (k8stest_listMayastorPods b None))) (\<lambda>r. case r of
           Inl e \<Rightarrow> ret (Some (suffixed ''; not running test case, not able to get pod list'' e))
         | Inr podNames \<Rightarrow>
             seq (modifies (\<lambda>s. s\<lparr>mayastorInitialPodCount := int (length podNames)\<rparr>)) (\<lambda>_. ret None))))"

definition restart_and_restore :: "'w bench \<Rightarrow> ('w suite, unit) io" where
  "restart_and_restore b =
     seq (gets mayastorInitialPodCount) (\<lambda>n.
     seq (in_suite (RestartMayastor b n 120 120 120)) (\<lambda>_.
     seq (in_suite (in_e2e (RestoreConfiguredPools (the_fleet b)))) (\<lambda>_. ret ())))"

definition BeforeEachCheck :: "'w bench \<Rightarrow> ('w suite, error option) io" where
  "BeforeEachCheck b =
     seq (gets resourceCheckError) (\<lambda>prior.
     if FailQuick b \<and> prior \<noteq> None then ret (Some (Errorf ''prior ResourceCheck failed''))
     else if BeforeEachCheckAndRestart b then
       seq (if prior = None then seq (in_suite (resourceCheck b False)) (\<lambda>err. seq (set_check_error err) (\<lambda>_. ret err)) else ret prior) (\<lambda>err.
       if err \<noteq> None then seq (restart_and_restore b) (\<lambda>_. final_check b)
       else ret None)
     else final_check b)"

definition AfterEachCheck :: "'w bench \<Rightarrow> ('w suite, error option) io" where
  "AfterEachCheck b =
     seq (gets resourceCheckError) (\<lambda>prior.
     if FailQuick b \<and> prior \<noteq> None then ret (Some (Errorf ''prior ResourceCheck failed''))
     else seq (in_suite (ResourceCheck b)) (\<lambda>err. seq (set_check_error err) (\<lambda>_. ret err)))"

section \<open>What the checks have seen\<close>

definition seen :: "('s, 'a) io \<Rightarrow> 'a \<Rightarrow> bool" where
  "seen m x \<longleftrightarrow> (\<exists>s s'. m s = (Done x, s'))"

lemma seenI: "m s = (Done x, s') \<Longrightarrow> seen m x"
  unfolding seen_def by blast

lemma seen_in_e2e: "in_e2e m s = (Done x, s') \<Longrightarrow> seen m x"
  by (auto elim!: in_e2e_DoneE intro: seenI)

lemma seen_e2e: "seen (in_e2e m) x \<Longrightarrow> seen m x"
  by (auto simp: seen_def [of "in_e2e m"] dest: seen_in_e2e)

lemma GetError_None [simp]: "GetError errs = None \<longleftrightarrow> errs = []"
proof -
  have "fold (\<lambda>e err. case err of Some x \<Rightarrow> Some (Errorf (err_text x @ ''; '' @ err_text e)) | None \<Rightarrow> Some e) errs err = None
      \<longleftrightarrow> err = None \<and> errs = []" for err
    by (induction errs arbitrary: err) (auto split: option.splits)
  then show ?thesis by (simp add: GetError_def)
qed

lemma found_check_ok:
  "found_check m what errs s = (Done [], s') \<Longrightarrow> errs = [] \<and> m s = (Done (False, None), s')"
  by (auto simp: found_check_def Accumulate_Nil Let_def elim!: seq_DoneE split: if_splits)

lemma count_check_ok:
  "count_check m what errs s = (Done [], s') \<Longrightarrow> errs = [] \<and> m s = (Done ([], None), s')"
  by (auto simp: count_check_def Accumulate_Nil Let_def elim!: seq_DoneE split: if_splits)

lemma usage_wait_seen:
  assumes "usage_wait cl n m st s = (Done st', s')"
  shows "st' = st \<or> seen m st'"
proof -
  let ?P = "\<lambda>st'. st' = st \<or> seen m st'"
  have "yields (\<lambda>c. case c of Continue v \<Rightarrow> ?P v | Break v \<Rightarrow> ?P v | Return r \<Rightarrow> ?P r)
      (if fst v = 0 then ret (Break v) else seq (in_e2e (sleeps cl n)) (\<lambda>_. seq m (\<lambda>st. ret (Continue st))))" if "?P v" for v
    using that by (auto simp: yields_def seen_def elim!: seq_DoneE)
  then have "yields ?P (usage_wait cl n m st)"
    unfolding usage_wait_def by (intro yields_after [where P = ?P] yields_for_in yields_ret) auto
  with assms show ?thesis by (auto dest: yieldsD)
qed

lemma msp_usage_check_ok:
  assumes "msp_usage_check b wait errs s = (Done [], s')"
  shows "errs = [] \<and> (\<exists>err. seen (getMspUsage b) (0, err) \<and> (wait \<longrightarrow> err = None))"
  using assms unfolding msp_usage_check_def Let_def
  by (auto simp: Accumulate_Nil elim!: seq_DoneE dest!: usage_wait_seen split: if_splits) (blast intro: seenI)+

lemma grpc_usage_check_ok:
  assumes "grpc_usage_check b wait errs s = (Done [], s')"
  shows "errs = [] \<and> seen (k8stest_GetPoolUsageInCluster (the_fleet b)) (0, None)"
  using assms unfolding grpc_usage_check_def Let_def
  by (auto simp: Accumulate_Nil elim!: seq_DoneE dest!: usage_wait_seen seen_in_e2e seen_e2e split: if_splits)

text \<open>The cluster as a check has seen it that reports nothing.\<close>

definition clean_seen :: "'w bench \<Rightarrow> bool \<Rightarrow> bool" where
  "clean_seen b waitForPools \<longleftrightarrow>
     (\<not> SelfTest b \<longrightarrow> seen (CheckTestPodsHealth b (bench_ns b)) (Inr ())) \<and>
     seen (CheckForTestPods b) (False, None) \<and> seen (CheckForPVCs (bench_kube b)) (False, None) \<and>
     seen (CheckForPVs (bench_kube b)) (False, None) \<and>
     seen (k8stest_ListMsvs (bench_cluster b) (plugin (bench_kube b)) (order b)) (Inr []) \<and>
     seen (CheckForStorageClasses (the_fleet b)) (False, None) \<and>
     seen (CheckAllMsPoolsAreOnline (bench_cluster b)) (Inr ()) \<and>
     (\<exists>err. seen (getMspUsage b) (0, err) \<and> (waitForPools \<longrightarrow> err = None)) \<and>
     (CanConnect b \<longrightarrow> seen (k8stest_GetPoolUsageInCluster (the_fleet b)) (0, None) \<and>
        seen (ListNexusesInCluster (the_fleet b)) ([], None) \<and> seen (k8stest_ListReplicasInCluster (the_fleet b)) ([], None) \<and>
        seen (ListNvmeControllersInCluster (the_fleet b)) ([], None))"

lemma volumes_check_ok:
  assumes "volumes_check b errs s = (Done [], s')"
  shows "errs = [] \<and> seen (k8stest_ListMsvs (bench_cluster b) (plugin (bench_kube b)) (order b)) (Inr [])"
  using assms unfolding volumes_check_def
  by (auto simp: Accumulate_Nil elim!: seq_DoneE split: sum.splits if_splits) (rule seenI)

lemma grpc_checks_ok:
  assumes "grpc_checks b wait errs s = (Done [], s')"
  shows "errs = [] \<and> (CanConnect b \<longrightarrow> seen (k8stest_GetPoolUsageInCluster (the_fleet b)) (0, None) \<and>
        seen (ListNexusesInCluster (the_fleet b)) ([], None) \<and> seen (k8stest_ListReplicasInCluster (the_fleet b)) ([], None) \<and>
        seen (ListNvmeControllersInCluster (the_fleet b)) ([], None))"
  using assms unfolding grpc_checks_def Let_def
  by (auto elim!: seq_DoneE dest!: grpc_usage_check_ok count_check_ok seen_in_e2e split: if_splits)

lemma health_check_ok:
  assumes "health_check b errs s = (Done [], s')"
  shows "errs = [] \<and> (\<not> SelfTest b \<longrightarrow> seen (CheckTestPodsHealth b (bench_ns b)) (Inr ()))"
  using assms unfolding health_check_def
  by (auto simp: Accumulate_Nil error_of_def elim!: seq_DoneE dest!: seen_in_e2e split: if_splits sum.splits)

section \<open>Properties\<close>

text \<open>
  \<^verbatim>\<open>resourceCheck\<close> reports nothing only if it has seen the cluster clean: pods of mayastor that are healthy, no pods, claims,
  volumes and storage classes of the tests, all pools online and their usage zero, and, where mayastor can be reached,
  no usage, nexuses, replicas and controllers by gRPC.
\<close>

theorem resourceCheck_clean:
  assumes "resourceCheck b waitForPools s = (Done None, s')"
  shows "clean_seen b waitForPools"
  using assms unfolding resourceCheck_def Let_def clean_seen_def
  by (auto simp: Accumulate_Nil error_of_def elim!: seq_DoneE
      dest!: health_check_ok found_check_ok volumes_check_ok msp_usage_check_ok grpc_checks_ok seen_in_e2e split: sum.splits)

lemma in_suite_DoneE:
  assumes "in_suite m s = (Done x, s')"
  obtains e where "m (suite_e2e s) = (Done x, e)" and "s' = s\<lparr>suite_e2e := e\<rparr>"
  using assms by (auto simp: in_suite_def zoom_def split: prod.splits)

lemma set_check_error_DoneE: "set_check_error err s = (Done x, s') \<Longrightarrow> s' = s\<lparr>resourceCheckError := err\<rparr>"
  by (auto simp: set_check_error_def)

lemma final_check_ok:
  assumes "final_check b s = (Done None, s')"
  shows "clean_seen b False \<and> resourceCheckError s' = None"
  using assms unfolding final_check_def Let_def
  by (auto elim!: seq_DoneE in_suite_DoneE dest!: set_check_error_DoneE dest: resourceCheck_clean split: option.splits sum.splits)

text \<open>
  Property C31. A test is run only on a cluster that was seen clean: \<^verbatim>\<open>BeforeEachCheck\<close> returns no error only after a resource check
  without complaints, and then no error is recorded.
\<close>

theorem BeforeEachCheck_clean:
  assumes "BeforeEachCheck b s = (Done None, s')"
  shows "clean_seen b False \<and> resourceCheckError s' = None"
  using assms unfolding BeforeEachCheck_def
  by (auto elim!: seq_DoneE in_suite_DoneE dest!: set_check_error_DoneE final_check_ok resourceCheck_clean split: if_splits)

text \<open>What happens in a suite: the two checks, and tests that do to the cluster what they want.\<close>

inductive suite_step :: "'w bench \<Rightarrow> 'w suite \<Rightarrow> 'w suite \<Rightarrow> bool" for b where
  before: "BeforeEachCheck b s = (out, t) \<Longrightarrow> suite_step b s t"
| afterwards: "AfterEachCheck b s = (out, t) \<Longrightarrow> suite_step b s t"
| test_case: "suite_step b s (s\<lparr>suite_e2e := e\<rparr>)"

inductive_cases suite_stepE: "suite_step b s t"

lemma failed_checks:
  assumes "FailQuick b" and "resourceCheckError s = Some e"
  shows "BeforeEachCheck b s = (Done (Some (Errorf ''prior ResourceCheck failed'')), s)"
    and "AfterEachCheck b s = (Done (Some (Errorf ''prior ResourceCheck failed'')), s)"
  using assms by (simp_all add: BeforeEachCheck_def AfterEachCheck_def seq_apply)

text \<open>
  Property C32. With \<^verbatim>\<open>FailQuick\<close> a failed resource check is final: however many tests and checks follow, the recorded
  error stays, and every later check before or after a test fails at once without touching the cluster.
\<close>

theorem fail_quick_final:
  assumes "FailQuick b" and "resourceCheckError s = Some e" and "(suite_step b)\<^sup>*\<^sup>* s t"
  shows "resourceCheckError t = Some e \<and> BeforeEachCheck b t = (Done (Some (Errorf ''prior ResourceCheck failed'')), t) \<and>
    AfterEachCheck b t = (Done (Some (Errorf ''prior ResourceCheck failed'')), t)"
proof -
  from assms(3) have "resourceCheckError t = Some e"
  proof (induction rule: rtranclp_induct)
    case (step t u)
    from step.hyps(2) step.IH show ?case
      by (cases rule: suite_step.cases) (auto simp: failed_checks [OF assms(1)])
  qed (rule assms(2))
  then show ?thesis using failed_checks [OF assms(1)] by simp
qed


text \<open>The wait for a pod: with a pause of at least a second it ends.\<close>

lemma completion_loop:
  assumes "0 < sleep"
  shows "0 < fuel \<Longrightarrow> secs < elapsed + sleep * (int fuel - 1) \<Longrightarrow>
    \<exists>c w'. loop fuel i (elapsed, p) (completion_round b name sleep secs) w = (Done c, w')"
proof (induction fuel arbitrary: i elapsed p w)
  case (Suc fuel)
  have "returning (completion_round b name sleep secs i (elapsed, p))"
    unfolding completion_round_def CheckPodCompleted_def CheckPodContainerCompleted_def prod.case by (intro ends returning_sleeps)
  then obtain c w1 where b: "completion_round b name sleep secs i (elapsed, p) w = (Done c, w1)" by (rule returningE)
  show ?case
  proof (cases c)
    case (Continue v)
    with b have v: "fst v = elapsed + sleep" and le: "elapsed \<le> secs"
      by (auto simp: completion_round_def elim!: seq_DoneE split: if_splits option.splits prod.splits)
    have "0 < fuel"
      using Suc.prems(2) le by (cases fuel) auto
    moreover have "secs < fst v + sleep * (int fuel - 1)"
      using Suc.prems(2) v by (simp add: algebra_simps)
    ultimately show ?thesis
      using Suc.IH [of "fst v" "Suc i" "snd v" w1] b Continue by (simp add: seq_Done)
  qed (use b in \<open>simp_all add: seq_Done\<close>)
qed simp

text \<open>
  \<^verbatim>\<open>WaitPodComplete\<close> with a pause of at least one second returns: as many rounds are enough as pauses fit in the
  timeout, and two. It reports success only after it has seen that the pod has succeeded.
\<close>

theorem WaitPodComplete_ends:
  assumes "0 < sleep" and "nat (secs div sleep) + 2 \<le> fuel"
  shows "\<exists>r w'. WaitPodComplete fuel b name sleep secs w = (Done r, w') \<and>
    (r = Inr () \<longrightarrow> seen (CheckPodCompleted b name ''default'') (PodSucceeded, None))"
proof -
  have "secs < sleep * (secs div sleep + 1)"
    using mult_div_mod_eq [of sleep secs] pos_mod_bound [of sleep secs] assms(1) unfolding distrib_left by linarith
  also have "\<dots> \<le> sleep * (int fuel - 1)"
    using assms by (intro mult_left_mono) linarith+
  finally have "secs < 0 + sleep * (int fuel - 1)" by simp
  with assms completion_loop [OF assms(1), of fuel secs 0 0 None b name w]
  obtain c w1 where run: "loop fuel 0 (0, None) (completion_round b name sleep secs) w = (Done c, w1)" by auto
  then have "\<exists>r w'. WaitPodComplete fuel b name sleep secs w = (Done r, w')"
    unfolding WaitPodComplete_def after_def by (cases c) (auto simp: seq_Done split: prod.splits)
  moreover have "seen (CheckPodCompleted b name ''default'') (PodSucceeded, None)"
    if "WaitPodComplete fuel b name sleep secs w = (Done (Inr ()), w')" for w'
    using that unfolding WaitPodComplete_def
    by (cases rule: after_loopE)
       (auto simp: completion_round_def elim!: seq_DoneE dest: seenI split: if_splits option.splits prod.splits)
  ultimately show ?thesis by blast
qed

text \<open>A cluster that is clean, for instances of these properties.\<close>

definition clean_bench :: "nat bench" where
  "clean_bench = \<lparr>the_fleet = small_fleet\<lparr>swept := (swept small_fleet)\<lparr>base := (kube_of small_fleet)\<lparr>
       cluster := (cluster_of small_fleet)\<lparr>pods := (pods_of small_fleet)\<lparr>PodsList := \<lambda>ns w. (Inr (if ns = ''mayastor'' then [small_pod] else []), w)\<rparr>\<rparr>,
       plugin := (plugin (kube_of small_fleet))\<lparr>JsonVolumes := \<lambda>t. Inr []\<rparr>,
       PvcItems := \<lambda>ns w. (Inr [], w), ScItems := \<lambda>w. (Inr [], w)\<rparr>\<rparr>\<rparr>,
     order = (\<lambda>m. m), CanConnect = False, SelfTest = False, FailQuick = True, BeforeEachCheckAndRestart = False,
     PodStatusGet = \<lambda>ns n w. (Inr (PodRunning, [\<lparr>ct_Name = n, ct_Ready = False, ct_Terminated = Some (''Completed'', 0)\<rparr>]), w)\<rparr>"

abbreviation fresh_suite :: "nat suite" where
  "fresh_suite \<equiv> \<lparr>suite_e2e = start_e2e, resourceCheckError = None, mayastorInitialPodCount = 0\<rparr>"

theorem BeforeEachCheck_clean_witness: "clean_seen clean_bench False"
proof -
  have "fst (BeforeEachCheck clean_bench fresh_suite) = Done None" by code_simp
  then obtain s' where "BeforeEachCheck clean_bench fresh_suite = (Done None, s')" by (metis prod.collapse)
  from BeforeEachCheck_clean [OF this] show ?thesis by simp
qed

theorem fail_quick_final_witness:
  "\<exists>t. (suite_step clean_bench)\<^sup>*\<^sup>* (fresh_suite\<lparr>resourceCheckError := Some (Error ''dirty'')\<rparr>) t \<and>
     suite_e2e t = start_e2e\<lparr>e2e_world := 7\<rparr> \<and> AfterEachCheck clean_bench t = (Done (Some (Errorf ''prior ResourceCheck failed'')), t)"
proof -
  let ?s = "fresh_suite\<lparr>resourceCheckError := Some (Error ''dirty'')\<rparr>"
  let ?t = "?s\<lparr>suite_e2e := start_e2e\<lparr>e2e_world := 7\<rparr>\<rparr>"
  have "(suite_step clean_bench)\<^sup>*\<^sup>* ?s ?t" by (rule r_into_rtranclp) (rule test_case)
  moreover have "AfterEachCheck clean_bench ?t = (Done (Some (Errorf ''prior ResourceCheck failed'')), ?t)"
    using fail_quick_final [OF _ _ calculation, of "Error ''dirty''"] by (simp add: clean_bench_def)
  ultimately show ?thesis by (intro exI [of _ ?t]) simp
qed

theorem WaitPodComplete_ends_witness: "seen (CheckPodCompleted clean_bench ''fio'' ''default'') (PodSucceeded, None)"
proof -
  have "fst (WaitPodComplete 12 clean_bench ''fio'' 1 10 0) = Done (Inr ())" by code_simp
  with WaitPodComplete_ends [of 1 10 12 clean_bench "''fio''" 0] show ?thesis by auto
qed

lemma clean_restart: "restartMayastor clean_bench 0 120 120 120 0 = (Done None, 10)"
proof -
  let ?k = "swept (the_fleet clean_bench)"
  have "CleanUp ?k False 0 = (Done True, 0)" "DeleteAllPoolFinalizers ?k 0 = (Done (False, None), 0)" "DeleteAllPools ?k 0 = (Done True, 0)"
    "k8stest_RestartMayastorPods clean_bench 0 120 0 = (Done None, 0)" "MayastorReady (the_fleet clean_bench) 5 120 0 = (Done (Inr True), 0)"
    "after_restart clean_bench 120 0 = (Done None, 10)"
    by code_simp+
  moreover have "CanConnect clean_bench = False" by code_simp
  ultimately show ?thesis by (simp add: restartMayastor_def Let_def seq_Done)
qed


end
