(* ===== verification/E2E_Install.thy ===== *)
theory E2E_Install
  imports E2E_Checks "HOL-Library.List_Lexorder" "HOL-Library.Char_ord"
begin

text \<open>
  Installing and removing mayastor: \<^verbatim>\<open>src/src/common/k8sinstall/util.go\<close>, with the paths of
  \<^verbatim>\<open>src/src/common/locations\<close>, the e2e agent (\<^verbatim>\<open>k8stest/util_e2e_agent.go\<close>) and the choice of the control
  plane (\<^verbatim>\<open>k8stest/util.go\<close>, \<^verbatim>\<open>e2e_config.go\<close>). \<open>installer\<close> adds the configuration, the file system, the shell
  and \<^verbatim>\<open>kubectl\<close> run in a directory (its output and its error), and \<^verbatim>\<open>sort.Sort\<close>, which is not stable.

  The files of an installation are deleted by one goroutine each. The goroutines share the variable \<^verbatim>\<open>err\<close> of the
  function that starts them: \<open>race_step\<close> is the step relation, with one access to the variable in a step, and
  \<open>scheduled\<close> runs the goroutines in a given order.
\<close>

record 'w installer =
  the_bench :: "'w bench"
  ImageTag :: string
  Registry :: string
  Cores :: int
  ConfigName :: string
  PlatformName :: string
  MayastorRootDir :: string
  SessionDir :: string
  E2eRootDir :: string
  UninstallCleanup :: int
  ControlPlaneAgent :: string
  EtcdYaml :: string
  NatsDeploymentYaml :: string
  CsiDaemonsetYaml :: string
  DaemonsetYaml :: string
  WriteConfig :: "string \<Rightarrow> string \<Rightarrow> 'w \<Rightarrow> error option \<times> 'w"
  BashC :: "string \<Rightarrow> 'w \<Rightarrow> error option \<times> 'w"
  KubectlIn :: "string \<Rightarrow> string list \<Rightarrow> 'w \<Rightarrow> (string \<times> error option) \<times> 'w"
  Stat :: "string \<Rightarrow> 'w \<Rightarrow> error option \<times> 'w"
  IsNotExist :: "error \<Rightarrow> bool"
  ReadDir :: "string \<Rightarrow> 'w \<Rightarrow> (string \<times> bool) list result \<times> 'w"
  SortBy :: "(string \<Rightarrow> nat) \<Rightarrow> string list \<Rightarrow> string list"

abbreviation inst_fleet :: "'w installer \<Rightarrow> 'w fleet" where
  "inst_fleet i \<equiv> the_fleet (the_bench i)"

abbreviation inst_sweep :: "'w installer \<Rightarrow> 'w sweep" where
  "inst_sweep i \<equiv> swept (inst_fleet i)"

abbreviation inst_cluster :: "'w installer \<Rightarrow> 'w cluster" where
  "inst_cluster i \<equiv> cluster_of (inst_fleet i)"

abbreviation inst_plugin :: "'w installer \<Rightarrow> 'w plugin" where
  "inst_plugin i \<equiv> plugin (kube_of (inst_fleet i))"

section \<open>Paths\<close>

text \<open>\<^verbatim>\<open>path.Clean\<close>: the elements of a path between slashes, with the empty ones, \<^verbatim>\<open>.\<close> and \<^verbatim>\<open>..\<close> worked off.\<close>

definition slash :: char where "slash = CHR 0x2F"

fun path_elements :: "string \<Rightarrow> string list" where
  "path_elements [] = [[]]"
| "path_elements (c # t) =
     (if c = slash then [] # path_elements t
      else case path_elements t of x # xs \<Rightarrow> (c # x) # xs | [] \<Rightarrow> [[c]])"

definition clean_element :: "bool \<Rightarrow> string list \<Rightarrow> string \<Rightarrow> string list" where
  "clean_element rooted acc x =
     (if x = '''' \<or> x = ''.'' then acc
      else if x = ''..'' then
        (if acc \<noteq> [] \<and> last acc \<noteq> ''..'' then butlast acc else if rooted then acc else acc @ [x])
      else acc @ [x])"

definition Clean :: "string \<Rightarrow> string" where
  "Clean p =
     (let rooted = HasPrefix p [slash]; parts = foldl (clean_element rooted) [] (path_elements p) in
      if rooted then slash # Join parts [slash] else if parts = [] then ''.'' else Join parts [slash])"

definition filepath_Join :: "string \<Rightarrow> string \<Rightarrow> string" where
  "filepath_Join a b = (let xs = filter (\<lambda>x. x \<noteq> '''') [a, b] in if xs = [] then '''' else Clean (Join xs [slash]))"

definition locationExists :: "'w installer \<Rightarrow> string \<Rightarrow> ('w, string result) io" where
  "locationExists i path =
     seq (call (Stat i path)) (\<lambda>err. case err of Some e \<Rightarrow> ret (Inl e) | None \<Rightarrow> ret (Inr path))"

definition GetBuildInfoFile :: "'w installer \<Rightarrow> ('w, string result) io" where
  "GetBuildInfoFile i = locationExists i (Clean (MayastorRootDir i @ ''/scripts/../build_info.json''))"

definition GetMayastorScriptsDir :: "'w installer \<Rightarrow> ('w, string result) io" where
  "GetMayastorScriptsDir i = locationExists i (Clean (MayastorRootDir i @ ''/scripts''))"

definition GetControlPlaneScriptsDir :: "'w installer \<Rightarrow> ('w, string result) io" where
  "GetControlPlaneScriptsDir i = locationExists i (Clean (MayastorRootDir i @ ''/mcp/scripts''))"

definition GetGeneratedYamlsDir :: "'w installer \<Rightarrow> string" where
  "GetGeneratedYamlsDir i = Clean (SessionDir i @ ''/install-yamls'')"

definition GetControlPlaneGeneratedYamlsDir :: "'w installer \<Rightarrow> string" where
  "GetControlPlaneGeneratedYamlsDir i = Clean (SessionDir i @ ''/install-yamls-control-plane'')"

definition GetE2EAgentPath :: "'w installer \<Rightarrow> string" where
  "GetE2EAgentPath i = Clean (E2eRootDir i @ ''/tools/e2e-agent'')"

definition GetE2EScriptsPath :: "'w installer \<Rightarrow> string" where
  "GetE2EScriptsPath i = Clean (E2eRootDir i @ ''/scripts'')"

section \<open>kubectl, the e2e agent, the control plane\<close>

definition kubectl_yaml :: "string \<Rightarrow> 'w installer \<Rightarrow> string \<Rightarrow> string \<Rightarrow> ('w, error option) io" where
  "kubectl_yaml verb i filename dir =
     seq (call (KubectlIn i dir [verb, ''-f'', filename])) (\<lambda>(out, err). case err of
       Some e \<Rightarrow> ret (Some (wrapped (''failed to apply yaml file '' @ filename @ '' : Output: '' @ out @ '' : Error: '') e))
     | None \<Rightarrow> ret None)"

definition KubeCtlApplyYaml :: "'w installer \<Rightarrow> string \<Rightarrow> string \<Rightarrow> ('w, error option) io" where
  "KubeCtlApplyYaml = kubectl_yaml ''apply''"

definition KubeCtlDeleteYaml :: "'w installer \<Rightarrow> string \<Rightarrow> string \<Rightarrow> ('w, error option) io" where
  "KubeCtlDeleteYaml = kubectl_yaml ''delete''"

definition e2eReadyPodCount :: "'w installer \<Rightarrow> ('w, int) io" where
  "e2eReadyPodCount i =
     seq (call (DaemonSetGet (inst_fleet i) ''e2e-agent'' ''e2e-rest-agent'')) (\<lambda>r. ret (case r of
       Inl err \<Rightarrow> -1
     | Inr ds \<Rightarrow> ds_NumberAvailable ds))"

definition EnsureE2EAgent :: "'w installer \<Rightarrow> ('w, bool result) io" where
  "EnsureE2EAgent i =
     check (EnsureNamespace (inst_fleet i) ''e2e-agent'') (\<lambda>err. err) (\<lambda>_.
     seq (k8stest_GetNodeLocs (inst_cluster i)) (\<lambda>r.
     let nodes = (case r of Inl err \<Rightarrow> [] | Inr ns \<Rightarrow> ns);
         instances = int (length (filter (\<lambda>node. MayastorNode node \<and> \<not> MasterNode node) nodes)) in
     seq (e2eReadyPodCount i) (\<lambda>n.
     if n = instances then ret (Inr True)
     else seq (KubeCtlApplyYaml i ''e2e-agent.yaml'' (GetE2EAgentPath i)) (\<lambda>err. case err of
       Some e \<Rightarrow> ret (Inl e)
     | None \<Rightarrow> seq (until_ready (inst_cluster i) 5 60 (seq (e2eReadyPodCount i) (\<lambda>n. ret (n = instances)))) (\<lambda>ready.
         ret (Inr ready))))))"

definition k8stest_GetMayastorNodeNames :: "'w installer \<Rightarrow> ('w, string list result) io" where
  "k8stest_GetMayastorNodeNames i =
     check (k8stest_GetNodeLocs (inst_cluster i)) (\<lambda>err. err) (\<lambda>nodes. ret (Inr (map NodeName (filter MayastorNode nodes))))"

text \<open>The version of the control plane in the configuration, and the file that the configuration is written to.\<close>

definition config_version :: "'w installer \<Rightarrow> string" where
  "config_version i = MayastorVersion (inst_plugin i)"

definition with_version :: "string \<Rightarrow> 'w installer \<Rightarrow> 'w installer" where
  "with_version version i =
     i\<lparr>the_bench := (the_bench i)\<lparr>the_fleet := (inst_fleet i)\<lparr>swept := (inst_sweep i)\<lparr>base := (kube_of (inst_fleet i))\<lparr>
       plugin := (inst_plugin i)\<lparr>MayastorVersion := version\<rparr>\<rparr>\<rparr>\<rparr>\<rparr>\<rparr>"

definition saveConfig :: "'w installer \<Rightarrow> ('w, unit) io" where
  "saveConfig i =
     seq (call (WriteConfig i (Clean (SessionDir i @ ''/resolved-configuration-'' @ ConfigName i @ ''-'' @ PlatformName i @ ''.yaml''))
       (config_version i))) (\<lambda>_. ret ())"

definition SetControlPlane :: "'w installer \<Rightarrow> string \<Rightarrow> ('w, bool \<times> 'w installer) io" where
  "SetControlPlane i controlPlane =
     (if config_version i = '''' \<or> config_version i = controlPlane
      then let i' = with_version controlPlane i in seq (saveConfig i') (\<lambda>_. ret (True, i'))
      else ret (False, i))"

definition CheckAndSetControlPlane :: "'w installer \<Rightarrow> ('w, 'w installer result) io" where
  "CheckAndSetControlPlane i =
     (let ns = ProductNamespace (inst_sweep i) in
      seq (call (DeploymentGet (inst_fleet i) ns (ControlPlaneAgent i))) (\<lambda>r1.
      seq (call (StsGet (inst_fleet i) ns (ControlPlaneAgent i))) (\<lambda>r2.
      if error_of r1 \<noteq> None \<and> error_of r2 \<noteq> None then ret (Inl (Errorf ''restful Control plane components are absent''))
      else seq (SetControlPlane i ''1.0.0'') (\<lambda>(done, i').
        if \<not> done then ret (Inl (Errorf ''failed to setup config control plane to 1.0.0'')) else ret (Inr i')))))"

section \<open>Generating the files\<close>

definition bash :: "'w installer \<Rightarrow> string \<Rightarrow> ('w, error option) io" where
  "bash i bashCmd = call (BashC i bashCmd)"

definition postFixInstallation :: "'w installer \<Rightarrow> string \<Rightarrow> ('w, error option) io" where
  "postFixInstallation i yamlsDir =
     seq (GetBuildInfoFile i) (\<lambda>r. case r of
       Inl err \<Rightarrow> ret None
     | Inr buildInfoFile \<Rightarrow> bash i (GetE2EScriptsPath i @ ''/postfix-install.py '' @ yamlsDir @ '' -b '' @ buildInfoFile))"

definition quoted :: "string \<Rightarrow> string" where
  "quoted t = [squote] @ t @ [squote]"

definition registry_directive :: "'w installer \<Rightarrow> string" where
  "registry_directive i = (if Registry i \<noteq> '''' then '' -r '' @ quoted (Registry i) else '''')"

text \<open>The name of the last master node, and only if there are pools in the configuration; the directives for pools stay empty.\<close>

definition GenerateMayastorYamlFiles :: "'w installer \<Rightarrow> ('w, error option) io" where
  "GenerateMayastorYamlFiles i =
     seq (k8stest_GetNodeLocs (inst_cluster i)) (\<lambda>r. case r of
       Inl err \<Rightarrow> ret (Some (wrapped ''GetNodeLocs failed '' err))
     | Inr nodeLocs \<Rightarrow>
         let coresDirective = (if Cores i \<noteq> 0 then '' -c '' @ Itoa (Cores i) else '''');
             masterNode = (if PoolDevice (inst_fleet i) \<noteq> ''''
               then fold (\<lambda>node m. if MasterNode node then NodeName node else m) nodeLocs '''' else '''');
             etcdOptions = ''etcd.replicaCount=1,etcd.nodeSelector=kubernetes.io/hostname: '' @ masterNode
               @ '',etcd.tolerations=- key: node-role.kubernetes.io/master'' in
         seq (GetMayastorScriptsDir i) (\<lambda>r. case r of
           Inl err \<Rightarrow> ret (Some err)
         | Inr mayastorScriptDir \<Rightarrow>
             seq (bash i (mayastorScriptDir @ ''/generate-deploy-yamls.sh -s '' @ quoted etcdOptions @ '' -o '' @ GetGeneratedYamlsDir i
               @ '' -t '' @ quoted (ImageTag i) @ '' '' @ registry_directive i @ '' '' @ coresDirective @ '' '' @ '' test'')) (\<lambda>err.
             case err of Some e \<Rightarrow> ret (Some e) | None \<Rightarrow> postFixInstallation i (GetGeneratedYamlsDir i))))"

definition GenerateControlPlaneYamlFiles :: "'w installer \<Rightarrow> ('w, error option) io" where
  "GenerateControlPlaneYamlFiles i =
     seq (control_plane (inst_plugin i) (ret MajorVersion)) (\<lambda>major.
     if major \<noteq> 1 then ret (Some (Errorf (''unsupported control plane version '' @ Itoa major @ [newline])))
     else seq (GetControlPlaneScriptsDir i) (\<lambda>r. case r of
       Inl err \<Rightarrow> ret (Some err)
     | Inr mcpScriptDir \<Rightarrow>
         seq (call (Stat i (mcpScriptDir @ ''/generate-deploy-yamls.sh''))) (\<lambda>err.
         let scriptFile = mcpScriptDir @ (if err \<noteq> None then ''/deploy/generate-yamls.sh'' else ''/generate-deploy-yamls.sh'') in
         seq (call (Stat i scriptFile)) (\<lambda>err. case err of
           Some e \<Rightarrow> ret (Some e)
         | None \<Rightarrow>
             seq (bash i (scriptFile @ '' -o '' @ GetControlPlaneGeneratedYamlsDir i @ '' -t '' @ quoted (ImageTag i)
               @ '' -s mayastorCP.logLevel=debug '' @ registry_directive i @ '' test'')) (\<lambda>err.
             case err of Some e \<Rightarrow> ret (Some e) | None \<Rightarrow> postFixInstallation i (GetControlPlaneGeneratedYamlsDir i))))))"

definition WaitForPoolCrd :: "'w installer \<Rightarrow> ('w e2e, bool) io" where
  "WaitForPoolCrd i =
     after (for_in [0 ..< 12] () (\<lambda>ix u.
       seq (in_e2e (sleeps (inst_cluster i) 5)) (\<lambda>_.
       seq (k8stest_ListMsPools (inst_cluster i) (inst_plugin i)) (\<lambda>r. ret (case r of
         Inl err \<Rightarrow> if IsNotFound err then Continue () else Return False
       | Inr _ \<Rightarrow> Return True)))))
     (\<lambda>_. ret False)"

section \<open>The files of the control plane\<close>

definition weight :: "string \<Rightarrow> nat" where
  "weight f = (if HasSuffix f ''rbac.yaml'' then 0 else 1)"

definition getCPYamlFiles :: "'w installer \<Rightarrow> ('w, string list result) io" where
  "getCPYamlFiles i =
     check (call (ReadDir i (GetControlPlaneGeneratedYamlsDir i))) (\<lambda>err. err) (\<lambda>files.
     let yamlFiles = map fst (filter (\<lambda>(fName, isDir). \<not> isDir \<and> HasSuffix fName ''.yaml'') files) in
     ret (Inr (SortBy i weight (sort yamlFiles))))"

definition installControlPlane :: "'w installer \<Rightarrow> ('w, error option) io" where
  "installControlPlane i =
     seq (getCPYamlFiles i) (\<lambda>r. case r of
       Inl err \<Rightarrow> ret (Some err)
     | Inr yamlFiles \<Rightarrow>
         let yamlsDir = GetControlPlaneGeneratedYamlsDir i in
         after (for_in yamlFiles [] (\<lambda>yf errs.
           seq (KubeCtlApplyYaml i yf yamlsDir) (\<lambda>err. ret (Continue (case err of
             Some e \<Rightarrow> Accumulate (Some (wrapped (''failed to apply yaml file '' @ yf @ '' , yaml path: '' @ yamlsDir @ '', error: '') e)) errs
           | None \<Rightarrow> errs)))))
         (\<lambda>errs. ret (GetError errs)))"

section \<open>Deletions in parallel\<close>

text \<open>
  Where a goroutine is: it sleeps, looks for its file (\<open>Looked\<close> holds what it has seen and not yet stored), decides by the shared
  variable, deletes (\<open>Writing\<close> holds what it is about to store), tests the shared variable, and sends it.
\<close>

datatype deletion =
    Starting bool string
  | Looking string
  | Looked string "error option"
  | Deciding string
  | Deleting string
  | Writing "error option"
  | Testing
  | Reporting
  | Over

record 'w race =
  race_err :: "error option"
  race_sent :: "error option list"
  race_cap :: nat
  race_world :: 'w

definition in_race :: "('w, 'a) io \<Rightarrow> ('w race, 'a) io" where
  "in_race m = zoom race_world (\<lambda>w s. s\<lparr>race_world := w\<rparr>) m"

definition set_err :: "error option \<Rightarrow> ('w race, unit) io" where
  "set_err err = modifies (\<lambda>s. s\<lparr>race_err := err\<rparr>)"

fun deletion_step :: "'w installer \<Rightarrow> string \<Rightarrow> deletion \<Rightarrow> ('w race, deletion) io" where
  "deletion_step i yamlsDir (Starting look yf) =
     seq (in_race (sleeps (inst_cluster i) 1)) (\<lambda>_. ret (if look then Looking yf else Deleting yf))"
| "deletion_step i yamlsDir (Looking yf) =
     seq (in_race (call (Stat i (filepath_Join yamlsDir yf)))) (\<lambda>err. ret (Looked yf err))"
| "deletion_step i yamlsDir (Looked yf err) = seq (set_err err) (\<lambda>_. ret (Deciding yf))"
| "deletion_step i yamlsDir (Deciding yf) =
     seq (gets race_err) (\<lambda>err. ret (if (case err of Some e \<Rightarrow> IsNotExist i e | None \<Rightarrow> False) then Writing None else Deleting yf))"
| "deletion_step i yamlsDir (Deleting yf) = seq (in_race (KubeCtlDeleteYaml i yf yamlsDir)) (\<lambda>err. ret (Writing err))"
| "deletion_step i yamlsDir (Writing err) = seq (set_err err) (\<lambda>_. ret Testing)"
| "deletion_step i yamlsDir Testing = seq (gets race_err) (\<lambda>err. ret (if err \<noteq> None then Reporting else Over))"
| "deletion_step i yamlsDir Reporting = seq (modifies (\<lambda>s. s\<lparr>race_sent := race_sent s @ [race_err s]\<rparr>)) (\<lambda>_. ret Over)"
| "deletion_step i yamlsDir Over = ret Over"

text \<open>A goroutine that is not over can take a step, unless it is about to send and the buffer of the channel is full.\<close>

definition runnable :: "'w race \<Rightarrow> deletion \<Rightarrow> bool" where
  "runnable s t \<longleftrightarrow> t \<noteq> Over \<and> (t = Reporting \<longrightarrow> length (race_sent s) < race_cap s)"

inductive race_step :: "'w installer \<Rightarrow> string \<Rightarrow> deletion list \<times> 'w race \<Rightarrow> deletion list \<times> 'w race \<Rightarrow> bool" for i yamlsDir where
  step: "k < length ts \<Longrightarrow> runnable s (ts ! k) \<Longrightarrow> deletion_step i yamlsDir (ts ! k) s = (Done t, s') \<Longrightarrow>
     race_step i yamlsDir (ts, s) (ts[k := t], s')"

definition scheduled :: "'w installer \<Rightarrow> string \<Rightarrow> nat \<Rightarrow> deletion list \<Rightarrow> ('w race, (deletion list, unit) ctl) io" where
  "scheduled i yamlsDir k ts =
     (\<lambda>s. if k < length ts \<and> runnable s (ts ! k) then seq (deletion_step i yamlsDir (ts ! k)) (\<lambda>t. ret (Continue (ts[k := t]))) s
          else (Done (Continue ts), s))"

text \<open>Wait for all goroutines, close the channel and collect what was sent. The shared variable is nil before they start.\<close>

definition start_race :: "deletion list \<Rightarrow> 'w \<Rightarrow> 'w race" where
  "start_race ts w = \<lparr>race_err = None, race_sent = [], race_cap = length ts, race_world = w\<rparr>"

definition delete_in_parallel :: "nat list \<Rightarrow> 'w installer \<Rightarrow> string \<Rightarrow> deletion list \<Rightarrow> ('w, error option) io" where
  "delete_in_parallel sched i yamlsDir ts =
     (\<lambda>w. case seq (for_in sched ts (scheduled i yamlsDir)) (\<lambda>c. case c of
         Inl u \<Rightarrow> unfinished
       | Inr ts' \<Rightarrow> if list_all (\<lambda>t. t = Over) ts' then gets (\<lambda>s. GetError (fold Accumulate (race_sent s) [])) else unfinished)
         (start_race ts w) of (out, s) \<Rightarrow> (out, race_world s))"

definition uninstallControlPlane :: "nat list \<Rightarrow> 'w installer \<Rightarrow> ('w, error option) io" where
  "uninstallControlPlane sched i =
     seq (getCPYamlFiles i) (\<lambda>r. case r of
       Inl err \<Rightarrow> ret (Some err)
     | Inr yamlFiles \<Rightarrow> delete_in_parallel sched i (GetControlPlaneGeneratedYamlsDir i) (map (Starting False) (rev yamlFiles)))"

section \<open>Installation and removal\<close>

definition mayastorYamlFiles :: "'w installer \<Rightarrow> string list" where
  "mayastorYamlFiles i = [EtcdYaml i, NatsDeploymentYaml i, CsiDaemonsetYaml i, DaemonsetYaml i]"

text \<open>A file that is not there is passed over.\<close>

definition apply_files :: "'w installer \<Rightarrow> ('w, error list) io" where
  "apply_files i =
     (let yamlsDir = GetGeneratedYamlsDir i in
      after (for_in (mayastorYamlFiles i) [] (\<lambda>yaml errs.
        seq (call (Stat i (filepath_Join yamlsDir yaml))) (\<lambda>err.
        if (case err of Some e \<Rightarrow> IsNotExist i e | None \<Rightarrow> False) then ret (Continue errs)
        else seq (KubeCtlApplyYaml i yaml yamlsDir) (\<lambda>err. ret (Continue (Accumulate err errs))))))
      ret)"

text \<open>Twenty four rounds; the error of the last one is what counts.\<close>

definition pools_come_online :: "'w installer \<Rightarrow> ('w, error option) io" where
  "pools_come_online i =
     after (for_in [0 ..< 24] None (\<lambda>ix err.
       seq (sleeps (inst_cluster i) 10) (\<lambda>_.
       seq (CheckAllMsPoolsAreOnline (inst_cluster i)) (\<lambda>r. ret (case r of Inr _ \<Rightarrow> Break None | Inl err \<Rightarrow> Continue (Some err))))))
     (\<lambda>err. ret (map_option (wrapped ''One or more pools are offline '') err))"

text \<open>The part of the installation after the files have been applied: mayastor, then the control plane, its nodes and the pools.\<close>

definition wait_control_plane :: "'w installer \<Rightarrow> ('w e2e, error option) io" where
  "wait_control_plane i =
     (let f = inst_fleet i in
      seq (in_e2e (ControlPlaneReady f 10 180)) (\<lambda>ready.
      if \<not> ready then ret (Some (Errorf ''mayastor control plane installation is not ready''))
      else seq (MayastorNodeReady f 5 180) (\<lambda>(nodeReady, err). case err of
        Some e \<Rightarrow> ret (Some e)
      | None \<Rightarrow>
          if \<not> nodeReady then ret (Some (Errorf ''all mayastor node are not ready''))
          else seq (WaitForPoolCrd i) (\<lambda>crdReady.
            if \<not> crdReady then ret (Some (Errorf ''mayastor pool CRD not defined?''))
            else seq (in_e2e (CreateConfiguredPools f)) (\<lambda>err. case err of
              Some e \<Rightarrow> ret (Some e)
            | None \<Rightarrow> in_e2e (pools_come_online i))))))"

definition wait_installed :: "'w installer \<Rightarrow> ('w e2e, error option) io" where
  "wait_installed i =
     seq (in_e2e (MayastorReady (inst_fleet i) 2 540)) (\<lambda>r. case r of
       Inl err \<Rightarrow> ret (Some err)
     | Inr ready \<Rightarrow> if \<not> ready then ret (Some (Errorf ''mayastor installation is not ready'')) else wait_control_plane i)"

text \<open>The part before that: generate and apply.\<close>

definition generate_and_apply :: "'w installer \<Rightarrow> ('w, error option) io" where
  "generate_and_apply i =
     seq (GenerateControlPlaneYamlFiles i) (\<lambda>err. case err of Some e \<Rightarrow> ret (Some e) | None \<Rightarrow>
     seq (GenerateMayastorYamlFiles i) (\<lambda>err. case err of Some e \<Rightarrow> ret (Some e) | None \<Rightarrow>
     seq (EnsureE2EAgent i) (\<lambda>r. case r of Inl err \<Rightarrow> ret (Some err) | Inr _ \<Rightarrow>
     seq (MkNamespace (inst_fleet i) (ProductNamespace (inst_sweep i))) (\<lambda>r. case r of Inl err \<Rightarrow> ret (Some err) | Inr _ \<Rightarrow>
     seq (apply_files i) (\<lambda>errs.
     if GetError errs \<noteq> None then ret (GetError errs)
     else seq (control_plane (inst_plugin i) (ret MajorVersion)) (\<lambda>major.
       if major = 1 then installControlPlane i
       else ret (Some (Errorf (''unsupported control plane version '' @ Itoa major @ ''/n'')))))))))"

definition InstallMayastor :: "'w installer \<Rightarrow> ('w e2e, error option) io" where
  "InstallMayastor i =
     (if ImageTag i = '''' then ret (Some (Errorf ''mayastor image tag not defined''))
      else if PoolDevice (inst_fleet i) = '''' then ret (Some (Errorf ''configuration error pools are not defined.''))
      else seq (in_e2e (control_plane (inst_plugin i) (ret ()))) (\<lambda>_.
        seq (in_e2e (k8stest_GetMayastorNodeNames i)) (\<lambda>r. case r of
          Inl err \<Rightarrow> ret (Some err)
        | Inr mayastorNodes \<Rightarrow>
            if mayastorNodes = [] then ret (Some (Errorf ''number of mayastor nodes is 0''))
            else seq (in_e2e (generate_and_apply i)) (\<lambda>err. case err of
              Some e \<Rightarrow> ret (Some e)
            | None \<Rightarrow> wait_installed i))))"

definition deleteCRD :: "'w installer \<Rightarrow> string \<Rightarrow> ('w, unit) io" where
  "deleteCRD i crdName = seq (call (Kubectl (inst_sweep i) [''delete'', ''crd'', crdName])) (\<lambda>_. ret ())"

definition deleteNamespace :: "'w installer \<Rightarrow> ('w, error option) io" where
  "deleteNamespace i = call (Kubectl (inst_sweep i) [''delete'', ''namespace'', ProductNamespace (inst_sweep i)])"

text \<open>Without the cleanup nothing of the tests may be left. A check that fails is logged.\<close>

definition nothing_left :: "'w installer \<Rightarrow> ('w, error option) io" where
  "nothing_left i =
     (let k = kube_of (inst_fleet i) in
      seq (CheckForTestPods (the_bench i)) (\<lambda>(found, err).
      if err = None \<and> found then ret (Some (Errorf ''application pods were found, none expected''))
      else seq (CheckForPVCs k) (\<lambda>(found, err).
        if found then ret (Some (Errorf '' PersistentVolumeClaims were found, none expected''))
        else seq (CheckForPVs k) (\<lambda>(found, err).
          if found then ret (Some (Errorf '' PersistentVolumes were found, none expected''))
          else seq (CheckAllMsPoolsAreOnline (inst_cluster i)) (\<lambda>r. ret (error_of r))))))"

definition wait_pods_gone :: "'w installer \<Rightarrow> ('w, unit) io" where
  "wait_pods_gone i =
     seq (MayastorUndeletedPodCount (inst_sweep i)) (\<lambda>n.
     after (for_in [0 ..< 24] n (\<lambda>iter n.
       if n = 0 then ret (Break n)
       else seq (MayastorUndeletedPodCount (inst_sweep i)) (\<lambda>n. seq (sleeps (inst_cluster i) 10) (\<lambda>_. ret (Continue n)))))
     (\<lambda>_. ret ()))"

definition pods_removed :: "'w installer \<Rightarrow> bool \<Rightarrow> ('w, error option) io" where
  "pods_removed i cleanup =
     (if cleanup then seq (ForceDeleteMayastorPods (inst_sweep i)) (\<lambda>(deleted, podCount, err). case err of
        Some e \<Rightarrow> ret (Some (wrapped ''ForceDeleteMayastorPods failed '' e))
      | None \<Rightarrow> ret (if podCount \<noteq> 0 then Some (Errorf ''all Mayastor pods have not been deleted'') else None))
      else seq (MayastorUndeletedPodCount (inst_sweep i)) (\<lambda>n.
        ret (if n \<noteq> 0 then Some (Errorf ''all Mayastor pods were not removed on uninstall'') else None)))"

definition uninstall_files :: "nat list \<Rightarrow> nat list \<Rightarrow> 'w installer \<Rightarrow> ('w, error option) io" where
  "uninstall_files sched1 sched2 i =
     seq (GenerateMayastorYamlFiles i) (\<lambda>err. case err of Some e \<Rightarrow> ret (Some e) | None \<Rightarrow>
     seq (control_plane (inst_plugin i) (ret MajorVersion)) (\<lambda>major.
     if major \<noteq> 1 then ret (Some (Errorf (''unsupported control plane version '' @ Itoa major @ ''/n'')))
     else seq (GenerateControlPlaneYamlFiles i) (\<lambda>err. case err of Some e \<Rightarrow> ret (Some e) | None \<Rightarrow>
       seq (uninstallControlPlane sched1 i) (\<lambda>err. case err of Some e \<Rightarrow> ret (Some e) | None \<Rightarrow>
       delete_in_parallel sched2 i (GetGeneratedYamlsDir i) (map (Starting True) (rev (mayastorYamlFiles i)))))))"

definition TeardownMayastor :: "nat list \<Rightarrow> nat list \<Rightarrow> 'w installer \<Rightarrow> ('w, error option) io" where
  "TeardownMayastor sched1 sched2 i0 =
     (let cleanup = (UninstallCleanup i0 \<noteq> 0) in
      seq (CheckAndSetControlPlane i0) (\<lambda>r. case r of Inl err \<Rightarrow> ret (Some err) | Inr i \<Rightarrow>
      seq (if cleanup then seq (CleanUp (inst_sweep i) (CanConnect (the_bench i))) (\<lambda>_. ret None) else nothing_left i) (\<lambda>err.
      case err of Some e \<Rightarrow> ret (Some e) | None \<Rightarrow>
      seq (DeleteAllPools (inst_sweep i)) (\<lambda>poolsDeleted.
      if \<not> poolsDeleted then ret (Some (Errorf ''failed to delete all pools''))
      else seq (uninstall_files sched1 sched2 i) (\<lambda>err. case err of Some e \<Rightarrow> ret (Some e) | None \<Rightarrow>
        seq (wait_pods_gone i) (\<lambda>_.
        seq (deleteCRD i ''mayastorpools.openebs.io'') (\<lambda>_.
        seq (pods_removed i cleanup) (\<lambda>err. case err of Some e \<Rightarrow> ret (Some e) | None \<Rightarrow>
        deleteNamespace i))))))))"

section \<open>The order of the files\<close>

text \<open>What \<^verbatim>\<open>sort.Sort\<close> promises: the same elements, in the order of the keys.\<close>

definition sorts :: "((string \<Rightarrow> nat) \<Rightarrow> string list \<Rightarrow> string list) \<Rightarrow> bool" where
  "sorts srt \<longleftrightarrow> (\<forall>key xs. mset (srt key xs) = mset xs \<and> sorted (map key (srt key xs)))"

lemma sorted_weight: "sorted (map weight fs) \<Longrightarrow> fs = filter (\<lambda>f. HasSuffix f ''rbac.yaml'') fs @ filter (\<lambda>f. \<not> HasSuffix f ''rbac.yaml'') fs"
proof (induction fs)
  case (Cons f fs)
  show ?case
  proof (cases "HasSuffix f ''rbac.yaml''")
    case False
    with Cons.prems have "\<forall>g \<in> set fs. \<not> HasSuffix g ''rbac.yaml''"
      by (auto simp: weight_def split: if_splits)
    then show ?thesis using False by (simp add: filter_id_conv filter_empty_conv)
  qed (use Cons in simp)
qed simp

text \<open>
  The files of the control plane are the YAML files of its directory, those of the access rules before all others,
  whatever \<^verbatim>\<open>sort.Sort\<close> does with files of the same weight.
\<close>

theorem getCPYamlFiles_rbac_first:
  assumes "sorts (SortBy i)" and "getCPYamlFiles i w = (Done (Inr fs), w')"
  shows "\<exists>files. ReadDir i (GetControlPlaneGeneratedYamlsDir i) w = (Inr files, w') \<and>
    mset fs = mset (map fst (filter (\<lambda>(f, isDir). \<not> isDir \<and> HasSuffix f ''.yaml'') files)) \<and>
    fs = filter (\<lambda>f. HasSuffix f ''rbac.yaml'') fs @ filter (\<lambda>f. \<not> HasSuffix f ''rbac.yaml'') fs"
proof -
  from assms(2) obtain files where f: "ReadDir i (GetControlPlaneGeneratedYamlsDir i) w = (Inr files, w')"
    and fs: "fs = SortBy i weight (sort (map fst (filter (\<lambda>(f, isDir). \<not> isDir \<and> HasSuffix f ''.yaml'') files)))"
    by (auto simp: getCPYamlFiles_def Let_def call_def elim!: check_DoneE split: prod.splits)
  have "fs = filter (\<lambda>f. HasSuffix f ''rbac.yaml'') fs @ filter (\<lambda>f. \<not> HasSuffix f ''rbac.yaml'') fs"
    by (rule sorted_weight) (use assms(1) in \<open>simp add: fs sorts_def\<close>)
  moreover have "mset fs = mset (map fst (filter (\<lambda>(f, isDir). \<not> isDir \<and> HasSuffix f ''.yaml'') files))"
    using assms(1) by (simp add: fs sorts_def)
  ultimately show ?thesis using f by blast
qed

section \<open>The goroutines that delete\<close>

lemmas deletion_defs = KubeCtlDeleteYaml_def kubectl_yaml_def in_race_def set_err_def sleeps_def sleep_secs_def

lemma returning_kubectl [ends]: "returning (KubeCtlDeleteYaml i f d)" "returning (KubeCtlApplyYaml i f d)"
  unfolding KubeCtlDeleteYaml_def KubeCtlApplyYaml_def kubectl_yaml_def by (intro ends)+

lemma returning_deletion: "returning (deletion_step i d t)"
  by (cases t) (auto simp: in_race_def set_err_def intro!: ends returning_sleeps)

text \<open>How many steps a goroutine has before it at most.\<close>

primrec rank :: "deletion \<Rightarrow> nat" where
  "rank (Starting _ _) = 8"
| "rank (Looking _) = 7"
| "rank (Looked _ _) = 6"
| "rank (Deciding _) = 5"
| "rank (Deleting _) = 4"
| "rank (Writing _) = 3"
| "rank Testing = 2"
| "rank Reporting = 1"
| "rank Over = 0"

lemma rank_0 [simp]: "rank t = 0 \<longleftrightarrow> t = Over"
  by (cases t) auto

lemma rank_le: "rank t \<le> 8"
  by (cases t) auto

lemma deletion_rank: "deletion_step i d t s = (Done t', s') \<Longrightarrow> t \<noteq> Over \<Longrightarrow> rank t' < rank t"
  by (cases t) (auto elim!: seq_DoneE)

lemma deletion_sent:
  assumes "deletion_step i d t s = (Done t', s')"
  shows "race_cap s' = race_cap s \<and> (if t = Reporting then race_sent s' = race_sent s @ [race_err s] else race_sent s' = race_sent s)"
  using assms by (cases t) (auto simp: in_race_def set_err_def zoom_def elim!: seq_DoneE split: prod.splits)

definition ranks :: "deletion list \<Rightarrow> nat" where
  "ranks ts = sum_list (map rank ts)"

lemma ranks_update: "k < length ts \<Longrightarrow> rank t < rank (ts ! k) \<Longrightarrow> ranks (ts[k := t]) < ranks ts"
  by (induction ts arbitrary: k) (auto simp: ranks_def less_Suc_eq_0_disj)

lemma race_step_ranks: "race_step i d c c' \<Longrightarrow> ranks (fst c') < ranks (fst c)"
  by (auto elim!: race_step.cases intro!: ranks_update deletion_rank simp: runnable_def)

text \<open>Every goroutine that is not over still has a place in the buffer.\<close>

definition room :: "deletion list \<times> 'w race \<Rightarrow> bool" where
  "room c \<longleftrightarrow> length (race_sent (snd c)) + length (filter (\<lambda>t. t \<noteq> Over) (fst c)) \<le> race_cap (snd c)"

lemma filter_update_le:
  "k < length xs \<Longrightarrow> P (xs ! k) \<Longrightarrow> length (filter P (xs[k := x])) \<le> length (filter P xs)"
  "k < length xs \<Longrightarrow> P (xs ! k) \<Longrightarrow> \<not> P x \<Longrightarrow> Suc (length (filter P (xs[k := x]))) = length (filter P xs)"
  by (induction xs arbitrary: k) (auto simp: nth_Cons' split: nat.splits if_splits simp: less_Suc_eq_0_disj)

lemma room_step: "race_step i d c c' \<Longrightarrow> room c \<Longrightarrow> room c'"
proof (induction rule: race_step.induct)
  case (step k ts s t s')
  note sent = deletion_sent [OF step.hyps(3)]
  have live: "ts ! k \<noteq> Over" using step.hyps(2) by (simp add: runnable_def)
  show ?case
  proof (cases "ts ! k = Reporting")
    case True
    with step.hyps(3) have "t = Over" by (auto elim!: seq_DoneE)
    with True filter_update_le(2) [of k ts "\<lambda>t. t \<noteq> Over" t] live sent step.hyps(1) step.prems show ?thesis
      by (simp add: room_def)
  next
    case False
    with filter_update_le(1) [of k ts "\<lambda>t. t \<noteq> Over" t] live sent step.hyps(1) step.prems show ?thesis
      by (simp add: room_def)
  qed
qed

lemma room_run: "(race_step i d ^^ n) c c' \<Longrightarrow> room c \<Longrightarrow> room c' \<and> n + ranks (fst c') \<le> ranks (fst c)"
proof (induction n arbitrary: c')
  case (Suc n)
  from Suc.prems(1) obtain c1 where "(race_step i d ^^ n) c c1" and one: "race_step i d c1 c'" by auto
  from Suc.IH [OF this(1) Suc.prems(2)] room_step [OF one] race_step_ranks [OF one] show ?case by simp
qed auto

lemma room_progress:
  assumes "room (ts, s)" and "\<not> list_all (\<lambda>t. t = Over) ts"
  shows "\<exists>c'. race_step i d (ts, s) c'"
proof -
  from assms(2) obtain k where k: "k < length ts" "ts ! k \<noteq> Over" by (auto simp: list_all_length)
  then have "ts ! k \<in> set (filter (\<lambda>t. t \<noteq> Over) ts)" by simp
  then have "0 < length (filter (\<lambda>t. t \<noteq> Over) ts)" by (metis length_pos_if_in_set)
  with assms(1) have "length (race_sent s) < race_cap s" unfolding room_def fst_conv snd_conv by linarith
  then have "runnable s (ts ! k)" using k(2) by (simp add: runnable_def)
  moreover obtain t s' where "deletion_step i d (ts ! k) s = (Done t, s')"
    using returning_deletion by (rule returningE)
  ultimately show ?thesis using k(1) by (blast intro: race_step.step)
qed

lemma room_start: "room (ts, start_race ts w)"
  by (simp add: room_def start_race_def)

lemma ranks_le: "ranks ts \<le> 8 * length ts"
  by (induction ts) (auto simp: ranks_def intro: add_mono rank_le)


text \<open>A run in a given order is a run of the relation.\<close>

lemma scheduled_run:
  assumes "for_in sched ts (scheduled i d) s = (Done (Inr ts'), s')"
  shows "(race_step i d)\<^sup>*\<^sup>* (ts, s) (ts', s')"
  using assms
proof (induction sched arbitrary: ts s)
  case (Cons k sched)
  show ?case
  proof (cases "k < length ts \<and> runnable s (ts ! k)")
    case True
    then have one: "scheduled i d k ts s = seq (deletion_step i d (ts ! k)) (\<lambda>t. ret (Continue (ts[k := t]))) s"
      by (simp add: scheduled_def)
    obtain t s1 where t: "deletion_step i d (ts ! k) s = (Done t, s1)"
      using returning_deletion by (rule returningE)
    with Cons.prems one have rest: "for_in sched (ts[k := t]) (scheduled i d) s1 = (Done (Inr ts'), s')"
      by (simp add: seq_Done)
    from True t have "race_step i d (ts, s) (ts[k := t], s1)" by (blast intro: race_step.step)
    with Cons.IH [OF rest] show ?thesis by (rule converse_rtranclp_into_rtranclp [rotated])
  next
    case False
    with Cons.prems Cons.IH show ?thesis by (auto simp: scheduled_def seq_def split: if_splits)
  qed
qed simp

lemma delete_in_parallel_DoneE:
  assumes "delete_in_parallel sched i d ts w = (Done r, w')"
  obtains ts' s where "(race_step i d)\<^sup>*\<^sup>* (ts, start_race ts w) (ts', s)" and "list_all (\<lambda>t. t = Over) ts'"
    and "r = GetError (fold Accumulate (race_sent s) [])" and "w' = race_world s"
proof -
  from assms obtain s where run: "seq (for_in sched ts (scheduled i d)) (\<lambda>c. case c of
         Inl u \<Rightarrow> unfinished
       | Inr ts' \<Rightarrow> if list_all (\<lambda>t. t = Over) ts' then gets (\<lambda>s. GetError (fold Accumulate (race_sent s) [])) else unfinished)
         (start_race ts w) = (Done r, s)" and w': "w' = race_world s"
    by (auto simp: delete_in_parallel_def split: prod.splits)
  from run that w' show thesis
    by (fastforce elim!: seq_DoneE dest!: scheduled_run split: sum.splits if_splits)
qed

text \<open>
  What is lost and what is not: when all deletions fail, every goroutine that is over has sent an error.
\<close>

definition all_failing :: "'w installer \<Rightarrow> string \<Rightarrow> bool" where
  "all_failing i d \<longleftrightarrow> (\<forall>f w. \<exists>e w'. KubeCtlDeleteYaml i f d w = (Done (Some e), w'))"

definition failing_state :: "deletion \<Rightarrow> 'w race \<Rightarrow> bool" where
  "failing_state t s = (case t of
      Starting look _ \<Rightarrow> \<not> look
    | Deleting _ \<Rightarrow> True
    | Writing e \<Rightarrow> e \<noteq> None
    | Testing \<Rightarrow> race_err s \<noteq> None
    | Reporting \<Rightarrow> race_err s \<noteq> None
    | Over \<Rightarrow> race_err s \<noteq> None \<and> list_ex (\<lambda>e. e \<noteq> None) (race_sent s)
    | _ \<Rightarrow> False)"

lemma failing_step:
  assumes "all_failing i d" and "failing_state t s" and "deletion_step i d t s = (Done t', s')"
  shows "failing_state t' s' \<and> (failing_state u s \<longrightarrow> failing_state u s')"
proof -
  have "\<exists>e. err = Some e" if "KubeCtlDeleteYaml i f d w = (Done err, w')" for f w err w'
    using assms(1) that by (metis all_failing_def outcome.inject prod.inject)
  with assms(2,3) show ?thesis
    by (cases t; cases u) (auto 0 3 simp: failing_state_def in_race_def set_err_def zoom_def elim!: seq_DoneE split: prod.splits if_splits)
qed

lemma failing_run:
  assumes "(race_step i d)\<^sup>*\<^sup>* (ts, s) (ts', s')" and "all_failing i d" and "\<forall>t \<in> set ts. failing_state t s"
  shows "(\<forall>t \<in> set ts'. failing_state t s') \<and> length ts' = length ts"
  using assms(1)
proof (induction rule: rtranclp_induct2)
  case (step ts1 s1 ts2 s2)
  from step.hyps(2) show ?case
  proof cases
    case (step k t)
    with \<open>_ \<and> length ts1 = length ts\<close> failing_step [OF assms(2) _ step(4)] show ?thesis
      by (auto dest!: set_update_subset_insert [THEN subsetD])
  qed
qed (use assms(3) in simp)

text \<open>
  \<^verbatim>\<open>uninstallControlPlane\<close> reports an error, however the goroutines interleave, if there is a file to delete and every
  deletion fails.
\<close>

theorem all_deletions_failing_reported:
  assumes "all_failing i (GetControlPlaneGeneratedYamlsDir i)"
    and "getCPYamlFiles i w = (Done (Inr fs), w1)" and "fs \<noteq> []"
    and "uninstallControlPlane sched i w = (Done r, w')"
  shows "r \<noteq> None"
proof -
  let ?d = "GetControlPlaneGeneratedYamlsDir i" and ?ts = "map (Starting False) (rev fs)"
  from assms(2,4) have "delete_in_parallel sched i ?d ?ts w1 = (Done r, w')"
    by (simp add: uninstallControlPlane_def seq_Done)
  then obtain ts' s where run: "(race_step i ?d)\<^sup>*\<^sup>* (?ts, start_race ?ts w1) (ts', s)" and over: "list_all (\<lambda>t. t = Over) ts'"
    and r: "r = GetError (fold Accumulate (race_sent s) [])" by (rule delete_in_parallel_DoneE)
  from failing_run [OF run assms(1)] assms(3) over obtain e where e: "Some e \<in> set (race_sent s)"
    by (cases ts') (auto simp: failing_state_def list_ex_iff)
  have "set errs \<union> {e. Some e \<in> set xs} \<subseteq> set (fold Accumulate xs errs)" for errs xs
  proof (induction xs arbitrary: errs)
    case (Cons x xs)
    from Cons.IH [of "Accumulate x errs"] show ?case by (auto simp: Accumulate_def split: option.splits)
  qed simp
  with e have "e \<in> set (fold Accumulate (race_sent s) [])" by blast
  then show ?thesis unfolding r by auto
qed

text \<open>The deletions one after the other, as a goroutine alone would do them.\<close>

definition delete_in_turn :: "'w installer \<Rightarrow> string \<Rightarrow> string list \<Rightarrow> error list \<Rightarrow> ('w, error option) io" where
  "delete_in_turn i d fs errs =
     after (for_in fs errs (\<lambda>f errs. seq (sleeps (inst_cluster i) 1) (\<lambda>_.
       seq (KubeCtlDeleteYaml i f d) (\<lambda>err. ret (Continue (Accumulate err errs)))))) (\<lambda>errs. ret (GetError errs))"

definition in_turn :: "nat \<Rightarrow> nat list" where
  "in_turn n = concat (map (\<lambda>k. [k, k, k, k, k]) [0 ..< n])"

lemma deletion_block:
  assumes "k < length ts" and "ts ! k = Starting False f" and "length (race_sent s) < race_cap s"
    and "sleeps (inst_cluster i) 1 (race_world s) = (Done (), w0)" and "KubeCtlDeleteYaml i f d w0 = (Done e, w1)"
  shows "for_in ([k, k, k, k, k] @ rest) ts (scheduled i d) s = for_in rest (ts[k := Over]) (scheduled i d)
    (s\<lparr>race_world := w1, race_err := e, race_sent := race_sent s @ (case e of None \<Rightarrow> [] | Some x \<Rightarrow> [Some x])\<rparr>)"
  using assms
  by (cases e) (simp_all add: scheduled_def runnable_def in_race_def set_err_def zoom_def seq_apply)

lemma deletions_in_turn:
  assumes "race_cap s = n + length fs" and "length (race_sent s) \<le> n"
    and "ts = replicate n Over @ map (Starting False) fs"
  shows "(case seq (for_in (concat (map (\<lambda>k. [k, k, k, k, k]) [n ..< n + length fs])) ts (scheduled i d)) (\<lambda>c. case c of
         Inl u \<Rightarrow> unfinished
       | Inr ts' \<Rightarrow> if list_all (\<lambda>t. t = Over) ts' then gets (\<lambda>s. GetError (fold Accumulate (race_sent s) [])) else unfinished)
         s of (out, s') \<Rightarrow> (out, race_world s')) = delete_in_turn i d fs (fold Accumulate (race_sent s) []) (race_world s)"
  using assms
proof (induction fs arbitrary: n ts s)
  case Nil
  then show ?case by (simp add: delete_in_turn_def after_def list_all_iff)
next
  case (Cons f fs)
  obtain w0 where w0: "sleeps (inst_cluster i) 1 (race_world s) = (Done (), w0)"
    by (simp add: sleeps_def sleep_secs_def)
  obtain e w1 where e: "KubeCtlDeleteYaml i f d w0 = (Done e, w1)"
    using returning_kubectl(1) by (rule returningE)
  let ?s = "s\<lparr>race_world := w1, race_err := e, race_sent := race_sent s @ (case e of None \<Rightarrow> [] | Some x \<Rightarrow> [Some x])\<rparr>"
  have ts: "ts[n := Over] = replicate (Suc n) Over @ map (Starting False) fs"
    by (simp add: Cons.prems(3) list_update_append replicate_app_Cons_same)
  have "[n ..< n + length (f # fs)] = n # [Suc n ..< Suc n + length fs]"
    by (metis add_Suc_shift length_Cons less_add_same_cancel1 upt_conv_Cons zero_less_Suc)
  then have "for_in (concat (map (\<lambda>k. [k, k, k, k, k]) [n ..< n + length (f # fs)])) ts (scheduled i d) s =
      for_in (concat (map (\<lambda>k. [k, k, k, k, k]) [Suc n ..< Suc n + length fs])) (ts[n := Over]) (scheduled i d) ?s"
    using deletion_block [OF _ _ _ w0 e, of n ts "concat (map (\<lambda>k. [k, k, k, k, k]) [Suc n ..< Suc n + length fs])"] Cons.prems
    by (simp add: nth_append)
  then have eq: "seq (for_in (concat (map (\<lambda>k. [k, k, k, k, k]) [n ..< n + length (f # fs)])) ts (scheduled i d)) g s =
      seq (for_in (concat (map (\<lambda>k. [k, k, k, k, k]) [Suc n ..< Suc n + length fs])) (ts[n := Over]) (scheduled i d)) g ?s" for g :: "unit + deletion list \<Rightarrow> ('a race, error option) io"
    by (simp add: seq_def)
  have sent: "fold Accumulate (race_sent ?s) [] = Accumulate e (fold Accumulate (race_sent s) [])"
    by (cases e) (simp_all add: Accumulate_def)
  have turn: "delete_in_turn i d (f # fs) errs (race_world s) = delete_in_turn i d fs (Accumulate e errs) w1" for errs
    using w0 e by (simp add: delete_in_turn_def after_def seq_apply)
  have "race_cap ?s = Suc n + length fs" "length (race_sent ?s) \<le> Suc n"
    using Cons.prems by (auto split: option.split)
  from Cons.IH [OF this ts] show ?case
    unfolding eq turn sent by simp
qed


section \<open>Installation and removal\<close>

lemma accumulated_all:
  assumes "for_in xs errs body s = (Done (Inr []), s')"
    and "\<And>x v c s s'. body x v s = (Done c, s') \<Longrightarrow> \<exists>v'. c = Continue v' \<and> (v' = [] \<longrightarrow> v = [] \<and> P x)"
  shows "errs = [] \<and> (\<forall>x \<in> set xs. P x)"
  using assms(1)
proof (induction xs arbitrary: errs s)
  case (Cons x xs)
  from Cons.prems obtain c s1 where b: "body x errs s = (Done c, s1)"
    and c: "(case c of Continue v' \<Rightarrow> for_in xs v' body | Break v' \<Rightarrow> ret (Inr v') | Return r \<Rightarrow> ret (Inl r)) s1 = (Done (Inr []), s')"
    unfolding for_in.simps by (rule seq_DoneE)
  from assms(2) [OF b] c Cons.IH show ?case by fastforce
qed simp

text \<open>What has been done with the files: the files of mayastor that are there, and all those of the control plane, were applied.\<close>

definition applied :: "'w installer \<Rightarrow> bool" where
  "applied i \<longleftrightarrow>
     (\<forall>f \<in> set (mayastorYamlFiles i). seen (KubeCtlApplyYaml i f (GetGeneratedYamlsDir i)) None \<or>
        (\<exists>e w w'. Stat i (filepath_Join (GetGeneratedYamlsDir i) f) w = (Some e, w') \<and> IsNotExist i e)) \<and>
     (\<exists>fs. seen (getCPYamlFiles i) (Inr fs) \<and> (\<forall>f \<in> set fs. seen (KubeCtlApplyYaml i f (GetControlPlaneGeneratedYamlsDir i)) None))"

lemma apply_files_ok:
  assumes "apply_files i w = (Done [], w')"
  shows "\<forall>f \<in> set (mayastorYamlFiles i). seen (KubeCtlApplyYaml i f (GetGeneratedYamlsDir i)) None \<or>
     (\<exists>e w w'. Stat i (filepath_Join (GetGeneratedYamlsDir i) f) w = (Some e, w') \<and> IsNotExist i e)"
proof -
  let ?P = "\<lambda>f. seen (KubeCtlApplyYaml i f (GetGeneratedYamlsDir i)) None \<or>
     (\<exists>e w w'. Stat i (filepath_Join (GetGeneratedYamlsDir i) f) w = (Some e, w') \<and> IsNotExist i e)"
  let ?body = "\<lambda>yaml errs. seq (call (Stat i (filepath_Join (GetGeneratedYamlsDir i) yaml))) (\<lambda>err.
        if (case err of Some e \<Rightarrow> IsNotExist i e | None \<Rightarrow> False) then ret (Continue errs)
        else seq (KubeCtlApplyYaml i yaml (GetGeneratedYamlsDir i)) (\<lambda>err. ret (Continue (Accumulate err errs))))"
  have body: "\<exists>v'. c = Continue v' \<and> (v' = [] \<longrightarrow> v = [] \<and> ?P x)" if "?body x v s = (Done c, s')" for x v c s s'
    using that by (auto simp: call_def Accumulate_Nil elim!: seq_DoneE split: if_splits option.splits prod.splits) (blast intro: seenI)+
  from assms obtain c w1 where run: "for_in (mayastorYamlFiles i) [] ?body w = (Done c, w1)"
    and c: "(case c of Inl r \<Rightarrow> ret r | Inr v \<Rightarrow> ret v) w1 = (Done [], w')"
    unfolding apply_files_def after_def Let_def by (rule seq_DoneE)
  show ?thesis
  proof (cases c)
    case (Inl r)
    with run body show ?thesis by (blast dest!: for_in_Return)
  next
    case (Inr v)
    with run c have "for_in (mayastorYamlFiles i) [] ?body w = (Done (Inr [] :: error list + error list), w1)" by simp
    then have "[] = ([] :: error list) \<and> (\<forall>f \<in> set (mayastorYamlFiles i). ?P f)" by (rule accumulated_all) (rule body)
    then show ?thesis by blast
  qed
qed

lemma installControlPlane_ok:
  assumes "installControlPlane i w = (Done None, w')"
  shows "\<exists>fs. seen (getCPYamlFiles i) (Inr fs) \<and> (\<forall>f \<in> set fs. seen (KubeCtlApplyYaml i f (GetControlPlaneGeneratedYamlsDir i)) None)"
proof -
  let ?d = "GetControlPlaneGeneratedYamlsDir i"
  let ?body = "\<lambda>yf errs. seq (KubeCtlApplyYaml i yf ?d) (\<lambda>err. ret (Continue (case err of
             Some e \<Rightarrow> Accumulate (Some (wrapped (''failed to apply yaml file '' @ yf @ '' , yaml path: '' @ ?d @ '', error: '') e)) errs
           | None \<Rightarrow> errs)))"
  have body: "\<exists>v'. c = Continue v' \<and> (v' = [] \<longrightarrow> v = [] \<and> seen (KubeCtlApplyYaml i x ?d) None)"
    if "?body x v s = (Done c, s')" for x v c s s'
    using that by (auto simp: Accumulate_def elim!: seq_DoneE split: option.splits) (rule seenI)
  from assms obtain fs w1 c w2 where fs: "getCPYamlFiles i w = (Done (Inr fs), w1)"
    and run: "for_in fs [] ?body w1 = (Done c, w2)"
    and c: "(case c of Inl r \<Rightarrow> ret r | Inr v \<Rightarrow> ret (GetError v)) w2 = (Done None, w')"
    unfolding installControlPlane_def after_def Let_def by (auto elim!: seq_DoneE split: sum.splits)
  show ?thesis
  proof (cases c)
    case (Inl r)
    with run body show ?thesis by (blast dest!: for_in_Return)
  next
    case (Inr v)
    with run c have "for_in fs [] ?body w1 = (Done (Inr [] :: error option + error list), w2)" by simp
    then have "[] = ([] :: error list) \<and> (\<forall>f \<in> set fs. seen (KubeCtlApplyYaml i f ?d) None)" by (rule accumulated_all) (rule body)
    with fs show ?thesis by (blast intro: seenI)
  qed
qed

lemma generate_and_apply_ok: "generate_and_apply i w = (Done None, w') \<Longrightarrow> applied i"
  unfolding generate_and_apply_def applied_def
  by (fastforce elim!: seq_DoneE dest!: apply_files_ok installControlPlane_ok split: option.splits sum.splits if_splits)

lemma pools_come_online_ok:
  assumes "pools_come_online i w = (Done None, w')"
  shows "\<exists>w1 ps. MspList (inst_cluster i) w1 = (Inr ps, w') \<and> (\<forall>p \<in> set ps. ToLower (msp_State p) = ''online'')"
proof -
  let ?body = "\<lambda>ix (err :: error option). seq (sleeps (inst_cluster i) 10) (\<lambda>_.
       seq (CheckAllMsPoolsAreOnline (inst_cluster i)) (\<lambda>r. ret (case r of Inr _ \<Rightarrow> Break None | Inl err \<Rightarrow> Continue (Some err))))"
  from assms obtain c w1 where run: "for_in [0 ..< 24 :: nat] None ?body w = (Done c, w1)"
    and c: "(case c of Inl r \<Rightarrow> ret r | Inr v \<Rightarrow> ret (map_option (wrapped ''One or more pools are offline '') v)) w1 = (Done None, w')"
    unfolding pools_come_online_def after_def by (rule seq_DoneE)
  show ?thesis
  proof (cases c)
    case (Inl r)
    with run show ?thesis by (fastforce dest!: for_in_Return elim!: seq_DoneE split: sum.splits)
  next
    case (Inr v)
    with run c have "for_in [0 ..< 24 :: nat] None ?body w = (Done (Inr None :: error option + error option), w')" by auto
    from for_in_last [OF this] show ?thesis
      by (auto elim!: seq_DoneE dest!: CheckAllMsPoolsAreOnline_ok split: sum.splits) blast
  qed
qed

text \<open>
  Property C35. \<^verbatim>\<open>InstallMayastor\<close> reports success only after there was a node for mayastor, the files of mayastor that exist and all files
  of the control plane were applied, mayastor, its control plane and its nodes were seen ready, the pools of the configuration
  were created, and at the end all pools were listed and online.
\<close>

theorem InstallMayastor_sound:
  assumes "InstallMayastor i s = (Done None, s')"
  shows "ImageTag i \<noteq> '''' \<and> PoolDevice (inst_fleet i) \<noteq> '''' \<and>
    (\<exists>names. seen (k8stest_GetMayastorNodeNames i) (Inr names) \<and> names \<noteq> []) \<and> applied i \<and>
    seen (MayastorReady (inst_fleet i) 2 540) (Inr True) \<and> seen (ControlPlaneReady (inst_fleet i) 10 180) True \<and>
    seen (MayastorNodeReady (inst_fleet i) 5 180) (True, None) \<and> seen (WaitForPoolCrd i) True \<and>
    seen (CreateConfiguredPools (inst_fleet i)) None \<and>
    (\<exists>w ps. MspList (inst_cluster i) w = (Inr ps, e2e_world s') \<and> (\<forall>p \<in> set ps. ToLower (msp_State p) = ''online''))"
proof -
  from assms obtain names w1 w2 s1 where i: "ImageTag i \<noteq> ''''" "PoolDevice (inst_fleet i) \<noteq> ''''"
    and names: "seen (k8stest_GetMayastorNodeNames i) (Inr names)" "names \<noteq> []"
    and files: "generate_and_apply i w1 = (Done None, w2)" and wait: "wait_installed i s1 = (Done None, s')"
    unfolding InstallMayastor_def
    by (auto elim!: seq_DoneE in_e2e_DoneE split: if_splits sum.splits option.splits) (blast intro: seenI)
  from wait obtain w3 w4 where seen:
    "seen (MayastorReady (inst_fleet i) 2 540) (Inr True)" "seen (ControlPlaneReady (inst_fleet i) 10 180) True"
    "seen (MayastorNodeReady (inst_fleet i) 5 180) (True, None)" "seen (WaitForPoolCrd i) True"
    "seen (CreateConfiguredPools (inst_fleet i)) None" and online: "pools_come_online i w3 = (Done None, w4)" "e2e_world s' = w4"
    unfolding wait_installed_def wait_control_plane_def Let_def
    by (auto elim!: seq_DoneE in_e2e_DoneE split: if_splits sum.splits option.splits) (blast intro: seenI)
  from i names generate_and_apply_ok [OF files] seen pools_come_online_ok [OF online(1)] online(2) show ?thesis by blast
qed

lemma seenE:
  assumes "seen m x"
  obtains s s' where "m s = (Done x, s')"
  using assms unfolding seen_def by blast

lemma CheckAndSetControlPlane_ok:
  assumes "CheckAndSetControlPlane i w = (Done (Inr i'), w')"
  shows "i' = with_version ''1.0.0'' i \<and> config_version i \<in> {'''', ''1.0.0''}"
  using assms
  by (auto simp: CheckAndSetControlPlane_def SetControlPlane_def Let_def elim!: seq_DoneE split: if_splits prod.splits)


text \<open>
  The shared variable loses errors: of two deletions the first one fails and stores its error, the second one succeeds and stores nil
  before the first one looks at the variable. Nothing is reported.
\<close>

theorem deletion_failure_lost:
  assumes "getCPYamlFiles i w = (Done (Inr [g, f]), w1)"
    and "\<And>w. \<exists>e w'. KubeCtlDeleteYaml i f (GetControlPlaneGeneratedYamlsDir i) w = (Done (Some e), w')"
    and "\<And>w. \<exists>w'. KubeCtlDeleteYaml i g (GetControlPlaneGeneratedYamlsDir i) w = (Done None, w')"
  shows "\<exists>w'. uninstallControlPlane [0, 0, 0, 1, 1, 1, 0, 1] i w = (Done None, w')"
proof -
  let ?d = "GetControlPlaneGeneratedYamlsDir i"
  obtain w2 where w2: "sleeps (inst_cluster i) 1 w1 = (Done (), w2)" by (simp add: sleeps_def sleep_secs_def)
  obtain e w3 where w3: "KubeCtlDeleteYaml i f ?d w2 = (Done (Some e), w3)" using assms(2) by blast
  obtain w4 where w4: "sleeps (inst_cluster i) 1 w3 = (Done (), w4)" by (simp add: sleeps_def sleep_secs_def)
  obtain w5 where w5: "KubeCtlDeleteYaml i g ?d w4 = (Done None, w5)" using assms(3) by blast
  from assms(1) w2 w3 w4 w5 show ?thesis
    by (simp add: uninstallControlPlane_def delete_in_parallel_def start_race_def scheduled_def runnable_def in_race_def set_err_def
        zoom_def seq_apply GetError_def)
qed

lemma until_ready_at_once:
  assumes "\<And>w. m w = (Done True, w)" and "\<And>w. sleeps cl (nat sleepTime) w = (Done (), w)" and "0 < sleepTime" and "0 < duration"
  shows "until_ready cl sleepTime duration m w = (Done True, w)"
proof -
  have "0 < (duration + sleepTime - 1) sdiv sleepTime"
    using assms(3,4) by (simp add: signed_divide_int_def pos_imp_zdiv_pos_iff)
  then have "\<exists>n. nat ((duration + sleepTime - 1) sdiv sleepTime) = Suc n"
    using not0_implies_Suc by force
  then show ?thesis
    using assms by (auto simp: until_ready_def rounds_of_def after_def upt_conv_Cons seq_apply simp del: upt_Suc)
qed

text \<open>A small installation, for instances of these properties; a file that starts with b cannot be deleted.\<close>

definition install_bench :: "nat bench" where
  "install_bench = clean_bench\<lparr>the_fleet := (the_fleet clean_bench)\<lparr>swept := (swept (the_fleet clean_bench))\<lparr>base := (bench_kube clean_bench)\<lparr>
     cluster := (bench_cluster clean_bench)\<lparr>pods := (pods (bench_cluster clean_bench))\<lparr>PodsList := \<lambda>ns w. (Inr [], w)\<rparr>\<rparr>,
     plugin := (plugin (bench_kube clean_bench))\<lparr>JsonNodes := \<lambda>t. Inr [\<lparr>cn_ID = ''node1'', cn_GrpcEndpoint = '''', cn_StateID = ''node1'',
       cn_StateGrpcEndpoint = '''', cn_Status = ''Online''\<rparr>]\<rparr>\<rparr>\<rparr>\<rparr>\<rparr>"

definition small_installer :: "nat installer" where
  "small_installer = \<lparr>the_bench = install_bench, ImageTag = ''v1'', Registry = '''', Cores = 2, ConfigName = ''c'', PlatformName = ''p'',
     MayastorRootDir = ''/m'', SessionDir = ''/s'', E2eRootDir = ''/e'', UninstallCleanup = 0, ControlPlaneAgent = ''core-agents'',
     EtcdYaml = ''etcd'', NatsDeploymentYaml = ''nats.yaml'', CsiDaemonsetYaml = ''csi.yaml'', DaemonsetYaml = ''ds.yaml'',
     WriteConfig = \<lambda>f v w. (None, w), BashC = \<lambda>c w. (None, w),
     KubectlIn = \<lambda>d args w. (('''', if HasPrefix (last args) ''b'' \<and> hd args = ''delete'' then Some (Errorf ''refused'') else None), w),
     Stat = \<lambda>f w. (if HasSuffix f ''etcd'' then Some (NotFound f) else None, w), IsNotExist = IsNotFound,
     ReadDir = \<lambda>d w. (Inr [(''b.yaml'', False), (''notes'', False), (''rbac.yaml'', False)], w), SortBy = sort_key\<rparr>"

lemma small_sorts: "sorts (SortBy small_installer)"
  by (simp add: sorts_def small_installer_def)

lemma small_files: "getCPYamlFiles small_installer w = (Done (Inr [''rbac.yaml'', ''b.yaml'']), w)"
  by code_simp

lemma small_deletion:
  "\<exists>e w'. KubeCtlDeleteYaml small_installer ''b.yaml'' d w = (Done (Some e), w')"
  "\<exists>w'. KubeCtlDeleteYaml small_installer ''rbac.yaml'' d w = (Done None, w')"
  by (simp_all add: KubeCtlDeleteYaml_def kubectl_yaml_def small_installer_def call_def seq_apply HasPrefix_def)

theorem getCPYamlFiles_rbac_first_witness:
  "[''rbac.yaml'', ''b.yaml''] = filter (\<lambda>f. HasSuffix f ''rbac.yaml'') [''rbac.yaml'', ''b.yaml''] @
     filter (\<lambda>f. \<not> HasSuffix f ''rbac.yaml'') [''rbac.yaml'', ''b.yaml'']"
  using getCPYamlFiles_rbac_first [OF small_sorts small_files] by blast

theorem deletion_failure_lost_witness:
  "\<exists>w'. uninstallControlPlane [0, 0, 0, 1, 1, 1, 0, 1] small_installer 0 = (Done None, w')"
  by (rule deletion_failure_lost [OF small_files small_deletion])



theorem InstallMayastor_sound_witness: "applied small_installer"
proof -
  let ?f = "inst_fleet small_installer"
  have "instances_ready ?f 1 w = (Done True, w)" for w by code_simp
  moreover have "sleeps (cluster_of ?f) 2 w = (Done (), w)" for w by code_simp
  ultimately have "until_ready (cluster_of ?f) 2 540 (instances_ready ?f 1) w = (Done True, w)" for w
    by (intro until_ready_at_once) simp_all
  moreover have "k8stest_GetNodeLocs (cluster_of ?f) w =
      (Done (Inr [\<lparr>NodeName = ''node1'', IPAddress = ''10.0.0.1'', MayastorNode = True, MasterNode = False\<rparr>]), w)" for w by code_simp
  ultimately have "MayastorReady ?f 2 540 w = (Done (Inr True), w)" for w
    by (simp add: MayastorReady_def MayastorInstancesReady_def check_Inr seq_Done)
  then have wait: "wait_installed small_installer start_e2e = wait_control_plane small_installer start_e2e"
    by (simp add: wait_installed_def in_e2e_def zoom_def seq_apply)
  have "generate_and_apply small_installer w = (Done None, w)" for w by code_simp
  moreover have "k8stest_GetMayastorNodeNames small_installer w = (Done (Inr [''node1'']), w)" for w by code_simp
  moreover have "control_plane (inst_plugin small_installer) (ret ()) w = (Done (), w)" for w by code_simp
  ultimately have "InstallMayastor small_installer start_e2e = wait_control_plane small_installer start_e2e"
    by (simp add: InstallMayastor_def in_e2e_def zoom_def seq_apply wait) (simp add: small_installer_def install_bench_def clean_bench_def small_fleet_def)
  moreover have "fst (wait_control_plane small_installer start_e2e) = Done None" by code_simp
  ultimately have "fst (InstallMayastor small_installer start_e2e) = Done None" by simp
  then obtain s' where "InstallMayastor small_installer start_e2e = (Done None, s')" by (metis prod.collapse)
  from InstallMayastor_sound [OF this] show ?thesis by simp
qed


end
