(* ===== verification/E2E_Config.thy ===== *)
theory E2E_Config
  imports E2E_Install
begin

text \<open>
  \<^verbatim>\<open>src/src/common/e2e_config/e2e_config.go\<close>: where the configuration of the tests comes from. \<open>cfg\<close> has the fields that this code reads or
  sets; the library that fills a configuration from the environment and from files is a parameter, as are the environment and the
  file system. \<^verbatim>\<open>os.Stat\<close> gives whether a path is a directory. \<open>cfg_state\<close> holds the variables of the package: a panic inside \<^verbatim>\<open>once.Do\<close>
  leaves them as they were at that moment, and counts as done.
\<close>

record cfg =
  cfg_ConfigFile :: string
  cfg_PlatformConfigFile :: string
  cfg_MayastorRootDir :: string
  cfg_E2eRootDir :: string
  cfg_SessionDir :: string
  cfg_FioDutyCycles :: "(int \<times> int) list"

record 'w cfg_host =
  LookupEnv :: "string \<Rightarrow> string option"
  Getwd :: "string result"
  StatInfo :: "string \<Rightarrow> 'w \<Rightarrow> bool result \<times> 'w"
  NotExist :: "error \<Rightarrow> bool"
  ReadEnv :: "cfg \<Rightarrow> cfg"
  ReadConfig :: "string \<Rightarrow> cfg \<Rightarrow> 'w \<Rightarrow> (cfg \<times> error option) \<times> 'w"
  MkdirAll :: "string \<Rightarrow> 'w \<Rightarrow> error option \<times> 'w"
  WriteResolved :: "cfg \<Rightarrow> 'w \<Rightarrow> 'w"

record 'w cfg_state =
  once_done :: bool
  e2eConfig :: cfg
  cfg_world :: 'w

definition in_host :: "('w, 'a) io \<Rightarrow> ('w cfg_state, 'a) io" where
  "in_host m = zoom cfg_world (\<lambda>w s. s\<lparr>cfg_world := w\<rparr>) m"

definition set_config :: "(cfg \<Rightarrow> cfg) \<Rightarrow> ('w cfg_state, unit) io" where
  "set_config f = modifies (\<lambda>s. s\<lparr>e2eConfig := f (e2eConfig s)\<rparr>)"

section \<open>The root directory\<close>

text \<open>The candidates in the working directory: each prefix that ends in the name of the repository and is followed by \<^verbatim>\<open>src\<close> and more.\<close>

definition root_candidates :: "string \<Rightarrow> string list" where
  "root_candidates cwd =
     (let comps = path_elements cwd in
      map (\<lambda>ix. Clean (slash # Join (take (ix + 1) comps) [slash]))
        (filter (\<lambda>ix. comps ! ix = ''mayastor-e2e'' \<and> 2 < length (drop ix comps) \<and> comps ! (ix + 1) = ''src'') [0 ..< length comps]))"

definition e2e_root :: "'w cfg_host \<Rightarrow> ('w cfg_state, string option) io" where
  "e2e_root h =
     (case LookupEnv h ''e2e_root_dir'' of
        Some d \<Rightarrow> ret (Some d)
      | None \<Rightarrow> (case Getwd h of
          Inl err \<Rightarrow> ret None
        | Inr cwd \<Rightarrow> after (for_in (root_candidates cwd) None (\<lambda>candidate root.
            seq (in_host (call (StatInfo h candidate))) (\<lambda>r.
            ret (if r = Inr True then Break (Some candidate) else Continue root)))) ret))"

section \<open>Configuration files\<close>

text \<open>A value of the interface type \<^verbatim>\<open>os.FileInfo\<close> that is nil has no methods to call.\<close>

definition IsDir :: "bool result \<Rightarrow> ('s, bool) io" where
  "IsDir info = (case info of Inr d \<Rightarrow> ret d | Inl err \<Rightarrow> panic ''nil pointer dereference'')"

definition not_exist :: "'w cfg_host \<Rightarrow> bool result \<Rightarrow> bool" where
  "not_exist h info = (case info of Inl err \<Rightarrow> NotExist h err | Inr _ \<Rightarrow> False)"

definition read_config :: "'w cfg_host \<Rightarrow> string \<Rightarrow> bool result \<Rightarrow> ('w cfg_state, unit) io" where
  "read_config h file info =
     seq (IsDir info) (\<lambda>d.
     if d then panic (file @ '' is not a file'')
     else seq (gets e2eConfig) (\<lambda>c.
       seq (in_host (call (ReadConfig h file c))) (\<lambda>(c', err).
       seq (set_config (\<lambda>_. c')) (\<lambda>_. case err of Some e \<Rightarrow> panic (err_text e) | None \<Rightarrow> ret ()))))"

text \<open>
  A file of the configuration, as it is named or, when that does not exist, in a directory below the root. \<open>update\<close> writes the
  path that was found back.
\<close>

definition load_config :: "'w cfg_host \<Rightarrow> string \<Rightarrow> string option \<Rightarrow> string \<Rightarrow> (string \<Rightarrow> cfg \<Rightarrow> cfg) \<Rightarrow> string \<Rightarrow> ('w cfg_state, unit) io" where
  "load_config h what root dir update named =
     (if named = '''' then ret ()
      else seq (in_host (call (StatInfo h (Clean named)))) (\<lambda>info.
        case root of
          Some r \<Rightarrow>
            if not_exist h info then
              let file = Clean (r @ dir @ named) in
              seq (in_host (call (StatInfo h file))) (\<lambda>info. case info of
                Inl err \<Rightarrow> panic (''Unable to access '' @ what @ '' file '' @ file)
              | Inr _ \<Rightarrow> seq (set_config (update file)) (\<lambda>_. read_config h file info))
            else read_config h (Clean named) info
        | None \<Rightarrow> read_config h (Clean named) info))"

definition load_product :: "'w cfg_host \<Rightarrow> ('w cfg_state, unit) io" where
  "load_product h =
     (case LookupEnv h ''e2e_product_config_yaml'' of
        None \<Rightarrow> ret ()
      | Some named \<Rightarrow>
          if named = '''' then ret ()
          else seq (in_host (call (StatInfo h (Clean named)))) (\<lambda>info.
            if not_exist h info then panic (Clean named @ '' file not not found'')
            else read_config h (Clean named) info))"

definition duty_cycles :: "(int \<times> int) list" where
  "duty_cycles = [(500000, 1000), (750000, 1000), (1250000, 2000), (1500000, 3000), (1750000, 3000), (2000000, 4000)]"

definition session_dir :: "'w cfg_host \<Rightarrow> string option \<Rightarrow> ('w cfg_state, unit) io" where
  "session_dir h root =
     seq (case root of Some r \<Rightarrow> set_config (\<lambda>c. c\<lparr>cfg_E2eRootDir := r\<rparr>) | None \<Rightarrow> ret ()) (\<lambda>_.
     let artifactsDir = (case root of Some r \<Rightarrow> Clean (r @ ''/artifacts'') | None \<Rightarrow> ''/tmp/mayastor-e2e'') in
     seq (gets e2eConfig) (\<lambda>c.
     if cfg_SessionDir c \<noteq> '''' then ret ()
     else
       let d = artifactsDir @ ''/sessions/default'' in
       seq (set_config (\<lambda>c. c\<lparr>cfg_SessionDir := d\<rparr>)) (\<lambda>_.
       seq (in_host (call (MkdirAll h d))) (\<lambda>err. case err of Some e \<Rightarrow> panic (err_text e) | None \<Rightarrow> ret ()))))"

definition write_resolved :: "'w cfg_host \<Rightarrow> ('w cfg_state, unit) io" where
  "write_resolved h = modifies (\<lambda>s. s\<lparr>cfg_world := WriteResolved h (e2eConfig s) (cfg_world s)\<rparr>)"

definition init_config :: "'w cfg_host \<Rightarrow> ('w cfg_state, unit) io" where
  "init_config h =
     seq (e2e_root h) (\<lambda>root.
     seq (set_config (\<lambda>c. (ReadEnv h c)\<lparr>cfg_FioDutyCycles := duty_cycles\<rparr>)) (\<lambda>_.
     seq (gets e2eConfig) (\<lambda>c.
     seq (load_config h ''configuration'' root ''/configurations/'' (\<lambda>f c. c\<lparr>cfg_ConfigFile := f\<rparr>) (cfg_ConfigFile c)) (\<lambda>_.
     seq (gets e2eConfig) (\<lambda>c.
     seq (load_config h ''platform configuration'' root ''/configurations/platforms/'' (\<lambda>f c. c\<lparr>cfg_PlatformConfigFile := f\<rparr>)
       (cfg_PlatformConfigFile c)) (\<lambda>_.
     seq (load_product h) (\<lambda>_.
     seq (session_dir h root) (\<lambda>_.
     write_resolved h))))))))"

definition GetConfig :: "'w cfg_host \<Rightarrow> ('w cfg_state, cfg) io" where
  "GetConfig h =
     seq (gets once_done) (\<lambda>done.
     seq (if done then ret () else seq (modifies (\<lambda>s. s\<lparr>once_done := True\<rparr>)) (\<lambda>_. init_config h)) (\<lambda>_.
     gets e2eConfig))"

section \<open>Properties\<close>

lemma keeping_once [keeps]:
  "keeping once_done (in_host m)" "keeping once_done (set_config f)" "keeping once_done (write_resolved h)" "keeping once_done (IsDir info)"
  by (auto simp: keeping_def in_host_def zoom_def set_config_def write_resolved_def IsDir_def split: prod.splits sum.splits)

lemma keeping_once_read [keeps]: "keeping once_done (read_config h file info)"
  unfolding read_config_def by (intro keeps)

lemma keeping_once_load [keeps]: "keeping once_done (load_config h what root dir update named)" "keeping once_done (load_product h)"
  "keeping once_done (session_dir h root)" "keeping once_done (e2e_root h)"
  unfolding load_config_def load_product_def session_dir_def e2e_root_def Let_def by (intro keeps)+

lemma init_keeps_once: "keeping once_done (init_config h)"
  unfolding init_config_def by (intro keeps)

lemma GetConfig_once_done:
  assumes "GetConfig h s = (out, s')"
  shows "once_done s'"
proof -
  have "once_done t" if "init_config h (s\<lparr>once_done := True\<rparr>) = (r, t)" for r t
    using init_keeps_once [of h] that unfolding keeping_def by (metis cfg_state.select_convs(1) cfg_state.surjective
        cfg_state.update_convs(1) snd_conv)
  with assms show ?thesis
    by (auto simp: GetConfig_def seq_def split: if_splits prod.splits outcome.splits)
qed

text \<open>
  The configuration is set up once: after a first call, whether it returned or panicked, every call returns the same
  configuration and does nothing. After a panic that is the configuration as far as it had come, and nothing tells the caller.
\<close>

theorem GetConfig_once:
  assumes "GetConfig h s = (out, s')"
  shows "GetConfig h s' = (Done (e2eConfig s'), s') \<and> (\<forall>c. out = Done c \<longrightarrow> c = e2eConfig s')"
proof -
  have "GetConfig h s' = (Done (e2eConfig s'), s')"
    using GetConfig_once_done [OF assms] by (simp add: GetConfig_def seq_apply)
  moreover have "c = e2eConfig s'" if "out = Done c" for c
    using assms that by (auto simp: GetConfig_def elim!: seq_DoneE)
  ultimately show ?thesis by blast
qed

lemma session_dir_set:
  assumes "session_dir h root s = (Done (), s')"
  shows "cfg_SessionDir (e2eConfig s') \<noteq> ''''"
  using assms
  by (auto simp: session_dir_def Let_def set_config_def in_host_def zoom_def elim!: seq_DoneE split: if_splits option.splits prod.splits)

text \<open>A configuration that the first call returns has a session directory.\<close>

theorem GetConfig_session:
  assumes "GetConfig h s = (Done c, s')" and "\<not> once_done s"
  shows "cfg_SessionDir c \<noteq> ''''"
  using assms by (auto simp: GetConfig_def init_config_def write_resolved_def elim!: seq_DoneE dest!: session_dir_set)

text \<open>
  A configuration file that is named and cannot be looked at, for another reason than that it does not exist, or that does not exist
  when there is no root directory, is a nil pointer dereference.
\<close>

theorem unreadable_config_file:
  assumes "named \<noteq> []" and "StatInfo h (Clean named) (cfg_world s) = (Inl err, w)" and "root = None \<or> \<not> NotExist h err"
  shows "\<exists>s'. load_config h what root dir update named s = (Panicked ''nil pointer dereference'', s')"
  using assms
  by (auto simp: load_config_def read_config_def IsDir_def not_exist_def in_host_def zoom_def call_def seq_apply split: option.split)

end
