(* ===== verification/E2E_Builders.thy ===== *)
theory E2E_Builders
  imports Builders
begin

text \<open>
  The builders of \<^verbatim>\<open>src/src/common/k8stest\<close>: containers (\<^verbatim>\<open>util_container.go\<close>), volumes (\<^verbatim>\<open>util_volume.go\<close>), pod
  templates (\<^verbatim>\<open>util_podtemplatespec.go\<close>) and deployments (\<^verbatim>\<open>util_deploy.go\<close>). All of them hold an object and the errors
  so far, so that there is one type \<open>builder\<close>. A slice or map that may be nil is an option; an object has the fields that the
  sources set. The types of Kubernetes that are only passed on are not described. A builder is a value: code that goes on to use
  a builder after \<^verbatim>\<open>Build\<close>, or changes a map that it has handed to one, is not covered.
\<close>

typedecl probe
typedecl lifecycle
typedecl affinity
typedecl empty_dir
typedecl env_source

record 'a builder =
  bl_obj :: 'a
  bl_errs :: "error list"

definition refuse :: "string \<Rightarrow> 'a builder \<Rightarrow> 'a builder" where
  "refuse msg b = b\<lparr>bl_errs := bl_errs b @ [Error msg]\<rparr>"

definition change :: "('a \<Rightarrow> 'a) \<Rightarrow> 'a builder \<Rightarrow> 'a builder" where
  "change f b = b\<lparr>bl_obj := f (bl_obj b)\<rparr>"

text \<open>\<^verbatim>\<open>if missing { append an error; return }\<close>, then set a field.\<close>

definition unless :: "bool \<Rightarrow> string \<Rightarrow> ('a \<Rightarrow> 'a) \<Rightarrow> 'a builder \<Rightarrow> 'a builder" where
  "unless missing msg f b = (if missing then refuse msg b else change f b)"

text \<open>The same for a slice, with two messages, for nil and for a slice of length zero.\<close>

definition with_slice :: "string \<Rightarrow> string \<Rightarrow> 'x list option \<Rightarrow> ('x list \<Rightarrow> 'a \<Rightarrow> 'a) \<Rightarrow> 'a builder \<Rightarrow> 'a builder" where
  "with_slice nil_msg empty_msg given f b =
     (case given of None \<Rightarrow> refuse nil_msg b | Some xs \<Rightarrow> unless (xs = []) empty_msg (f xs) b)"

definition with_pointer :: "string \<Rightarrow> 'x option \<Rightarrow> ('x \<Rightarrow> 'a \<Rightarrow> 'a) \<Rightarrow> 'a builder \<Rightarrow> 'a builder" where
  "with_pointer nil_msg p f b = (case p of None \<Rightarrow> refuse nil_msg b | Some x \<Rightarrow> change (f x) b)"

text \<open>\<^verbatim>\<open>fmt.Errorf\<close> of a slice of errors, without the stack traces, and \<^verbatim>\<open>errors.Wrap\<close>.\<close>

definition build_errors :: "error list \<Rightarrow> error" where
  "build_errors errs = Error (''failed to validate: build errors were found: '' @ err_text (errs_error errs))"

definition wrap_error :: "string \<Rightarrow> error \<Rightarrow> error" where
  "wrap_error msg err = Error (msg @ '': '' @ err_text err)"

type_synonym labels = "(string, string) gomap"

text \<open>
  Merging a map into another one, which may be nil. The keys of a Go map are distinct, so that the order in which they are visited
  makes no difference.
\<close>

definition merged :: "labels \<Rightarrow> labels \<Rightarrow> labels" where
  "merged new old = fold (\<lambda>(k, v). AList.update k v) new old"

section \<open>Containers\<close>

record container_port =
  pt_Name :: string
  pt_HostPort :: int
  pt_ContainerPort :: int
  pt_Protocol :: string
  pt_HostIP :: string

record env_var =
  ev_Name :: string
  ev_Value :: string
  ev_ValueFrom :: "env_source option"

record resources =
  rs_Limits :: labels
  rs_Requests :: labels

record kcontainer =
  kc_Name :: string
  kc_Image :: string
  kc_Command :: "string list option"
  kc_Args :: "string list option"
  kc_Ports :: "container_port list option"
  kc_Env :: "env_var list option"
  kc_Resources :: resources
  kc_VolumeMounts :: "volume_mount list option"
  kc_VolumeDevices :: "volume_device list option"
  kc_LivenessProbe :: "probe option"
  kc_Lifecycle :: "lifecycle option"
  kc_ImagePullPolicy :: string
  kc_Privileged :: "bool option"

type_synonym container_builder = "kcontainer builder"

definition no_container :: kcontainer where
  "no_container = \<lparr>kc_Name = '''', kc_Image = '''', kc_Command = None, kc_Args = None, kc_Ports = None, kc_Env = None,
     kc_Resources = \<lparr>rs_Limits = [], rs_Requests = []\<rparr>, kc_VolumeMounts = None, kc_VolumeDevices = None, kc_LivenessProbe = None,
     kc_Lifecycle = None, kc_ImagePullPolicy = '''', kc_Privileged = None\<rparr>"

definition NewContainerBuilder :: container_builder where
  "NewContainerBuilder = \<lparr>bl_obj = no_container, bl_errs = []\<rparr>"

definition NewContainer :: "(kcontainer \<Rightarrow> kcontainer) list \<Rightarrow> kcontainer" where
  "NewContainer opts = fold (\<lambda>f c. f c) opts no_container"

definition con_msg :: "string \<Rightarrow> string" where
  "con_msg what = ''failed to build container object: '' @ what"

definition Con_WithName :: "string \<Rightarrow> container_builder \<Rightarrow> container_builder" where
  "Con_WithName name = unless (name = []) (con_msg ''missing name'') (kc_Name_update (\<lambda>_. name))"

definition Con_WithImage :: "string \<Rightarrow> container_builder \<Rightarrow> container_builder" where
  "Con_WithImage img = unless (img = []) (con_msg ''missing image'') (kc_Image_update (\<lambda>_. img))"

definition con_slice :: "string \<Rightarrow> 'x list option \<Rightarrow> ('x list \<Rightarrow> kcontainer \<Rightarrow> kcontainer) \<Rightarrow> container_builder \<Rightarrow> container_builder" where
  "con_slice what = with_slice (con_msg (''nil '' @ what)) (con_msg (''missing '' @ what))"

definition WithCommandNew :: "string list option \<Rightarrow> container_builder \<Rightarrow> container_builder" where
  "WithCommandNew cmd = con_slice ''command'' cmd (\<lambda>xs. kc_Command_update (\<lambda>_. Some xs))"

definition WithArgumentsNew :: "string list option \<Rightarrow> container_builder \<Rightarrow> container_builder" where
  "WithArgumentsNew args = con_slice ''arguments'' args (\<lambda>xs. kc_Args_update (\<lambda>_. Some xs))"

definition WithVolumeMountsNew :: "volume_mount list option \<Rightarrow> container_builder \<Rightarrow> container_builder" where
  "WithVolumeMountsNew volumeMounts = con_slice ''volumemounts'' volumeMounts (\<lambda>xs. kc_VolumeMounts_update (\<lambda>_. Some xs))"

definition Con_WithVolumeDevices :: "volume_device list option \<Rightarrow> container_builder \<Rightarrow> container_builder" where
  "Con_WithVolumeDevices volumeDevices = con_slice ''volumedevices'' volumeDevices (\<lambda>xs. kc_VolumeDevices_update (\<lambda>_. Some xs))"

definition WithImagePullPolicy :: "string \<Rightarrow> container_builder \<Rightarrow> container_builder" where
  "WithImagePullPolicy policy = unless (policy = []) (con_msg ''missing imagepullpolicy'') (kc_ImagePullPolicy_update (\<lambda>_. policy))"

definition WithPrivilegedSecurityContext :: "bool option \<Rightarrow> container_builder \<Rightarrow> container_builder" where
  "WithPrivilegedSecurityContext privileged =
     with_pointer (con_msg ''missing securitycontext'') privileged (\<lambda>v. kc_Privileged_update (\<lambda>_. Some v))"

definition WithResources :: "resources option \<Rightarrow> container_builder \<Rightarrow> container_builder" where
  "WithResources res = with_pointer (con_msg ''missing resources'') res (\<lambda>v. kc_Resources_update (\<lambda>_. v))"

definition WithResourcesByValue :: "resources \<Rightarrow> container_builder \<Rightarrow> container_builder" where
  "WithResourcesByValue res = change (kc_Resources_update (\<lambda>_. res))"

definition WithPortsNew :: "container_port list option \<Rightarrow> container_builder \<Rightarrow> container_builder" where
  "WithPortsNew ports = con_slice ''ports'' ports (\<lambda>xs. kc_Ports_update (\<lambda>_. Some xs))"

definition WithEnvsNew :: "env_var list option \<Rightarrow> container_builder \<Rightarrow> container_builder" where
  "WithEnvsNew envs = con_slice ''envs'' envs (\<lambda>xs. kc_Env_update (\<lambda>_. Some xs))"

definition WithEnvs :: "env_var list option \<Rightarrow> container_builder \<Rightarrow> container_builder" where
  "WithEnvs envs b =
     (if kc_Env (bl_obj b) = None then WithEnvsNew envs b
      else con_slice ''envs'' envs (\<lambda>xs. kc_Env_update (map_option (\<lambda>old. old @ xs))) b)"

definition WithLivenessProbe :: "probe option \<Rightarrow> container_builder \<Rightarrow> container_builder" where
  "WithLivenessProbe liveness = with_pointer (con_msg ''nil liveness probe'') liveness (\<lambda>v. kc_LivenessProbe_update (\<lambda>_. Some v))"

definition WithLifeCycle :: "lifecycle option \<Rightarrow> container_builder \<Rightarrow> container_builder" where
  "WithLifeCycle lc = with_pointer (con_msg ''nil lifecycle'') lc (\<lambda>v. kc_Lifecycle_update (\<lambda>_. Some v))"

definition Con_Build :: "container_builder \<Rightarrow> kcontainer result" where
  "Con_Build b = (if bl_errs b \<noteq> [] then Inl (build_errors (bl_errs b)) else Inr (bl_obj b))"

section \<open>Volumes\<close>

record volume_source =
  vs_HostPath :: "(string \<times> string option) option"
  vs_Secret :: "(int \<times> string) option"
  vs_ConfigMap :: "(int \<times> string) option"
  vs_ClaimName :: "string option"
  vs_EmptyDir :: "empty_dir option"

record kvolume =
  kv_Name :: string
  kv_Source :: volume_source

type_synonym volume_builder = "kvolume builder"

definition no_source :: volume_source where
  "no_source = \<lparr>vs_HostPath = None, vs_Secret = None, vs_ConfigMap = None, vs_ClaimName = None, vs_EmptyDir = None\<rparr>"

definition NewVolumeBuilder :: volume_builder where
  "NewVolumeBuilder = \<lparr>bl_obj = \<lparr>kv_Name = '''', kv_Source = no_source\<rparr>, bl_errs = []\<rparr>"

definition vol_msg :: "string \<Rightarrow> string" where
  "vol_msg what = ''failed to build volume object: '' @ what"

definition Vol_WithName :: "string \<Rightarrow> volume_builder \<Rightarrow> volume_builder" where
  "Vol_WithName name = unless (name = []) ''failed to build Volume object: missing Volume name'' (kv_Name_update (\<lambda>_. name))"

definition set_source :: "volume_source \<Rightarrow> kvolume \<Rightarrow> kvolume" where
  "set_source src v = v\<lparr>kv_Source := src\<rparr>"

definition WithHostDirectory :: "string \<Rightarrow> volume_builder \<Rightarrow> volume_builder" where
  "WithHostDirectory path =
     unless (path = []) (vol_msg ''missing volume path'') (set_source (no_source\<lparr>vs_HostPath := Some (path, None)\<rparr>))"

text \<open>A mode of zero is an error, but the source is set all the same.\<close>

definition named_source :: "(int \<Rightarrow> string \<Rightarrow> volume_source) \<Rightarrow> string option \<Rightarrow> int \<Rightarrow> volume_builder \<Rightarrow> volume_builder" where
  "named_source src obj defaultMode b =
     (case obj of
        None \<Rightarrow> refuse (vol_msg ''nil ConfigMap'') b
      | Some name \<Rightarrow>
          change (\<lambda>v. (set_source (src defaultMode name) v)\<lparr>kv_Name := name\<rparr>)
            (if defaultMode = 0 then refuse (vol_msg ''missing defaultmode'') b else b))"

definition WithSecret :: "string option \<Rightarrow> int \<Rightarrow> volume_builder \<Rightarrow> volume_builder" where
  "WithSecret = named_source (\<lambda>mode name. no_source\<lparr>vs_Secret := Some (mode, name)\<rparr>)"

definition WithConfigMap :: "string option \<Rightarrow> int \<Rightarrow> volume_builder \<Rightarrow> volume_builder" where
  "WithConfigMap = named_source (\<lambda>mode name. no_source\<lparr>vs_ConfigMap := Some (mode, name)\<rparr>)"

definition WithHostPathAndType :: "string \<Rightarrow> string option \<Rightarrow> volume_builder \<Rightarrow> volume_builder" where
  "WithHostPathAndType dirpath dirtype b =
     (case dirtype of
        None \<Rightarrow> refuse (vol_msg ''nil volume type'') b
      | Some t \<Rightarrow> unless (dirpath = []) (vol_msg ''missing volume path'') (set_source (no_source\<lparr>vs_HostPath := Some (dirpath, Some t)\<rparr>)) b)"

definition WithPVCSource :: "string \<Rightarrow> volume_builder \<Rightarrow> volume_builder" where
  "WithPVCSource pvcName =
     unless (pvcName = []) (vol_msg ''missing pvc name'') (set_source (no_source\<lparr>vs_ClaimName := Some pvcName\<rparr>))"

text \<open>Only this source is set beside one that is there.\<close>

definition WithEmptyDir :: "empty_dir option \<Rightarrow> volume_builder \<Rightarrow> volume_builder" where
  "WithEmptyDir dir =
     with_pointer (vol_msg ''nil dir'') dir (\<lambda>d v. v\<lparr>kv_Source := (kv_Source v)\<lparr>vs_EmptyDir := Some d\<rparr>\<rparr>)"

definition Vol_Build :: "volume_builder \<Rightarrow> kvolume result" where
  "Vol_Build b = (if bl_errs b \<noteq> [] then Inl (errs_error (bl_errs b)) else Inr (bl_obj b))"

section \<open>Pod templates\<close>

record pod_template =
  pt_ObjName :: string
  pt_Namespace :: string
  pt_Annotations :: "labels option"
  pt_Labels :: "labels option"
  pt_NodeSelector :: "labels option"
  pt_PriorityClassName :: string
  pt_ServiceAccountName :: string
  pt_Affinity :: "affinity option"
  pt_Tolerations :: "toleration list"
  pt_Containers :: "kcontainer list"
  pt_Volumes :: "kvolume list"

type_synonym template_builder = "pod_template builder"

definition no_template :: pod_template where
  "no_template = \<lparr>pt_ObjName = '''', pt_Namespace = '''', pt_Annotations = None, pt_Labels = None, pt_NodeSelector = None,
     pt_PriorityClassName = '''', pt_ServiceAccountName = '''', pt_Affinity = None, pt_Tolerations = [], pt_Containers = [],
     pt_Volumes = []\<rparr>"

definition NewPodtemplatespecBuilder :: template_builder where
  "NewPodtemplatespecBuilder = \<lparr>bl_obj = no_template, bl_errs = []\<rparr>"

definition tpl_msg :: "string \<Rightarrow> string" where
  "tpl_msg what = ''failed to build podtemplatespec object: '' @ what"

definition Tpl_WithName :: "string \<Rightarrow> template_builder \<Rightarrow> template_builder" where
  "Tpl_WithName name = unless (name = []) (tpl_msg ''missing name'') (pt_ObjName_update (\<lambda>_. name))"

definition Tpl_WithNamespace :: "string \<Rightarrow> template_builder \<Rightarrow> template_builder" where
  "Tpl_WithNamespace namespace = unless (namespace = []) (tpl_msg ''missing namespace'') (pt_Namespace_update (\<lambda>_. namespace))"

definition WithAnnotationsNew :: "labels \<Rightarrow> template_builder \<Rightarrow> template_builder" where
  "WithAnnotationsNew annotations =
     unless (annotations = []) (tpl_msg ''missing annotations'') (pt_Annotations_update (\<lambda>_. Some annotations))"

definition WithAnnotations :: "labels \<Rightarrow> template_builder \<Rightarrow> template_builder" where
  "WithAnnotations annotations b =
     (if annotations = [] then refuse ''failed to build deployment object: missing annotations'' b
      else if pt_Annotations (bl_obj b) = None then WithAnnotationsNew annotations b
      else change (pt_Annotations_update (map_option (merged annotations))) b)"

definition Tpl_WithLabelsNew :: "labels \<Rightarrow> template_builder \<Rightarrow> template_builder" where
  "Tpl_WithLabelsNew ls = unless (ls = []) (tpl_msg ''missing labels'') (pt_Labels_update (\<lambda>_. Some ls))"

definition Tpl_WithLabels :: "labels \<Rightarrow> template_builder \<Rightarrow> template_builder" where
  "Tpl_WithLabels ls b =
     (if ls = [] then refuse (tpl_msg ''missing labels'') b
      else if pt_Labels (bl_obj b) = None then Tpl_WithLabelsNew ls b
      else change (pt_Labels_update (map_option (merged ls))) b)"

definition Tpl_WithNodeSelectorNew :: "labels \<Rightarrow> template_builder \<Rightarrow> template_builder" where
  "Tpl_WithNodeSelectorNew nodeselectors =
     unless (nodeselectors = []) (tpl_msg ''missing nodeselectors'') (pt_NodeSelector_update (\<lambda>_. Some nodeselectors))"

definition Tpl_WithNodeSelector :: "labels \<Rightarrow> template_builder \<Rightarrow> template_builder" where
  "Tpl_WithNodeSelector nodeselectors b =
     (if nodeselectors = [] then refuse (tpl_msg ''missing nodeselectors'') b
      else if pt_NodeSelector (bl_obj b) = None then Tpl_WithNodeSelectorNew nodeselectors b
      else change (pt_NodeSelector_update (map_option (merged nodeselectors))) b)"

definition WithNodeSelectorByValue :: "labels \<Rightarrow> template_builder \<Rightarrow> template_builder" where
  "WithNodeSelectorByValue nodeselectors = change (pt_NodeSelector_update (\<lambda>_. Some nodeselectors))"

definition WithPriorityClassName :: "string \<Rightarrow> template_builder \<Rightarrow> template_builder" where
  "WithPriorityClassName name = change (pt_PriorityClassName_update (\<lambda>_. name))"

definition Tpl_WithServiceAccountName :: "string \<Rightarrow> template_builder \<Rightarrow> template_builder" where
  "Tpl_WithServiceAccountName name =
     unless (name = []) (tpl_msg ''missing serviceaccountname'') (pt_ServiceAccountName_update (\<lambda>_. name))"

definition WithAffinity :: "affinity option \<Rightarrow> template_builder \<Rightarrow> template_builder" where
  "WithAffinity aff = with_pointer (tpl_msg ''missing affinity'') aff (\<lambda>a. pt_Affinity_update (\<lambda>_. Some a))"

definition WithTolerationsByValue :: "toleration list \<Rightarrow> template_builder \<Rightarrow> template_builder" where
  "WithTolerationsByValue tolerations = change (pt_Tolerations_update (\<lambda>old. old @ tolerations))"

definition WithTolerationsNew :: "toleration list option \<Rightarrow> template_builder \<Rightarrow> template_builder" where
  "WithTolerationsNew tolerations =
     with_slice (tpl_msg ''nil tolerations'') (tpl_msg ''missing tolerations'') tolerations (\<lambda>xs. pt_Tolerations_update (\<lambda>_. xs))"

definition WithTolerations :: "toleration list option \<Rightarrow> template_builder \<Rightarrow> template_builder" where
  "WithTolerations tolerations b =
     (if pt_Tolerations (bl_obj b) = [] then WithTolerationsNew tolerations b
      else with_slice (tpl_msg ''nil tolerations'') (tpl_msg ''missing tolerations'') tolerations
        (\<lambda>xs. pt_Tolerations_update (\<lambda>old. old @ xs)) b)"

text \<open>
  A loop over builders: each object is built and added; the first error ends it. What was added before the error stays, when
  the objects are added to those of the template one by one.
\<close>

fun add_built :: "('b \<Rightarrow> 'x result) \<Rightarrow> ('x \<Rightarrow> 'a \<Rightarrow> 'a) \<Rightarrow> 'b list \<Rightarrow> 'a builder \<Rightarrow> 'a builder" where
  "add_built build add [] b = b"
| "add_built build add (x # xs) b =
     (case build x of
        Inl err \<Rightarrow> b\<lparr>bl_errs := bl_errs b @ [wrap_error ''failed to build podtemplatespec'' err]\<rparr>
      | Inr obj \<Rightarrow> add_built build add xs (change (add obj) b))"

fun all_built :: "('b \<Rightarrow> 'x result) \<Rightarrow> 'b list \<Rightarrow> 'x list result" where
  "all_built build [] = Inr []"
| "all_built build (x # xs) =
     (case build x of Inl err \<Rightarrow> Inl err | Inr obj \<Rightarrow> map_sum id (\<lambda>objs. obj # objs) (all_built build xs))"

definition set_built :: "('b \<Rightarrow> 'x result) \<Rightarrow> ('x list \<Rightarrow> 'a \<Rightarrow> 'a) \<Rightarrow> 'b list \<Rightarrow> 'a builder \<Rightarrow> 'a builder" where
  "set_built build put xs b =
     (case all_built build xs of
        Inl err \<Rightarrow> b\<lparr>bl_errs := bl_errs b @ [wrap_error ''failed to build podtemplatespec'' err]\<rparr>
      | Inr objs \<Rightarrow> change (put objs) b)"

definition WithContainerBuilders :: "container_builder list option \<Rightarrow> template_builder \<Rightarrow> template_builder" where
  "WithContainerBuilders builders b =
     (case builders of
        None \<Rightarrow> refuse ''failed to build podtemplatespec: nil containerbuilder'' b
      | Some xs \<Rightarrow> add_built Con_Build (\<lambda>c. pt_Containers_update (\<lambda>cs. cs @ [c])) xs b)"

definition WithVolumeBuilders :: "volume_builder list option \<Rightarrow> template_builder \<Rightarrow> template_builder" where
  "WithVolumeBuilders builders b =
     (case builders of
        None \<Rightarrow> refuse ''failed to build podtemplatespec: nil volumeBuilderList'' b
      | Some xs \<Rightarrow> add_built Vol_Build (\<lambda>v. pt_Volumes_update (\<lambda>vs. vs @ [v])) xs b)"

definition WithContainerBuildersNew :: "container_builder list option \<Rightarrow> template_builder \<Rightarrow> template_builder" where
  "WithContainerBuildersNew builders b =
     (case builders of
        None \<Rightarrow> refuse ''failed to build podtemplatespec: nil containerbuilder'' b
      | Some xs \<Rightarrow>
          if xs = [] then refuse ''failed to build podtemplatespec: missing containerbuilder'' b
          else set_built Con_Build (\<lambda>cs. pt_Containers_update (\<lambda>_. cs)) xs b)"

definition WithVolumeBuildersNew :: "volume_builder list option \<Rightarrow> template_builder \<Rightarrow> template_builder" where
  "WithVolumeBuildersNew builders b =
     (case builders of
        None \<Rightarrow> refuse ''failed to build podtemplatespec: nil volumeBuilderList'' b
      | Some xs \<Rightarrow>
          if xs = [] then refuse ''failed to build podtemplatespec: missing volumeBuilderList'' b
          else set_built Vol_Build (\<lambda>vs. pt_Volumes_update (\<lambda>_. vs)) xs b)"

text \<open>The text of the error leaves out the description of the object.\<close>

definition Tpl_Build :: "template_builder \<Rightarrow> pod_template result" where
  "Tpl_Build b =
     (if bl_errs b \<noteq> [] then Inl (wrap_error ''failed to build a podtemplatespec: '' (build_errors (bl_errs b))) else Inr (bl_obj b))"

section \<open>Deployments\<close>

record kdeployment =
  kd_Name :: string
  kd_Namespace :: string
  kd_Labels :: "labels option"
  kd_MatchLabels :: "labels option"
  kd_Replicas :: "int option"
  kd_Template :: pod_template
  kd_Generation :: int
  kd_ObservedGeneration :: int
  kd_StatusReplicas :: int
  kd_UpdatedReplicas :: int
  kd_ReadyReplicas :: int
  kd_AvailableReplicas :: int

type_synonym deployment_builder = "kdeployment builder"

definition NewDeploymentBuilder :: deployment_builder where
  "NewDeploymentBuilder = \<lparr>bl_obj = \<lparr>kd_Name = '''', kd_Namespace = '''', kd_Labels = None, kd_MatchLabels = None, kd_Replicas = None,
     kd_Template = no_template, kd_Generation = 0, kd_ObservedGeneration = 0, kd_StatusReplicas = 0, kd_UpdatedReplicas = 0,
     kd_ReadyReplicas = 0, kd_AvailableReplicas = 0\<rparr>, bl_errs = []\<rparr>"

definition dep_msg :: "string \<Rightarrow> string" where
  "dep_msg what = ''failed to build deployment object: '' @ what"

definition Dep_WithName :: "string \<Rightarrow> deployment_builder \<Rightarrow> deployment_builder" where
  "Dep_WithName name = unless (name = []) ''failed to build deployment: missing name'' (kd_Name_update (\<lambda>_. name))"

definition Dep_WithNamespace :: "string \<Rightarrow> deployment_builder \<Rightarrow> deployment_builder" where
  "Dep_WithNamespace namespace =
     unless (namespace = []) ''failed to build deployment: missing namespace'' (kd_Namespace_update (\<lambda>_. namespace))"

definition Dep_WithLabelsNew :: "labels \<Rightarrow> deployment_builder \<Rightarrow> deployment_builder" where
  "Dep_WithLabelsNew ls = unless (ls = []) (dep_msg ''no new labels'') (kd_Labels_update (\<lambda>_. Some ls))"

definition WithSelectorMatchLabelsNew :: "labels \<Rightarrow> deployment_builder \<Rightarrow> deployment_builder" where
  "WithSelectorMatchLabelsNew ls = unless (ls = []) (dep_msg ''no new matchlabels'') (kd_MatchLabels_update (\<lambda>_. Some ls))"

definition WithSelectorMatchLabels :: "labels \<Rightarrow> deployment_builder \<Rightarrow> deployment_builder" where
  "WithSelectorMatchLabels ls b =
     (if ls = [] then refuse (dep_msg ''missing matchlabels'') b
      else if kd_MatchLabels (bl_obj b) = None then WithSelectorMatchLabelsNew ls b
      else change (kd_MatchLabels_update (map_option (merged ls))) b)"

definition Dep_WithNodeSelectorNew :: "labels \<Rightarrow> deployment_builder \<Rightarrow> deployment_builder" where
  "Dep_WithNodeSelectorNew selector =
     unless (selector = []) (dep_msg ''no new node selector'') (kd_Template_update (pt_NodeSelector_update (\<lambda>_. Some selector)))"

definition Dep_WithNodeSelector :: "labels \<Rightarrow> deployment_builder \<Rightarrow> deployment_builder" where
  "Dep_WithNodeSelector selector b =
     (if selector = [] then refuse (dep_msg ''no node selector'') b
      else if pt_NodeSelector (kd_Template (bl_obj b)) = None then Dep_WithNodeSelectorNew selector b
      else change (kd_Template_update (pt_NodeSelector_update (map_option (merged selector)))) b)"

definition Dep_WithReplicas :: "int option \<Rightarrow> deployment_builder \<Rightarrow> deployment_builder" where
  "Dep_WithReplicas replicas b =
     (case replicas of
        None \<Rightarrow> refuse (dep_msg ''nil replicas'') b
      | Some n \<Rightarrow> unless (n < 0) (dep_msg (''invalid replicas {'' @ Itoa n @ ''}'')) (kd_Replicas_update (\<lambda>_. Some n)) b)"

definition WithPodTemplateSpecBuilder :: "template_builder option \<Rightarrow> deployment_builder \<Rightarrow> deployment_builder" where
  "WithPodTemplateSpecBuilder tmplbuilder b =
     (case tmplbuilder of
        None \<Rightarrow> refuse ''failed to build deployment: nil templatespecbuilder'' b
      | Some tb \<Rightarrow> (case Tpl_Build tb of
          Inl err \<Rightarrow> b\<lparr>bl_errs := bl_errs b @ [wrap_error ''failed to build deployment'' err]\<rparr>
        | Inr t \<Rightarrow> change (kd_Template_update (\<lambda>_. t)) b))"

definition Dep_Build :: "deployment_builder \<Rightarrow> kdeployment result" where
  "Dep_Build b =
     (if bl_errs b \<noteq> [] then Inl (wrap_error ''failed to build a deployment: '' (build_errors (bl_errs b))) else Inr (bl_obj b))"

definition NewForAPIObject :: "kdeployment \<Rightarrow> (kdeployment \<Rightarrow> kdeployment) list \<Rightarrow> kdeployment" where
  "NewForAPIObject obj opts = fold (\<lambda>f d. f d) opts obj"

definition IsTerminationInProgress :: "kdeployment \<Rightarrow> bool" where
  "IsTerminationInProgress d \<longleftrightarrow> kd_StatusReplicas d > kd_UpdatedReplicas d"

definition VerifyReplicaStatus :: "kdeployment \<Rightarrow> unit result" where
  "VerifyReplicaStatus d =
     (case kd_Replicas d of
        None \<Rightarrow> Inl (Error ''failed to verify replica status for deployment: nil replicas'')
      | Some n \<Rightarrow>
          if kd_ReadyReplicas d \<noteq> n then Inl (Error (kd_Name d @ '' deployment pods are not in running state expected: '' @ Itoa n
            @ '' got: '' @ Itoa (kd_ReadyReplicas d)))
          else Inr ())"

definition IsNotSyncSpec :: "kdeployment \<Rightarrow> bool" where
  "IsNotSyncSpec d \<longleftrightarrow> kd_Generation d > kd_ObservedGeneration d"

definition IsUpdateInProgress :: "kdeployment \<Rightarrow> bool" where
  "IsUpdateInProgress d \<longleftrightarrow> kd_AvailableReplicas d < kd_UpdatedReplicas d"


section \<open>What builders promise\<close>

text \<open>The builders that a sequence of calls makes from a new one.\<close>

definition made :: "'a builder \<Rightarrow> ('a builder \<Rightarrow> 'a builder) set \<Rightarrow> 'a builder \<Rightarrow> bool" where
  "made new calls b \<longleftrightarrow> (\<exists>fs. set fs \<subseteq> calls \<and> b = fold (\<lambda>f. f) fs new)"

text \<open>
  The contract of a kind of builder: a new one has no errors and holds a good object, every call keeps the object good and only adds
  errors at the end. Then an error is never lost, and what is built is good.
\<close>

locale builder_kind =
  fixes new :: "'a builder"
    and calls :: "('a builder \<Rightarrow> 'a builder) set"
    and good :: "'a builder \<Rightarrow> bool"
  assumes fresh: "bl_errs new = []"
    and start: "good new"
    and keeps_good: "f \<in> calls \<Longrightarrow> good b \<Longrightarrow> good (f b)"
    and grows: "f \<in> calls \<Longrightarrow> \<exists>es. bl_errs (f b) = bl_errs b @ es"
begin

lemma calls_grow: "set fs \<subseteq> calls \<Longrightarrow> \<exists>es. bl_errs (fold (\<lambda>f. f) fs b) = bl_errs b @ es"
proof (induction fs arbitrary: b)
  case (Cons f fs)
  from Cons.prems obtain es where "bl_errs (f b) = bl_errs b @ es" using grows by fastforce
  with Cons.IH [of "f b"] Cons.prems show ?case by auto
qed simp

lemma error_final: "set fs \<subseteq> calls \<Longrightarrow> bl_errs b \<noteq> [] \<Longrightarrow> bl_errs (fold (\<lambda>f. f) fs b) \<noteq> []"
  using calls_grow [of fs b] by auto

lemma made_good: "made new calls b \<Longrightarrow> good b"
proof -
  have "good (fold (\<lambda>f. f) fs b)" if "set fs \<subseteq> calls" "good b" for fs b
    using that by (induction fs arbitrary: b) (auto intro: keeps_good)
  then show "made new calls b \<Longrightarrow> good b" using start by (auto simp: made_def)
qed

end

lemmas call_defs = refuse_def change_def unless_def with_slice_def with_pointer_def

text \<open>A slice or map is not empty when it is there.\<close>

definition filled :: "'x list option \<Rightarrow> bool" where
  "filled xs \<longleftrightarrow> xs \<noteq> Some []"

lemma filled_simps [simp]: "filled None" "filled (Some xs) \<longleftrightarrow> xs \<noteq> []"
  by (simp_all add: filled_def)

subsection \<open>Containers\<close>

definition good_container :: "kcontainer \<Rightarrow> bool" where
  "good_container c \<longleftrightarrow> filled (kc_Command c) \<and> filled (kc_Args c) \<and> filled (kc_Ports c) \<and> filled (kc_Env c) \<and>
     filled (kc_VolumeMounts c) \<and> filled (kc_VolumeDevices c)"

definition container_calls :: "(container_builder \<Rightarrow> container_builder) set" where
  "container_calls = range Con_WithName \<union> range Con_WithImage \<union> range WithCommandNew \<union> range WithArgumentsNew \<union>
     range WithVolumeMountsNew \<union> range Con_WithVolumeDevices \<union> range WithImagePullPolicy \<union> range WithPrivilegedSecurityContext \<union>
     range WithResources \<union> range WithResourcesByValue \<union> range WithPortsNew \<union> range WithEnvsNew \<union> range WithEnvs \<union>
     range WithLivenessProbe \<union> range WithLifeCycle"

lemmas container_defs = Con_WithName_def Con_WithImage_def WithCommandNew_def WithArgumentsNew_def WithVolumeMountsNew_def
  Con_WithVolumeDevices_def WithImagePullPolicy_def WithPrivilegedSecurityContext_def WithResources_def WithResourcesByValue_def
  WithPortsNew_def WithEnvsNew_def WithEnvs_def WithLivenessProbe_def WithLifeCycle_def con_slice_def

interpretation con: builder_kind NewContainerBuilder container_calls "\<lambda>b. good_container (bl_obj b)"
proof
  show "bl_errs NewContainerBuilder = []" "good_container (bl_obj NewContainerBuilder)"
    by (simp_all add: NewContainerBuilder_def no_container_def good_container_def)
next
  fix f and b :: container_builder assume "f \<in> container_calls" and "good_container (bl_obj b)"
  then show "good_container (bl_obj (f b))"
    unfolding container_calls_def
    by (elim UnE rangeE) (auto simp: container_defs call_defs good_container_def split: option.split)
next
  fix f and b :: container_builder assume "f \<in> container_calls"
  then show "\<exists>es. bl_errs (f b) = bl_errs b @ es"
    unfolding container_calls_def
    by (elim UnE rangeE) (auto simp: container_defs call_defs split: option.split)
qed

subsection \<open>Volumes\<close>

text \<open>The sources of a volume, apart from the empty directory, exclude each other; a built one has a mode and a path.\<close>

definition good_volume :: "volume_builder \<Rightarrow> bool" where
  "good_volume b \<longleftrightarrow> (let s = kv_Source (bl_obj b) in
     (case vs_HostPath s of None \<Rightarrow> 0 | Some _ \<Rightarrow> 1) + (case vs_Secret s of None \<Rightarrow> 0 | Some _ \<Rightarrow> 1) +
       (case vs_ConfigMap s of None \<Rightarrow> 0 | Some _ \<Rightarrow> 1) + (case vs_ClaimName s of None \<Rightarrow> 0 | Some _ \<Rightarrow> 1) \<le> (1 :: nat) \<and>
     (\<forall>p t. vs_HostPath s = Some (p, t) \<longrightarrow> p \<noteq> []) \<and> vs_ClaimName s \<noteq> Some [] \<and>
     (bl_errs b = [] \<longrightarrow> (\<forall>n. vs_Secret s \<noteq> Some (0, n) \<and> vs_ConfigMap s \<noteq> Some (0, n))))"

definition volume_calls :: "(volume_builder \<Rightarrow> volume_builder) set" where
  "volume_calls = range Vol_WithName \<union> range WithHostDirectory \<union> (\<Union>obj. range (WithSecret obj)) \<union>
     (\<Union>obj. range (WithConfigMap obj)) \<union> (\<Union>p. range (WithHostPathAndType p)) \<union> range WithPVCSource \<union> range WithEmptyDir"

lemmas volume_defs = Vol_WithName_def WithHostDirectory_def WithSecret_def WithConfigMap_def WithHostPathAndType_def WithPVCSource_def
  WithEmptyDir_def named_source_def set_source_def no_source_def

interpretation vol: builder_kind NewVolumeBuilder volume_calls good_volume
proof
  show "bl_errs NewVolumeBuilder = []" "good_volume NewVolumeBuilder"
    by (simp_all add: NewVolumeBuilder_def no_source_def good_volume_def)
next
  fix f b assume "f \<in> volume_calls" and "good_volume b"
  then show "good_volume (f b)"
    unfolding volume_calls_def
    by (elim UnE UN_E rangeE) (auto simp: volume_defs call_defs good_volume_def Let_def split: option.splits)
next
  fix f b assume "f \<in> volume_calls"
  then show "\<exists>es. bl_errs (f b) = bl_errs b @ es"
    unfolding volume_calls_def
    by (elim UnE UN_E rangeE) (auto simp: volume_defs call_defs split: option.split)
qed


subsection \<open>Templates\<close>

definition good_labels :: "labels option \<Rightarrow> bool" where
  "good_labels ls = (case ls of None \<Rightarrow> True | Some m \<Rightarrow> m \<noteq> [] \<and> wf_gomap m)"

lemma merged_nonempty [simp]: "old \<noteq> [] \<Longrightarrow> merged new old \<noteq> []"
proof -
  have "AList.update k v m \<noteq> []" for k :: string and v m by (cases m) auto
  then show "old \<noteq> [] \<Longrightarrow> merged new old \<noteq> []"
    unfolding merged_def by (induction new arbitrary: old) (simp_all add: case_prod_unfold)
qed

lemma wf_merged [simp]: "wf_gomap old \<Longrightarrow> wf_gomap (merged new old)"
  unfolding merged_def by (induction new arbitrary: old) (auto intro: wf_gomap_update)

lemma good_labels_simps [simp]:
  "good_labels None" "good_labels (Some m) \<longleftrightarrow> m \<noteq> [] \<and> wf_gomap m"
  by (simp_all add: good_labels_def)

lemma good_labels_merged: "good_labels ls \<Longrightarrow> good_labels (map_option (merged m) ls)"
  by (cases ls) auto

text \<open>The value that merging gives for a key: that of the new map, where it has the key.\<close>

lemma map_of_merged: "wf_gomap new \<Longrightarrow> map_of (merged new old) k = (case map_of new k of None \<Rightarrow> map_of old k | Some v \<Rightarrow> Some v)"
proof (induction new arbitrary: old)
  case (Cons e new)
  obtain k' v where e: "e = (k', v)" by (cases e)
  from Cons.prems have "wf_gomap new" and "map_of new k' = None"
    by (auto simp: wf_gomap_def e map_of_eq_None_iff)
  then show ?case
    using Cons.IH [of "AList.update k' v old"] by (auto simp: merged_def e map_of_update split: option.split)
qed (simp add: merged_def)

definition good_template :: "pod_template \<Rightarrow> bool" where
  "good_template t \<longleftrightarrow> good_labels (pt_Annotations t) \<and> good_labels (pt_Labels t) \<and>
     (\<forall>m. pt_NodeSelector t = Some m \<longrightarrow> wf_gomap m) \<and> list_all good_container (pt_Containers t) \<and>
     list_all (\<lambda>v. good_volume \<lparr>bl_obj = v, bl_errs = []\<rparr>) (pt_Volumes t)"

abbreviation made_containers :: "container_builder list option set" where
  "made_containers \<equiv> {bs. \<forall>xs. bs = Some xs \<longrightarrow> list_all (made NewContainerBuilder container_calls) xs}"

abbreviation made_volumes :: "volume_builder list option set" where
  "made_volumes \<equiv> {bs. \<forall>xs. bs = Some xs \<longrightarrow> list_all (made NewVolumeBuilder volume_calls) xs}"

definition template_calls :: "(template_builder \<Rightarrow> template_builder) set" where
  "template_calls = range Tpl_WithName \<union> range Tpl_WithNamespace \<union> WithAnnotations ` Collect wf_gomap \<union>
     WithAnnotationsNew ` Collect wf_gomap \<union> Tpl_WithLabels ` Collect wf_gomap \<union> Tpl_WithLabelsNew ` Collect wf_gomap \<union>
     Tpl_WithNodeSelector ` Collect wf_gomap \<union> Tpl_WithNodeSelectorNew ` Collect wf_gomap \<union>
     WithNodeSelectorByValue ` Collect wf_gomap \<union> range WithPriorityClassName \<union> range Tpl_WithServiceAccountName \<union>
     range WithAffinity \<union> range WithTolerationsByValue \<union> range WithTolerations \<union> range WithTolerationsNew \<union>
     WithContainerBuilders ` made_containers \<union> WithContainerBuildersNew ` made_containers \<union>
     WithVolumeBuilders ` made_volumes \<union> WithVolumeBuildersNew ` made_volumes"

lemmas template_defs = Tpl_WithName_def Tpl_WithNamespace_def WithAnnotations_def WithAnnotationsNew_def Tpl_WithLabels_def
  Tpl_WithLabelsNew_def Tpl_WithNodeSelector_def Tpl_WithNodeSelectorNew_def WithNodeSelectorByValue_def WithPriorityClassName_def
  Tpl_WithServiceAccountName_def WithAffinity_def WithTolerationsByValue_def WithTolerations_def WithTolerationsNew_def

lemmas nested_defs = WithContainerBuilders_def WithContainerBuildersNew_def WithVolumeBuilders_def WithVolumeBuildersNew_def

lemma add_built_grows: "\<exists>es. bl_errs (add_built build add xs b) = bl_errs b @ es"
proof (induction xs arbitrary: b)
  case (Cons x xs)
  show ?case
    using Cons.IH [of "change (add obj) b" for obj] by (auto simp: change_def split: sum.split)
qed simp

lemma add_built_keeps:
  assumes "list_all (\<lambda>x. \<forall>obj. build x = Inr obj \<longrightarrow> Q obj) xs" and "\<And>obj a. Q obj \<Longrightarrow> P a \<Longrightarrow> P (add obj a)" and "P (bl_obj b)"
  shows "P (bl_obj (add_built build add xs b))"
  using assms(1,3) by (induction xs arbitrary: b) (auto simp: change_def assms(2) split: sum.split)

lemma all_built_good:
  "list_all (\<lambda>x. \<forall>obj. build x = Inr obj \<longrightarrow> Q obj) xs \<Longrightarrow> all_built build xs = Inr objs \<Longrightarrow> list_all Q objs"
proof (induction xs arbitrary: objs)
  case (Cons x xs)
  from Cons.prems Cons.IH show ?case
    by (cases "all_built build xs") (auto split: sum.splits)
qed simp

lemma built_container: "made NewContainerBuilder container_calls b \<Longrightarrow> Con_Build b = Inr c \<Longrightarrow> good_container c"
  by (auto simp: Con_Build_def dest: con.made_good split: if_splits)

lemma built_volume: "made NewVolumeBuilder volume_calls b \<Longrightarrow> Vol_Build b = Inr v \<Longrightarrow> good_volume \<lparr>bl_obj = v, bl_errs = []\<rparr>"
proof -
  assume "made NewVolumeBuilder volume_calls b" and "Vol_Build b = Inr v"
  then have "good_volume b" "bl_errs b = []" "bl_obj b = v"
    by (auto simp: Vol_Build_def dest: vol.made_good split: if_splits)
  then show ?thesis by (simp add: good_volume_def Let_def)
qed

lemma nested_grow: "\<exists>es. bl_errs (WithContainerBuilders cs b) = bl_errs b @ es" "\<exists>es. bl_errs (WithContainerBuildersNew cs b) = bl_errs b @ es"
  "\<exists>es. bl_errs (WithVolumeBuilders vs b) = bl_errs b @ es" "\<exists>es. bl_errs (WithVolumeBuildersNew vs b) = bl_errs b @ es"
  by (auto simp: nested_defs set_built_def call_defs add_built_grows split: option.split sum.split)

lemma nested_good:
  assumes "good_template (bl_obj b)"
  shows "cs \<in> made_containers \<Longrightarrow> good_template (bl_obj (WithContainerBuilders cs b))"
    and "cs \<in> made_containers \<Longrightarrow> good_template (bl_obj (WithContainerBuildersNew cs b))"
    and "vs \<in> made_volumes \<Longrightarrow> good_template (bl_obj (WithVolumeBuilders vs b))"
    and "vs \<in> made_volumes \<Longrightarrow> good_template (bl_obj (WithVolumeBuildersNew vs b))"
proof -
  have cs: "list_all (\<lambda>x. \<forall>c. Con_Build x = Inr c \<longrightarrow> good_container c) xs" if "list_all (made NewContainerBuilder container_calls) xs" for xs
    using that by (auto simp: list_all_iff dest: built_container)
  have vs: "list_all (\<lambda>x. \<forall>v. Vol_Build x = Inr v \<longrightarrow> good_volume \<lparr>bl_obj = v, bl_errs = []\<rparr>) xs"
    if "list_all (made NewVolumeBuilder volume_calls) xs" for xs
    using that by (auto simp: list_all_iff dest: built_volume)
  show "cs \<in> made_containers \<Longrightarrow> good_template (bl_obj (WithContainerBuilders cs b))"
    using assms
    by (auto simp: WithContainerBuilders_def refuse_def split: option.split
        intro!: add_built_keeps [where P = good_template, OF cs]) (simp add: good_template_def)
  show "cs \<in> made_containers \<Longrightarrow> good_template (bl_obj (WithContainerBuildersNew cs b))"
    using assms by (auto simp: WithContainerBuildersNew_def set_built_def call_defs good_template_def split: option.split sum.split
        dest!: all_built_good [OF cs, rotated])
  show "vs \<in> made_volumes \<Longrightarrow> good_template (bl_obj (WithVolumeBuilders vs b))"
    using assms
    by (auto simp: WithVolumeBuilders_def refuse_def split: option.split
        intro!: add_built_keeps [where P = good_template, OF vs]) (simp add: good_template_def)
  show "vs \<in> made_volumes \<Longrightarrow> good_template (bl_obj (WithVolumeBuildersNew vs b))"
    using assms by (auto simp: WithVolumeBuildersNew_def set_built_def call_defs good_template_def split: option.split sum.split
        dest!: all_built_good [OF vs, rotated])
qed

interpretation tpl: builder_kind NewPodtemplatespecBuilder template_calls "\<lambda>b. good_template (bl_obj b)"
proof
  show "bl_errs NewPodtemplatespecBuilder = []" "good_template (bl_obj NewPodtemplatespecBuilder)"
    by (simp_all add: NewPodtemplatespecBuilder_def no_template_def good_template_def)
next
  fix f and b :: template_builder assume f: "f \<in> template_calls" and b: "good_template (bl_obj b)"
  from f show "good_template (bl_obj (f b))"
    unfolding template_calls_def
  proof (elim UnE imageE)
  qed (use b nested_good [OF b] in \<open>auto simp: template_defs call_defs good_template_def good_labels_merged split: option.split\<close>)
next
  fix f and b :: template_builder assume "f \<in> template_calls"
  then show "\<exists>es. bl_errs (f b) = bl_errs b @ es"
    unfolding template_calls_def
    by (elim UnE imageE) (auto simp: template_defs call_defs nested_grow split: option.split)
qed

subsection \<open>Deployments\<close>

definition good_deployment :: "kdeployment \<Rightarrow> bool" where
  "good_deployment d \<longleftrightarrow> good_labels (kd_Labels d) \<and> good_labels (kd_MatchLabels d) \<and> (\<forall>n. kd_Replicas d = Some n \<longrightarrow> 0 \<le> n) \<and>
     good_template (kd_Template d)"

definition deployment_calls :: "(deployment_builder \<Rightarrow> deployment_builder) set" where
  "deployment_calls = range Dep_WithName \<union> range Dep_WithNamespace \<union> Dep_WithLabelsNew ` Collect wf_gomap \<union>
     WithSelectorMatchLabels ` Collect wf_gomap \<union> WithSelectorMatchLabelsNew ` Collect wf_gomap \<union>
     Dep_WithNodeSelector ` Collect wf_gomap \<union> Dep_WithNodeSelectorNew ` Collect wf_gomap \<union> range Dep_WithReplicas \<union>
     WithPodTemplateSpecBuilder ` {bs. \<forall>tb. bs = Some tb \<longrightarrow> made NewPodtemplatespecBuilder template_calls tb}"

lemmas deployment_defs = Dep_WithName_def Dep_WithNamespace_def Dep_WithLabelsNew_def WithSelectorMatchLabels_def
  WithSelectorMatchLabelsNew_def Dep_WithNodeSelector_def Dep_WithNodeSelectorNew_def Dep_WithReplicas_def

lemma built_template: "made NewPodtemplatespecBuilder template_calls b \<Longrightarrow> Tpl_Build b = Inr t \<Longrightarrow> good_template t"
  by (auto simp: Tpl_Build_def dest: tpl.made_good split: if_splits)

interpretation dep: builder_kind NewDeploymentBuilder deployment_calls "\<lambda>b. good_deployment (bl_obj b)"
proof
  show "bl_errs NewDeploymentBuilder = []" "good_deployment (bl_obj NewDeploymentBuilder)"
    by (simp_all add: NewDeploymentBuilder_def no_template_def good_template_def good_deployment_def)
next
  fix f and b :: deployment_builder assume f: "f \<in> deployment_calls" and b: "good_deployment (bl_obj b)"
  then show "good_deployment (bl_obj (f b))"
    unfolding deployment_calls_def
  proof (elim UnE imageE)
  qed (auto simp: deployment_defs WithPodTemplateSpecBuilder_def call_defs good_deployment_def good_template_def good_labels_merged
      split: option.split sum.split dest!: built_template [rotated])
next
  fix f and b :: deployment_builder assume "f \<in> deployment_calls"
  then show "\<exists>es. bl_errs (f b) = bl_errs b @ es"
    unfolding deployment_calls_def
    by (elim UnE imageE) (auto simp: deployment_defs WithPodTemplateSpecBuilder_def call_defs split: option.split sum.split)
qed

section \<open>Properties\<close>


lemma add_built_error:
  assumes "x \<in> set xs" and "build x = Inl err"
  shows "bl_errs (add_built build add xs b) \<noteq> []"
  using assms(1)
proof (induction xs arbitrary: b)
  case (Cons y xs)
  with assms(2) show ?case by (auto split: sum.split)
qed simp

text \<open>
  Property C40. An error at the bottom is never lost: a container builder with an error, given to a template builder, given to a deployment builder,
  makes \<^verbatim>\<open>Build\<close> of the deployment fail, whatever calls come in between and afterwards.
\<close>

theorem container_error_reaches_deployment:
  assumes "bl_errs cb \<noteq> []" and "cb \<in> set cbs" and "set fs \<subseteq> template_calls" and "set gs \<subseteq> deployment_calls"
    and "tb = fold (\<lambda>f. f) fs (WithContainerBuilders (Some cbs) tb0)"
  shows "\<exists>err. Dep_Build (fold (\<lambda>g. g) gs (WithPodTemplateSpecBuilder (Some tb) db)) = Inl err"
proof -
  have "bl_errs (WithContainerBuilders (Some cbs) tb0) \<noteq> []"
    using add_built_error [OF assms(2), of Con_Build "build_errors (bl_errs cb)"] assms(1)
    by (simp add: WithContainerBuilders_def Con_Build_def)
  then have "bl_errs tb \<noteq> []" unfolding assms(5) by (rule tpl.error_final [OF assms(3)])
  then have "bl_errs (WithPodTemplateSpecBuilder (Some tb) db) \<noteq> []"
    by (simp add: WithPodTemplateSpecBuilder_def Tpl_Build_def)
  then have "bl_errs (fold (\<lambda>g. g) gs (WithPodTemplateSpecBuilder (Some tb) db)) \<noteq> []" by (rule dep.error_final [OF assms(4)])
  then show ?thesis by (simp add: Dep_Build_def)
qed

text \<open>\<^verbatim>\<open>WithLabels\<close> of a template merges: a key of the new labels has its new value, any other key the one that it had.\<close>

theorem WithLabels_merges:
  assumes "wf_gomap ls" and "ls \<noteq> []" and "pt_Labels (bl_obj b) = Some old"
  shows "\<exists>m. pt_Labels (bl_obj (Tpl_WithLabels ls b)) = Some m \<and>
    map_of m k = (case map_of ls k of None \<Rightarrow> map_of old k | Some v \<Rightarrow> Some v)"
  using assms by (simp add: Tpl_WithLabels_def change_def map_of_merged)

text \<open>
  \<^verbatim>\<open>WithEmptyDir\<close> leaves a source that is there: the volume has two sources then, which Kubernetes does not accept, and \<^verbatim>\<open>Build\<close> gives it.
\<close>

theorem empty_dir_beside_claim:
  assumes "name \<noteq> []"
  shows "\<exists>v. Vol_Build (WithEmptyDir (Some d) (WithPVCSource name NewVolumeBuilder)) = Inr v \<and>
    vs_ClaimName (kv_Source v) = Some name \<and> vs_EmptyDir (kv_Source v) = Some d"
  using assms by (simp add: WithEmptyDir_def WithPVCSource_def NewVolumeBuilder_def call_defs set_source_def Vol_Build_def)

definition small_template :: template_builder where
  "small_template = WithContainerBuilders (Some [Con_WithName ''fio'' NewContainerBuilder]) NewPodtemplatespecBuilder"

definition small_deployment :: deployment_builder where
  "small_deployment = Dep_WithReplicas (Some 2) (WithPodTemplateSpecBuilder (Some small_template) NewDeploymentBuilder)"


theorem container_error_reaches_deployment_witness:
  "\<exists>err. Dep_Build (Dep_WithReplicas (Some 2) (WithPodTemplateSpecBuilder
     (Some (WithContainerBuilders (Some [Con_WithName '''' NewContainerBuilder]) NewPodtemplatespecBuilder)) NewDeploymentBuilder)) = Inl err"
proof -
  have "bl_errs (Con_WithName '''' NewContainerBuilder) \<noteq> []" by (simp add: Con_WithName_def call_defs)
  moreover have "Dep_WithReplicas (Some 2) \<in> deployment_calls" by (simp add: deployment_calls_def)
  ultimately show ?thesis
    using container_error_reaches_deployment [of "Con_WithName '''' NewContainerBuilder" "[Con_WithName '''' NewContainerBuilder]" "[]"
        "[Dep_WithReplicas (Some 2)]" _ NewPodtemplatespecBuilder NewDeploymentBuilder] by simp
qed

end
