(* ===== verification/E2E_Pods.thy ===== *)
theory E2E_Pods
  imports E2E_Checks E2E_Builders
begin

text \<open>
  Test pods, storage classes, deployments and the readiness of nodes: the rest of \<^verbatim>\<open>src/src/common/k8stest/util_testpods.go\<close> and of
  \<^verbatim>\<open>util_node.go\<close>, and what \<^verbatim>\<open>util_pod.go\<close>, \<^verbatim>\<open>util_storageclass.go\<close> and \<^verbatim>\<open>util_deploy.go\<close> ask of Kubernetes. (The pod builder and the
  storage class builder do what those of \<open>Builders\<close> do, but for the ends given here.) \<open>podlab\<close> adds to \<open>bench\<close> the calls that these make
  and the configuration that they read.
\<close>

record e2e_pod =
  ep_pod :: pod_object
  ep_HostNetwork :: bool

record node_state =
  nst_Name :: string
  nst_TaintKeys :: "string list"
  nst_Conditions :: "(string \<times> string) list"

record 'w podlab =
  lab_bench :: "'w bench"
  PodItems :: "string \<Rightarrow> string \<Rightarrow> 'w \<Rightarrow> (pod \<times> bool) list result \<times> 'w"
  PodKill :: "string \<Rightarrow> string \<Rightarrow> 'w \<Rightarrow> unit result \<times> 'w"
  PodConditions :: "string \<Rightarrow> string \<Rightarrow> 'w \<Rightarrow> (string \<times> string \<times> string) list result \<times> 'w"
  PodHostIP :: "string \<Rightarrow> string \<Rightarrow> 'w \<Rightarrow> string result \<times> 'w"
  PodCreate :: "string \<Rightarrow> e2e_pod \<Rightarrow> 'w \<Rightarrow> e2e_pod result \<times> 'w"
  KubectlOut :: "string list \<Rightarrow> 'w \<Rightarrow> (string \<times> error option) \<times> 'w"
  NodeStates :: "'w \<Rightarrow> node_state list result \<times> 'w"
  NodeStateGet :: "string \<Rightarrow> 'w \<Rightarrow> node_state result \<times> 'w"
  DeployCreate :: "string \<Rightarrow> kdeployment \<Rightarrow> 'w \<Rightarrow> unit result \<times> 'w"
  FioImage :: string
  FsxImage :: string
  HostNetworkingRequired :: bool
  ConfigProvisioner :: string
  DefaultReplicaCount :: int

abbreviation lab_cluster :: "'w podlab \<Rightarrow> 'w cluster" where
  "lab_cluster l \<equiv> bench_cluster (lab_bench l)"

section \<open>Looking at pods\<close>

definition fio_command :: "string \<Rightarrow> int \<Rightarrow> string \<Rightarrow> int \<Rightarrow> string list \<Rightarrow> string list" where
  "fio_command podName duration filename sizeMb args =
     [''exec'', ''-it'', podName, ''--'', ''fio'', ''--name=benchtest'', ''--verify=crc32'', ''--verify_fatal=1'', ''--verify_async=2'',
      ''--filename='' @ filename, ''--direct=1'', ''--rw=randrw'', ''--ioengine=libaio'', ''--bs=4k'', ''--iodepth=16'', ''--numjobs=1'',
      ''--time_based'', ''--runtime='' @ Itoa duration]
     @ (if sizeMb \<noteq> 0 then [''--size='' @ Itoa sizeMb @ ''m''] else []) @ args"

definition RunFio :: "'w podlab \<Rightarrow> string \<Rightarrow> int \<Rightarrow> string \<Rightarrow> int \<Rightarrow> string list \<Rightarrow> ('w, string \<times> error option) io" where
  "RunFio l podName duration filename sizeMb args = call (KubectlOut l (fio_command podName duration filename sizeMb args))"

definition IsPodWithLabelsRunning :: "'w podlab \<Rightarrow> string \<Rightarrow> string \<Rightarrow> ('w, string \<times> bool \<times> error option) io" where
  "IsPodWithLabelsRunning l ls namespace =
     seq (call (PodItems l namespace ls)) (\<lambda>r. ret (case r of
       Inl err \<Rightarrow> ('''', False, Some err)
     | Inr items \<Rightarrow>
         (case find (\<lambda>(pod, _). pod_Phase pod = PodRunning) items of
            Some (pod, _) \<Rightarrow> (pod_Name pod, True, None)
          | None \<Rightarrow> (if items = [] then '''' else pod_Name (fst (last items)), False, None))))"

definition ForceDeleteTerminatingPods :: "'w podlab \<Rightarrow> string \<Rightarrow> string \<Rightarrow> ('w, unit result) io" where
  "ForceDeleteTerminatingPods l ls namespace =
     check (call (PodItems l namespace ls)) (\<lambda>err. err) (\<lambda>items.
     after (for_in items () (\<lambda>(pod, terminating) u.
       if terminating then seq (call (PodKill l namespace (pod_Name pod))) (\<lambda>r. ret (case r of Inl err \<Rightarrow> Return (Inl err) | Inr _ \<Rightarrow> Continue ()))
       else ret (Continue ())))
     (\<lambda>_. ret (Inr ())))"

text \<open>The phase of the last pod on each node.\<close>

definition GetNodeListForPods :: "'w podlab \<Rightarrow> string \<Rightarrow> string \<Rightarrow> ('w, (string, pod_phase) gomap result) io" where
  "GetNodeListForPods l ls namespace =
     check (call (PodItems l namespace ls)) (\<lambda>err. err) (\<lambda>items.
     ret (Inr (fold (\<lambda>(pod, _). AList.update (pod_NodeName pod) (pod_Phase pod)) items [])))"

definition k8stest_IsPodRunning :: "'w podlab \<Rightarrow> string \<Rightarrow> string \<Rightarrow> ('w, bool) io" where
  "k8stest_IsPodRunning l podName nameSpace =
     seq (call (PodsGet (pods (lab_cluster l)) nameSpace podName)) (\<lambda>r. ret (case r of
       Inl err \<Rightarrow> False
     | Inr pod \<Rightarrow> pod_Phase pod = PodRunning))"

definition k8stest_WaitPodRunning :: "'w podlab \<Rightarrow> string \<Rightarrow> string \<Rightarrow> int \<Rightarrow> ('w, bool) io" where
  "k8stest_WaitPodRunning l podName nameSpace timeoutSecs =
     after (for_in [0 ..< nat ((timeoutSecs + 3 - 1) sdiv 3)] () (\<lambda>ix u.
       seq (k8stest_IsPodRunning l podName nameSpace) (\<lambda>running.
       if running then ret (Break ()) else seq (sleeps (lab_cluster l) 3) (\<lambda>_. ret (Continue ())))))
     (\<lambda>_. k8stest_IsPodRunning l podName nameSpace)"

definition GetPodScheduledStatus :: "'w podlab \<Rightarrow> string \<Rightarrow> string \<Rightarrow> ('w, string \<times> string \<times> error option) io" where
  "GetPodScheduledStatus l podName nameSpace =
     seq (call (PodConditions l nameSpace podName)) (\<lambda>r. ret (case r of
       Inl err \<Rightarrow> (''Unknown'', '''', Some (Errorf ''failed to get pod''))
     | Inr conditions \<Rightarrow>
         (case find (\<lambda>(ty, _, _). ty = ''PodScheduled'') conditions of
            Some (_, status, reason) \<Rightarrow> (status, reason, None)
          | None \<Rightarrow> (''Unknown'', '''', Some (Errorf ''failed to find pod scheduled condition'')))))"

definition GetPodHostIp :: "'w podlab \<Rightarrow> string \<Rightarrow> string \<Rightarrow> ('w, string result) io" where
  "GetPodHostIp l podName nameSpace = call (PodHostIP l nameSpace podName)"

section \<open>Making pods\<close>

definition CreatePod :: "'w podlab \<Rightarrow> e2e_pod \<Rightarrow> string \<Rightarrow> ('w, e2e_pod result) io" where
  "CreatePod l podDef nameSpace = call (PodCreate l nameSpace podDef)"

definition k8stest_DeletePod :: "'w podlab \<Rightarrow> string \<Rightarrow> string \<Rightarrow> ('w, unit result) io" where
  "k8stest_DeletePod l podName nameSpace = call (PodsDelete (pods (lab_cluster l)) nameSpace podName)"

definition CreateFioPodDef :: "'w podlab \<Rightarrow> string \<Rightarrow> string \<Rightarrow> volume_type \<Rightarrow> string \<Rightarrow> e2e_pod" where
  "CreateFioPodDef l podName volName volType nameSpace =
     \<lparr>ep_pod = \<lparr>pod_object.po_Name = podName, po_Namespace = nameSpace, po_Labels = [(''app'', ''fio'')], po_RestartPolicy = RestartPolicyNever,
        po_NodeName = '''', po_NodeSelector = [],
        po_Containers = [\<lparr>co_Name = podName, co_Image = FioImage l, co_ImagePullPolicy = ''Always'', co_Args = [''sleep'', ''1000000''],
          co_Privileged = None, co_RunAsUser = None, co_AllowPrivilegeEscalation = None,
          co_VolumeMounts = (if volType = VolFileSystem then [\<lparr>vm_Name = ''ms-volume'', vm_MountPath = FioFsMountPoint\<rparr>] else []),
          co_VolumeDevices = (if volType = VolRawBlock then [\<lparr>vd_Name = ''ms-volume'', vd_DevicePath = FioBlockFilename\<rparr>] else [])\<rparr>],
        po_Volumes = [\<lparr>pod_volume.pv_Name = ''ms-volume'', pv_ClaimName = volName\<rparr>], po_ServiceAccountName = '''', po_Tolerations = []\<rparr>,
      ep_HostNetwork = HostNetworkingRequired l\<rparr>"

text \<open>The pod is created in the namespace default, whatever the namespace of its definition.\<close>

definition CreateFioPod :: "'w podlab \<Rightarrow> string \<Rightarrow> string \<Rightarrow> volume_type \<Rightarrow> string \<Rightarrow> ('w, e2e_pod result) io" where
  "CreateFioPod l podName volName volType nameSpace =
     CreatePod l (CreateFioPodDef l podName volName volType nameSpace) ''default''"

definition k8stest_MakeFioContainer :: "'w podlab \<Rightarrow> string \<Rightarrow> string list \<Rightarrow> container" where
  "k8stest_MakeFioContainer l name args = privileged_container (FioImage l) ''IfNotPresent'' name args"

definition MakeFsxContainer :: "'w podlab \<Rightarrow> string \<Rightarrow> string list \<Rightarrow> container" where
  "MakeFsxContainer l name args = (privileged_container (FsxImage l) ''IfNotPresent'' name args)\<lparr>co_Args := args\<rparr>"

definition k8stest_Build :: "'w podlab \<Rightarrow> pod_builder \<Rightarrow> e2e_pod result" where
  "k8stest_Build l b =
     (if pb_errs b \<noteq> [] then Inl (errs_error (pb_errs b)) else Inr \<lparr>ep_pod = pb_pod b, ep_HostNetwork = HostNetworkingRequired l\<rparr>)"

text \<open>Only the error of the last list counts after the rounds; where the pods are does not.\<close>

definition verify_round :: "'w podlab \<Rightarrow> string \<Rightarrow> string \<Rightarrow> string \<Rightarrow> nat \<Rightarrow> error option
    \<Rightarrow> ('w, (error option, error option) ctl) io" where
  "verify_round l label nodeName namespace ix err =
     seq (GetNodeListForPods l (''app='' @ label) namespace) (\<lambda>r. case r of
       Inl e \<Rightarrow> seq (sleeps (lab_cluster l) 10) (\<lambda>_. ret (Continue (Some e)))
     | Inr nodeList \<Rightarrow>
         if length nodeList = 1 \<and> map_of nodeList nodeName = Some PodRunning then ret (Break None)
         else seq (sleeps (lab_cluster l) 10) (\<lambda>_. ret (Continue None)))"

definition VerifyPodsOnNode :: "'w podlab \<Rightarrow> string list \<Rightarrow> string \<Rightarrow> string \<Rightarrow> ('w, unit result) io" where
  "VerifyPodsOnNode l podLabelsList nodeName namespace =
     after (for_in podLabelsList () (\<lambda>label u.
       seq (after (for_in [0 ..< 30] None (verify_round l label nodeName namespace)) ret) (\<lambda>err. ret (case err of
         Some e \<Rightarrow> Return (Inl (wrapped (''failed to verify pod on node '' @ nodeName @ '', podLabel: '' @ label @ '', error: '') e))
       | None \<Rightarrow> Continue ()))))
     (\<lambda>_. ret (Inr ()))"

section \<open>Storage classes and deployments\<close>

definition k8stest_NewScBuilder :: "'w podlab \<Rightarrow> sc_builder" where
  "k8stest_NewScBuilder l = Sc_WithReplicas (DefaultReplicaCount l) (Sc_WithProvisioner (ConfigProvisioner l)
     \<lparr>sb_sc = \<lparr>sc_Name = '''', sc_Namespace = '''', sc_GenerateName = '''', sc_Annotations = [], sc_Parameters = [],
       sc_Provisioner = '''', sc_VolumeBindingMode = None\<rparr>, sb_errs = []\<rparr>)"

definition k8stest_CreateSc :: "'w podlab \<Rightarrow> storage_class \<Rightarrow> ('w, unit result) io" where
  "k8stest_CreateSc l obj = call (ScCreate (lab_cluster l) obj)"

definition k8stest_BuildAndCreate :: "'w podlab \<Rightarrow> sc_builder \<Rightarrow> ('w, unit result) io" where
  "k8stest_BuildAndCreate l b = check (ret (Sc_Build b)) (\<lambda>err. err) (k8stest_CreateSc l)"

definition MkStorageClass :: "'w podlab \<Rightarrow> string \<Rightarrow> int \<Rightarrow> string \<Rightarrow> string \<Rightarrow> ('w, unit result) io" where
  "MkStorageClass l scName scReplicas protocol nameSpace =
     k8stest_BuildAndCreate l (Sc_WithNamespace nameSpace (Sc_WithProtocol protocol (Sc_WithReplicas scReplicas
       (Sc_WithName scName (k8stest_NewScBuilder l)))))"

definition CreateDeployment :: "'w podlab \<Rightarrow> kdeployment \<Rightarrow> ('w, unit result) io" where
  "CreateDeployment l obj = call (DeployCreate l (kd_Namespace obj) obj)"

definition DeleteDeployment :: "'w podlab \<Rightarrow> string \<Rightarrow> string \<Rightarrow> ('w, unit result) io" where
  "DeleteDeployment l name namespace =
     seq (call (DeploymentDelete (swept (the_fleet (lab_bench l))) namespace name)) (\<lambda>r. ret (case r of
       Inl err \<Rightarrow> if IsNotFound err then Inr () else Inl err
     | Inr _ \<Rightarrow> Inr ()))"

section \<open>Nodes\<close>

definition GetNodeLocsMap :: "'w podlab \<Rightarrow> ('w, (string, node_location) gomap result) io" where
  "GetNodeLocsMap l =
     check (k8stest_GetNodeLocs (lab_cluster l)) (\<lambda>err. err) (\<lambda>locs.
     ret (Inr (fold (\<lambda>n. AList.update (NodeName n) n) locs [])))"

text \<open>A condition is a type and a reason; its status is not looked at.\<close>

definition node_ready :: "node_state \<Rightarrow> bool" where
  "node_ready node =
     (let master = ''node-role.kubernetes.io/master'' \<in> set (nst_TaintKeys node) in
      \<exists>(ty, reason) \<in> set (nst_Conditions node). ty = ''Ready'' \<and> (reason = ''KubeletReady'' \<or> master))"

definition IsNodeReady :: "'w podlab \<Rightarrow> string \<Rightarrow> node_state option \<Rightarrow> ('w, bool result) io" where
  "IsNodeReady l nodeName node =
     (case node of
        Some n \<Rightarrow> ret (Inr (node_ready n))
      | None \<Rightarrow> check (call (NodeStateGet l nodeName)) (\<lambda>err. err) (\<lambda>n. ret (Inr (node_ready n))))"

definition AreNodesReady :: "'w podlab \<Rightarrow> ('w, bool result) io" where
  "AreNodesReady l =
     check (call (NodeStates l)) (\<lambda>err. err) (\<lambda>nodes.
     after (for_in nodes () (\<lambda>node u.
       seq (IsNodeReady l (nst_Name node) (Some node)) (\<lambda>r. ret (case r of
         Inl err \<Rightarrow> Return (Inl err)
       | Inr ready \<Rightarrow> if ready then Continue () else Return (Inr False)))))
     (\<lambda>_. ret (Inr True)))"

section \<open>Properties\<close>

lemma returning_lab [ends]: "returning (k8stest_IsPodRunning l p ns)" "returning (GetNodeListForPods l ls ns)"
  unfolding k8stest_IsPodRunning_def GetNodeListForPods_def by (intro ends)+

text \<open>\<^verbatim>\<open>WaitPodRunning\<close> returns, and says that the pod runs only if the last lookup has said so.\<close>

theorem WaitPodRunning_sound:
  "\<exists>r w'. k8stest_WaitPodRunning l p ns secs w = (Done r, w') \<and> (r \<longrightarrow> (\<exists>w1 pod. PodsGet (pods (lab_cluster l)) ns p w1 = (Inr pod, w') \<and>
     pod_Phase pod = PodRunning))"
proof -
  have "returning (k8stest_WaitPodRunning l p ns secs)"
    unfolding k8stest_WaitPodRunning_def by (intro ends returning_sleeps)
  then obtain r w' where run: "k8stest_WaitPodRunning l p ns secs w = (Done r, w')" by (rule returningE)
  have "\<exists>w1 pod. PodsGet (pods (lab_cluster l)) ns p w1 = (Inr pod, w') \<and> pod_Phase pod = PodRunning" if r
    using run [unfolded k8stest_WaitPodRunning_def]
  proof (cases rule: after_for_inE)
    case (went_on v1 s1)
    with that show ?thesis
      by (auto simp: k8stest_IsPodRunning_def call_def elim!: seq_DoneE split: sum.splits prod.splits) blast
  qed (auto elim!: seq_DoneE split: if_splits)
  with run show ?thesis by blast
qed

lemma for_in_continues:
  assumes "\<And>x v s. \<exists>v' s'. body x v s = (Done (Continue v'), s')"
  shows "\<exists>v' s'. for_in xs v body s = (Done (Inr v'), s')"
proof (induction xs arbitrary: v s)
  case (Cons x xs)
  obtain v1 s1 where "body x v s = (Done (Continue v1), s1)" using assms by blast
  with Cons.IH [of v1 s1] show ?case by (simp add: seq_Done)
qed simp

lemma verify_rounds:
  assumes "\<And>w. \<exists>items w'. PodItems l ns (''app='' @ label) w = (Inr items, w')"
  shows "\<exists>w'. for_in xs None (verify_round l label node ns) w = (Done (Inr None), w')"
proof (induction xs arbitrary: w)
  case (Cons x xs)
  obtain items w1 where "PodItems l ns (''app='' @ label) w = (Inr items, w1)" using assms by blast
  with Cons.IH show ?case
    by (auto simp: verify_round_def GetNodeListForPods_def check_def call_def seq_apply sleeps_def sleep_secs_def)
qed simp

text \<open>
  \<^verbatim>\<open>VerifyPodsOnNode\<close> reports success whenever the pods can be listed, on whatever node they are and in whatever phase.
\<close>

theorem VerifyPodsOnNode_blind:
  assumes "\<And>label w. \<exists>items w'. PodItems l ns (''app='' @ label) w = (Inr items, w')"
  shows "\<exists>w'. VerifyPodsOnNode l labels node ns w = (Done (Inr ()), w')"
proof -
  let ?body = "\<lambda>label (u :: unit). seq (after (for_in [0 ..< 30] None (verify_round l label node ns)) ret) (\<lambda>err. ret (case err of
         Some e \<Rightarrow> Return (Inl (wrapped (''failed to verify pod on node '' @ node @ '', podLabel: '' @ label @ '', error: '') e) :: unit result)
       | None \<Rightarrow> Continue ()))"
  have round: "\<exists>v w'. ?body label u w = (Done (Continue v), w')" for label u w
  proof -
    obtain w' where "for_in [0 ..< 30] None (verify_round l label node ns) w = (Done (Inr None), w')"
      using verify_rounds [of l ns label, OF assms] by blast
    then show ?thesis by (simp add: after_def seq_Done del: upt_conv_Cons upt_Suc)
  qed
  obtain v w1 where run: "for_in labels () ?body w = (Done (Inr v), w1)"
    using for_in_continues [of ?body, OF round] by blast
  show ?thesis
    unfolding VerifyPodsOnNode_def after_def [of "for_in labels _ _"] seq_Done [of "for_in labels () ?body", OF run] by simp
qed

text \<open>\<^verbatim>\<open>AreNodesReady\<close> says that the nodes are ready exactly if all those listed are.\<close>

theorem AreNodesReady_all:
  assumes "NodeStates l w = (Inr nodes, w')"
  shows "AreNodesReady l w = (Done (Inr (list_all node_ready nodes)), w')"
proof -
  have "after (for_in nodes () (\<lambda>node u. seq (IsNodeReady l (nst_Name node) (Some node)) (\<lambda>r. ret (case r of
         Inl err \<Rightarrow> Return (Inl err) | Inr ready \<Rightarrow> if ready then Continue () else Return (Inr False))))) (\<lambda>_. ret (Inr True)) w'
       = (Done (Inr (list_all node_ready nodes)), w')"
    by (induction nodes) (auto simp: after_def IsNodeReady_def)
  with assms show ?thesis by (simp add: AreNodesReady_def check_def call_def seq_apply)
qed

text \<open>A master counts as ready with any condition of the type Ready, also with one that says that it is not.\<close>

theorem master_always_ready:
  assumes "''node-role.kubernetes.io/master'' \<in> set (nst_TaintKeys node)" and "(''Ready'', reason) \<in> set (nst_Conditions node)"
  shows "node_ready node"
  using assms by (auto simp: node_ready_def Let_def)

text \<open>
  \<^verbatim>\<open>MkStorageClass\<close> with a name, a namespace and a number of replicas that is not zero creates a storage class with the
  provisioner of the configuration, that number of replicas and that protocol; for nvmf it has a timeout.
\<close>

theorem MkStorageClass_creates:
  assumes "name \<noteq> []" and "ns \<noteq> []" and "n \<noteq> 0" and "ConfigProvisioner l \<noteq> []" and "DefaultReplicaCount l \<noteq> 0"
  shows "\<exists>sc. MkStorageClass l name n proto ns w = call (ScCreate (lab_cluster l) sc) w \<and> sc_Name sc = name \<and> sc_Namespace sc = ns \<and>
    sc_Provisioner sc = ConfigProvisioner l \<and> go_lookup (sc_Parameters sc) ''repl'' = Itoa n \<and>
    go_lookup (sc_Parameters sc) ''protocol'' = proto \<and> (proto = ''nvmf'' \<longrightarrow> go_lookup (sc_Parameters sc) ''ioTimeout'' = ''30'')"
  using assms
  by (auto simp: MkStorageClass_def k8stest_BuildAndCreate_def k8stest_CreateSc_def k8stest_NewScBuilder_def Sc_Build_def Sc_WithReplicas_def
      Sc_WithName_def Sc_WithNamespace_def Sc_WithProtocol_def Sc_WithProvisioner_def sb_set_def sb_param_def go_lookup_def Let_def)

end
